(* ===== verification/Prelude.thy ===== *)
theory Prelude
  imports Complex_Main "HOL-Library.Sublist"
begin

text \<open>
  Shared vocabulary of the development: ECMAScript strings and values, the sum-typed
  results of code that throws, and the generic facts about them.

  \<^item> A JavaScript string is the list of its code points.  A lone surrogate, which a
    JavaScript string may hold, is its own code point, so \<open>length\<close> is the
    \<^verbatim>\<open>[...value].length\<close> of the source, \<open>utf16_length\<close> is \<^verbatim>\<open>value.length\<close> and
    \<open>utf8_length\<close> is the size \<^verbatim>\<open>TextEncoder\<close> or \<^verbatim>\<open>Buffer.byteLength\<close> reports.
  \<^item> A value of static type \<^verbatim>\<open>unknown\<close> is a \<open>jsval\<close>.  A finite number is the
    rational it denotes; NaN and the infinities are \<open>JNonFinite\<close>.  An object is the list of
    its own enumerable members in \<^verbatim>\<open>Object.keys\<close> order; \<open>JObject\<close> has the plain object
    prototype (or none), \<open>JInstance\<close> any other prototype.
  \<^item> A computation that may throw has a sum type: \<open>Inl\<close> the error, \<open>Inr\<close> the result;
    \<open>ebind\<close> sequences two of them.
\<close>

named_theorems reparse_dests "a parser accepts again what it produced"
named_theorems blame_intros "an error raised below a path names that path"

subsection \<open>Strings\<close>

type_synonym jsstring = "nat list"

definition js :: "string \<Rightarrow> jsstring" where
  "js s = map of_char s"

lemma js_eq_iff [simp]: "js s = js t \<longleftrightarrow> s = t"
  by (simp add: js_def inj_map_eq_map inj_on_def)

lemma js_eq_Nil [simp]: "js s = [] \<longleftrightarrow> s = []" "[] = js s \<longleftrightarrow> s = []"
  by (auto simp: js_def)

lemma length_js [simp]: "length (js s) = length s"
  by (simp add: js_def)

lemma js_image_iff [simp]: "js s \<in> js ` A \<longleftrightarrow> s \<in> A"
  by auto

fun utf8_width :: "nat \<Rightarrow> nat" where
  "utf8_width c = (if c < 128 then 1 else if c < 2048 then 2 else if c < 65536 then 3 else 4)"

definition utf8_length :: "jsstring \<Rightarrow> nat" where
  "utf8_length s = sum_list (map utf8_width s)"

definition utf16_length :: "jsstring \<Rightarrow> nat" where
  "utf16_length s = sum_list (map (\<lambda>c. if c < 65536 then 1 else 2) s)"

lemma utf8_length_append [simp]: "utf8_length (s @ t) = utf8_length s + utf8_length t"
  by (simp add: utf8_length_def)

lemma length_le_utf8_length: "length s \<le> utf8_length s"
  by (induction s) (auto simp: utf8_length_def)

text \<open>
  \<^verbatim>\<open>value.slice(0, n)\<close>: the first \<open>n\<close> UTF-16 units.  A cut inside a surrogate pair leaves
  the high surrogate.
\<close>

fun utf16_take :: "nat \<Rightarrow> jsstring \<Rightarrow> jsstring" where
  "utf16_take n [] = []"
| "utf16_take n (c # s) =
     (if n = 0 then []
      else if c < 65536 then c # utf16_take (n - 1) s
      else if n = 1 then [55296 + (c - 65536) div 1024 mod 1024]
      else c # utf16_take (n - 2) s)"

lemma utf16_length_simps [simp]:
  "utf16_length [] = 0"
  "utf16_length (c # s) = (if c < 65536 then 1 else 2) + utf16_length s"
  by (simp_all add: utf16_length_def)

lemma utf16_length_take: "utf16_length (utf16_take n s) \<le> n"
proof (induction n s rule: utf16_take.induct)
  case (2 n c s)
  have "(c - 65536) div 1024 mod 1024 < 1024"
    by simp
  with 2 show ?case
    by (auto simp: not_less)
qed simp

lemma length_utf16_take: "length (utf16_take n s) \<le> length s"
  by (induction n s rule: utf16_take.induct) auto

fun decimal :: "nat \<Rightarrow> jsstring" where
  "decimal n = (if n < 10 then [48 + n] else decimal (n div 10) @ [48 + n mod 10])"

declare decimal.simps [simp del]

lemma decimal_nonempty [simp]: "decimal n \<noteq> []"
  by (subst decimal.simps) simp

fun join_with :: "jsstring \<Rightarrow> jsstring list \<Rightarrow> jsstring" where
  "join_with sep [] = []"
| "join_with sep [s] = s"
| "join_with sep (s # ss) = s @ sep @ join_with sep ss"

definition starts_with :: "jsstring \<Rightarrow> jsstring \<Rightarrow> bool" where
  "starts_with p s = (take (length p) s = p)"

text \<open>An identifier used as a condition: the empty string counts as absent.\<close>

definition truthy :: "jsstring option \<Rightarrow> jsstring option" where
  "truthy t = (if t = Some [] then None else t)"

subsection \<open>Values\<close>

datatype jsval =
    JUndefined
  | JNull
  | JBool bool
  | JNumber rat
  | JNonFinite
  | JString jsstring
  | JArray "jsval list"
  | JObject "(jsstring \<times> jsval) list"
  | JInstance "(jsstring \<times> jsval) list"

type_synonym jsrecord = "(jsstring \<times> jsval) list"

text \<open>\<^verbatim>\<open>record.key\<close> and \<^verbatim>\<open>key in record\<close>, for keys that no prototype defines.\<close>

definition fld :: "jsrecord \<Rightarrow> string \<Rightarrow> jsval" where
  "fld r k = (case map_of r (js k) of None \<Rightarrow> JUndefined | Some v \<Rightarrow> v)"

definition has :: "jsrecord \<Rightarrow> string \<Rightarrow> bool" where
  "has r k = (js k \<in> fst ` set r)"

lemma fld_has: "fld r k \<noteq> JUndefined \<Longrightarrow> has r k"
  by (auto simp: fld_def has_def map_of_eq_None_iff split: option.splits)
     (metis domI domIff map_of_eq_None_iff)

subsection \<open>Results that may be errors\<close>

definition ebind :: "'e + 'a \<Rightarrow> ('a \<Rightarrow> 'e + 'b) \<Rightarrow> 'e + 'b" where
  "ebind m f = (case m of Inl e \<Rightarrow> Inl e | Inr x \<Rightarrow> f x)"

lemma ebind_simps [simp]:
  "ebind (Inl e) f = Inl e"
  "ebind (Inr x) f = f x"
  by (simp_all add: ebind_def)

lemma ebind_eq_Inr [simp]: "ebind m f = Inr y \<longleftrightarrow> (\<exists>x. m = Inr x \<and> f x = Inr y)"
  by (cases m) simp_all

lemma ebind_eq_Inl: "ebind m f = Inl e \<longleftrightarrow> m = Inl e \<or> (\<exists>x. m = Inr x \<and> f x = Inl e)"
  by (cases m) simp_all

text \<open>\<^verbatim>\<open>values.map((value, index) => f(value, index))\<close>, stopping at the first throw.\<close>

fun traverse :: "('a \<Rightarrow> nat \<Rightarrow> 'e + 'b) \<Rightarrow> nat \<Rightarrow> 'a list \<Rightarrow> 'e + 'b list" where
  "traverse f i [] = Inr []"
| "traverse f i (x # xs) =
     ebind (f x i) (\<lambda>y. ebind (traverse f (Suc i) xs) (\<lambda>ys. Inr (y # ys)))"

lemma traverse_length: "traverse f i xs = Inr ys \<Longrightarrow> length ys = length xs"
  by (induction xs arbitrary: i ys) auto

lemma traverse_set:
  "traverse f i xs = Inr ys \<Longrightarrow> y \<in> set ys \<Longrightarrow> \<exists>x\<in>set xs. \<exists>j. f x j = Inr y"
  by (induction xs arbitrary: i ys) fastforce+

subsection \<open>Searching\<close>

lemma find_append: "find P (xs @ ys) = (case find P xs of None \<Rightarrow> find P ys | Some x \<Rightarrow> Some x)"
  by (induction xs) auto

subsection \<open>Objects built from optional members\<close>

text \<open>
  \<^verbatim>\<open>{ a: x, ...(y === undefined ? {} : { b: y }) }\<close> is \<open>objectOf\<close> of its members, an
  absent one being \<open>None\<close>.
\<close>

fun members :: "(string \<times> jsval option) list \<Rightarrow> jsrecord" where
  "members [] = []"
| "members ((k, ov) # fs) = (case ov of None \<Rightarrow> members fs | Some v \<Rightarrow> (js k, v) # members fs)"

definition objectOf :: "(string \<times> jsval option) list \<Rightarrow> jsval" where
  "objectOf fs = JObject (members fs)"

definition or_else :: "'a option \<Rightarrow> 'a \<Rightarrow> 'a" where
  "or_else ov d = (case ov of None \<Rightarrow> d | Some v \<Rightarrow> v)"

lemma or_else_simps [simp]: "or_else None d = d" "or_else (Some v) d = v"
  by (simp_all add: or_else_def)

lemma fld_members [simp]:
  "fld (members []) k = JUndefined"
  "fld (members ((k', ov) # fs)) k =
     (if k = k' then or_else ov (fld (members fs) k) else fld (members fs) k)"
  by (auto simp: fld_def or_else_def split: option.splits)

lemma has_members [simp]:
  "has (members []) k = False"
  "has (members ((k', ov) # fs)) k = (k = k' \<and> ov \<noteq> None \<or> has (members fs) k)"
  by (auto simp: has_def split: option.splits)

lemma objectOf_defined [simp]: "objectOf fs \<noteq> JUndefined"
  by (simp add: objectOf_def)

definition keysIn :: "jsrecord \<Rightarrow> string list \<Rightarrow> bool" where
  "keysIn r ks = (fst ` set r \<subseteq> js ` set ks)"

lemma keysIn_members [simp]:
  "keysIn (members []) ks"
  "keysIn (members ((k, ov) # fs)) ks = ((ov \<noteq> None \<longrightarrow> k \<in> set ks) \<and> keysIn (members fs) ks)"
  by (auto simp: keysIn_def split: option.splits)

declare members.simps [simp del]

end
