(* ===== verification/JsonText.thy ===== *)
theory JsonText
  imports Prelude
begin

text \<open>
  \<^verbatim>\<open>JSON.stringify\<close> of a value: the text whose UTF-8 size \<^verbatim>\<open>assertEncodedSize\<close> of
  extensions/agent/shared/provider-runtime.ts bounds and which
  extensions/agent/server/src/native-runtime/delivery-attempt-owner.ts stores.  Numbers follow
  ECMAScript's Number::toString: the shortest decimal digits that read back as the same double.
  Strings follow QuoteJSONString, lone surrogates escaped.  An undefined member is left out,
  an undefined element and a non-finite number are \<^verbatim>\<open>null\<close>, and \<^verbatim>\<open>JSON.stringify(undefined)\<close>
  has no text (\<open>None\<close>).
\<close>

subsection \<open>Numbers\<close>

text \<open>\<open>ilog fuel b q\<close> is the \<open>e\<close> with \<open>b ^ e \<le> q < b ^ (e + 1)\<close>.\<close>

fun ilog :: "nat \<Rightarrow> rat \<Rightarrow> rat \<Rightarrow> int" where
  "ilog 0 b q = 0"
| "ilog (Suc f) b q =
     (if b \<le> q then ilog f b (q / b) + 1 else if q < 1 then ilog f b (q * b) - 1 else 0)"

definition pow_int :: "rat \<Rightarrow> int \<Rightarrow> rat" where
  "pow_int b e = (if 0 \<le> e then b ^ nat e else 1 / b ^ nat (- e))"

definition round_half_even :: "rat \<Rightarrow> int" where
  "round_half_even m =
     (let f = \<lfloor>m\<rfloor>; d = m - of_int f
      in if d < 1 / 2 then f else if 1 / 2 < d then f + 1 else if even f then f else f + 1)"

text \<open>The double nearest to a positive rational (of ordinary size).\<close>

definition to_double :: "rat \<Rightarrow> rat" where
  "to_double q =
     (let u = pow_int 2 (max (ilog 1100 2 q - 52) (- 1074))
      in of_int (round_half_even (q / u)) * u)"

text \<open>
  The shortest digits \<open>s\<close>, with \<open>k\<close> of them and the decimal point after the first \<open>n\<close>.
\<close>

fun shortest_from :: "nat \<Rightarrow> nat \<Rightarrow> rat \<Rightarrow> int \<Rightarrow> nat \<times> nat" where
  "shortest_from 0 k q n = (nat \<lfloor>q * pow_int 10 (int k - n)\<rfloor>, k)"
| "shortest_from (Suc f) k q n =
     (let x = q * pow_int 10 (int k - n);
          lo = nat \<lfloor>x\<rfloor>; hi = lo + 1;
          ok = (\<lambda>s. 10 ^ (k - 1) \<le> s \<and> s < 10 ^ k \<and> to_double (of_nat s * pow_int 10 (n - int k)) = q)
      in if ok lo \<and> (ok hi \<longrightarrow> x - of_nat lo \<le> of_nat hi - x) then (lo, k)
         else if ok hi then (hi, k)
         else shortest_from f (Suc k) q n)"

definition place_point :: "jsstring \<Rightarrow> int \<Rightarrow> jsstring" where
  "place_point ds n =
     (let k = int (length ds) in
      if k \<le> n \<and> n \<le> 21 then ds @ replicate (nat (n - k)) 48
      else if 0 < n \<and> n \<le> 21 then take (nat n) ds @ js ''.'' @ drop (nat n) ds
      else if - 6 < n \<and> n \<le> 0 then js ''0.'' @ replicate (nat (- n)) 48 @ ds
      else (if length ds = 1 then ds else take 1 ds @ js ''.'' @ drop 1 ds) @ js ''e'' @
           (if 0 \<le> n - 1 then js ''+'' else js ''-'') @ decimal (nat \<bar>n - 1\<bar>))"

text \<open>
  A safe integer has at most 16 digits, and all of them are its shortest digits and the zeros
  that \<open>place_point\<close> appends, so its text is its decimal representation.
\<close>

definition is_safe_integer :: "rat \<Rightarrow> bool" where
  "is_safe_integer q = (of_int \<lfloor>q\<rfloor> = q \<and> \<bar>q\<bar> \<le> 9007199254740991)"

definition number_text :: "rat \<Rightarrow> jsstring" where
  "number_text q =
     (let sign = (if q < 0 then js ''-'' else []); a = \<bar>q\<bar> in
      sign @
      (if is_safe_integer q then decimal (nat \<lfloor>a\<rfloor>)
       else let n = ilog 400 10 a + 1; (s, k) = shortest_from 17 1 a n
            in place_point (decimal s) n))"

subsection \<open>Strings\<close>

definition hex_digit :: "nat \<Rightarrow> nat" where
  "hex_digit d = (if d < 10 then 48 + d else 87 + d)"

definition unicode_escape :: "nat \<Rightarrow> jsstring" where
  "unicode_escape c = js [CHR 0x5C] @ js ''u'' @
     [hex_digit (c div 4096 mod 16), hex_digit (c div 256 mod 16),
      hex_digit (c div 16 mod 16), hex_digit (c mod 16)]"

definition quote_char :: "nat \<Rightarrow> jsstring" where
  "quote_char c =
     (if c = 8 then js [CHR 0x5C, CHR ''b'']
      else if c = 9 then js [CHR 0x5C, CHR ''t'']
      else if c = 10 then js [CHR 0x5C, CHR ''n'']
      else if c = 12 then js [CHR 0x5C, CHR ''f'']
      else if c = 13 then js [CHR 0x5C, CHR ''r'']
      else if c = 34 then js [CHR 0x5C, CHR 0x22]
      else if c = 92 then js [CHR 0x5C, CHR 0x5C]
      else if c < 32 \<or> (55296 \<le> c \<and> c < 57344) then unicode_escape c
      else [c])"

definition json_quote :: "jsstring \<Rightarrow> jsstring" where
  "json_quote s = [34] @ concat (map quote_char s) @ [34]"

subsection \<open>Values\<close>

fun json_text :: "jsval \<Rightarrow> jsstring option"
  and json_elements :: "jsval list \<Rightarrow> jsstring list"
  and json_members :: "jsrecord \<Rightarrow> jsstring list" where
  "json_text JUndefined = None"
| "json_text JNull = Some (js ''null'')"
| "json_text (JBool b) = Some (if b then js ''true'' else js ''false'')"
| "json_text (JNumber q) = Some (number_text q)"
| "json_text JNonFinite = Some (js ''null'')"
| "json_text (JString s) = Some (json_quote s)"
| "json_text (JArray xs) = Some (js ''['' @ join_with (js '','') (json_elements xs) @ js '']'')"
| "json_text (JObject r) = Some (js ''{'' @ join_with (js '','') (json_members r) @ js ''}'')"
| "json_text (JInstance r) = Some (js ''{'' @ join_with (js '','') (json_members r) @ js ''}'')"
| "json_elements [] = []"
| "json_elements (x # xs) = or_else (json_text x) (js ''null'') # json_elements xs"
| "json_members [] = []"
| "json_members ((k, v) # r) =
     (case json_text v of None \<Rightarrow> json_members r
      | Some t \<Rightarrow> (json_quote k @ js '':'' @ t) # json_members r)"

lemma json_text_None_iff [simp]: "json_text v = None \<longleftrightarrow> v = JUndefined"
  by (cases v) simp_all

definition byte_length :: "jsval \<Rightarrow> nat" where
  "byte_length v = utf8_length (or_else (json_text v) [])"

text \<open>The text of a stringified object depends on its defined members only.\<close>

lemma json_members_defined:
  "json_members r = json_members (filter (\<lambda>(k, v). v \<noteq> JUndefined) r)"
  by (induction r) (auto split: option.splits)

end
