(* ===== verification/ContractPrimitives.thy ===== *)
theory ContractPrimitives
  imports JsonText
begin

text \<open>
  The field validators at the end of extensions/agent/shared/provider-runtime.ts, on which every
  parser of the provider contract is built: \<^verbatim>\<open>recordValue\<close>, \<^verbatim>\<open>strictRecord\<close>,
  \<^verbatim>\<open>identifier\<close>, \<^verbatim>\<open>boundedString\<close>, \<^verbatim>\<open>oneOf\<close>, the number checks, \<^verbatim>\<open>jsonValue\<close> and
  \<^verbatim>\<open>assertEncodedSize\<close>.  A \<^verbatim>\<open>ProviderContractError\<close> is its path and its message.

  Two interfaces are stated here as locales and interpreted for every validator and parser:
  \<open>contract_reader\<close>, whose law is that an error names the path the reader was given or one below
  it, and \<open>contract_codec\<close>, whose law is that a reader accepts the value it produced, written
  back as an object, and produces it again.
\<close>

subsection \<open>Contract errors\<close>

datatype ProviderContractError = ContractError (epath: jsstring) (emessage: jsstring)

type_synonym 'a res = "ProviderContractError + 'a"

definition fail :: "jsstring \<Rightarrow> jsstring \<Rightarrow> 'a res" where
  "fail path message = Inl (ContractError path message)"

lemma fail_simps [simp]: "fail p m \<noteq> Inr x" "fail p m = Inl e \<longleftrightarrow> e = ContractError p m"
  "ebind (fail p m) f = fail p m"
  by (auto simp: fail_def)

text \<open>\<^verbatim>\<open>`${path}.${key}`\<close> and \<^verbatim>\<open>`${path}[${index}]`\<close>.\<close>

definition dot :: "jsstring \<Rightarrow> string \<Rightarrow> jsstring" where
  "dot path key = path @ js ''.'' @ js key"

definition idx :: "jsstring \<Rightarrow> nat \<Rightarrow> jsstring" where
  "idx path i = path @ js ''['' @ decimal i @ js '']''"

definition blames :: "jsstring \<Rightarrow> 'a res \<Rightarrow> bool" where
  "blames p r = (\<forall>e. r = Inl e \<longrightarrow> prefix p (epath e))"

lemma blames_Inr [blame_intros, simp]: "blames p (Inr x)"
  by (simp add: blames_def)

lemma blames_fail [blame_intros]: "prefix p q \<Longrightarrow> blames p (fail q m)"
  by (simp add: blames_def)

lemma blames_bind [blame_intros]:
  "blames p m \<Longrightarrow> (\<And>x. m = Inr x \<Longrightarrow> blames p (f x)) \<Longrightarrow> blames p (ebind m f)"
  by (auto simp: blames_def ebind_eq_Inl)

lemma blames_mono: "blames q r \<Longrightarrow> prefix p q \<Longrightarrow> blames p r"
  by (auto simp: blames_def intro: prefix_order.trans)

lemma prefix_path [simp]:
  "prefix q p \<Longrightarrow> prefix q (dot p k)"
  "prefix q p \<Longrightarrow> prefix q (idx p i)"
  "prefix q p \<Longrightarrow> prefix q (p @ s)"
  by (simp_all add: dot_def idx_def)

lemma blames_if [blame_intros]:
  "(c \<Longrightarrow> blames p a) \<Longrightarrow> (\<not> c \<Longrightarrow> blames p b) \<Longrightarrow> blames p (if c then a else b)"
  by simp

subsection \<open>The interfaces\<close>

definition optionally :: "(jsval \<Rightarrow> jsstring \<Rightarrow> 'a res) \<Rightarrow> jsval \<Rightarrow> jsstring \<Rightarrow> 'a option res" where
  "optionally parse v path =
     (if v = JUndefined then Inr None else ebind (parse v path) (\<lambda>x. Inr (Some x)))"

definition nullable :: "(jsval \<Rightarrow> jsstring \<Rightarrow> 'a res) \<Rightarrow> jsval \<Rightarrow> jsstring \<Rightarrow> 'a option res" where
  "nullable parse v path =
     (if v = JNull then Inr None else ebind (parse v path) (\<lambda>x. Inr (Some x)))"

definition elements :: "(jsval \<Rightarrow> jsstring \<Rightarrow> 'a res) \<Rightarrow> jsval list \<Rightarrow> jsstring \<Rightarrow> 'a list res" where
  "elements parse vs path = traverse (\<lambda>v i. parse v (idx path i)) 0 vs"

definition orNull :: "('a \<Rightarrow> jsval) \<Rightarrow> 'a option \<Rightarrow> jsval" where
  "orNull encode ox = or_else (map_option encode ox) JNull"

locale contract_reader =
  fixes parse :: "jsval \<Rightarrow> jsstring \<Rightarrow> 'a res"
  assumes blame: "blames p (parse v p)"
begin

lemma blame_below [blame_intros]: "prefix q p \<Longrightarrow> blames q (parse v p)"
  using blame by (rule blames_mono)

lemma blame_optionally [blame_intros]: "prefix q p \<Longrightarrow> blames q (optionally parse v p)"
  unfolding optionally_def by (intro blame_intros)

lemma blame_nullable [blame_intros]: "prefix q p \<Longrightarrow> blames q (nullable parse v p)"
  unfolding nullable_def by (intro blame_intros)

lemma blame_traverse: "blames p (traverse (\<lambda>v i. parse v (idx p i)) i vs)"
  by (induction vs arbitrary: i) (auto intro!: blame_intros)

lemma blame_elements [blame_intros]: "prefix q p \<Longrightarrow> blames q (elements parse vs p)"
  using blame_traverse by (auto simp: elements_def intro: blames_mono)

end

locale contract_codec = contract_reader parse
  for parse :: "jsval \<Rightarrow> jsstring \<Rightarrow> 'a res" +
  fixes encode :: "'a \<Rightarrow> jsval"
  assumes reparse: "parse v p = Inr x \<Longrightarrow> parse (encode x) q = Inr x"
    and defined: "parse v p = Inr x \<Longrightarrow> encode x \<noteq> JUndefined"
begin

lemma reparse_value [reparse_dests]:
  "parse v p = Inr x \<Longrightarrow> (\<forall>q. parse (encode x) q = Inr x) \<and> encode x \<noteq> JUndefined"
  using reparse defined by blast

lemma reparse_optionally [reparse_dests]:
  "optionally parse v p = Inr ox \<Longrightarrow>
   \<forall>q. optionally parse (or_else (map_option encode ox) JUndefined) q = Inr ox"
  using reparse defined by (auto simp: optionally_def split: if_splits)

lemma reparse_traverse:
  "traverse (\<lambda>v i. parse v (idx p i)) i vs = Inr xs \<Longrightarrow>
   traverse (\<lambda>v i. parse v (idx q i)) i (map encode xs) = Inr xs"
  by (induction vs arbitrary: i xs) (auto simp: reparse)

lemma reparse_elements [reparse_dests]:
  "elements parse vs p = Inr xs \<Longrightarrow>
   (\<forall>q. elements parse (map encode xs) q = Inr xs) \<and> length xs = length vs"
  by (auto simp: elements_def reparse_traverse traverse_length)

end

text \<open>A codec whose encodings are never null can be made nullable.\<close>

locale contract_nullable_codec = contract_codec +
  assumes non_null: "encode x \<noteq> JNull"
begin

lemma reparse_nullable [reparse_dests]:
  "nullable parse v p = Inr ox \<Longrightarrow> \<forall>q. nullable parse (orNull encode ox) q = Inr ox"
  using reparse non_null by (auto simp: nullable_def orNull_def split: if_splits)

end

lemma orNull_defined [simp]:
  "(\<And>x. encode x \<noteq> JUndefined) \<Longrightarrow> orNull encode ox \<noteq> JUndefined"
  by (cases ox) (simp_all add: orNull_def)

subsection \<open>Records\<close>

definition recordValue :: "jsval \<Rightarrow> jsstring \<Rightarrow> jsrecord res" where
  "recordValue v path =
     (case v of
        JObject r \<Rightarrow> Inr r
      | JInstance r \<Rightarrow> fail path (js ''must be a plain object'')
      | _ \<Rightarrow> fail path (js ''must be an object''))"

fun assertAllowedKeys :: "jsrecord \<Rightarrow> jsstring \<Rightarrow> string list \<Rightarrow> unit res" where
  "assertAllowedKeys [] path keys = Inr ()"
| "assertAllowedKeys ((key, v) # r) path keys =
     (if key \<in> set (map js keys) then assertAllowedKeys r path keys
      else fail (path @ js ''.'' @ key) (js ''is not allowed''))"

fun requireKeys :: "jsrecord \<Rightarrow> jsstring \<Rightarrow> string list \<Rightarrow> unit res" where
  "requireKeys r path [] = Inr ()"
| "requireKeys r path (key # keys) =
     (if has r key then requireKeys r path keys else fail (dot path key) (js ''is required''))"

definition assertExactKeys :: "jsrecord \<Rightarrow> jsstring \<Rightarrow> string list \<Rightarrow> unit res" where
  "assertExactKeys r path keys =
     ebind (assertAllowedKeys r path keys) (\<lambda>_. requireKeys r path keys)"

definition strictRecord :: "jsval \<Rightarrow> jsstring \<Rightarrow> string list \<Rightarrow> string list \<Rightarrow> jsrecord res" where
  "strictRecord v path keys optional =
     ebind (recordValue v path) (\<lambda>r.
     ebind (assertAllowedKeys r path keys) (\<lambda>_.
     ebind (requireKeys r path (filter (\<lambda>k. k \<notin> set optional) keys)) (\<lambda>_. Inr r)))"

lemma recordValue_eq_Inr: "recordValue v p = Inr r \<longleftrightarrow> v = JObject r"
  by (auto simp: recordValue_def split: jsval.splits)

lemma assertAllowedKeys_iff [simp]: "assertAllowedKeys r p ks = Inr u \<longleftrightarrow> keysIn r ks"
  by (induction r p ks rule: assertAllowedKeys.induct) (auto simp: keysIn_def)

lemma requireKeys_iff [simp]: "requireKeys r p ks = Inr u \<longleftrightarrow> (\<forall>k\<in>set ks. has r k)"
  by (induction r p ks rule: requireKeys.induct) auto

lemma assertExactKeys_iff [simp]:
  "assertExactKeys r p ks = Inr u \<longleftrightarrow> keysIn r ks \<and> (\<forall>k\<in>set ks. has r k)"
  by (simp add: assertExactKeys_def)

lemma strictRecord_iff:
  "strictRecord v p ks os = Inr r \<longleftrightarrow>
     v = JObject r \<and> keysIn r ks \<and> (\<forall>k\<in>set ks. k \<notin> set os \<longrightarrow> has r k)"
  by (auto simp: strictRecord_def recordValue_eq_Inr)

lemma strictRecord_objectOf [simp]:
  "strictRecord (objectOf fs) p ks os = Inr r \<longleftrightarrow>
     r = members fs \<and> keysIn (members fs) ks \<and> (\<forall>k\<in>set ks. k \<notin> set os \<longrightarrow> has (members fs) k)"
  by (auto simp: strictRecord_iff objectOf_def)

lemma recordValue_objectOf [simp]: "recordValue (objectOf fs) p = Inr r \<longleftrightarrow> r = members fs"
  by (auto simp: recordValue_eq_Inr objectOf_def)

lemma blames_recordValue [blame_intros]: "prefix q p \<Longrightarrow> blames q (recordValue v p)"
  by (auto simp: recordValue_def split: jsval.splits intro!: blame_intros)

lemma blames_assertAllowedKeys [blame_intros]: "prefix q p \<Longrightarrow> blames q (assertAllowedKeys r p ks)"
  by (induction r p ks rule: assertAllowedKeys.induct) (auto intro!: blames_fail prefix_prefix)

lemma blames_requireKeys [blame_intros]: "prefix q p \<Longrightarrow> blames q (requireKeys r p ks)"
  by (induction r p ks rule: requireKeys.induct)
     (auto intro!: blames_fail prefix_prefix simp: dot_def)

lemma blames_assertExactKeys [blame_intros]: "prefix q p \<Longrightarrow> blames q (assertExactKeys r p ks)"
  unfolding assertExactKeys_def by (intro blame_intros)

lemma blames_strictRecord [blame_intros]: "prefix q p \<Longrightarrow> blames q (strictRecord v p ks os)"
  unfolding strictRecord_def by (intro blame_intros)

text \<open>Unknown members are refused wherever they stand, and the first of them is named.\<close>

lemma strictRecord_unknown_key:
  "v = JObject r \<Longrightarrow> \<not> keysIn r ks \<Longrightarrow>
   \<exists>k. k \<notin> js ` set ks \<and> k \<in> fst ` set r \<and>
       strictRecord v p ks os = fail (p @ js ''.'' @ k) (js ''is not allowed'')"
proof -
  have "\<not> keysIn r ks \<Longrightarrow> \<exists>k. k \<notin> js ` set ks \<and> k \<in> fst ` set r \<and>
      assertAllowedKeys r p ks = fail (p @ js ''.'' @ k) (js ''is not allowed'')"
    by (induction r p ks rule: assertAllowedKeys.induct) (auto simp: keysIn_def)
  then show "v = JObject r \<Longrightarrow> \<not> keysIn r ks \<Longrightarrow> ?thesis"
    by (auto simp: strictRecord_def recordValue_def)
qed

subsection \<open>Strings, literals and numbers\<close>

definition stringChars :: nat where "stringChars = 8 * 1024"
definition messageChars :: nat where "messageChars = 256 * 1024"
definition finalTextChars :: nat where "finalTextChars = 8 * 1024 * 1024"
definition contentParts :: nat where "contentParts = 32"
definition snapshotEvents :: nat where "snapshotEvents = 20000"
definition eventBytes :: nat where "eventBytes = 256 * 1024"
definition finalEventBytes :: nat where "finalEventBytes = 32 * 1024 * 1024"
definition previewBytes :: nat where "previewBytes = 32 * 1024"
definition snapshotBytes :: nat where "snapshotBytes = 64 * 1024 * 1024"

definition boundedString :: "nat \<Rightarrow> jsval \<Rightarrow> jsstring \<Rightarrow> jsstring res" where
  "boundedString limit v path =
     (case v of
        JString s \<Rightarrow>
          (if s = [] then fail path (js ''must not be empty'')
           else if limit < length s
           then fail path (js ''exceeds '' @ decimal limit @ js '' characters'')
           else Inr s)
      | _ \<Rightarrow> fail path (js ''must be a string''))"

text \<open>\<^verbatim>\<open>/^[A-Za-z0-9][A-Za-z0-9._:/@+-]*$/u\<close> and \<^verbatim>\<open>/^[0-9a-f]{64}$/u\<close>.\<close>

definition alnum :: "nat \<Rightarrow> bool" where
  "alnum c = ((48 \<le> c \<and> c \<le> 57) \<or> (65 \<le> c \<and> c \<le> 90) \<or> (97 \<le> c \<and> c \<le> 122))"

definition identifier_chars :: "jsstring \<Rightarrow> bool" where
  "identifier_chars s =
     (case s of [] \<Rightarrow> False
      | c # cs \<Rightarrow> alnum c \<and> list_all (\<lambda>d. alnum d \<or> d \<in> set (js ''._:/@+-'')) cs)"

definition parseIdentifier :: "jsval \<Rightarrow> jsstring \<Rightarrow> jsstring res" where
  "parseIdentifier v path =
     ebind (boundedString 512 v path) (\<lambda>s.
       if identifier_chars s then Inr s
       else fail path (js ''contains unsupported identifier characters''))"

definition is_sha256 :: "jsstring \<Rightarrow> bool" where
  "is_sha256 s =
     (length s = 64 \<and> list_all (\<lambda>c. (48 \<le> c \<and> c \<le> 57) \<or> (97 \<le> c \<and> c \<le> 102)) s)"

definition sha256 :: "jsval \<Rightarrow> jsstring \<Rightarrow> jsstring res" where
  "sha256 v path =
     (case v of
        JString s \<Rightarrow> if is_sha256 s then Inr s
                     else fail path (js ''must be a lowercase SHA-256 value'')
      | _ \<Rightarrow> fail path (js ''must be a lowercase SHA-256 value''))"

definition parseBool :: "jsval \<Rightarrow> jsstring \<Rightarrow> bool res" where
  "parseBool v path = (case v of JBool b \<Rightarrow> Inr b | _ \<Rightarrow> fail path (js ''must be a boolean''))"

text \<open>A safe integer is returned as the natural number it is.\<close>

definition nonnegativeInteger :: "jsval \<Rightarrow> jsstring \<Rightarrow> nat res" where
  "nonnegativeInteger v path =
     (case v of
        JNumber q \<Rightarrow> if is_safe_integer q \<and> 0 \<le> q then Inr (nat \<lfloor>q\<rfloor>)
                     else fail path (js ''must be a nonnegative safe integer'')
      | _ \<Rightarrow> fail path (js ''must be a nonnegative safe integer''))"

definition nullableNonnegativeInteger :: "jsval \<Rightarrow> jsstring \<Rightarrow> nat option res" where
  "nullableNonnegativeInteger = nullable nonnegativeInteger"

definition positiveInteger :: "jsval \<Rightarrow> jsstring \<Rightarrow> nat res" where
  "positiveInteger v path =
     ebind (nonnegativeInteger v path) (\<lambda>n.
       if n = 0 then fail path (js ''must be positive'') else Inr n)"

definition nonnegativeFinite :: "jsval \<Rightarrow> jsstring \<Rightarrow> rat res" where
  "nonnegativeFinite v path =
     (case v of
        JNumber q \<Rightarrow> if 0 \<le> q then Inr q
                     else fail path (js ''must be a finite nonnegative number'')
      | _ \<Rightarrow> fail path (js ''must be a finite nonnegative number''))"

definition percentage :: "jsval \<Rightarrow> jsstring \<Rightarrow> rat res" where
  "percentage v path =
     ebind (nonnegativeFinite v path) (\<lambda>q.
       if 100 < q then fail path (js ''must be at most 100'') else Inr q)"

definition array :: "jsval \<Rightarrow> jsstring \<Rightarrow> jsval list res" where
  "array v path = (case v of JArray vs \<Rightarrow> Inr vs | _ \<Rightarrow> fail path (js ''must be an array''))"

definition exactBool :: "bool \<Rightarrow> jsval \<Rightarrow> jsstring \<Rightarrow> unit res" where
  "exactBool b v path =
     (if v = JBool b then Inr ()
      else fail path (js ''must equal '' @ (if b then js ''true'' else js ''false'')))"

definition exactString :: "string \<Rightarrow> jsval \<Rightarrow> jsstring \<Rightarrow> unit res" where
  "exactString s v path =
     (if v = JString (js s) then Inr () else fail path (js ''must equal '' @ json_quote (js s)))"

text \<open>
  \<^verbatim>\<open>oneOf(value, ['a', 'b'], path)\<close> over the enumeration with values \<open>xs\<close>, each written
  \<open>name x\<close>.
\<close>

definition oneOf :: "('a \<Rightarrow> string) \<Rightarrow> 'a list \<Rightarrow> jsval \<Rightarrow> jsstring \<Rightarrow> 'a res" where
  "oneOf name xs v path =
     (case v of
        JString s \<Rightarrow>
          (case find (\<lambda>x. js (name x) = s) xs of
             Some x \<Rightarrow> Inr x
           | None \<Rightarrow> fail path (js ''must be one of '' @ join_with (js '', '') (map (js \<circ> name) xs)))
      | _ \<Rightarrow> fail path (js ''must be one of '' @ join_with (js '', '') (map (js \<circ> name) xs)))"

definition nameVal :: "('a \<Rightarrow> string) \<Rightarrow> 'a \<Rightarrow> jsval" where
  "nameVal name x = JString (js (name x))"

definition natVal :: "nat \<Rightarrow> jsval" where
  "natVal n = JNumber (of_nat n)"

lemma value_defined [simp]:
  "nameVal nm x \<noteq> JUndefined" "nameVal nm x \<noteq> JNull" "natVal n \<noteq> JUndefined" "natVal n \<noteq> JNull"
  by (simp_all add: nameVal_def natVal_def)

lemma oneOf_mem: "oneOf name xs v p = Inr x \<Longrightarrow> x \<in> set xs \<and> v = nameVal name x"
  by (auto simp: oneOf_def nameVal_def find_Some_iff split: jsval.splits option.splits)

lemma boundedString_eq_Inr:
  "boundedString n v p = Inr s \<longleftrightarrow> v = JString s \<and> s \<noteq> [] \<and> length s \<le> n"
  by (auto simp: boundedString_def split: jsval.splits)

lemma identifier_chars_Nil [simp]: "\<not> identifier_chars []"
  by (simp add: identifier_chars_def)

lemma identifier_eq_Inr:
  "parseIdentifier v p = Inr s \<longleftrightarrow> v = JString s \<and> length s \<le> 512 \<and> identifier_chars s"
proof -
  have "(if identifier_chars x then Inr x else fail p m) = Inr s \<longleftrightarrow> identifier_chars x \<and> x = s" for x m
    by simp
  then show ?thesis
    by (auto simp only: parseIdentifier_def ebind_eq_Inr boundedString_eq_Inr identifier_chars_Nil)
qed

lemma of_nat_le_safe: "(of_nat n :: rat) \<le> 9007199254740991 \<longleftrightarrow> n \<le> 9007199254740991"
  by (metis of_nat_le_iff of_nat_numeral)

lemma safe_natural_iff:
  fixes q :: rat
  shows "is_safe_integer q \<and> 0 \<le> q \<and> nat \<lfloor>q\<rfloor> = n \<longleftrightarrow> q = of_nat n \<and> n \<le> 9007199254740991"
proof
  assume q: "is_safe_integer q \<and> 0 \<le> q \<and> nat \<lfloor>q\<rfloor> = n"
  then have "q = of_nat n"
    by (metis is_safe_integer_def of_nat_nat of_int_of_nat_eq zero_le_floor)
  with q show "q = of_nat n \<and> n \<le> 9007199254740991"
    by (simp add: is_safe_integer_def of_nat_le_safe)
next
  assume "q = of_nat n \<and> n \<le> 9007199254740991"
  then show "is_safe_integer q \<and> 0 \<le> q \<and> nat \<lfloor>q\<rfloor> = n"
    by (simp add: is_safe_integer_def of_nat_le_safe)
qed

lemma nonnegativeInteger_eq_Inr:
  "nonnegativeInteger v p = Inr n \<longleftrightarrow> v = natVal n \<and> n \<le> 9007199254740991"
  using safe_natural_iff [of _ n]
  by (cases v) (auto simp: nonnegativeInteger_def natVal_def)

lemma array_eq_Inr [simp]: "array v p = Inr vs \<longleftrightarrow> v = JArray vs"
  by (auto simp: array_def split: jsval.splits)

lemma exact_eq_Inr [simp]:
  "exactBool b v p = Inr u \<longleftrightarrow> v = JBool b"
  "exactString s v p = Inr u \<longleftrightarrow> v = JString (js s)"
  by (auto simp: exactBool_def exactString_def)

lemma blames_array [blame_intros]: "prefix q p \<Longrightarrow> blames q (array v p)"
  by (auto simp: array_def split: jsval.splits intro!: blame_intros)

lemma blames_exact [blame_intros]:
  "prefix q p \<Longrightarrow> blames q (exactBool b v p)"
  "prefix q p \<Longrightarrow> blames q (exactString s v p)"
  by (auto simp: exactBool_def exactString_def intro!: blame_intros)

interpretation boundedString: contract_nullable_codec "boundedString n" JString
  by unfold_locales
     (auto simp: boundedString_def split: jsval.splits if_splits intro!: blame_intros)

interpretation parseIdentifier: contract_nullable_codec parseIdentifier JString
proof
  show "blames p (parseIdentifier v p)" for p v
    unfolding parseIdentifier_def by (intro blame_intros) simp_all
qed (auto simp: identifier_eq_Inr)

interpretation sha256: contract_codec sha256 JString
  by unfold_locales
     (auto simp: sha256_def split: jsval.splits if_splits intro!: blame_intros)

interpretation parseBool: contract_codec parseBool JBool
  by unfold_locales
     (auto simp: parseBool_def split: jsval.splits intro!: blame_intros)

interpretation nonnegativeInteger: contract_nullable_codec nonnegativeInteger natVal
proof
  show "blames p (nonnegativeInteger v p)" for p v
    by (auto simp: nonnegativeInteger_def split: jsval.splits intro!: blame_intros)
qed (simp_all add: nonnegativeInteger_eq_Inr)

interpretation nullableNonnegativeInteger:
  contract_codec nullableNonnegativeInteger "orNull natVal"
proof
  show "blames p (nullableNonnegativeInteger v p)" for p v
    unfolding nullableNonnegativeInteger_def by (intro blame_intros) simp_all
qed (auto simp: nullableNonnegativeInteger_def dest!: nonnegativeInteger.reparse_nullable)

interpretation positiveInteger: contract_codec positiveInteger natVal
proof
  show "blames p (positiveInteger v p)" for p v
    unfolding positiveInteger_def by (intro blame_intros) simp_all
qed (auto simp: positiveInteger_def nonnegativeInteger_eq_Inr split: if_splits)

interpretation nonnegativeFinite: contract_codec nonnegativeFinite JNumber
  by unfold_locales
     (auto simp: nonnegativeFinite_def split: jsval.splits if_splits intro!: blame_intros)

interpretation percentage: contract_codec percentage JNumber
proof
  show "blames p (percentage v p)" for p v
    unfolding percentage_def by (intro blame_intros) simp_all
qed (auto simp: percentage_def nonnegativeFinite_def split: if_splits jsval.splits)

lemma oneOf_eq_Inr:
  "oneOf name xs v p = Inr x \<longleftrightarrow>
     v = nameVal name x \<and> find (\<lambda>y. name y = name x) xs = Some x"
proof (cases "\<exists>s. v = JString s")
  case True
  then obtain s where v: "v = JString s" by blast
  have "oneOf name xs v p = Inr x \<longleftrightarrow> find (\<lambda>y. js (name y) = s) xs = Some x"
    by (cases "find (\<lambda>y. js (name y) = s) xs") (simp_all add: v oneOf_def)
  also have "\<dots> \<longleftrightarrow> s = js (name x) \<and> find (\<lambda>y. name y = name x) xs = Some x"
    by (cases "s = js (name x)") (auto simp: find_Some_iff)
  finally show ?thesis
    by (simp add: v nameVal_def)
next
  case False
  then show ?thesis
    by (cases v) (simp_all add: oneOf_def nameVal_def)
qed

interpretation oneOf: contract_codec "oneOf name xs" "nameVal name"
proof
  show "blames p (oneOf name xs v p)" for p v
    by (auto simp: oneOf_def split: jsval.splits option.splits intro!: blame_intros)
qed (auto simp: oneOf_eq_Inr)

end
