(* ===== verification/ContractJson.thy ===== *)
theory ContractJson
  imports ContractPrimitives
begin

text \<open>
  The validators of extensions/agent/shared/provider-runtime.ts for whole JSON values: the size
  bound of the encoded text, the contract version, and \<^verbatim>\<open>jsonValue\<close>, which admits a value of
  bounded nesting, width and string length and copies it.  \<open>json_fits\<close> and \<open>json_height\<close> are
  what \<^verbatim>\<open>jsonValue\<close> promises, stated without its traversal.
\<close>

definition assertEncodedSize :: "jsval \<Rightarrow> nat \<Rightarrow> jsstring \<Rightarrow> unit res" where
  "assertEncodedSize v limit path =
     (case json_text v of
        None \<Rightarrow> fail path (js ''must be JSON serializable'')
      | Some encoded \<Rightarrow>
          if limit < utf8_length encoded
          then fail path (js ''encoded value exceeds '' @ decimal limit @ js '' bytes'')
          else Inr ())"

lemma assertEncodedSize_iff:
  "assertEncodedSize v limit p = Inr u \<longleftrightarrow> v \<noteq> JUndefined \<and> byte_length v \<le> limit"
  by (cases "json_text v") (auto simp: assertEncodedSize_def byte_length_def)

lemma blames_assertEncodedSize [blame_intros]:
  "prefix q p \<Longrightarrow> blames q (assertEncodedSize v limit p)"
  by (auto simp: assertEncodedSize_def split: option.splits intro!: blame_intros)

definition currentVersion :: nat where "currentVersion = 6"

definition legacyVersions :: "nat list" where "legacyVersions = [2, 3, 4, 5]"

definition providerRuntimeContractVersion :: "jsval \<Rightarrow> jsstring \<Rightarrow> nat res" where
  "providerRuntimeContractVersion v path =
     (case find (\<lambda>n. v = natVal n) (currentVersion # legacyVersions) of
        Some n \<Rightarrow> Inr n
      | None \<Rightarrow> fail path (js ''must equal 6 or a supported legacy version (2, 3, 4, 5)''))"

lemma natVal_eq_iff [simp]: "natVal m = natVal n \<longleftrightarrow> m = n"
  by (simp add: natVal_def)

lemma providerRuntimeContractVersion_eq_Inr:
  "providerRuntimeContractVersion v p = Inr n \<longleftrightarrow> v = natVal n \<and> n \<in> {2, 3, 4, 5, 6}"
  by (auto simp: providerRuntimeContractVersion_def currentVersion_def legacyVersions_def)

lemma blames_contractVersion [blame_intros]:
  "prefix q p \<Longrightarrow> blames q (providerRuntimeContractVersion v p)"
  by (auto simp: providerRuntimeContractVersion_def split: option.splits intro!: blame_intros)

subsection \<open>Bounded JSON values\<close>

fun jsonValue :: "jsval \<Rightarrow> jsstring \<Rightarrow> nat \<Rightarrow> jsval res"
  and jsonElements :: "jsval list \<Rightarrow> jsstring \<Rightarrow> nat \<Rightarrow> nat \<Rightarrow> jsval list res"
  and jsonEntries :: "jsrecord \<Rightarrow> jsstring \<Rightarrow> nat \<Rightarrow> jsrecord res" where
  "jsonValue v path depth =
     (if 32 < depth then fail path (js ''JSON nesting exceeds 32 levels'')
      else case v of
        JNull \<Rightarrow> Inr v
      | JBool b \<Rightarrow> Inr v
      | JString s \<Rightarrow> ebind (boundedString messageChars v path) (\<lambda>t. Inr (JString t))
      | JNumber q \<Rightarrow> Inr v
      | JArray vs \<Rightarrow>
          if 2048 < length vs then fail path (js ''JSON array is too large'')
          else ebind (jsonElements vs path depth 0) (\<lambda>ws. Inr (JArray ws))
      | JObject r \<Rightarrow>
          if 2048 < length r then fail path (js ''JSON object is too large'')
          else ebind (jsonEntries r path depth) (\<lambda>r'. Inr (JObject r'))
      | _ \<Rightarrow> ebind (recordValue v path) (\<lambda>r. Inr v))"
| "jsonElements [] path depth i = Inr []"
| "jsonElements (v # vs) path depth i =
     ebind (jsonValue v (idx path i) (depth + 1)) (\<lambda>w.
     ebind (jsonElements vs path depth (Suc i)) (\<lambda>ws. Inr (w # ws)))"
| "jsonEntries [] path depth = Inr []"
| "jsonEntries ((k, v) # r) path depth =
     ebind (boundedString 512 (JString k) (path @ js '' key'')) (\<lambda>k'.
     ebind (jsonValue v (path @ js ''.'' @ k) (depth + 1)) (\<lambda>w.
     ebind (jsonEntries r path depth) (\<lambda>r'. Inr ((k', w) # r'))))"

text \<open>The remaining values (undefined, a non-finite number, an instance) are no records.\<close>

lemma recordValue_rejects [simp]:
  "recordValue JUndefined p \<noteq> Inr r" "recordValue JNonFinite p \<noteq> Inr r"
  "recordValue (JInstance r') p \<noteq> Inr r"
  by (simp_all add: recordValue_def)

fun json_height :: "jsval \<Rightarrow> nat"
  and elements_height :: "jsval list \<Rightarrow> nat"
  and entries_height :: "jsrecord \<Rightarrow> nat" where
  "json_height (JArray vs) = elements_height vs"
| "json_height (JObject r) = entries_height r"
| "json_height v = 0"
| "elements_height [] = 0"
| "elements_height (v # vs) = max (Suc (json_height v)) (elements_height vs)"
| "entries_height [] = 0"
| "entries_height ((k, v) # r) = max (Suc (json_height v)) (entries_height r)"

fun json_fits :: "jsval \<Rightarrow> bool"
  and elements_fit :: "jsval list \<Rightarrow> bool"
  and entries_fit :: "jsrecord \<Rightarrow> bool" where
  "json_fits JNull = True"
| "json_fits (JBool b) = True"
| "json_fits (JNumber q) = True"
| "json_fits (JString s) = (s \<noteq> [] \<and> length s \<le> 262144)"
| "json_fits (JArray vs) = (length vs \<le> 2048 \<and> elements_fit vs)"
| "json_fits (JObject r) = (length r \<le> 2048 \<and> entries_fit r)"
| "json_fits v = False"
| "elements_fit [] = True"
| "elements_fit (v # vs) = (json_fits v \<and> elements_fit vs)"
| "entries_fit [] = True"
| "entries_fit ((k, v) # r) = (k \<noteq> [] \<and> length k \<le> 512 \<and> json_fits v \<and> entries_fit r)"

declare jsonValue.simps [simp del]

lemma jsonValue_cases:
  shows "jsonValue v p d = Inr w \<longleftrightarrow> w = v \<and> json_fits v \<and> d + json_height v \<le> 32"
    and "d \<le> 32 \<Longrightarrow>
      jsonElements vs p d i = Inr ws \<longleftrightarrow> ws = vs \<and> elements_fit vs \<and> d + elements_height vs \<le> 32"
    and "d \<le> 32 \<Longrightarrow>
      jsonEntries r p d = Inr r' \<longleftrightarrow> r' = r \<and> entries_fit r \<and> d + entries_height r \<le> 32"
proof (induction v p d and vs p d i and r p d arbitrary: w and ws and r'
    rule: jsonValue_jsonElements_jsonEntries.induct)
  case (1 v path depth)
  show ?case
  proof (cases "32 < depth")
    case True
    then show ?thesis
      by (simp add: jsonValue.simps)
  next
    case False
    with "1.IH" show ?thesis
      by (cases v) (auto simp: jsonValue.simps boundedString_eq_Inr messageChars_def)
  qed
next
  case (3 v vs path depth i)
  then show ?case by auto
next
  case (5 k v r path depth)
  then show ?case by (auto simp: boundedString_eq_Inr)
qed auto

lemma blames_jsonValue:
  "\<And>q. prefix q p \<Longrightarrow> blames q (jsonValue v p d)"
  "\<And>q. prefix q p \<Longrightarrow> blames q (jsonElements vs p d i)"
  "\<And>q. prefix q p \<Longrightarrow> blames q (jsonEntries r p d)"
proof (induction v p d and vs p d i and r p d rule: jsonValue_jsonElements_jsonEntries.induct)
  case (1 v path depth)
  then show ?case
    by (subst jsonValue.simps) (cases v; auto intro!: blame_intros)
next
  case (3 v vs path depth i)
  then show ?case
    by (auto intro!: blame_intros simp: idx_def)
next
  case (5 k v r path depth)
  then show ?case
    by (auto intro!: blame_intros)
qed simp_all

text \<open>At the outermost call the depth is 0.\<close>

definition jsonRoot :: "jsval \<Rightarrow> jsstring \<Rightarrow> jsval res" where
  "jsonRoot v path = jsonValue v path 0"

definition boundedJsonPreview :: "jsval \<Rightarrow> jsstring \<Rightarrow> jsval res" where
  "boundedJsonPreview v path =
     ebind (assertEncodedSize v previewBytes path) (\<lambda>_. jsonRoot v path)"

lemma jsonRoot_eq_Inr: "jsonRoot v p = Inr w \<longleftrightarrow> w = v \<and> json_fits v \<and> json_height v \<le> 32"
  by (simp add: jsonRoot_def jsonValue_cases)

lemma boundedJsonPreview_eq_Inr:
  "boundedJsonPreview v p = Inr w \<longleftrightarrow>
     w = v \<and> byte_length v \<le> 32768 \<and> json_fits v \<and> json_height v \<le> 32"
  by (auto simp: boundedJsonPreview_def assertEncodedSize_iff jsonRoot_eq_Inr previewBytes_def)

interpretation jsonRoot: contract_codec jsonRoot id
  by unfold_locales (auto simp: jsonRoot_eq_Inr, simp add: jsonRoot_def blames_jsonValue)

interpretation boundedJsonPreview: contract_codec boundedJsonPreview id
proof
  show "blames p (boundedJsonPreview v p)" for p v
    unfolding boundedJsonPreview_def by (intro blame_intros) simp_all
qed (auto simp: boundedJsonPreview_eq_Inr)

end
