(* ===== verification/ContractDisplays.thy ===== *)
theory ContractDisplays
  imports ContractJson
begin

text \<open>
  The display values inside provider events (extensions/agent/shared/provider-runtime.ts):
  provider kinds, errors, tools, file changes, web activity, child executions, turn triggers,
  user content and the usage snapshots; each with the parser that admits it and the object it is
  written back as.  Every parser is interpreted as a \<open>contract_codec\<close>.
\<close>

subsection \<open>Enumerations\<close>

datatype ProviderKind = Codex | ClaudeCode | FixtureProvider

fun providerKindName :: "ProviderKind \<Rightarrow> string" where
  "providerKindName Codex = ''codex''"
| "providerKindName ClaudeCode = ''claude-code''"
| "providerKindName FixtureProvider = ''fixture''"

definition providerKind :: "jsval \<Rightarrow> jsstring \<Rightarrow> ProviderKind res" where
  "providerKind = oneOf providerKindName [Codex, ClaudeCode, FixtureProvider]"

datatype ProviderAccess = ReadOnly | WorkspaceWrite | FullAccess

fun providerAccessName :: "ProviderAccess \<Rightarrow> string" where
  "providerAccessName ReadOnly = ''read-only''"
| "providerAccessName WorkspaceWrite = ''workspace-write''"
| "providerAccessName FullAccess = ''full-access''"

definition providerAccess :: "jsval \<Rightarrow> jsstring \<Rightarrow> ProviderAccess res" where
  "providerAccess = oneOf providerAccessName [ReadOnly, WorkspaceWrite, FullAccess]"

datatype ProviderTurnOutcome = TurnCompleted | TurnFailed | TurnInterrupted | TurnRecoveryFailed

fun turnOutcomeName :: "ProviderTurnOutcome \<Rightarrow> string" where
  "turnOutcomeName TurnCompleted = ''completed''"
| "turnOutcomeName TurnFailed = ''failed''"
| "turnOutcomeName TurnInterrupted = ''interrupted''"
| "turnOutcomeName TurnRecoveryFailed = ''recovery_failed''"

definition turnOutcome :: "jsval \<Rightarrow> jsstring \<Rightarrow> ProviderTurnOutcome res" where
  "turnOutcome =
     oneOf turnOutcomeName [TurnCompleted, TurnFailed, TurnInterrupted, TurnRecoveryFailed]"

datatype ProviderExecutionState =
  ExecRunning | ExecRecovering | ExecIdle | ExecFailed | ExecInterrupted

fun executionStateName :: "ProviderExecutionState \<Rightarrow> string" where
  "executionStateName ExecRunning = ''running''"
| "executionStateName ExecRecovering = ''recovering''"
| "executionStateName ExecIdle = ''idle''"
| "executionStateName ExecFailed = ''failed''"
| "executionStateName ExecInterrupted = ''interrupted''"

definition executionState :: "jsval \<Rightarrow> jsstring \<Rightarrow> ProviderExecutionState res" where
  "executionState =
     oneOf executionStateName [ExecRunning, ExecRecovering, ExecIdle, ExecFailed, ExecInterrupted]"

datatype ChildExecutionOwnership = NativeOwned | FederatedOwned

fun ownershipName :: "ChildExecutionOwnership \<Rightarrow> string" where
  "ownershipName NativeOwned = ''native''"
| "ownershipName FederatedOwned = ''federated''"

datatype ToolCategory =
  ShellTool | FileTool | SearchTool | WebTool | McpTool | CollaborationTool | OtherTool

fun toolCategoryName :: "ToolCategory \<Rightarrow> string" where
  "toolCategoryName ShellTool = ''shell''"
| "toolCategoryName FileTool = ''file''"
| "toolCategoryName SearchTool = ''search''"
| "toolCategoryName WebTool = ''web''"
| "toolCategoryName McpTool = ''mcp''"
| "toolCategoryName CollaborationTool = ''collaboration''"
| "toolCategoryName OtherTool = ''other''"

datatype FileChangeKind = FileAdd | FileDelete | FileUpdate | FileMove

fun fileChangeKindName :: "FileChangeKind \<Rightarrow> string" where
  "fileChangeKindName FileAdd = ''add''"
| "fileChangeKindName FileDelete = ''delete''"
| "fileChangeKindName FileUpdate = ''update''"
| "fileChangeKindName FileMove = ''move''"

datatype WebActivityKind = WebSearch | WebOpen | WebOther

fun webActivityKindName :: "WebActivityKind \<Rightarrow> string" where
  "webActivityKindName WebSearch = ''search''"
| "webActivityKindName WebOpen = ''open''"
| "webActivityKindName WebOther = ''other''"

datatype TriggerKind = FederationTrigger | NativeChildTrigger

fun triggerKindName :: "TriggerKind \<Rightarrow> string" where
  "triggerKindName FederationTrigger = ''federation''"
| "triggerKindName NativeChildTrigger = ''native-child''"

datatype Measurement = ProviderMeasured | DerivedMeasured

fun measurementName :: "Measurement \<Rightarrow> string" where
  "measurementName ProviderMeasured = ''provider''"
| "measurementName DerivedMeasured = ''derived''"

datatype Freshness = LiveUsage | CachedUsage

fun freshnessName :: "Freshness \<Rightarrow> string" where
  "freshnessName LiveUsage = ''live''"
| "freshnessName CachedUsage = ''cached''"

datatype UsageScope = NativeConversationScope | RuntimeEpochScope

fun usageScopeName :: "UsageScope \<Rightarrow> string" where
  "usageScopeName NativeConversationScope = ''native-conversation''"
| "usageScopeName RuntimeEpochScope = ''runtime-epoch''"

datatype UsageAvailability = UsageAvailable | UsageNotApplicable | UsageUnknown

fun availabilityName :: "UsageAvailability \<Rightarrow> string" where
  "availabilityName UsageAvailable = ''available''"
| "availabilityName UsageNotApplicable = ''not-applicable''"
| "availabilityName UsageUnknown = ''unknown''"

datatype UsageSource = ProviderPush | ProviderRead

fun usageSourceName :: "UsageSource \<Rightarrow> string" where
  "usageSourceName ProviderPush = ''provider-push''"
| "usageSourceName ProviderRead = ''provider-read''"

datatype UsageWindowKind = RollingWindow | WeeklyWindow | ModelWindow | ExtraWindow

fun windowKindName :: "UsageWindowKind \<Rightarrow> string" where
  "windowKindName RollingWindow = ''rolling''"
| "windowKindName WeeklyWindow = ''weekly''"
| "windowKindName ModelWindow = ''model''"
| "windowKindName ExtraWindow = ''extra''"

interpretation providerKind: contract_codec providerKind "nameVal providerKindName"
  unfolding providerKind_def by unfold_locales

interpretation providerAccess: contract_codec providerAccess "nameVal providerAccessName"
  unfolding providerAccess_def by unfold_locales

interpretation turnOutcome: contract_codec turnOutcome "nameVal turnOutcomeName"
  unfolding turnOutcome_def by unfold_locales

interpretation executionState: contract_codec executionState "nameVal executionStateName"
  unfolding executionState_def by unfold_locales

subsection \<open>Errors, tools, files, web activity, children\<close>

record DisplayError =
  errorCode :: jsstring
  errorMessage :: jsstring
  errorRetryable :: "bool option"

definition parseDisplayError :: "jsval \<Rightarrow> jsstring \<Rightarrow> DisplayError res" where
  "parseDisplayError v path =
     ebind (strictRecord v path [''code'', ''message'', ''retryable''] [''retryable'']) (\<lambda>r.
     ebind (parseIdentifier (fld r ''code'') (dot path ''code'')) (\<lambda>code.
     ebind (boundedString stringChars (fld r ''message'') (dot path ''message'')) (\<lambda>message.
     ebind (optionally parseBool (fld r ''retryable'') (dot path ''retryable'')) (\<lambda>retryable.
     Inr \<lparr>errorCode = code, errorMessage = message, errorRetryable = retryable\<rparr>))))"

definition encodeDisplayError :: "DisplayError \<Rightarrow> jsval" where
  "encodeDisplayError e = objectOf
     [(''code'', Some (JString (errorCode e))),
      (''message'', Some (JString (errorMessage e))),
      (''retryable'', map_option JBool (errorRetryable e))]"

record ToolDisplay =
  toolCallId :: jsstring
  toolName :: jsstring
  toolCategory :: "ToolCategory option"
  toolTitle :: "jsstring option"

definition parseToolDisplay :: "jsval \<Rightarrow> jsstring \<Rightarrow> ToolDisplay res" where
  "parseToolDisplay v path =
     ebind (strictRecord v path [''callId'', ''name'', ''category'', ''title'']
       [''category'', ''title'']) (\<lambda>r.
     ebind (parseIdentifier (fld r ''callId'') (dot path ''callId'')) (\<lambda>callId.
     ebind (boundedString stringChars (fld r ''name'') (dot path ''name'')) (\<lambda>name.
     ebind (optionally (oneOf toolCategoryName
         [ShellTool, FileTool, SearchTool, WebTool, McpTool, CollaborationTool, OtherTool])
       (fld r ''category'') (dot path ''category'')) (\<lambda>category.
     ebind (optionally (boundedString stringChars) (fld r ''title'') (dot path ''title'')) (\<lambda>title.
     Inr \<lparr>toolCallId = callId, toolName = name, toolCategory = category, toolTitle = title\<rparr>)))))"

definition encodeToolDisplay :: "ToolDisplay \<Rightarrow> jsval" where
  "encodeToolDisplay t = objectOf
     [(''callId'', Some (JString (toolCallId t))),
      (''name'', Some (JString (toolName t))),
      (''category'', map_option (nameVal toolCategoryName) (toolCategory t)),
      (''title'', map_option JString (toolTitle t))]"

record ProviderFileChange =
  changePath :: jsstring
  changeKind :: FileChangeKind
  changeOldPath :: "jsstring option"
  changeDiffArtifactId :: "jsstring option"
  changeDiff :: "jsstring option"

definition parseFileChange :: "jsval \<Rightarrow> jsstring \<Rightarrow> ProviderFileChange res" where
  "parseFileChange v path =
     ebind (strictRecord v path [''path'', ''kind'', ''oldPath'', ''diffArtifactId'', ''diff'']
       [''oldPath'', ''diffArtifactId'', ''diff'']) (\<lambda>r.
     ebind (boundedString (32 * 1024) (fld r ''path'') (dot path ''path'')) (\<lambda>file.
     ebind (oneOf fileChangeKindName [FileAdd, FileDelete, FileUpdate, FileMove]
       (fld r ''kind'') (dot path ''kind'')) (\<lambda>kind.
     ebind (optionally (boundedString (32 * 1024)) (fld r ''oldPath'') (dot path ''oldPath'')) (\<lambda>old.
     ebind (optionally parseIdentifier (fld r ''diffArtifactId'') (dot path ''diffArtifactId'')) (\<lambda>art.
     ebind (optionally (boundedString finalTextChars) (fld r ''diff'') (dot path ''diff'')) (\<lambda>diff.
     Inr \<lparr>changePath = file, changeKind = kind, changeOldPath = old,
          changeDiffArtifactId = art, changeDiff = diff\<rparr>))))))"

definition encodeFileChange :: "ProviderFileChange \<Rightarrow> jsval" where
  "encodeFileChange c = objectOf
     [(''path'', Some (JString (changePath c))),
      (''kind'', Some (nameVal fileChangeKindName (changeKind c))),
      (''oldPath'', map_option JString (changeOldPath c)),
      (''diffArtifactId'', map_option JString (changeDiffArtifactId c)),
      (''diff'', map_option JString (changeDiff c))]"

record WebActivityDisplay =
  webKind :: WebActivityKind
  webTitle :: "jsstring option"
  webUrl :: "jsstring option"
  webQuery :: "jsstring option"

definition parseWebActivity :: "jsval \<Rightarrow> jsstring \<Rightarrow> WebActivityDisplay res" where
  "parseWebActivity v path =
     ebind (strictRecord v path [''kind'', ''title'', ''url'', ''query'']
       [''title'', ''url'', ''query'']) (\<lambda>r.
     ebind (oneOf webActivityKindName [WebSearch, WebOpen, WebOther]
       (fld r ''kind'') (dot path ''kind'')) (\<lambda>kind.
     ebind (optionally (boundedString stringChars) (fld r ''title'') (dot path ''title'')) (\<lambda>title.
     ebind (optionally (boundedString (32 * 1024)) (fld r ''url'') (dot path ''url'')) (\<lambda>url.
     ebind (optionally (boundedString stringChars) (fld r ''query'') (dot path ''query'')) (\<lambda>query.
     Inr \<lparr>webKind = kind, webTitle = title, webUrl = url, webQuery = query\<rparr>)))))"

definition encodeWebActivity :: "WebActivityDisplay \<Rightarrow> jsval" where
  "encodeWebActivity w = objectOf
     [(''kind'', Some (nameVal webActivityKindName (webKind w))),
      (''title'', map_option JString (webTitle w)),
      (''url'', map_option JString (webUrl w)),
      (''query'', map_option JString (webQuery w))]"

record ChildExecutionDisplay =
  childExecutionId :: jsstring
  childOwnership :: ChildExecutionOwnership
  childProvider :: ProviderKind
  childProviderInstanceId :: "jsstring option"
  childModel :: "jsstring option"
  childTitle :: "jsstring option"
  childNativeSessionId :: "jsstring option"
  childTranscriptAvailable :: "bool option"

definition parseChild :: "jsval \<Rightarrow> jsstring \<Rightarrow> ChildExecutionDisplay res" where
  "parseChild v path =
     ebind (strictRecord v path
       [''executionId'', ''ownership'', ''provider'', ''providerInstanceId'', ''model'', ''title'',
        ''nativeSessionId'', ''transcriptAvailable'']
       [''providerInstanceId'', ''model'', ''title'', ''nativeSessionId'', ''transcriptAvailable'']) (\<lambda>r.
     ebind (parseIdentifier (fld r ''executionId'') (dot path ''executionId'')) (\<lambda>eid.
     ebind (oneOf ownershipName [NativeOwned, FederatedOwned]
       (fld r ''ownership'') (dot path ''ownership'')) (\<lambda>own.
     ebind (providerKind (fld r ''provider'') (dot path ''provider'')) (\<lambda>prov.
     ebind (optionally parseIdentifier (fld r ''providerInstanceId'')
       (dot path ''providerInstanceId'')) (\<lambda>inst.
     ebind (optionally (boundedString stringChars) (fld r ''model'') (dot path ''model'')) (\<lambda>model.
     ebind (optionally (boundedString stringChars) (fld r ''title'') (dot path ''title'')) (\<lambda>title.
     ebind (optionally parseIdentifier (fld r ''nativeSessionId'') (dot path ''nativeSessionId'')) (\<lambda>sess.
     ebind (optionally parseBool (fld r ''transcriptAvailable'')
       (dot path ''transcriptAvailable'')) (\<lambda>tr.
     Inr \<lparr>childExecutionId = eid, childOwnership = own, childProvider = prov,
          childProviderInstanceId = inst, childModel = model, childTitle = title,
          childNativeSessionId = sess, childTranscriptAvailable = tr\<rparr>)))))))))"

definition encodeChild :: "ChildExecutionDisplay \<Rightarrow> jsval" where
  "encodeChild c = objectOf
     [(''executionId'', Some (JString (childExecutionId c))),
      (''ownership'', Some (nameVal ownershipName (childOwnership c))),
      (''provider'', Some (nameVal providerKindName (childProvider c))),
      (''providerInstanceId'', map_option JString (childProviderInstanceId c)),
      (''model'', map_option JString (childModel c)),
      (''title'', map_option JString (childTitle c)),
      (''nativeSessionId'', map_option JString (childNativeSessionId c)),
      (''transcriptAvailable'', map_option JBool (childTranscriptAvailable c))]"

interpretation parseDisplayError: contract_codec parseDisplayError encodeDisplayError
  by unfold_locales
    (auto simp: parseDisplayError_def encodeDisplayError_def intro!: blame_intros dest!: reparse_dests)

interpretation parseToolDisplay: contract_codec parseToolDisplay encodeToolDisplay
  by unfold_locales
    (auto simp: parseToolDisplay_def encodeToolDisplay_def intro!: blame_intros dest!: reparse_dests)

interpretation parseFileChange: contract_codec parseFileChange encodeFileChange
  by unfold_locales
    (auto simp: parseFileChange_def encodeFileChange_def intro!: blame_intros dest!: reparse_dests)

interpretation parseWebActivity: contract_codec parseWebActivity encodeWebActivity
  by unfold_locales
    (auto simp: parseWebActivity_def encodeWebActivity_def intro!: blame_intros dest!: reparse_dests)

interpretation parseChild: contract_codec parseChild encodeChild
  by unfold_locales
    (auto simp: parseChild_def encodeChild_def intro!: blame_intros dest!: reparse_dests)

end
