(* ===== verification/ContractUsage.thy ===== *)
theory ContractUsage
  imports ContractDisplays
begin

text \<open>
  Token, context, cost and account usage, user content and turn triggers
  (extensions/agent/shared/provider-runtime.ts).
\<close>

subsection \<open>Token usage\<close>

record TokenUsageBreakdown =
  inputTokens :: "nat option"
  cachedInputTokens :: "nat option"
  cacheWriteInputTokens :: "nat option"
  outputTokens :: "nat option"
  reasoningOutputTokens :: "nat option"
  totalTokens :: "nat option"

definition parseTokenUsage :: "jsval \<Rightarrow> jsstring \<Rightarrow> TokenUsageBreakdown res" where
  "parseTokenUsage v path =
     ebind (strictRecord v path
       [''inputTokens'', ''cachedInputTokens'', ''cacheWriteInputTokens'', ''outputTokens'',
        ''reasoningOutputTokens'', ''totalTokens''] []) (\<lambda>r.
     ebind (nullableNonnegativeInteger (fld r ''inputTokens'') (dot path ''inputTokens'')) (\<lambda>i.
     ebind (nullableNonnegativeInteger (fld r ''cachedInputTokens'')
       (dot path ''cachedInputTokens'')) (\<lambda>c.
     ebind (nullableNonnegativeInteger (fld r ''cacheWriteInputTokens'')
       (dot path ''cacheWriteInputTokens'')) (\<lambda>w.
     ebind (nullableNonnegativeInteger (fld r ''outputTokens'') (dot path ''outputTokens'')) (\<lambda>out.
     ebind (nullableNonnegativeInteger (fld r ''reasoningOutputTokens'')
       (dot path ''reasoningOutputTokens'')) (\<lambda>ro.
     ebind (nullableNonnegativeInteger (fld r ''totalTokens'') (dot path ''totalTokens'')) (\<lambda>t.
     Inr \<lparr>inputTokens = i, cachedInputTokens = c, cacheWriteInputTokens = w, outputTokens = out,
          reasoningOutputTokens = ro, totalTokens = t\<rparr>)))))))"

definition encodeTokenUsage :: "TokenUsageBreakdown \<Rightarrow> jsval" where
  "encodeTokenUsage u = objectOf
     [(''inputTokens'', Some (orNull natVal (inputTokens u))),
      (''cachedInputTokens'', Some (orNull natVal (cachedInputTokens u))),
      (''cacheWriteInputTokens'', Some (orNull natVal (cacheWriteInputTokens u))),
      (''outputTokens'', Some (orNull natVal (outputTokens u))),
      (''reasoningOutputTokens'', Some (orNull natVal (reasoningOutputTokens u))),
      (''totalTokens'', Some (orNull natVal (totalTokens u)))]"

interpretation parseTokenUsage: contract_nullable_codec parseTokenUsage encodeTokenUsage
  by unfold_locales
    (auto simp: parseTokenUsage_def encodeTokenUsage_def intro!: blame_intros dest!: reparse_dests,
     simp add: objectOf_def)

record ContextUsageSnapshot =
  ctxUsedTokens :: nat
  ctxWindowTokens :: nat
  ctxAutoCompactWindowTokens :: "nat option"
  ctxPercent :: rat
  ctxMeasurement :: Measurement
  ctxFreshness :: Freshness
  ctxObservedAt :: nat
  ctxTurnId :: "jsstring option"

definition parseContextUsage :: "jsval \<Rightarrow> jsstring \<Rightarrow> ContextUsageSnapshot res" where
  "parseContextUsage v path =
     ebind (strictRecord v path
       [''usedTokens'', ''windowTokens'', ''autoCompactWindowTokens'', ''percent'',
        ''measurement'', ''freshness'', ''observedAt'', ''turnId'']
       [''autoCompactWindowTokens'']) (\<lambda>r.
     ebind (positiveInteger (fld r ''windowTokens'') (dot path ''windowTokens'')) (\<lambda>window.
     ebind (nonnegativeInteger (fld r ''usedTokens'') (dot path ''usedTokens'')) (\<lambda>used.
     ebind (optionally positiveInteger (fld r ''autoCompactWindowTokens'')
       (dot path ''autoCompactWindowTokens'')) (\<lambda>auto.
     ebind (percentage (fld r ''percent'') (dot path ''percent'')) (\<lambda>percent.
     ebind (oneOf measurementName [ProviderMeasured, DerivedMeasured]
       (fld r ''measurement'') (dot path ''measurement'')) (\<lambda>measurement.
     ebind (oneOf freshnessName [LiveUsage, CachedUsage]
       (fld r ''freshness'') (dot path ''freshness'')) (\<lambda>freshness.
     ebind (nonnegativeInteger (fld r ''observedAt'') (dot path ''observedAt'')) (\<lambda>observedAt.
     ebind (nullable parseIdentifier (fld r ''turnId'') (dot path ''turnId'')) (\<lambda>turnId.
     Inr \<lparr>ctxUsedTokens = used, ctxWindowTokens = window, ctxAutoCompactWindowTokens = auto,
          ctxPercent = percent, ctxMeasurement = measurement, ctxFreshness = freshness,
          ctxObservedAt = observedAt, ctxTurnId = turnId\<rparr>)))))))))"

definition encodeContextUsage :: "ContextUsageSnapshot \<Rightarrow> jsval" where
  "encodeContextUsage u = objectOf
     [(''usedTokens'', Some (natVal (ctxUsedTokens u))),
      (''windowTokens'', Some (natVal (ctxWindowTokens u))),
      (''autoCompactWindowTokens'', map_option natVal (ctxAutoCompactWindowTokens u)),
      (''percent'', Some (JNumber (ctxPercent u))),
      (''measurement'', Some (nameVal measurementName (ctxMeasurement u))),
      (''freshness'', Some (nameVal freshnessName (ctxFreshness u))),
      (''observedAt'', Some (natVal (ctxObservedAt u))),
      (''turnId'', Some (orNull JString (ctxTurnId u)))]"

interpretation parseContextUsage: contract_nullable_codec parseContextUsage encodeContextUsage
  by unfold_locales
    (auto simp: parseContextUsage_def encodeContextUsage_def intro!: blame_intros
       dest!: reparse_dests, simp add: objectOf_def)

record CumulativeUsage =
  cumTokens :: TokenUsageBreakdown
  cumScope :: UsageScope
  cumEpochId :: jsstring

definition parseCumulativeUsage :: "jsval \<Rightarrow> jsstring \<Rightarrow> CumulativeUsage res" where
  "parseCumulativeUsage v path =
     ebind (strictRecord v path [''tokens'', ''scope'', ''epochId''] []) (\<lambda>r.
     ebind (parseTokenUsage (fld r ''tokens'') (dot path ''tokens'')) (\<lambda>tokens.
     ebind (oneOf usageScopeName [NativeConversationScope, RuntimeEpochScope]
       (fld r ''scope'') (dot path ''scope'')) (\<lambda>scope.
     ebind (parseIdentifier (fld r ''epochId'') (dot path ''epochId'')) (\<lambda>epochId.
     Inr \<lparr>cumTokens = tokens, cumScope = scope, cumEpochId = epochId\<rparr>))))"

definition encodeCumulativeUsage :: "CumulativeUsage \<Rightarrow> jsval" where
  "encodeCumulativeUsage u = objectOf
     [(''tokens'', Some (encodeTokenUsage (cumTokens u))),
      (''scope'', Some (nameVal usageScopeName (cumScope u))),
      (''epochId'', Some (JString (cumEpochId u)))]"

interpretation parseCumulativeUsage: contract_nullable_codec parseCumulativeUsage encodeCumulativeUsage
  by unfold_locales
    (auto simp: parseCumulativeUsage_def encodeCumulativeUsage_def intro!: blame_intros
       dest!: reparse_dests, simp add: objectOf_def)

record EstimatedCost =
  costUsd :: rat
  costEpochId :: jsstring

definition parseEstimatedCost :: "jsval \<Rightarrow> jsstring \<Rightarrow> EstimatedCost res" where
  "parseEstimatedCost v path =
     ebind (strictRecord v path [''usd'', ''scope'', ''epochId''] []) (\<lambda>r.
     ebind (exactString ''runtime-epoch'' (fld r ''scope'') (dot path ''scope'')) (\<lambda>_.
     ebind (nonnegativeFinite (fld r ''usd'') (dot path ''usd'')) (\<lambda>usd.
     ebind (parseIdentifier (fld r ''epochId'') (dot path ''epochId'')) (\<lambda>epochId.
     Inr \<lparr>costUsd = usd, costEpochId = epochId\<rparr>))))"

definition encodeEstimatedCost :: "EstimatedCost \<Rightarrow> jsval" where
  "encodeEstimatedCost c = objectOf
     [(''usd'', Some (JNumber (costUsd c))),
      (''scope'', Some (JString (js ''runtime-epoch''))),
      (''epochId'', Some (JString (costEpochId c)))]"

interpretation parseEstimatedCost: contract_nullable_codec parseEstimatedCost encodeEstimatedCost
  by unfold_locales
    (auto simp: parseEstimatedCost_def encodeEstimatedCost_def intro!: blame_intros
       dest!: reparse_dests, simp add: objectOf_def)

record UsageDisplay =
  usageTurn :: "TokenUsageBreakdown option"
  usageCumulative :: "CumulativeUsage option"
  usageContext :: "ContextUsageSnapshot option"
  usageEstimatedCost :: "EstimatedCost option"

definition parseUsage :: "jsval \<Rightarrow> jsstring \<Rightarrow> UsageDisplay res" where
  "parseUsage v path =
     ebind (strictRecord v path [''turn'', ''cumulative'', ''context'', ''estimatedCost''] []) (\<lambda>r.
     ebind (nullable parseTokenUsage (fld r ''turn'') (dot path ''turn'')) (\<lambda>turn.
     ebind (nullable parseCumulativeUsage (fld r ''cumulative'') (dot path ''cumulative'')) (\<lambda>cum.
     ebind (nullable parseContextUsage (fld r ''context'') (dot path ''context'')) (\<lambda>ctx.
     ebind (nullable parseEstimatedCost (fld r ''estimatedCost'') (dot path ''estimatedCost'')) (\<lambda>cost.
     Inr \<lparr>usageTurn = turn, usageCumulative = cum, usageContext = ctx,
          usageEstimatedCost = cost\<rparr>)))))"

definition encodeUsage :: "UsageDisplay \<Rightarrow> jsval" where
  "encodeUsage u = objectOf
     [(''turn'', Some (orNull encodeTokenUsage (usageTurn u))),
      (''cumulative'', Some (orNull encodeCumulativeUsage (usageCumulative u))),
      (''context'', Some (orNull encodeContextUsage (usageContext u))),
      (''estimatedCost'', Some (orNull encodeEstimatedCost (usageEstimatedCost u)))]"

interpretation parseUsage: contract_codec parseUsage encodeUsage
  by unfold_locales
    (auto simp: parseUsage_def encodeUsage_def intro!: blame_intros dest!: reparse_dests)

subsection \<open>Account usage\<close>

record AccountUsageWindow =
  windowId :: jsstring
  windowLabel :: jsstring
  windowKind :: UsageWindowKind
  windowModel :: "jsstring option"
  windowUsedPercent :: rat
  windowResetsAt :: "nat option"

definition parseAccountUsageWindow :: "jsval \<Rightarrow> jsstring \<Rightarrow> AccountUsageWindow res" where
  "parseAccountUsageWindow v path =
     ebind (strictRecord v path
       [''id'', ''label'', ''kind'', ''model'', ''usedPercent'', ''resetsAt''] []) (\<lambda>r.
     ebind (parseIdentifier (fld r ''id'') (dot path ''id'')) (\<lambda>i.
     ebind (boundedString 512 (fld r ''label'') (dot path ''label'')) (\<lambda>label.
     ebind (oneOf windowKindName [RollingWindow, WeeklyWindow, ModelWindow, ExtraWindow]
       (fld r ''kind'') (dot path ''kind'')) (\<lambda>kind.
     ebind (nullable (boundedString stringChars) (fld r ''model'') (dot path ''model'')) (\<lambda>model.
     ebind (percentage (fld r ''usedPercent'') (dot path ''usedPercent'')) (\<lambda>used.
     ebind (nullableNonnegativeInteger (fld r ''resetsAt'') (dot path ''resetsAt'')) (\<lambda>resets.
     Inr \<lparr>windowId = i, windowLabel = label, windowKind = kind, windowModel = model,
          windowUsedPercent = used, windowResetsAt = resets\<rparr>)))))))"

definition encodeAccountUsageWindow :: "AccountUsageWindow \<Rightarrow> jsval" where
  "encodeAccountUsageWindow w = objectOf
     [(''id'', Some (JString (windowId w))),
      (''label'', Some (JString (windowLabel w))),
      (''kind'', Some (nameVal windowKindName (windowKind w))),
      (''model'', Some (orNull JString (windowModel w))),
      (''usedPercent'', Some (JNumber (windowUsedPercent w))),
      (''resetsAt'', Some (orNull natVal (windowResetsAt w)))]"

interpretation parseAccountUsageWindow:
  contract_codec parseAccountUsageWindow encodeAccountUsageWindow
  by unfold_locales
    (auto simp: parseAccountUsageWindow_def encodeAccountUsageWindow_def intro!: blame_intros
       dest!: reparse_dests)

record ProviderAccountUsage =
  accountAvailability :: UsageAvailability
  accountWindows :: "AccountUsageWindow list"
  accountSource :: UsageSource
  accountFreshness :: Freshness
  accountObservedAt :: nat

definition parseProviderAccountUsage :: "jsval \<Rightarrow> jsstring \<Rightarrow> ProviderAccountUsage res" where
  "parseProviderAccountUsage v path =
     ebind (strictRecord v path
       [''availability'', ''windows'', ''source'', ''freshness'', ''observedAt''] []) (\<lambda>r.
     ebind (array (fld r ''windows'') (dot path ''windows'')) (\<lambda>windows.
     if 32 < length windows then fail (dot path ''windows'') (js ''contains too many windows'') else
     ebind (elements parseAccountUsageWindow windows (dot path ''windows'')) (\<lambda>parsed.
     if \<not> distinct (map windowId parsed)
     then fail (dot path ''windows'') (js ''contains duplicate window IDs'') else
     ebind (oneOf availabilityName [UsageAvailable, UsageNotApplicable, UsageUnknown]
       (fld r ''availability'') (dot path ''availability'')) (\<lambda>availability.
     if availability \<noteq> UsageAvailable \<and> parsed \<noteq> []
     then fail (dot path ''windows'') (js ''must be empty unless usage is available'') else
     ebind (oneOf usageSourceName [ProviderPush, ProviderRead]
       (fld r ''source'') (dot path ''source'')) (\<lambda>source.
     ebind (oneOf freshnessName [LiveUsage, CachedUsage]
       (fld r ''freshness'') (dot path ''freshness'')) (\<lambda>freshness.
     ebind (nonnegativeInteger (fld r ''observedAt'') (dot path ''observedAt'')) (\<lambda>observedAt.
     Inr \<lparr>accountAvailability = availability, accountWindows = parsed, accountSource = source,
          accountFreshness = freshness, accountObservedAt = observedAt\<rparr>)))))))"

definition encodeProviderAccountUsage :: "ProviderAccountUsage \<Rightarrow> jsval" where
  "encodeProviderAccountUsage u = objectOf
     [(''availability'', Some (nameVal availabilityName (accountAvailability u))),
      (''windows'', Some (JArray (map encodeAccountUsageWindow (accountWindows u)))),
      (''source'', Some (nameVal usageSourceName (accountSource u))),
      (''freshness'', Some (nameVal freshnessName (accountFreshness u))),
      (''observedAt'', Some (natVal (accountObservedAt u)))]"

lemma if_fail_eq_Inr [simp]: "(if c then fail p m else k) = Inr x \<longleftrightarrow> \<not> c \<and> k = Inr x"
  by simp

interpretation parseProviderAccountUsage:
  contract_codec parseProviderAccountUsage encodeProviderAccountUsage
  by unfold_locales
    (auto simp: parseProviderAccountUsage_def encodeProviderAccountUsage_def intro!: blame_intros
       dest!: reparse_dests)

subsection \<open>User content\<close>

datatype UserContentPart =
    TextPart jsstring
  | ImageArtifactPart jsstring jsstring "jsstring option" "nat option"
  | FileReferencePart jsstring

datatype ContentPartKind = TextContent | ImageContent | FileContent

fun contentPartKindName :: "ContentPartKind \<Rightarrow> string" where
  "contentPartKindName TextContent = ''text''"
| "contentPartKindName ImageContent = ''image-artifact''"
| "contentPartKindName FileContent = ''file-reference''"

text \<open>The branch of \<^verbatim>\<open>parseContentPart\<close> for each \<^verbatim>\<open>type\<close>, and the dispatch.\<close>

fun contentPartOf :: "ContentPartKind \<Rightarrow> jsrecord \<Rightarrow> jsstring \<Rightarrow> UserContentPart res" where
  "contentPartOf TextContent base path =
     ebind (assertExactKeys base path [''type'', ''text'']) (\<lambda>_.
     ebind (boundedString messageChars (fld base ''text'') (dot path ''text'')) (\<lambda>text.
     Inr (TextPart text)))"
| "contentPartOf ImageContent base path =
     ebind (assertExactKeys base path
       ([''type'', ''artifactId'', ''mimeType''] @
        (if fld base ''name'' = JUndefined then [] else [''name'']) @
        (if fld base ''byteLength'' = JUndefined then [] else [''byteLength'']))) (\<lambda>_.
     ebind (boundedString 256 (fld base ''mimeType'') (dot path ''mimeType'')) (\<lambda>mimeType.
     if \<not> starts_with (js ''image/'') mimeType
     then fail (dot path ''mimeType'') (js ''must be an image media type'') else
     ebind (parseIdentifier (fld base ''artifactId'') (dot path ''artifactId'')) (\<lambda>artifactId.
     ebind (optionally (boundedString 1024) (fld base ''name'') (dot path ''name'')) (\<lambda>name.
     ebind (optionally nonnegativeInteger (fld base ''byteLength'') (dot path ''byteLength'')) (\<lambda>bytes.
     Inr (ImageArtifactPart artifactId mimeType name bytes))))))"
| "contentPartOf FileContent base path =
     ebind (assertExactKeys base path [''type'', ''path'']) (\<lambda>_.
     ebind (boundedString (32 * 1024) (fld base ''path'') (dot path ''path'')) (\<lambda>file.
     Inr (FileReferencePart file)))"

definition parseContentPart :: "jsval \<Rightarrow> jsstring \<Rightarrow> UserContentPart res" where
  "parseContentPart v path =
     ebind (strictRecord v path
       [''type'', ''text'', ''artifactId'', ''mimeType'', ''name'', ''byteLength'', ''path'']
       [''text'', ''artifactId'', ''mimeType'', ''name'', ''byteLength'', ''path'']) (\<lambda>base.
     ebind (oneOf contentPartKindName [TextContent, ImageContent, FileContent]
       (fld base ''type'') (dot path ''type'')) (\<lambda>type. contentPartOf type base path))"

fun encodeContentPart :: "UserContentPart \<Rightarrow> jsval" where
  "encodeContentPart (TextPart text) =
     objectOf [(''type'', Some (nameVal contentPartKindName TextContent)),
               (''text'', Some (JString text))]"
| "encodeContentPart (ImageArtifactPart artifactId mimeType name bytes) =
     objectOf [(''type'', Some (nameVal contentPartKindName ImageContent)),
               (''artifactId'', Some (JString artifactId)),
               (''mimeType'', Some (JString mimeType)),
               (''name'', map_option JString name),
               (''byteLength'', map_option natVal bytes)]"
| "encodeContentPart (FileReferencePart file) =
     objectOf [(''type'', Some (nameVal contentPartKindName FileContent)),
               (''path'', Some (JString file))]"

lemma or_else_undefined [simp]:
  "(\<And>x. f x \<noteq> JUndefined) \<Longrightarrow> or_else (map_option f ox) JUndefined = JUndefined \<longleftrightarrow> ox = None"
  by (cases ox) simp_all

lemma blames_contentPartOf [blame_intros]: "prefix q p \<Longrightarrow> blames q (contentPartOf k r p)"
  by (cases k) (auto intro!: blame_intros)

lemma contentPartKind_reads [simp]:
  "oneOf contentPartKindName [TextContent, ImageContent, FileContent]
     (nameVal contentPartKindName k) p = Inr k"
  by (cases k) (simp_all add: oneOf_eq_Inr)

lemma reparse_contentPart:
  "contentPartOf k r p = Inr x \<Longrightarrow> parseContentPart (encodeContentPart x) q = Inr x"
  by (cases k) (auto simp: parseContentPart_def dest!: reparse_dests)

interpretation parseContentPart: contract_codec parseContentPart encodeContentPart
proof
  show "blames p (parseContentPart v p)" for v p
    unfolding parseContentPart_def by (intro blame_intros) simp_all
  show "encodeContentPart x \<noteq> JUndefined" for x
    by (cases x) simp_all
  show "parseContentPart v p = Inr x \<Longrightarrow> parseContentPart (encodeContentPart x) q = Inr x" for v p x q
    by (subst (asm) parseContentPart_def) (auto intro: reparse_contentPart)
qed

definition parseUserContentParts :: "jsval \<Rightarrow> jsstring \<Rightarrow> UserContentPart list res" where
  "parseUserContentParts v path =
     ebind (array v path) (\<lambda>content.
     if content = [] \<or> contentParts < length content
     then fail path (js ''must contain 1-'' @ decimal contentParts @ js '' parts'')
     else elements parseContentPart content path)"

interpretation parseUserContentParts:
  contract_codec parseUserContentParts "\<lambda>xs. JArray (map encodeContentPart xs)"
  by unfold_locales
    (auto simp: parseUserContentParts_def intro!: blame_intros dest!: reparse_dests)

subsection \<open>Turn triggers\<close>

record TurnTrigger =
  triggerKind :: TriggerKind
  triggerChildExecutionId :: "jsstring option"
  triggerSummary :: "jsstring option"

definition maxTurnTriggers :: nat where "maxTurnTriggers = 16"

definition parseTurnTrigger :: "jsval \<Rightarrow> jsstring \<Rightarrow> TurnTrigger res" where
  "parseTurnTrigger v path =
     ebind (recordValue v path) (\<lambda>r.
     ebind (assertAllowedKeys r path [''kind'', ''childExecutionId'', ''summary'']) (\<lambda>_.
     ebind (oneOf triggerKindName [FederationTrigger, NativeChildTrigger]
       (fld r ''kind'') (dot path ''kind'')) (\<lambda>kind.
     ebind (optionally parseIdentifier (fld r ''childExecutionId'')
       (dot path ''childExecutionId'')) (\<lambda>child.
     ebind (optionally (boundedString stringChars) (fld r ''summary'') (dot path ''summary'')) (\<lambda>summary.
     Inr \<lparr>triggerKind = kind, triggerChildExecutionId = child, triggerSummary = summary\<rparr>)))))"

definition encodeTurnTrigger :: "TurnTrigger \<Rightarrow> jsval" where
  "encodeTurnTrigger t = objectOf
     [(''kind'', Some (nameVal triggerKindName (triggerKind t))),
      (''childExecutionId'', map_option JString (triggerChildExecutionId t)),
      (''summary'', map_option JString (triggerSummary t))]"

interpretation parseTurnTrigger: contract_codec parseTurnTrigger encodeTurnTrigger
  by unfold_locales
    (auto simp: parseTurnTrigger_def encodeTurnTrigger_def intro!: blame_intros
       dest!: reparse_dests)

definition parseTurnTriggers :: "jsval \<Rightarrow> jsstring \<Rightarrow> TurnTrigger list res" where
  "parseTurnTriggers v path =
     (case v of
        JArray vs \<Rightarrow>
          if length vs < 1 \<or> maxTurnTriggers < length vs
          then fail path (js ''must contain 1-'' @ decimal maxTurnTriggers @ js '' triggers'')
          else elements parseTurnTrigger vs path
      | _ \<Rightarrow> fail path (js ''must contain 1-'' @ decimal maxTurnTriggers @ js '' triggers''))"

interpretation parseTurnTriggers:
  contract_codec parseTurnTriggers "\<lambda>xs. JArray (map encodeTurnTrigger xs)"
  by unfold_locales
    (auto simp: parseTurnTriggers_def intro!: blame_intros split: jsval.splits
       dest!: reparse_dests)

end
