(* ===== verification/ContractBlocks.thy ===== *)
theory ContractBlocks
  imports ContractUsage
begin

text \<open>
  Turn blocks (extensions/agent/shared/provider-runtime.ts): their structure, the payload of
  each block kind, and the snapshot that pairs a kind with a payload of that kind.  A payload of
  contract versions 2 to 5 is read with \<^verbatim>\<open>truncated\<close> taken as false.
\<close>

record TurnStructure =
  passId :: jsstring
  blockId :: jsstring
  passOrdinal :: nat
  blockOrdinal :: nat

definition parseTurnStructure :: "jsval \<Rightarrow> jsstring \<Rightarrow> TurnStructure res" where
  "parseTurnStructure v path =
     ebind (strictRecord v path [''passId'', ''blockId'', ''passOrdinal'', ''blockOrdinal''] []) (\<lambda>r.
     ebind (parseIdentifier (fld r ''passId'') (dot path ''passId'')) (\<lambda>pid.
     ebind (parseIdentifier (fld r ''blockId'') (dot path ''blockId'')) (\<lambda>bid.
     ebind (nonnegativeInteger (fld r ''passOrdinal'') (dot path ''passOrdinal'')) (\<lambda>po.
     ebind (nonnegativeInteger (fld r ''blockOrdinal'') (dot path ''blockOrdinal'')) (\<lambda>bo.
     Inr \<lparr>passId = pid, blockId = bid, passOrdinal = po, blockOrdinal = bo\<rparr>)))))"

definition encodeTurnStructure :: "TurnStructure \<Rightarrow> jsval" where
  "encodeTurnStructure s = objectOf
     [(''passId'', Some (JString (passId s))),
      (''blockId'', Some (JString (blockId s))),
      (''passOrdinal'', Some (natVal (passOrdinal s))),
      (''blockOrdinal'', Some (natVal (blockOrdinal s)))]"

interpretation parseTurnStructure: contract_codec parseTurnStructure encodeTurnStructure
  by unfold_locales
    (auto simp: parseTurnStructure_def encodeTurnStructure_def intro!: blame_intros
       dest!: reparse_dests)

datatype TurnBlockKind =
    ReasoningSummaryKind | CommentaryKind | ToolKind | NativeChildKind | FederatedChildKind
  | WebKind | FinalMessageKind | CompatibilityNoticeKind

fun turnBlockKindName :: "TurnBlockKind \<Rightarrow> string" where
  "turnBlockKindName ReasoningSummaryKind = ''reasoning-summary''"
| "turnBlockKindName CommentaryKind = ''commentary''"
| "turnBlockKindName ToolKind = ''tool''"
| "turnBlockKindName NativeChildKind = ''native-child''"
| "turnBlockKindName FederatedChildKind = ''federated-child''"
| "turnBlockKindName WebKind = ''web''"
| "turnBlockKindName FinalMessageKind = ''final-message''"
| "turnBlockKindName CompatibilityNoticeKind = ''compatibility-notice''"

definition providerTurnBlockKinds :: "TurnBlockKind list" where
  "providerTurnBlockKinds =
     [ReasoningSummaryKind, CommentaryKind, ToolKind, NativeChildKind, FederatedChildKind,
      WebKind, FinalMessageKind, CompatibilityNoticeKind]"

datatype TurnBlockState =
  BlockStreaming | BlockRunning | BlockCompleted | BlockFailed | BlockInterrupted

fun turnBlockStateName :: "TurnBlockState \<Rightarrow> string" where
  "turnBlockStateName BlockStreaming = ''streaming''"
| "turnBlockStateName BlockRunning = ''running''"
| "turnBlockStateName BlockCompleted = ''completed''"
| "turnBlockStateName BlockFailed = ''failed''"
| "turnBlockStateName BlockInterrupted = ''interrupted''"

record ToolPayload =
  payloadTool :: ToolDisplay
  payloadBackgrounded :: "bool option"
  payloadInputPreview :: "jsval option"
  payloadOutputPreview :: "jsval option"
  payloadDetailRef :: "jsstring option"

record ChildPayload =
  payloadChild :: ChildExecutionDisplay
  payloadExecutionState :: ProviderExecutionState
  payloadOutcome :: "ProviderTurnOutcome option"
  payloadSummary :: "jsstring option"

datatype TurnBlockPayload =
    ReasoningSummary jsstring "jsstring list option" bool
  | Commentary jsstring
  | FinalMessage jsstring
  | ToolBlock ToolPayload
  | NativeChildBlock ChildPayload
  | FederatedChildBlock ChildPayload
  | WebBlock WebActivityDisplay
  | CompatibilityNoticeBlock jsstring jsstring

fun payloadKind :: "TurnBlockPayload \<Rightarrow> TurnBlockKind" where
  "payloadKind (ReasoningSummary text parts truncated) = ReasoningSummaryKind"
| "payloadKind (Commentary text) = CommentaryKind"
| "payloadKind (FinalMessage text) = FinalMessageKind"
| "payloadKind (ToolBlock t) = ToolKind"
| "payloadKind (NativeChildBlock c) = NativeChildKind"
| "payloadKind (FederatedChildBlock c) = FederatedChildKind"
| "payloadKind (WebBlock w) = WebKind"
| "payloadKind (CompatibilityNoticeBlock code message) = CompatibilityNoticeKind"

subsection \<open>Payloads\<close>

text \<open>The branch for both child kinds; \<open>own\<close> is the ownership the kind demands.\<close>

definition childPayload :: "ChildExecutionOwnership \<Rightarrow> jsrecord \<Rightarrow> jsstring \<Rightarrow> ChildPayload res" where
  "childPayload own r path =
     ebind (assertAllowedKeys r path
       [''kind'', ''child'', ''executionState'', ''outcome'', ''summary'']) (\<lambda>_.
     ebind (requireKeys r path [''child'', ''executionState'']) (\<lambda>_.
     ebind (parseChild (fld r ''child'') (dot path ''child'')) (\<lambda>child.
     if childOwnership child \<noteq> own
     then fail (dot path ''child.ownership'') (js ''must match block kind'') else
     ebind (executionState (fld r ''executionState'') (dot path ''executionState'')) (\<lambda>state.
     ebind (optionally turnOutcome (fld r ''outcome'') (dot path ''outcome'')) (\<lambda>outcome.
     ebind (optionally (boundedString messageChars) (fld r ''summary'') (dot path ''summary'')) (\<lambda>summary.
     Inr \<lparr>payloadChild = child, payloadExecutionState = state, payloadOutcome = outcome,
          payloadSummary = summary\<rparr>))))))"

fun payloadOf ::
  "nat \<Rightarrow> TurnBlockKind \<Rightarrow> jsrecord \<Rightarrow> jsstring \<Rightarrow> TurnBlockPayload res" where
  "payloadOf version ReasoningSummaryKind r path =
     (let legacy = version < currentVersion in
      ebind (assertAllowedKeys r path
        (if legacy then [''kind'', ''text'', ''parts'']
         else [''kind'', ''text'', ''parts'', ''truncated''])) (\<lambda>_.
      ebind (requireKeys r path [''text'']) (\<lambda>_.
      ebind (requireKeys r path (if legacy then [] else [''truncated''])) (\<lambda>_.
      ebind (boundedString messageChars (fld r ''text'') (dot path ''text'')) (\<lambda>text.
      ebind (if legacy then Inr False
             else parseBool (fld r ''truncated'') (dot path ''truncated'')) (\<lambda>truncated.
      if fld r ''parts'' = JUndefined then Inr (ReasoningSummary text None truncated) else
      ebind (array (fld r ''parts'') (dot path ''parts'')) (\<lambda>values.
      if values = [] \<or> 256 < length values
      then fail (dot path ''parts'') (js ''must contain 1-256 summary parts'') else
      ebind (elements (boundedString messageChars) values (dot path ''parts'')) (\<lambda>parts.
      if join_with [10] parts \<noteq> text
      then fail (dot path ''parts'') (js ''must join to the compatibility text'')
      else Inr (ReasoningSummary text (Some parts) truncated)))))))))"
| "payloadOf version CommentaryKind r path =
     ebind (assertExactKeys r path [''kind'', ''text'']) (\<lambda>_.
     ebind (boundedString messageChars (fld r ''text'') (dot path ''text'')) (\<lambda>text.
     Inr (Commentary text)))"
| "payloadOf version FinalMessageKind r path =
     ebind (assertExactKeys r path [''kind'', ''text'']) (\<lambda>_.
     ebind (boundedString finalTextChars (fld r ''text'') (dot path ''text'')) (\<lambda>text.
     Inr (FinalMessage text)))"
| "payloadOf version ToolKind r path =
     ebind (assertAllowedKeys r path
       [''kind'', ''tool'', ''inputPreview'', ''outputPreview'', ''detailRef'', ''backgrounded'']) (\<lambda>_.
     ebind (requireKeys r path [''tool'']) (\<lambda>_.
     ebind (parseToolDisplay (fld r ''tool'') (dot path ''tool'')) (\<lambda>tool.
     ebind (optionally parseBool (fld r ''backgrounded'') (dot path ''backgrounded'')) (\<lambda>bg.
     ebind (optionally boundedJsonPreview (fld r ''inputPreview'') (dot path ''inputPreview'')) (\<lambda>inp.
     ebind (optionally boundedJsonPreview (fld r ''outputPreview'') (dot path ''outputPreview'')) (\<lambda>out.
     ebind (optionally parseIdentifier (fld r ''detailRef'') (dot path ''detailRef'')) (\<lambda>ref.
     Inr (ToolBlock \<lparr>payloadTool = tool, payloadBackgrounded = bg, payloadInputPreview = inp,
                     payloadOutputPreview = out, payloadDetailRef = ref\<rparr>))))))))"
| "payloadOf version NativeChildKind r path =
     ebind (childPayload NativeOwned r path) (\<lambda>c. Inr (NativeChildBlock c))"
| "payloadOf version FederatedChildKind r path =
     ebind (childPayload FederatedOwned r path) (\<lambda>c. Inr (FederatedChildBlock c))"
| "payloadOf version WebKind r path =
     ebind (assertExactKeys r path [''kind'', ''activity'']) (\<lambda>_.
     ebind (parseWebActivity (fld r ''activity'') (dot path ''activity'')) (\<lambda>w.
     Inr (WebBlock w)))"
| "payloadOf version CompatibilityNoticeKind r path =
     ebind (assertExactKeys r path [''kind'', ''code'', ''message'']) (\<lambda>_.
     ebind (parseIdentifier (fld r ''code'') (dot path ''code'')) (\<lambda>code.
     ebind (boundedString stringChars (fld r ''message'') (dot path ''message'')) (\<lambda>message.
     Inr (CompatibilityNoticeBlock code message))))"

definition parseTurnBlockPayload :: "nat \<Rightarrow> jsval \<Rightarrow> jsstring \<Rightarrow> TurnBlockPayload res" where
  "parseTurnBlockPayload version v path =
     ebind (recordValue v path) (\<lambda>r.
     ebind (oneOf turnBlockKindName providerTurnBlockKinds (fld r ''kind'') (dot path ''kind''))
       (\<lambda>kind. payloadOf version kind r path))"

fun childMembers :: "ChildPayload \<Rightarrow> (string \<times> jsval option) list" where
  "childMembers c =
     [(''child'', Some (encodeChild (payloadChild c))),
      (''executionState'', Some (nameVal executionStateName (payloadExecutionState c))),
      (''outcome'', map_option (nameVal turnOutcomeName) (payloadOutcome c)),
      (''summary'', map_option JString (payloadSummary c))]"

fun payloadMembers :: "TurnBlockPayload \<Rightarrow> (string \<times> jsval option) list" where
  "payloadMembers (ReasoningSummary text parts truncated) =
     [(''text'', Some (JString text)),
      (''parts'', map_option (\<lambda>ps. JArray (map JString ps)) parts),
      (''truncated'', Some (JBool truncated))]"
| "payloadMembers (Commentary text) = [(''text'', Some (JString text))]"
| "payloadMembers (FinalMessage text) = [(''text'', Some (JString text))]"
| "payloadMembers (ToolBlock t) =
     [(''tool'', Some (encodeToolDisplay (payloadTool t))),
      (''backgrounded'', map_option JBool (payloadBackgrounded t)),
      (''inputPreview'', map_option id (payloadInputPreview t)),
      (''outputPreview'', map_option id (payloadOutputPreview t)),
      (''detailRef'', map_option JString (payloadDetailRef t))]"
| "payloadMembers (NativeChildBlock c) = childMembers c"
| "payloadMembers (FederatedChildBlock c) = childMembers c"
| "payloadMembers (WebBlock w) = [(''activity'', Some (encodeWebActivity w))]"
| "payloadMembers (CompatibilityNoticeBlock code message) =
     [(''code'', Some (JString code)), (''message'', Some (JString message))]"

definition encodePayload :: "TurnBlockPayload \<Rightarrow> jsval" where
  "encodePayload x = objectOf
     ((''kind'', Some (nameVal turnBlockKindName (payloadKind x))) # payloadMembers x)"

lemma blockKind_reads [simp]:
  "oneOf turnBlockKindName providerTurnBlockKinds (nameVal turnBlockKindName k) p = Inr k"
  by (cases k) (simp_all add: oneOf_eq_Inr providerTurnBlockKinds_def)

lemma blames_childPayload [blame_intros]: "prefix q p \<Longrightarrow> blames q (childPayload own r p)"
  unfolding childPayload_def by (intro blame_intros) simp_all

lemma blames_payloadOf [blame_intros]: "prefix q p \<Longrightarrow> blames q (payloadOf ver k r p)"
  by (cases k) (auto simp: Let_def intro!: blame_intros)

lemma payloadOf_kind: "payloadOf ver k r p = Inr x \<Longrightarrow> payloadKind x = k"
  by (cases k) (auto simp: Let_def split: if_splits)

lemma reparse_childPayload:
  "childPayload own r p = Inr c \<Longrightarrow>
   \<forall>k q. childPayload own (members ((''kind'', Some k) # childMembers c)) q = Inr c"
  by (auto simp: childPayload_def dest!: reparse_dests)

lemma reasoning_payload:
  assumes "payloadOf ver ReasoningSummaryKind r p = Inr x"
  obtains body parts truncated where "x = ReasoningSummary body parts truncated"
    and "\<And>q. boundedString messageChars (JString body) q = Inr body"
    and "\<And>ps q. parts = Some ps \<Longrightarrow> ps \<noteq> [] \<and> \<not> 256 < length ps \<and> join_with [10] ps = body \<and>
           elements (boundedString messageChars) (map JString ps) q = Inr ps"
proof (cases "fld r ''parts'' = JUndefined")
  case True
  with assms that show ?thesis
    by (auto simp: Let_def dest!: boundedString.reparse_value)
next
  case False
  with assms obtain body truncated vs ps where x: "x = ReasoningSummary body (Some ps) truncated"
    and body: "boundedString messageChars (fld r ''text'') (dot p ''text'') = Inr body"
    and ps: "elements (boundedString messageChars) vs (dot p ''parts'') = Inr ps"
      "vs \<noteq> []" "\<not> 256 < length vs" "join_with [10] ps = body"
    by (auto simp: Let_def)
  from ps boundedString.reparse_elements [OF ps(1)] have
    "ps \<noteq> [] \<and> \<not> 256 < length ps \<and> join_with [10] ps = body \<and>
     elements (boundedString messageChars) (map JString ps) q = Inr ps" for q
    by auto
  with x boundedString.reparse [OF body] show ?thesis
    by (intro that) auto
qed

lemma reparse_reasoning:
  assumes "payloadOf ver ReasoningSummaryKind r p = Inr x"
  shows "parseTurnBlockPayload currentVersion (encodePayload x) q = Inr x"
  using assms
proof (rule reasoning_payload)
  fix body parts truncated
  assume "x = ReasoningSummary body parts truncated"
    and "\<And>q. boundedString messageChars (JString body) q = Inr body"
    and "\<And>ps q. parts = Some ps \<Longrightarrow> ps \<noteq> [] \<and> \<not> 256 < length ps \<and> join_with [10] ps = body \<and>
           elements (boundedString messageChars) (map JString ps) q = Inr ps"
  then show ?thesis
    by (cases parts)
       (simp_all add: parseTurnBlockPayload_def encodePayload_def Let_def parseBool_def)
qed

lemma reparse_payload_at:
  "payloadOf ver k r p = Inr x \<Longrightarrow> parseTurnBlockPayload currentVersion (encodePayload x) q = Inr x"
proof (cases k)
  case ReasoningSummaryKind
  then show "payloadOf ver k r p = Inr x \<Longrightarrow> ?thesis"
    by (simp add: reparse_reasoning)
qed (auto simp: parseTurnBlockPayload_def encodePayload_def simp del: childMembers.simps
       dest!: reparse_dests reparse_childPayload)

lemma reparse_payload:
  "parseTurnBlockPayload ver v p = Inr x \<Longrightarrow>
   parseTurnBlockPayload currentVersion (encodePayload x) q = Inr x"
  by (subst (asm) parseTurnBlockPayload_def) (auto intro: reparse_payload_at)

interpretation parseTurnBlockPayload:
  contract_codec "parseTurnBlockPayload currentVersion" encodePayload
proof
  show "blames p (parseTurnBlockPayload currentVersion v p)" for v p
    unfolding parseTurnBlockPayload_def by (intro blame_intros) simp_all
  show "encodePayload x \<noteq> JUndefined" for x
    by (simp add: encodePayload_def)
qed (rule reparse_payload)

subsection \<open>Snapshots\<close>

record TurnBlockSnapshot =
  blockKind :: TurnBlockKind
  blockState :: TurnBlockState
  blockPayload :: TurnBlockPayload

definition parseTurnBlockSnapshot :: "nat \<Rightarrow> jsval \<Rightarrow> jsstring \<Rightarrow> TurnBlockSnapshot res" where
  "parseTurnBlockSnapshot version v path =
     ebind (strictRecord v path [''kind'', ''state'', ''payload''] []) (\<lambda>r.
     ebind (oneOf turnBlockKindName providerTurnBlockKinds (fld r ''kind'') (dot path ''kind'')) (\<lambda>kind.
     ebind (oneOf turnBlockStateName
         [BlockStreaming, BlockRunning, BlockCompleted, BlockFailed, BlockInterrupted]
       (fld r ''state'') (dot path ''state'')) (\<lambda>state.
     ebind (parseTurnBlockPayload version (fld r ''payload'') (dot path ''payload'')) (\<lambda>payload.
     if payloadKind payload \<noteq> kind
     then fail (dot path ''payload.kind'') (js ''must match block kind'')
     else Inr \<lparr>blockKind = kind, blockState = state, blockPayload = payload\<rparr>))))"

definition encodeTurnBlockSnapshot :: "TurnBlockSnapshot \<Rightarrow> jsval" where
  "encodeTurnBlockSnapshot b = objectOf
     [(''kind'', Some (nameVal turnBlockKindName (blockKind b))),
      (''state'', Some (nameVal turnBlockStateName (blockState b))),
      (''payload'', Some (encodePayload (blockPayload b)))]"

lemma encodePayload_defined [simp]: "encodePayload x \<noteq> JUndefined"
  by (simp add: encodePayload_def)

lemma blames_payload [blame_intros]: "prefix q p \<Longrightarrow> blames q (parseTurnBlockPayload ver v p)"
  unfolding parseTurnBlockPayload_def by (intro blame_intros) simp_all

lemma blames_snapshot [blame_intros]: "prefix q p \<Longrightarrow> blames q (parseTurnBlockSnapshot ver v p)"
  unfolding parseTurnBlockSnapshot_def by (intro blame_intros) simp_all

lemma reparse_snapshot:
  assumes "parseTurnBlockSnapshot ver v p = Inr b"
  shows "parseTurnBlockSnapshot currentVersion (encodeTurnBlockSnapshot b) q = Inr b"
proof -
  have "parseTurnBlockPayload ver v p = Inr x \<Longrightarrow>
      \<forall>q. parseTurnBlockPayload currentVersion (encodePayload x) q = Inr x" for v p x
    by (simp add: reparse_payload)
  with assms show ?thesis
    by (auto simp: parseTurnBlockSnapshot_def encodeTurnBlockSnapshot_def dest!: oneOf.reparse_value)
qed

interpretation parseTurnBlockSnapshot:
  contract_codec "parseTurnBlockSnapshot currentVersion" encodeTurnBlockSnapshot
proof
  show "encodeTurnBlockSnapshot b \<noteq> JUndefined" for b
    by (simp add: encodeTurnBlockSnapshot_def)
qed (auto intro: blames_snapshot reparse_snapshot)

text \<open>A snapshot holds a payload of its own kind, and a child block a child of its ownership.\<close>

fun payload_consistent :: "TurnBlockPayload \<Rightarrow> bool" where
  "payload_consistent (NativeChildBlock c) = (childOwnership (payloadChild c) = NativeOwned)"
| "payload_consistent (FederatedChildBlock c) = (childOwnership (payloadChild c) = FederatedOwned)"
| "payload_consistent (ReasoningSummary t (Some ps) truncated) = (join_with [10] ps = t)"
| "payload_consistent x = True"

definition snapshot_consistent :: "TurnBlockSnapshot \<Rightarrow> bool" where
  "snapshot_consistent b =
     (payloadKind (blockPayload b) = blockKind b \<and> payload_consistent (blockPayload b))"

lemma payloadOf_consistent: "payloadOf ver k r p = Inr x \<Longrightarrow> payload_consistent x"
  by (cases k) (auto simp: childPayload_def Let_def split: if_splits)

lemma parseTurnBlockSnapshot_consistent:
  "parseTurnBlockSnapshot ver v p = Inr b \<Longrightarrow> snapshot_consistent b"
  by (auto simp: parseTurnBlockSnapshot_def parseTurnBlockPayload_def snapshot_consistent_def
      dest: payloadOf_consistent)

text \<open>
  \<^verbatim>\<open>normalizeLegacyReasoningSummaryPayload\<close> reads a persisted reasoning payload of either form.
\<close>

definition normalizeLegacyReasoningSummaryPayload :: "jsval \<Rightarrow> TurnBlockPayload res" where
  "normalizeLegacyReasoningSummaryPayload v =
     ebind (recordValue v (js ''$'')) (\<lambda>r.
     if fld r ''kind'' \<noteq> JString (js ''reasoning-summary'')
     then fail (js ''$.kind'') (js ''must equal reasoning-summary'')
     else parseTurnBlockPayload (if has r ''truncated'' then currentVersion else 5) v (js ''$''))"

end
