(* ===== verification/ContractEvents.thy ===== *)
theory ContractEvents
  imports ContractBlocks
begin

text \<open>
  Provider events of extensions/agent/shared/provider-runtime.ts: the scopes
  (\<^verbatim>\<open>parseProviderEventScope\<close>), the native reference of an envelope with its position, subject
  and timeline, and the 22 event types of \<^verbatim>\<open>parseProviderEvent\<close>.
\<close>

subsection \<open>Scopes\<close>

datatype ScopeKind = AccountKind | ConversationKind | TurnKind | ExecutionKind

fun scopeKindName :: "ScopeKind \<Rightarrow> string" where
  "scopeKindName AccountKind = ''account''"
| "scopeKindName ConversationKind = ''conversation''"
| "scopeKindName TurnKind = ''turn''"
| "scopeKindName ExecutionKind = ''execution''"

text \<open>Provider instance, conversation, execution; then turn, or parent execution and root turn.\<close>

datatype ProviderEventScope =
    AccountScope jsstring
  | ConversationScope jsstring jsstring jsstring
  | TurnScope jsstring jsstring jsstring jsstring
  | ExecutionScope jsstring jsstring jsstring "jsstring option" "jsstring option"

fun scopeKind :: "ProviderEventScope \<Rightarrow> ScopeKind" where
  "scopeKind (AccountScope i) = AccountKind"
| "scopeKind (ConversationScope i c e) = ConversationKind"
| "scopeKind (TurnScope i c e t) = TurnKind"
| "scopeKind (ExecutionScope i c e p t) = ExecutionKind"

fun scopeOf :: "ScopeKind \<Rightarrow> jsrecord \<Rightarrow> jsstring \<Rightarrow> ProviderEventScope res" where
  "scopeOf AccountKind r path =
     ebind (assertExactKeys r path [''kind'', ''providerInstanceId'']) (\<lambda>_.
     ebind (parseIdentifier (fld r ''providerInstanceId'') (dot path ''providerInstanceId'')) (\<lambda>i.
     Inr (AccountScope i)))"
| "scopeOf ConversationKind r path =
     ebind (assertExactKeys r path
       [''kind'', ''providerInstanceId'', ''conversationId'', ''executionId'']) (\<lambda>_.
     ebind (parseIdentifier (fld r ''providerInstanceId'') (dot path ''providerInstanceId'')) (\<lambda>i.
     ebind (parseIdentifier (fld r ''conversationId'') (dot path ''conversationId'')) (\<lambda>c.
     ebind (parseIdentifier (fld r ''executionId'') (dot path ''executionId'')) (\<lambda>e.
     Inr (ConversationScope i c e)))))"
| "scopeOf TurnKind r path =
     ebind (assertExactKeys r path
       [''kind'', ''providerInstanceId'', ''conversationId'', ''executionId'', ''turnId'']) (\<lambda>_.
     ebind (parseIdentifier (fld r ''providerInstanceId'') (dot path ''providerInstanceId'')) (\<lambda>i.
     ebind (parseIdentifier (fld r ''conversationId'') (dot path ''conversationId'')) (\<lambda>c.
     ebind (parseIdentifier (fld r ''executionId'') (dot path ''executionId'')) (\<lambda>e.
     ebind (parseIdentifier (fld r ''turnId'') (dot path ''turnId'')) (\<lambda>t.
     Inr (TurnScope i c e t))))))"
| "scopeOf ExecutionKind r path =
     ebind (assertAllowedKeys r path
       [''kind'', ''providerInstanceId'', ''conversationId'', ''executionId'',
        ''parentExecutionId'', ''rootTurnId'']) (\<lambda>_.
     ebind (requireKeys r path [''providerInstanceId'', ''conversationId'', ''executionId'']) (\<lambda>_.
     ebind (parseIdentifier (fld r ''providerInstanceId'') (dot path ''providerInstanceId'')) (\<lambda>i.
     ebind (parseIdentifier (fld r ''conversationId'') (dot path ''conversationId'')) (\<lambda>c.
     ebind (parseIdentifier (fld r ''executionId'') (dot path ''executionId'')) (\<lambda>e.
     ebind (optionally parseIdentifier (fld r ''parentExecutionId'')
       (dot path ''parentExecutionId'')) (\<lambda>p.
     ebind (optionally parseIdentifier (fld r ''rootTurnId'') (dot path ''rootTurnId'')) (\<lambda>t.
     Inr (ExecutionScope i c e p t))))))))"

definition parseProviderEventScope :: "jsval \<Rightarrow> jsstring \<Rightarrow> ProviderEventScope res" where
  "parseProviderEventScope v path =
     ebind (recordValue v path) (\<lambda>r.
     ebind (oneOf scopeKindName [AccountKind, ConversationKind, TurnKind, ExecutionKind]
       (fld r ''kind'') (dot path ''kind'')) (\<lambda>kind. scopeOf kind r path))"

fun scopeMembers :: "ProviderEventScope \<Rightarrow> (string \<times> jsval option) list" where
  "scopeMembers (AccountScope i) = [(''providerInstanceId'', Some (JString i))]"
| "scopeMembers (ConversationScope i c e) =
     [(''providerInstanceId'', Some (JString i)), (''conversationId'', Some (JString c)),
      (''executionId'', Some (JString e))]"
| "scopeMembers (TurnScope i c e t) =
     [(''providerInstanceId'', Some (JString i)), (''conversationId'', Some (JString c)),
      (''executionId'', Some (JString e)), (''turnId'', Some (JString t))]"
| "scopeMembers (ExecutionScope i c e p t) =
     [(''providerInstanceId'', Some (JString i)), (''conversationId'', Some (JString c)),
      (''executionId'', Some (JString e)), (''parentExecutionId'', map_option JString p),
      (''rootTurnId'', map_option JString t)]"

definition encodeScope :: "ProviderEventScope \<Rightarrow> jsval" where
  "encodeScope s = objectOf ((''kind'', Some (nameVal scopeKindName (scopeKind s))) # scopeMembers s)"

lemma scopeKind_reads [simp]:
  "oneOf scopeKindName [AccountKind, ConversationKind, TurnKind, ExecutionKind]
     (nameVal scopeKindName k) p = Inr k"
  by (cases k) (simp_all add: oneOf_eq_Inr)

lemma blames_scopeOf [blame_intros]: "prefix q p \<Longrightarrow> blames q (scopeOf k r p)"
  by (cases k) (auto intro!: blame_intros)

lemma reparse_scope: "scopeOf k r p = Inr s \<Longrightarrow> parseProviderEventScope (encodeScope s) q = Inr s"
  by (cases k) (auto simp: parseProviderEventScope_def encodeScope_def dest!: reparse_dests)

interpretation parseProviderEventScope: contract_codec parseProviderEventScope encodeScope
proof
  show "blames p (parseProviderEventScope v p)" for v p
    unfolding parseProviderEventScope_def by (intro blame_intros) simp_all
  show "parseProviderEventScope v p = Inr s \<Longrightarrow> parseProviderEventScope (encodeScope s) q = Inr s"
    for v p s q by (subst (asm) parseProviderEventScope_def) (auto intro: reparse_scope)
qed (simp add: encodeScope_def)

subsection \<open>Native references\<close>

datatype NativePosition =
    NativeSequence nat nat
  | MessageBlock jsstring nat nat
  | SnapshotIndex nat nat

datatype PositionKind = SequencePosition | BlockPosition | IndexPosition

fun positionKindName :: "PositionKind \<Rightarrow> string" where
  "positionKindName SequencePosition = ''native-sequence''"
| "positionKindName BlockPosition = ''message-block''"
| "positionKindName IndexPosition = ''snapshot-index''"

fun positionOf :: "PositionKind \<Rightarrow> jsrecord \<Rightarrow> jsstring \<Rightarrow> NativePosition res" where
  "positionOf SequencePosition r path =
     ebind (assertExactKeys r path [''kind'', ''sequence'', ''subIndex'']) (\<lambda>_.
     ebind (nonnegativeInteger (fld r ''sequence'') (dot path ''sequence'')) (\<lambda>n.
     ebind (nonnegativeInteger (fld r ''subIndex'') (dot path ''subIndex'')) (\<lambda>i.
     Inr (NativeSequence n i))))"
| "positionOf BlockPosition r path =
     ebind (assertExactKeys r path [''kind'', ''messageId'', ''blockIndex'', ''subIndex'']) (\<lambda>_.
     ebind (parseIdentifier (fld r ''messageId'') (dot path ''messageId'')) (\<lambda>m.
     ebind (nonnegativeInteger (fld r ''blockIndex'') (dot path ''blockIndex'')) (\<lambda>b.
     ebind (nonnegativeInteger (fld r ''subIndex'') (dot path ''subIndex'')) (\<lambda>i.
     Inr (MessageBlock m b i)))))"
| "positionOf IndexPosition r path =
     ebind (assertExactKeys r path [''kind'', ''itemIndex'', ''subIndex'']) (\<lambda>_.
     ebind (nonnegativeInteger (fld r ''itemIndex'') (dot path ''itemIndex'')) (\<lambda>n.
     ebind (nonnegativeInteger (fld r ''subIndex'') (dot path ''subIndex'')) (\<lambda>i.
     Inr (SnapshotIndex n i))))"

definition parseNativePosition :: "jsval \<Rightarrow> jsstring \<Rightarrow> NativePosition res" where
  "parseNativePosition v path =
     ebind (recordValue v path) (\<lambda>r.
     ebind (oneOf positionKindName [SequencePosition, BlockPosition, IndexPosition]
       (fld r ''kind'') (dot path ''kind'')) (\<lambda>kind. positionOf kind r path))"

fun encodePosition :: "NativePosition \<Rightarrow> jsval" where
  "encodePosition (NativeSequence n i) = objectOf
     [(''kind'', Some (nameVal positionKindName SequencePosition)),
      (''sequence'', Some (natVal n)), (''subIndex'', Some (natVal i))]"
| "encodePosition (MessageBlock m b i) = objectOf
     [(''kind'', Some (nameVal positionKindName BlockPosition)),
      (''messageId'', Some (JString m)), (''blockIndex'', Some (natVal b)),
      (''subIndex'', Some (natVal i))]"
| "encodePosition (SnapshotIndex n i) = objectOf
     [(''kind'', Some (nameVal positionKindName IndexPosition)),
      (''itemIndex'', Some (natVal n)), (''subIndex'', Some (natVal i))]"

lemma positionKind_reads [simp]:
  "oneOf positionKindName [SequencePosition, BlockPosition, IndexPosition]
     (nameVal positionKindName k) p = Inr k"
  by (cases k) (simp_all add: oneOf_eq_Inr)

lemma blames_positionOf [blame_intros]: "prefix q p \<Longrightarrow> blames q (positionOf k r p)"
  by (cases k) (auto intro!: blame_intros)

lemma reparse_position: "positionOf k r p = Inr x \<Longrightarrow> parseNativePosition (encodePosition x) q = Inr x"
  by (cases k) (auto simp: parseNativePosition_def dest!: reparse_dests)

interpretation parseNativePosition: contract_codec parseNativePosition encodePosition
proof
  show "blames p (parseNativePosition v p)" for v p
    unfolding parseNativePosition_def by (intro blame_intros) simp_all
  show "parseNativePosition v p = Inr x \<Longrightarrow> parseNativePosition (encodePosition x) q = Inr x"
    for v p x q by (subst (asm) parseNativePosition_def) (auto intro: reparse_position)
  show "encodePosition x \<noteq> JUndefined" for x
    by (cases x) simp_all
qed

record NativeProviderSubject =
  subjectKind :: jsstring
  subjectKey :: jsstring

definition parseNativeProviderSubject :: "jsval \<Rightarrow> jsstring \<Rightarrow> NativeProviderSubject res" where
  "parseNativeProviderSubject v path =
     ebind (strictRecord v path [''kind'', ''key''] []) (\<lambda>r.
     ebind (boundedString stringChars (fld r ''kind'') (dot path ''kind'')) (\<lambda>kind.
     ebind (parseIdentifier (fld r ''key'') (dot path ''key'')) (\<lambda>key.
     Inr \<lparr>subjectKind = kind, subjectKey = key\<rparr>)))"

definition encodeSubject :: "NativeProviderSubject \<Rightarrow> jsval" where
  "encodeSubject s = objectOf
     [(''kind'', Some (JString (subjectKind s))), (''key'', Some (JString (subjectKey s)))]"

record NativeTimelineBoundary =
  previousTurnId :: "jsstring option"
  nextTurnId :: "jsstring option"

definition parseNativeTimelineBoundary :: "jsval \<Rightarrow> jsstring \<Rightarrow> NativeTimelineBoundary res" where
  "parseNativeTimelineBoundary v path =
     ebind (strictRecord v path [''previousTurnId'', ''nextTurnId'']
       [''previousTurnId'', ''nextTurnId'']) (\<lambda>r.
     if fld r ''previousTurnId'' = JUndefined \<and> fld r ''nextTurnId'' = JUndefined
     then fail path (js ''must include previousTurnId or nextTurnId'') else
     ebind (optionally parseIdentifier (fld r ''previousTurnId'') (dot path ''previousTurnId'')) (\<lambda>p.
     ebind (optionally parseIdentifier (fld r ''nextTurnId'') (dot path ''nextTurnId'')) (\<lambda>n.
     Inr \<lparr>previousTurnId = p, nextTurnId = n\<rparr>)))"

definition encodeTimeline :: "NativeTimelineBoundary \<Rightarrow> jsval" where
  "encodeTimeline t = objectOf
     [(''previousTurnId'', map_option JString (previousTurnId t)),
      (''nextTurnId'', map_option JString (nextTurnId t))]"

interpretation parseNativeProviderSubject: contract_codec parseNativeProviderSubject encodeSubject
  by unfold_locales
    (auto simp: parseNativeProviderSubject_def encodeSubject_def intro!: blame_intros
       dest!: reparse_dests)

lemma optionally_eq_None: "optionally f v p = Inr None \<longleftrightarrow> v = JUndefined"
  by (auto simp: optionally_def)

interpretation parseNativeTimelineBoundary:
  contract_codec parseNativeTimelineBoundary encodeTimeline
proof
  show "blames p (parseNativeTimelineBoundary v p)" for v p
    unfolding parseNativeTimelineBoundary_def by (intro blame_intros) simp_all
  show "encodeTimeline x \<noteq> JUndefined" for x
    by (simp add: encodeTimeline_def)
  show "parseNativeTimelineBoundary (encodeTimeline x) q = Inr x"
    if "parseNativeTimelineBoundary v p = Inr x" for v p x q
  proof -
    from that have "previousTurnId x \<noteq> None \<or> nextTurnId x \<noteq> None"
      by (auto simp: parseNativeTimelineBoundary_def optionally_eq_None)
    with that show ?thesis
      by (auto simp: parseNativeTimelineBoundary_def encodeTimeline_def dest!: reparse_dests)
  qed
qed

record NativeReference =
  nativeSessionId :: "jsstring option"
  nativeTurnId :: "jsstring option"
  nativeMessageId :: "jsstring option"
  nativeItemId :: "jsstring option"
  nativeToolCallId :: "jsstring option"
  nativePosition :: "NativePosition option"
  nativeSubject :: "NativeProviderSubject option"
  nativeTimeline :: "NativeTimelineBoundary option"
  nativeKind :: jsstring

text \<open>The members of \<^verbatim>\<open>native\<close>, once its keys are checked.\<close>

definition nativeFields :: "jsrecord \<Rightarrow> jsstring \<Rightarrow> NativeReference res" where
  "nativeFields r path =
     ebind (optionally parseIdentifier (fld r ''sessionId'') (dot path ''sessionId'')) (\<lambda>sid.
     ebind (optionally parseIdentifier (fld r ''turnId'') (dot path ''turnId'')) (\<lambda>tid.
     ebind (optionally parseIdentifier (fld r ''messageId'') (dot path ''messageId'')) (\<lambda>mid.
     ebind (optionally parseIdentifier (fld r ''itemId'') (dot path ''itemId'')) (\<lambda>iid.
     ebind (optionally parseIdentifier (fld r ''toolCallId'') (dot path ''toolCallId'')) (\<lambda>cid.
     ebind (optionally parseNativePosition (fld r ''position'') (dot path ''position'')) (\<lambda>pos.
     ebind (optionally parseNativeProviderSubject (fld r ''subject'') (dot path ''subject'')) (\<lambda>sub.
     ebind (optionally parseNativeTimelineBoundary (fld r ''timeline'') (dot path ''timeline'')) (\<lambda>tl.
     ebind (boundedString stringChars (fld r ''kind'') (dot path ''kind'')) (\<lambda>kind.
     Inr \<lparr>nativeSessionId = sid, nativeTurnId = tid, nativeMessageId = mid, nativeItemId = iid,
          nativeToolCallId = cid, nativePosition = pos, nativeSubject = sub, nativeTimeline = tl,
          nativeKind = kind\<rparr>)))))))))"

definition nativeMembers :: "NativeReference \<Rightarrow> (string \<times> jsval option) list" where
  "nativeMembers n =
     [(''sessionId'', map_option JString (nativeSessionId n)),
      (''turnId'', map_option JString (nativeTurnId n)),
      (''messageId'', map_option JString (nativeMessageId n)),
      (''itemId'', map_option JString (nativeItemId n)),
      (''toolCallId'', map_option JString (nativeToolCallId n)),
      (''position'', map_option encodePosition (nativePosition n)),
      (''subject'', map_option encodeSubject (nativeSubject n)),
      (''timeline'', map_option encodeTimeline (nativeTimeline n)),
      (''kind'', Some (JString (nativeKind n)))]"

lemma blames_nativeFields [blame_intros]: "prefix q p \<Longrightarrow> blames q (nativeFields r p)"
  unfolding nativeFields_def by (intro blame_intros) simp_all

lemma reparse_nativeFields:
  "nativeFields r p = Inr n \<Longrightarrow> nativeFields (members (nativeMembers n)) q = Inr n"
  by (auto simp: nativeFields_def nativeMembers_def dest!: reparse_dests)

subsection \<open>Events\<close>

datatype EventType =
    SessionBoundType | SessionMaterializedType | SessionHealthType | TurnStartedType
  | TurnStatusType | TurnCompletedType | UserMessageType | BlockStartedType | BlockRevisedType
  | BlockCompletedType | FileChangedType | UsageUpdatedType | BranchPointType
  | CompactionStartedType | CompactionCompletedType | CompactionFailedType
  | AccountUsageUpdatedType | ExecutionStartedType | ExecutionStatusType
  | ExecutionSummaryType | ExecutionCompletedType | CompatibilityNoticeType

fun eventTypeName :: "EventType \<Rightarrow> string" where
  "eventTypeName SessionBoundType = ''session.bound''"
| "eventTypeName SessionMaterializedType = ''session.materialized''"
| "eventTypeName SessionHealthType = ''session.health''"
| "eventTypeName TurnStartedType = ''turn.started''"
| "eventTypeName TurnStatusType = ''turn.status''"
| "eventTypeName TurnCompletedType = ''turn.completed''"
| "eventTypeName UserMessageType = ''user.message''"
| "eventTypeName BlockStartedType = ''turn.block.started''"
| "eventTypeName BlockRevisedType = ''turn.block.revised''"
| "eventTypeName BlockCompletedType = ''turn.block.completed''"
| "eventTypeName FileChangedType = ''turn.file-changed''"
| "eventTypeName UsageUpdatedType = ''turn.usage-updated''"
| "eventTypeName BranchPointType = ''turn.branch-point''"
| "eventTypeName CompactionStartedType = ''context.compaction.started''"
| "eventTypeName CompactionCompletedType = ''context.compaction.completed''"
| "eventTypeName CompactionFailedType = ''context.compaction.failed''"
| "eventTypeName AccountUsageUpdatedType = ''account.usage-updated''"
| "eventTypeName ExecutionStartedType = ''execution.started''"
| "eventTypeName ExecutionStatusType = ''execution.status''"
| "eventTypeName ExecutionSummaryType = ''execution.summary''"
| "eventTypeName ExecutionCompletedType = ''execution.completed''"
| "eventTypeName CompatibilityNoticeType = ''compatibility.notice''"

definition eventTypes :: "EventType list" where
  "eventTypes =
     [SessionBoundType, SessionMaterializedType, SessionHealthType, TurnStartedType,
      TurnStatusType, TurnCompletedType, UserMessageType, BlockStartedType, BlockRevisedType,
      BlockCompletedType, FileChangedType, UsageUpdatedType, BranchPointType,
      CompactionStartedType, CompactionCompletedType, CompactionFailedType,
      AccountUsageUpdatedType, ExecutionStartedType, ExecutionStatusType,
      ExecutionSummaryType, ExecutionCompletedType, CompatibilityNoticeType]"

datatype SessionHealth = HealthReady | HealthRecovering | HealthLost

fun sessionHealthName :: "SessionHealth \<Rightarrow> string" where
  "sessionHealthName HealthReady = ''ready''"
| "sessionHealthName HealthRecovering = ''recovering''"
| "sessionHealthName HealthLost = ''lost''"

datatype TurnStatus = StatusRunning | StatusRecovering | StatusIdle

fun turnStatusName :: "TurnStatus \<Rightarrow> string" where
  "turnStatusName StatusRunning = ''running''"
| "turnStatusName StatusRecovering = ''recovering''"
| "turnStatusName StatusIdle = ''idle''"

datatype TurnStartOrigin = NativeOrigin

fun turnStartOriginName :: "TurnStartOrigin \<Rightarrow> string" where
  "turnStartOriginName NativeOrigin = ''native''"

datatype CompactionTrigger = ManualCompaction | AutomaticCompaction

fun compactionTriggerName :: "CompactionTrigger \<Rightarrow> string" where
  "compactionTriggerName ManualCompaction = ''manual''"
| "compactionTriggerName AutomaticCompaction = ''automatic''"

definition compactionTrigger :: "jsval \<Rightarrow> jsstring \<Rightarrow> CompactionTrigger res" where
  "compactionTrigger = oneOf compactionTriggerName [ManualCompaction, AutomaticCompaction]"

interpretation compactionTrigger: contract_codec compactionTrigger "nameVal compactionTriggerName"
  unfolding compactionTrigger_def by unfold_locales

datatype ProviderEvent =
    SessionBound bool
  | SessionMaterialized
  | SessionHealthEvent SessionHealth "jsstring option"
  | TurnStarted "TurnStartOrigin option" "TurnTrigger option" "TurnTrigger list option"
  | TurnStatusEvent TurnStatus
  | TurnCompletedEvent ProviderTurnOutcome "DisplayError option"
  | UserMessage "UserContentPart list"
  | TurnBlockStarted TurnStructure TurnBlockSnapshot
  | TurnBlockRevised TurnStructure nat jsstring TurnBlockSnapshot
  | TurnBlockCompleted TurnStructure nat jsstring TurnBlockSnapshot
  | TurnFileChanged ProviderFileChange "jsstring option"
  | TurnUsageUpdated UsageDisplay
  | TurnBranchPoint jsval nat
  | CompactionStarted CompactionTrigger jsstring "nat option"
  | CompactionCompleted CompactionTrigger jsstring "nat option" "nat option"
  | CompactionFailed CompactionTrigger jsstring DisplayError
  | AccountUsageUpdated ProviderAccountUsage
  | ExecutionStarted ChildExecutionDisplay
  | ExecutionStatus jsstring ProviderExecutionState
  | ExecutionSummary jsstring jsstring
  | ExecutionCompleted jsstring ProviderTurnOutcome
  | CompatibilityNotice jsstring jsstring

fun eventTypeOf :: "ProviderEvent \<Rightarrow> EventType" where
  "eventTypeOf (SessionBound b) = SessionBoundType"
| "eventTypeOf SessionMaterialized = SessionMaterializedType"
| "eventTypeOf (SessionHealthEvent st m) = SessionHealthType"
| "eventTypeOf (TurnStarted origin t ts) = TurnStartedType"
| "eventTypeOf (TurnStatusEvent st) = TurnStatusType"
| "eventTypeOf (TurnCompletedEvent out err) = TurnCompletedType"
| "eventTypeOf (UserMessage c) = UserMessageType"
| "eventTypeOf (TurnBlockStarted s b) = BlockStartedType"
| "eventTypeOf (TurnBlockRevised s n h b) = BlockRevisedType"
| "eventTypeOf (TurnBlockCompleted s n h b) = BlockCompletedType"
| "eventTypeOf (TurnFileChanged c b) = FileChangedType"
| "eventTypeOf (TurnUsageUpdated u) = UsageUpdatedType"
| "eventTypeOf (TurnBranchPoint c v) = BranchPointType"
| "eventTypeOf (CompactionStarted t i b) = CompactionStartedType"
| "eventTypeOf (CompactionCompleted t i b a) = CompactionCompletedType"
| "eventTypeOf (CompactionFailed t i err) = CompactionFailedType"
| "eventTypeOf (AccountUsageUpdated u) = AccountUsageUpdatedType"
| "eventTypeOf (ExecutionStarted c) = ExecutionStartedType"
| "eventTypeOf (ExecutionStatus c st) = ExecutionStatusType"
| "eventTypeOf (ExecutionSummary c m) = ExecutionSummaryType"
| "eventTypeOf (ExecutionCompleted c out) = ExecutionCompletedType"
| "eventTypeOf (CompatibilityNotice c m) = CompatibilityNoticeType"

text \<open>
  The branch of \<^verbatim>\<open>parseProviderEvent\<close> for each type.  In \<^verbatim>\<open>turn.started\<close> a missing
  \<^verbatim>\<open>trigger\<close> is the first of \<^verbatim>\<open>triggers\<close>, and both together must agree as JSON text.
\<close>

definition triggerText :: "TurnTrigger option \<Rightarrow> jsstring option" where
  "triggerText t = (case t of None \<Rightarrow> None | Some x \<Rightarrow> json_text (encodeTurnTrigger x))"

definition turnStartedOf :: "jsrecord \<Rightarrow> jsstring \<Rightarrow> ProviderEvent res" where
  "turnStartedOf r path =
     ebind (assertAllowedKeys r path [''type'', ''origin'', ''trigger'', ''triggers'']) (\<lambda>_.
     ebind (optionally parseTurnTriggers (fld r ''triggers'') (dot path ''triggers'')) (\<lambda>triggers.
     ebind (optionally parseTurnTrigger (fld r ''trigger'') (dot path ''trigger'')) (\<lambda>given.
     let trigger = (if given = None then map_option hd triggers else given) in
     if triggers \<noteq> None \<and> triggerText trigger \<noteq> triggerText (map_option hd triggers)
     then fail (dot path ''trigger'') (js ''must equal triggers[0]'') else
     ebind (optionally (oneOf turnStartOriginName [NativeOrigin])
       (fld r ''origin'') (dot path ''origin'')) (\<lambda>origin.
     Inr (TurnStarted origin trigger triggers)))))"

fun eventOf :: "nat \<Rightarrow> EventType \<Rightarrow> jsrecord \<Rightarrow> jsstring \<Rightarrow> ProviderEvent res" where
  "eventOf version SessionBoundType r path =
     ebind (assertExactKeys r path [''type'', ''resumed'']) (\<lambda>_.
     ebind (parseBool (fld r ''resumed'') (dot path ''resumed'')) (\<lambda>b. Inr (SessionBound b)))"
| "eventOf version SessionMaterializedType r path =
     ebind (assertExactKeys r path [''type'']) (\<lambda>_. Inr SessionMaterialized)"
| "eventOf version SessionHealthType r path =
     ebind (assertAllowedKeys r path [''type'', ''state'', ''message'']) (\<lambda>_.
     ebind (oneOf sessionHealthName [HealthReady, HealthRecovering, HealthLost]
       (fld r ''state'') (dot path ''state'')) (\<lambda>state.
     ebind (optionally (boundedString stringChars) (fld r ''message'') (dot path ''message'')) (\<lambda>m.
     Inr (SessionHealthEvent state m))))"
| "eventOf version TurnStartedType r path = turnStartedOf r path"
| "eventOf version TurnStatusType r path =
     ebind (assertExactKeys r path [''type'', ''state'']) (\<lambda>_.
     ebind (oneOf turnStatusName [StatusRunning, StatusRecovering, StatusIdle]
       (fld r ''state'') (dot path ''state'')) (\<lambda>state. Inr (TurnStatusEvent state)))"
| "eventOf version TurnCompletedType r path =
     ebind (assertAllowedKeys r path [''type'', ''outcome'', ''error'']) (\<lambda>_.
     ebind (turnOutcome (fld r ''outcome'') (dot path ''outcome'')) (\<lambda>out.
     ebind (optionally parseDisplayError (fld r ''error'') (dot path ''error'')) (\<lambda>err.
     Inr (TurnCompletedEvent out err))))"
| "eventOf version UserMessageType r path =
     ebind (assertExactKeys r path [''type'', ''content'']) (\<lambda>_.
     ebind (parseUserContentParts (fld r ''content'') (dot path ''content'')) (\<lambda>content.
     Inr (UserMessage content)))"
| "eventOf version BlockStartedType r path =
     ebind (assertExactKeys r path [''type'', ''structure'', ''block'']) (\<lambda>_.
     ebind (parseTurnStructure (fld r ''structure'') (dot path ''structure'')) (\<lambda>s.
     ebind (parseTurnBlockSnapshot version (fld r ''block'') (dot path ''block'')) (\<lambda>b.
     Inr (TurnBlockStarted s b))))"
| "eventOf version BlockRevisedType r path =
     ebind (assertExactKeys r path
       [''type'', ''structure'', ''revision'', ''contentHash'', ''block'']) (\<lambda>_.
     ebind (parseTurnStructure (fld r ''structure'') (dot path ''structure'')) (\<lambda>s.
     ebind (nonnegativeInteger (fld r ''revision'') (dot path ''revision'')) (\<lambda>n.
     ebind (sha256 (fld r ''contentHash'') (dot path ''contentHash'')) (\<lambda>h.
     ebind (parseTurnBlockSnapshot version (fld r ''block'') (dot path ''block'')) (\<lambda>b.
     Inr (TurnBlockRevised s n h b))))))"
| "eventOf version BlockCompletedType r path =
     ebind (assertExactKeys r path
       [''type'', ''structure'', ''revision'', ''contentHash'', ''block'']) (\<lambda>_.
     ebind (parseTurnStructure (fld r ''structure'') (dot path ''structure'')) (\<lambda>s.
     ebind (nonnegativeInteger (fld r ''revision'') (dot path ''revision'')) (\<lambda>n.
     ebind (sha256 (fld r ''contentHash'') (dot path ''contentHash'')) (\<lambda>h.
     ebind (parseTurnBlockSnapshot version (fld r ''block'') (dot path ''block'')) (\<lambda>b.
     Inr (TurnBlockCompleted s n h b))))))"
| "eventOf version FileChangedType r path =
     ebind (assertAllowedKeys r path [''type'', ''change'', ''blockId'']) (\<lambda>_.
     ebind (parseFileChange (fld r ''change'') (dot path ''change'')) (\<lambda>c.
     ebind (optionally parseIdentifier (fld r ''blockId'') (dot path ''blockId'')) (\<lambda>b.
     Inr (TurnFileChanged c b))))"
| "eventOf version UsageUpdatedType r path =
     ebind (assertExactKeys r path [''type'', ''usage'']) (\<lambda>_.
     ebind (parseUsage (fld r ''usage'') (dot path ''usage'')) (\<lambda>u. Inr (TurnUsageUpdated u)))"
| "eventOf version BranchPointType r path =
     ebind (assertExactKeys r path [''type'', ''cursor'', ''cursorVersion'']) (\<lambda>_.
     ebind (jsonRoot (fld r ''cursor'') (dot path ''cursor'')) (\<lambda>c.
     ebind (positiveInteger (fld r ''cursorVersion'') (dot path ''cursorVersion'')) (\<lambda>n.
     Inr (TurnBranchPoint c n))))"
| "eventOf version CompactionStartedType r path =
     ebind (assertExactKeys r path [''type'', ''trigger'', ''operationId'', ''beforeTokens'']) (\<lambda>_.
     ebind (compactionTrigger (fld r ''trigger'') (dot path ''trigger'')) (\<lambda>t.
     ebind (parseIdentifier (fld r ''operationId'') (dot path ''operationId'')) (\<lambda>i.
     ebind (nullableNonnegativeInteger (fld r ''beforeTokens'') (dot path ''beforeTokens'')) (\<lambda>b.
     Inr (CompactionStarted t i b)))))"
| "eventOf version CompactionCompletedType r path =
     ebind (assertExactKeys r path
       [''type'', ''trigger'', ''operationId'', ''beforeTokens'', ''afterTokens'']) (\<lambda>_.
     ebind (compactionTrigger (fld r ''trigger'') (dot path ''trigger'')) (\<lambda>t.
     ebind (parseIdentifier (fld r ''operationId'') (dot path ''operationId'')) (\<lambda>i.
     ebind (nullableNonnegativeInteger (fld r ''beforeTokens'') (dot path ''beforeTokens'')) (\<lambda>b.
     ebind (nullableNonnegativeInteger (fld r ''afterTokens'') (dot path ''afterTokens'')) (\<lambda>a.
     Inr (CompactionCompleted t i b a))))))"
| "eventOf version CompactionFailedType r path =
     ebind (assertExactKeys r path [''type'', ''trigger'', ''operationId'', ''error'']) (\<lambda>_.
     ebind (compactionTrigger (fld r ''trigger'') (dot path ''trigger'')) (\<lambda>t.
     ebind (parseIdentifier (fld r ''operationId'') (dot path ''operationId'')) (\<lambda>i.
     ebind (parseDisplayError (fld r ''error'') (dot path ''error'')) (\<lambda>err.
     Inr (CompactionFailed t i err)))))"
| "eventOf version AccountUsageUpdatedType r path =
     ebind (assertExactKeys r path [''type'', ''usage'']) (\<lambda>_.
     ebind (parseProviderAccountUsage (fld r ''usage'') (dot path ''usage'')) (\<lambda>u.
     Inr (AccountUsageUpdated u)))"
| "eventOf version ExecutionStartedType r path =
     ebind (assertExactKeys r path [''type'', ''child'']) (\<lambda>_.
     ebind (parseChild (fld r ''child'') (dot path ''child'')) (\<lambda>c. Inr (ExecutionStarted c)))"
| "eventOf version ExecutionStatusType r path =
     ebind (assertExactKeys r path [''type'', ''childExecutionId'', ''state'']) (\<lambda>_.
     ebind (parseIdentifier (fld r ''childExecutionId'') (dot path ''childExecutionId'')) (\<lambda>c.
     ebind (executionState (fld r ''state'') (dot path ''state'')) (\<lambda>state.
     Inr (ExecutionStatus c state))))"
| "eventOf version ExecutionSummaryType r path =
     ebind (assertExactKeys r path [''type'', ''childExecutionId'', ''summary'']) (\<lambda>_.
     ebind (parseIdentifier (fld r ''childExecutionId'') (dot path ''childExecutionId'')) (\<lambda>c.
     ebind (boundedString messageChars (fld r ''summary'') (dot path ''summary'')) (\<lambda>m.
     Inr (ExecutionSummary c m))))"
| "eventOf version ExecutionCompletedType r path =
     ebind (assertExactKeys r path [''type'', ''childExecutionId'', ''outcome'']) (\<lambda>_.
     ebind (parseIdentifier (fld r ''childExecutionId'') (dot path ''childExecutionId'')) (\<lambda>c.
     ebind (turnOutcome (fld r ''outcome'') (dot path ''outcome'')) (\<lambda>out.
     Inr (ExecutionCompleted c out))))"
| "eventOf version CompatibilityNoticeType r path =
     ebind (assertExactKeys r path [''type'', ''code'', ''message'']) (\<lambda>_.
     ebind (parseIdentifier (fld r ''code'') (dot path ''code'')) (\<lambda>c.
     ebind (boundedString stringChars (fld r ''message'') (dot path ''message'')) (\<lambda>m.
     Inr (CompatibilityNotice c m))))"

definition parseProviderEvent :: "nat \<Rightarrow> jsval \<Rightarrow> jsstring \<Rightarrow> ProviderEvent res" where
  "parseProviderEvent version v path =
     ebind (recordValue v path) (\<lambda>r.
     ebind (boundedString 128 (fld r ''type'') (dot path ''type'')) (\<lambda>type.
     case find (\<lambda>t. js (eventTypeName t) = type) eventTypes of
       Some t \<Rightarrow> eventOf version t r path
     | None \<Rightarrow> fail (dot path ''type'') (js ''unsupported provider event '' @ json_quote type)))"

fun eventMembers :: "ProviderEvent \<Rightarrow> (string \<times> jsval option) list" where
  "eventMembers (SessionBound b) = [(''resumed'', Some (JBool b))]"
| "eventMembers SessionMaterialized = []"
| "eventMembers (SessionHealthEvent st m) =
     [(''state'', Some (nameVal sessionHealthName st)), (''message'', map_option JString m)]"
| "eventMembers (TurnStarted origin t ts) =
     [(''origin'', map_option (nameVal turnStartOriginName) origin),
      (''trigger'', map_option encodeTurnTrigger t),
      (''triggers'', map_option (\<lambda>xs. JArray (map encodeTurnTrigger xs)) ts)]"
| "eventMembers (TurnStatusEvent st) = [(''state'', Some (nameVal turnStatusName st))]"
| "eventMembers (TurnCompletedEvent out err) =
     [(''outcome'', Some (nameVal turnOutcomeName out)), (''error'', map_option encodeDisplayError err)]"
| "eventMembers (UserMessage c) = [(''content'', Some (JArray (map encodeContentPart c)))]"
| "eventMembers (TurnBlockStarted s b) =
     [(''structure'', Some (encodeTurnStructure s)), (''block'', Some (encodeTurnBlockSnapshot b))]"
| "eventMembers (TurnBlockRevised s n h b) =
     [(''structure'', Some (encodeTurnStructure s)), (''revision'', Some (natVal n)),
      (''contentHash'', Some (JString h)), (''block'', Some (encodeTurnBlockSnapshot b))]"
| "eventMembers (TurnBlockCompleted s n h b) =
     [(''structure'', Some (encodeTurnStructure s)), (''revision'', Some (natVal n)),
      (''contentHash'', Some (JString h)), (''block'', Some (encodeTurnBlockSnapshot b))]"
| "eventMembers (TurnFileChanged c b) =
     [(''change'', Some (encodeFileChange c)), (''blockId'', map_option JString b)]"
| "eventMembers (TurnUsageUpdated u) = [(''usage'', Some (encodeUsage u))]"
| "eventMembers (TurnBranchPoint c n) =
     [(''cursor'', Some c), (''cursorVersion'', Some (natVal n))]"
| "eventMembers (CompactionStarted t i b) =
     [(''trigger'', Some (nameVal compactionTriggerName t)), (''operationId'', Some (JString i)),
      (''beforeTokens'', Some (orNull natVal b))]"
| "eventMembers (CompactionCompleted t i b a) =
     [(''trigger'', Some (nameVal compactionTriggerName t)), (''operationId'', Some (JString i)),
      (''beforeTokens'', Some (orNull natVal b)), (''afterTokens'', Some (orNull natVal a))]"
| "eventMembers (CompactionFailed t i err) =
     [(''trigger'', Some (nameVal compactionTriggerName t)), (''operationId'', Some (JString i)),
      (''error'', Some (encodeDisplayError err))]"
| "eventMembers (AccountUsageUpdated u) = [(''usage'', Some (encodeProviderAccountUsage u))]"
| "eventMembers (ExecutionStarted c) = [(''child'', Some (encodeChild c))]"
| "eventMembers (ExecutionStatus c st) =
     [(''childExecutionId'', Some (JString c)), (''state'', Some (nameVal executionStateName st))]"
| "eventMembers (ExecutionSummary c m) =
     [(''childExecutionId'', Some (JString c)), (''summary'', Some (JString m))]"
| "eventMembers (ExecutionCompleted c out) =
     [(''childExecutionId'', Some (JString c)), (''outcome'', Some (nameVal turnOutcomeName out))]"
| "eventMembers (CompatibilityNotice c m) =
     [(''code'', Some (JString c)), (''message'', Some (JString m))]"

definition encodeEvent :: "ProviderEvent \<Rightarrow> jsval" where
  "encodeEvent x = objectOf
     ((''type'', Some (nameVal eventTypeName (eventTypeOf x))) # eventMembers x)"

lemma eventType_found [simp]:
  "find (\<lambda>t'. eventTypeName t' = eventTypeName t) eventTypes = Some t"
  "boundedString 128 (nameVal eventTypeName t) p = Inr (js (eventTypeName t))"
  by (cases t; simp add: eventTypes_def boundedString_eq_Inr nameVal_def)+

lemma parseProviderEvent_branch:
  "parseProviderEvent ver (objectOf ((''type'', Some (nameVal eventTypeName t)) # fs)) p =
     eventOf ver t (members ((''type'', Some (nameVal eventTypeName t)) # fs)) p"
  by (simp add: parseProviderEvent_def objectOf_def recordValue_def)

lemma blames_turnStartedOf [blame_intros]: "prefix q p \<Longrightarrow> blames q (turnStartedOf r p)"
  unfolding turnStartedOf_def Let_def by (intro blame_intros) simp_all

lemma blames_eventOf [blame_intros]: "prefix q p \<Longrightarrow> blames q (eventOf ver t r p)"
  by (cases t) (simp_all, (intro blame_intros; simp)+)

lemma blames_event [blame_intros]: "prefix q p \<Longrightarrow> blames q (parseProviderEvent ver v p)"
  unfolding parseProviderEvent_def by (intro blame_intros) (auto split: option.split intro!: blame_intros)

end
