(* ===== verification/ContractEnvelope.thy ===== *)
theory ContractEnvelope
  imports ContractEvents
begin

text \<open>
  The event envelope and the provider snapshot of
  extensions/agent/shared/provider-runtime.ts, and what an accepted envelope satisfies: its
  event stands in the scope its type requires, it names a native session outside account scope,
  its block is consistent, and reading it back from its own JSON gives the same envelope.
\<close>

subsection \<open>Events read back\<close>

lemma turnStartedOf_type: "turnStartedOf r p = Inr x \<Longrightarrow> eventTypeOf x = TurnStartedType"
  by (auto simp: turnStartedOf_def Let_def)

lemma eventOf_type: "eventOf ver t r p = Inr x \<Longrightarrow> eventTypeOf x = t"
  by (cases t) (auto simp: turnStartedOf_type)

lemma reparse_snapshot_all [reparse_dests]:
  "parseTurnBlockSnapshot ver v p = Inr b \<Longrightarrow>
   \<forall>q. parseTurnBlockSnapshot currentVersion (encodeTurnBlockSnapshot b) q = Inr b"
  by (simp add: reparse_snapshot)

lemma reparse_turnStarted:
  assumes "turnStartedOf r p = Inr x"
  shows "turnStartedOf (members ((''type'', Some k) # eventMembers x)) q = Inr x"
proof -
  from assms obtain origin given triggers trigger where
    x: "x = TurnStarted origin trigger triggers"
    and trigger: "trigger = (if given = None then map_option hd triggers else given)"
    and agree: "triggers = None \<or> triggerText trigger = triggerText (map_option hd triggers)"
    and parsed: "optionally parseTurnTriggers (fld r ''triggers'') (dot p ''triggers'') = Inr triggers"
      "optionally parseTurnTrigger (fld r ''trigger'') (dot p ''trigger'') = Inr given"
      "optionally (oneOf turnStartOriginName [NativeOrigin]) (fld r ''origin'') (dot p ''origin'') = Inr origin"
    by (auto simp: turnStartedOf_def Let_def)
  have "\<forall>q. optionally parseTurnTrigger (or_else (map_option encodeTurnTrigger trigger) JUndefined) q = Inr trigger"
  proof (cases "given = None")
    case True
    show ?thesis
    proof (cases triggers)
      case None
      with True trigger show ?thesis by (simp add: optionally_def)
    next
      case (Some ts)
      with parsed(1) obtain vs p' where "elements parseTurnTrigger vs p' = Inr ts" "vs \<noteq> []"
        by (auto simp: optionally_def parseTurnTriggers_def split: if_splits jsval.splits)
      then obtain v p'' where "parseTurnTrigger v p'' = Inr (hd ts)"
        by (cases vs) (auto simp: elements_def)
      with Some True trigger show ?thesis
        by (auto simp: optionally_def dest!: parseTurnTrigger.reparse_value)
    qed
  next
    case False
    with trigger parsed(2) parseTurnTrigger.reparse_optionally show ?thesis by auto
  qed
  with x agree trigger parsed show ?thesis
    by (auto simp: turnStartedOf_def Let_def
        dest!: parseTurnTriggers.reparse_optionally oneOf.reparse_optionally)
qed

lemma reparse_event:
  assumes "eventOf ver t r p = Inr x"
  shows "parseProviderEvent currentVersion (encodeEvent x) q = Inr x"
proof -
  have "eventOf currentVersion t (members ((''type'', Some k) # eventMembers x)) q = Inr x" for k
    using assms
    by (cases t) (simp_all add: reparse_turnStarted, auto dest!: reparse_dests)
  with eventOf_type [OF assms] show ?thesis
    by (simp add: encodeEvent_def parseProviderEvent_branch)
qed

lemma parseProviderEvent_branches:
  "parseProviderEvent ver v p = Inr x \<Longrightarrow> \<exists>r. v = JObject r \<and> eventOf ver (eventTypeOf x) r p = Inr x"
  by (auto simp: parseProviderEvent_def recordValue_eq_Inr split: option.splits dest: eventOf_type)

lemma reparse_providerEvent [reparse_dests]:
  "parseProviderEvent ver v p = Inr x \<Longrightarrow>
   \<forall>q. parseProviderEvent currentVersion (encodeEvent x) q = Inr x"
  by (auto dest!: parseProviderEvent_branches intro: reparse_event)

text \<open>The blocks an event carries are consistent.\<close>

fun event_consistent :: "ProviderEvent \<Rightarrow> bool" where
  "event_consistent (TurnBlockStarted s b) = snapshot_consistent b"
| "event_consistent (TurnBlockRevised s n h b) = snapshot_consistent b"
| "event_consistent (TurnBlockCompleted s n h b) = snapshot_consistent b"
| "event_consistent x = True"

lemma parseProviderEvent_consistent: "parseProviderEvent ver v p = Inr x \<Longrightarrow> event_consistent x"
  by (drule parseProviderEvent_branches)
     (cases x; auto dest: parseTurnBlockSnapshot_consistent)

subsection \<open>The envelope\<close>

record ProviderEventEnvelope =
  eventId :: jsstring
  envProvider :: ProviderKind
  envScope :: ProviderEventScope
  envNative :: NativeReference
  observedAt :: nat
  envEvent :: ProviderEvent
  rawArtifactRef :: "jsstring option"

text \<open>The scope \<^verbatim>\<open>assertEventScope\<close> expects of every event but \<^verbatim>\<open>compatibility.notice\<close>.\<close>

definition expectedScope :: "string \<Rightarrow> ScopeKind" where
  "expectedScope type =
     (if type = ''account.usage-updated'' then AccountKind
      else if prefix ''context.compaction.'' type \<or> prefix ''session.'' type then ConversationKind
      else if prefix ''execution.'' type then ExecutionKind
      else TurnKind)"

definition assertEventScope :: "ProviderEvent \<Rightarrow> ProviderEventScope \<Rightarrow> unit res" where
  "assertEventScope event scope =
     (let type = eventTypeName (eventTypeOf event) in
      if type = ''compatibility.notice'' then
        (if scopeKind scope = AccountKind
         then fail (js ''$.scope.kind'') (js ''compatibility.notice cannot use account scope'')
         else Inr ())
      else if scopeKind scope \<noteq> expectedScope type
      then fail (js ''$.scope.kind'')
             (js type @ js '' requires '' @ js (scopeKindName (expectedScope type)) @ js '' scope'')
      else Inr ())"

text \<open>\<^verbatim>\<open>value && typeof value === 'object' && !Array.isArray(value)\<close>.\<close>

definition asObject :: "jsval \<Rightarrow> jsrecord option" where
  "asObject v = (case v of JObject r \<Rightarrow> Some r | JInstance r \<Rightarrow> Some r | _ \<Rightarrow> None)"

definition isString :: "jsval \<Rightarrow> bool" where
  "isString v = (case v of JString s \<Rightarrow> True | _ \<Rightarrow> False)"

definition hasFinalDiff :: "jsrecord \<Rightarrow> bool" where
  "hasFinalDiff r =
     (fld r ''type'' = JString (js ''turn.file-changed'') \<and>
      (case asObject (fld r ''change'') of None \<Rightarrow> False | Some c \<Rightarrow> isString (fld c ''diff'')))"

definition hasFinalMessage :: "jsrecord \<Rightarrow> bool" where
  "hasFinalMessage r =
     (fld r ''type'' \<in> {JString (js ''turn.block.started''), JString (js ''turn.block.revised''),
                       JString (js ''turn.block.completed'')} \<and>
      (case asObject (fld r ''block'') of
         None \<Rightarrow> False | Some b \<Rightarrow> fld b ''kind'' = JString (js ''final-message'')))"

definition providerEventEnvelopeByteLimit :: "jsval \<Rightarrow> nat" where
  "providerEventEnvelopeByteLimit v =
     (case asObject v of
        None \<Rightarrow> eventBytes
      | Some env \<Rightarrow>
          (case asObject (fld env ''event'') of
             None \<Rightarrow> eventBytes
           | Some r \<Rightarrow>
               if hasFinalDiff r then finalEventBytes
               else if hasFinalMessage r then finalEventBytes
               else eventBytes))"

definition nativeKeys :: "string list" where
  "nativeKeys = [''sessionId'', ''turnId'', ''messageId'', ''itemId'', ''toolCallId'', ''position'',
     ''subject'', ''timeline'', ''kind'']"

definition parseProviderEventEnvelope :: "jsval \<Rightarrow> ProviderEventEnvelope res" where
  "parseProviderEventEnvelope v =
     (let root = js ''$'' in
      ebind (assertEncodedSize v (providerEventEnvelopeByteLimit v) root) (\<lambda>_.
      ebind (strictRecord v root
        [''contractVersion'', ''eventId'', ''provider'', ''scope'', ''native'', ''observedAt'',
         ''event'', ''rawArtifactRef''] [''rawArtifactRef'']) (\<lambda>r.
      ebind (providerRuntimeContractVersion (fld r ''contractVersion'')
        (dot root ''contractVersion'')) (\<lambda>version.
      ebind (strictRecord (fld r ''native'') (dot root ''native'') nativeKeys (butlast nativeKeys)) (\<lambda>native.
      ebind (parseProviderEvent version (fld r ''event'') (dot root ''event'')) (\<lambda>event.
      ebind (parseProviderEventScope (fld r ''scope'') (dot root ''scope'')) (\<lambda>scope.
      ebind (assertEventScope event scope) (\<lambda>_.
      ebind (parseIdentifier (fld r ''eventId'') (dot root ''eventId'')) (\<lambda>i.
      ebind (providerKind (fld r ''provider'') (dot root ''provider'')) (\<lambda>provider.
      ebind (nativeFields native (dot root ''native'')) (\<lambda>n.
      ebind (nonnegativeInteger (fld r ''observedAt'') (dot root ''observedAt'')) (\<lambda>obs.
      ebind (optionally parseIdentifier (fld r ''rawArtifactRef'') (dot root ''rawArtifactRef'')) (\<lambda>ref.
      if scopeKind scope \<noteq> AccountKind \<and> nativeSessionId n = None
      then fail (dot (dot root ''native'') ''sessionId'') (js ''is required outside account scope'')
      else Inr \<lparr>eventId = i, envProvider = provider, envScope = scope, envNative = n,
                observedAt = obs, envEvent = event, rawArtifactRef = ref\<rparr>)))))))))))))"

definition encodeEnvelope :: "ProviderEventEnvelope \<Rightarrow> jsval" where
  "encodeEnvelope e = objectOf
     [(''contractVersion'', Some (natVal currentVersion)),
      (''eventId'', Some (JString (eventId e))),
      (''provider'', Some (nameVal providerKindName (envProvider e))),
      (''scope'', Some (encodeScope (envScope e))),
      (''native'', Some (objectOf (nativeMembers (envNative e)))),
      (''observedAt'', Some (natVal (observedAt e))),
      (''event'', Some (encodeEvent (envEvent e))),
      (''rawArtifactRef'', map_option JString (rawArtifactRef e))]"

subsection \<open>What an accepted envelope satisfies\<close>

text \<open>The event and scope agree, and a native session is named outside account scope.\<close>

definition event_fits_scope :: "EventType \<Rightarrow> ScopeKind \<Rightarrow> bool" where
  "event_fits_scope t k =
     (case t of
        CompatibilityNoticeType \<Rightarrow> k \<noteq> AccountKind
      | AccountUsageUpdatedType \<Rightarrow> k = AccountKind
      | CompactionStartedType \<Rightarrow> k = ConversationKind
      | CompactionCompletedType \<Rightarrow> k = ConversationKind
      | CompactionFailedType \<Rightarrow> k = ConversationKind
      | SessionBoundType \<Rightarrow> k = ConversationKind
      | SessionMaterializedType \<Rightarrow> k = ConversationKind
      | SessionHealthType \<Rightarrow> k = ConversationKind
      | ExecutionStartedType \<Rightarrow> k = ExecutionKind
      | ExecutionStatusType \<Rightarrow> k = ExecutionKind
      | ExecutionSummaryType \<Rightarrow> k = ExecutionKind
      | ExecutionCompletedType \<Rightarrow> k = ExecutionKind
      | _ \<Rightarrow> k = TurnKind)"

definition envelope_ok :: "ProviderEventEnvelope \<Rightarrow> bool" where
  "envelope_ok e =
     (event_fits_scope (eventTypeOf (envEvent e)) (scopeKind (envScope e)) \<and>
      (scopeKind (envScope e) = AccountKind \<or> nativeSessionId (envNative e) \<noteq> None) \<and>
      event_consistent (envEvent e))"

lemma assertEventScope_iff:
  "assertEventScope event scope = Inr u \<longleftrightarrow>
     event_fits_scope (eventTypeOf event) (scopeKind scope)"
  by (cases event)
     (simp_all add: assertEventScope_def event_fits_scope_def expectedScope_def Let_def)

lemma blames_assertEventScope [blame_intros]: "blames (js ''$'') (assertEventScope event scope)"
proof -
  have "prefix (js ''$'') (js ''$.scope.kind'')"
    by (simp add: js_def)
  then show ?thesis
    by (auto simp: assertEventScope_def Let_def intro!: blame_intros)
qed

lemma blames_envelope: "blames (js ''$'') (parseProviderEventEnvelope v)"
  unfolding parseProviderEventEnvelope_def Let_def by (intro blame_intros) simp_all

lemma parseProviderEventEnvelope_ok: "parseProviderEventEnvelope v = Inr e \<Longrightarrow> envelope_ok e"
  by (auto simp: parseProviderEventEnvelope_def Let_def envelope_ok_def assertEventScope_iff
      dest: parseProviderEvent_consistent)

lemma nativeKeys_members [simp]:
  "keysIn (members (nativeMembers n)) nativeKeys" "has (members (nativeMembers n)) ''kind''"
  by (simp_all add: nativeMembers_def nativeKeys_def)

lemma nativeKeys_required [simp]:
  "(\<forall>k\<in>set nativeKeys. k \<notin> set (butlast nativeKeys) \<longrightarrow> has r k) \<longleftrightarrow> has r ''kind''"
  by (auto simp: nativeKeys_def)

lemma envelope_reread:
  assumes "parseProviderEventEnvelope v = Inr e"
    and "byte_length (encodeEnvelope e) \<le> providerEventEnvelopeByteLimit (encodeEnvelope e)"
  shows "parseProviderEventEnvelope (encodeEnvelope e) = Inr e"
proof -
  have defined: "encodeEnvelope e \<noteq> JUndefined"
    by (simp add: encodeEnvelope_def)
  have native: "nativeFields r p = Inr n \<Longrightarrow>
      \<forall>q. nativeFields (members (nativeMembers n)) q = Inr n" for r p n
    by (simp add: reparse_nativeFields)
  have version: "providerRuntimeContractVersion (natVal currentVersion) q = Inr currentVersion" for q
    by (simp add: providerRuntimeContractVersion_eq_Inr currentVersion_def)
  from assms(1) show ?thesis
    using assms(2) defined
    by (simp add: parseProviderEventEnvelope_def [of "encodeEnvelope e"] Let_def assertEncodedSize_iff)
       (auto simp: parseProviderEventEnvelope_def encodeEnvelope_def Let_def version
         dest!: reparse_dests native)
qed

subsection \<open>Provider snapshots\<close>

record NativeSessionRef =
  refProvider :: ProviderKind
  refProviderInstanceId :: jsstring
  refSessionId :: jsstring
  refResumeCursor :: "jsval option"

definition parseNativeSessionRef :: "jsval \<Rightarrow> jsstring \<Rightarrow> NativeSessionRef res" where
  "parseNativeSessionRef v path =
     ebind (strictRecord v path [''provider'', ''providerInstanceId'', ''sessionId'', ''resumeCursor'']
       [''resumeCursor'']) (\<lambda>r.
     ebind (optionally jsonRoot (fld r ''resumeCursor'') (dot path ''resumeCursor'')) (\<lambda>cursor.
     ebind (providerKind (fld r ''provider'') (dot path ''provider'')) (\<lambda>provider.
     ebind (parseIdentifier (fld r ''providerInstanceId'') (dot path ''providerInstanceId'')) (\<lambda>i.
     ebind (parseIdentifier (fld r ''sessionId'') (dot path ''sessionId'')) (\<lambda>s.
     Inr \<lparr>refProvider = provider, refProviderInstanceId = i, refSessionId = s,
          refResumeCursor = cursor\<rparr>)))))"

definition encodeSessionRef :: "NativeSessionRef \<Rightarrow> jsval" where
  "encodeSessionRef s = objectOf
     [(''provider'', Some (nameVal providerKindName (refProvider s))),
      (''providerInstanceId'', Some (JString (refProviderInstanceId s))),
      (''sessionId'', Some (JString (refSessionId s))),
      (''resumeCursor'', map_option id (refResumeCursor s))]"

interpretation parseNativeSessionRef: contract_codec parseNativeSessionRef encodeSessionRef
  by unfold_locales
    (auto simp: parseNativeSessionRef_def encodeSessionRef_def intro!: blame_intros
       dest!: reparse_dests)

definition parseProviderSnapshotCoverage :: "jsval \<Rightarrow> jsstring \<Rightarrow> TurnBlockKind list res" where
  "parseProviderSnapshotCoverage v path =
     ebind (strictRecord v path [''turnBlocks''] []) (\<lambda>r.
     ebind (strictRecord (fld r ''turnBlocks'') (dot path ''turnBlocks'') [''completeKinds''] []) (\<lambda>t.
     ebind (array (fld t ''completeKinds'') (dot (dot path ''turnBlocks'') ''completeKinds'')) (\<lambda>values.
     ebind (elements (oneOf turnBlockKindName providerTurnBlockKinds) values
       (dot (dot path ''turnBlocks'') ''completeKinds'')) (\<lambda>kinds.
     if \<not> distinct kinds
     then fail (dot (dot path ''turnBlocks'') ''completeKinds'') (js ''must not contain duplicates'')
     else Inr kinds))))"

definition encodeCoverage :: "TurnBlockKind list \<Rightarrow> jsval" where
  "encodeCoverage kinds = objectOf
     [(''turnBlocks'', Some (objectOf
        [(''completeKinds'', Some (JArray (map (nameVal turnBlockKindName) kinds)))]))]"

interpretation parseProviderSnapshotCoverage:
  contract_codec parseProviderSnapshotCoverage encodeCoverage
  by unfold_locales
    (auto simp: parseProviderSnapshotCoverage_def encodeCoverage_def intro!: blame_intros
       dest!: reparse_dests)

text \<open>
  \<^verbatim>\<open>parseProviderEventEnvelopeAt\<close> moves an error from the envelope's own root \<^verbatim>\<open>$\<close> below
  \<open>path\<close>: the thrown message is \<^verbatim>\<open>`${error.path}: ${message}`\<close>, from which the path and the
  two characters after it are cut again.
\<close>

definition thrownMessage :: "ProviderContractError \<Rightarrow> jsstring" where
  "thrownMessage e = epath e @ js '': '' @ emessage e"

definition parseProviderEventEnvelopeAt :: "jsval \<Rightarrow> jsstring \<Rightarrow> ProviderEventEnvelope res" where
  "parseProviderEventEnvelopeAt v path =
     (case parseProviderEventEnvelope v of
        Inr e \<Rightarrow> Inr e
      | Inl err \<Rightarrow> fail (path @ drop 1 (epath err)) (drop (length (epath err) + 2) (thrownMessage err)))"

lemma parseProviderEventEnvelopeAt_error:
  "parseProviderEventEnvelope v = Inl err \<Longrightarrow>
   \<exists>s. epath err = js ''$'' @ s \<and> parseProviderEventEnvelopeAt v path = fail (path @ s) (emessage err)"
  using blames_envelope [of v]
  by (auto simp: parseProviderEventEnvelopeAt_def thrownMessage_def blames_def prefix_def)

datatype SnapshotState = SnapshotRunning | SnapshotIdle | SnapshotLost

fun snapshotStateName :: "SnapshotState \<Rightarrow> string" where
  "snapshotStateName SnapshotRunning = ''running''"
| "snapshotStateName SnapshotIdle = ''idle''"
| "snapshotStateName SnapshotLost = ''lost''"

datatype SnapshotAuthority = Authoritative | SessionLocal

fun snapshotAuthorityName :: "SnapshotAuthority \<Rightarrow> string" where
  "snapshotAuthorityName Authoritative = ''authoritative''"
| "snapshotAuthorityName SessionLocal = ''session-local''"

record ProviderSnapshot =
  snapNativeSession :: NativeSessionRef
  snapState :: SnapshotState
  snapAuthority :: "SnapshotAuthority option"
  snapCoverage :: "TurnBlockKind list option"
  snapHistoryRevision :: "jsstring option"
  snapEvents :: "ProviderEventEnvelope list"
  snapNextNativeSequence :: "nat option"

definition parseProviderSnapshot :: "jsval \<Rightarrow> ProviderSnapshot res" where
  "parseProviderSnapshot v =
     (let root = js ''$'' in
      ebind (assertEncodedSize v snapshotBytes root) (\<lambda>_.
      ebind (strictRecord v root
        [''contractVersion'', ''nativeSession'', ''state'', ''authority'', ''coverage'', ''events'',
         ''historyRevision'', ''nextNativeSequence'']
        [''authority'', ''coverage'', ''historyRevision'', ''nextNativeSequence'']) (\<lambda>r.
      ebind (providerRuntimeContractVersion (fld r ''contractVersion'')
        (dot root ''contractVersion'')) (\<lambda>_.
      ebind (array (fld r ''events'') (dot root ''events'')) (\<lambda>events.
      if snapshotEvents < length events
      then fail (dot root ''events'') (js ''snapshot contains too many events'') else
      ebind (parseNativeSessionRef (fld r ''nativeSession'') (dot root ''nativeSession'')) (\<lambda>sess.
      ebind (oneOf snapshotStateName [SnapshotRunning, SnapshotIdle, SnapshotLost]
        (fld r ''state'') (dot root ''state'')) (\<lambda>state.
      ebind (optionally (oneOf snapshotAuthorityName [Authoritative, SessionLocal])
        (fld r ''authority'') (dot root ''authority'')) (\<lambda>authority.
      ebind (optionally parseProviderSnapshotCoverage (fld r ''coverage'') (dot root ''coverage'')) (\<lambda>cov.
      ebind (optionally (boundedString stringChars) (fld r ''historyRevision'')
        (dot root ''historyRevision'')) (\<lambda>rev.
      ebind (elements parseProviderEventEnvelopeAt events (dot root ''events'')) (\<lambda>parsed.
      ebind (optionally nonnegativeInteger (fld r ''nextNativeSequence'')
        (dot root ''nextNativeSequence'')) (\<lambda>next.
      Inr \<lparr>snapNativeSession = sess, snapState = state, snapAuthority = authority,
           snapCoverage = cov, snapHistoryRevision = rev, snapEvents = parsed,
           snapNextNativeSequence = next\<rparr>))))))))))))"

interpretation parseProviderEventEnvelopeAt: contract_reader parseProviderEventEnvelopeAt
  by unfold_locales
    (auto simp: parseProviderEventEnvelopeAt_def split: sum.splits intro!: blame_intros)

lemma parseProviderEventEnvelopeAt_Inr:
  "parseProviderEventEnvelopeAt v p = Inr e \<longleftrightarrow> parseProviderEventEnvelope v = Inr e"
  by (simp add: parseProviderEventEnvelopeAt_def split: sum.split)

lemma blames_providerSnapshot: "blames (js ''$'') (parseProviderSnapshot v)"
  unfolding parseProviderSnapshot_def Let_def by (intro blame_intros) simp_all

lemma parseProviderSnapshot_events:
  assumes "parseProviderSnapshot v = Inr s"
  shows "length (snapEvents s) \<le> snapshotEvents"
    and "list_all envelope_ok (snapEvents s)"
    and "\<And>kinds. snapCoverage s = Some kinds \<Longrightarrow> distinct kinds"
proof -
  from assms obtain vs p where parsed: "elements parseProviderEventEnvelopeAt vs p = Inr (snapEvents s)"
    and len: "length vs \<le> snapshotEvents"
    by (auto simp: parseProviderSnapshot_def Let_def)
  then show "length (snapEvents s) \<le> snapshotEvents"
    by (auto simp: elements_def dest: traverse_length)
  show "list_all envelope_ok (snapEvents s)"
    using parsed
    by (auto simp: list_all_iff elements_def parseProviderEventEnvelopeAt_Inr
        dest!: traverse_set dest: parseProviderEventEnvelope_ok)
  show "distinct kinds" if "snapCoverage s = Some kinds" for kinds
    using assms that
    by (auto simp: parseProviderSnapshot_def Let_def optionally_def parseProviderSnapshotCoverage_def
        split: if_splits)
qed

end
