(* ===== verification/DeliveryContract.thy ===== *)
theory DeliveryContract
  imports ContractEnvelope
begin

text \<open>
  The vocabulary of a delivery to a provider
  (extensions/agent/server/src/native-runtime/delivery-contract.ts): what is known of a
  crossing, the evidence of acceptance or rejection, the result of a dispatch, and a frozen
  attempt.  With it stand the pure helpers of delivery-attempt-owner.ts on such values:
  \<^verbatim>\<open>boundedDeliveryError\<close>, \<^verbatim>\<open>deliveryError\<close>, \<^verbatim>\<open>providerPossiblySent\<close>, \<^verbatim>\<open>canonicalJson\<close>
  and \<^verbatim>\<open>evidenceCompatible\<close>.
\<close>

subsection \<open>Crossings, evidence and results\<close>

datatype NotSentDetail = ValidationFailed | ClosedBeforeWrite | PreparationFailed

datatype PossiblySentDetail = EnteredWrite | StdinYielded | ResponseLost

datatype ProviderCrossing = NotSent NotSentDetail | PossiblySent PossiblySentDetail

record ProviderDeliveryError =
  deliveryCode :: jsstring
  deliveryMessage :: jsstring
  deliveryRetryable :: "bool option"

datatype CompactStatus = CompactingStatus | FailedCompactStatus

text \<open>
  Thread or session first, then the fields in the order of the source; a history match and a
  fixture acceptance name a turn or not.
\<close>

datatype ProviderAcceptanceEvidence =
    CodexTurnStartResponse jsstring jsstring jsstring
  | CodexTurnSteerResponse jsstring jsstring jsstring
  | CodexCompactResponse jsstring rat jsstring
  | CodexHistoryClientId jsstring jsstring "jsstring option"
  | ClaudeInputReplay jsstring jsstring jsstring jsstring
  | ClaudeRootProcessing jsstring jsstring jsstring
  | ClaudeManualCompactBoundary jsstring jsstring jsstring
  | ClaudeManualCompactStatus jsstring jsstring jsstring jsstring CompactStatus
  | FixtureCorrelatedAcceptance jsstring jsstring "jsstring option"

datatype RejectionSource = RpcResponse | LegacyRecordedResponse

text \<open>\<^verbatim>\<open>kind\<close> and \<^verbatim>\<open>nativeCode\<close> have one value each.\<close>

record ProviderRejectionEvidence =
  rejectionThreadId :: jsstring
  rejectionSource :: RejectionSource
  rejectionRequestId :: "rat option"

datatype ProviderDispatchResult =
    DispatchAccepted ProviderAcceptanceEvidence "jsstring option" "jsstring option"
  | DispatchRejected ProviderCrossing "ProviderRejectionEvidence option" ProviderDeliveryError
  | DispatchUnknown ProviderCrossing ProviderDeliveryError

datatype ProviderPresenceRead =
    PresencePresent ProviderAcceptanceEvidence
  | PresenceUnknown jsstring

datatype DeliveryAttemptKind = RootTurn | Steer | ManualCompact

datatype DeliveryAttemptState = Preparing | Dispatching | Accepted | Rejected | Unknown | Abandoned

record FrozenDeliveryAttempt =
  attemptId :: jsstring
  attemptCommandId :: jsstring
  attemptKind :: DeliveryAttemptKind
  attemptProvider :: ProviderKind
  attemptProviderInstanceId :: jsstring
  attemptConversationId :: jsstring
  attemptExecutionId :: jsstring
  intendedTurnId :: "jsstring option"
  clientMessageId :: "jsstring option"
  nativeClientMessageId :: "jsstring option"
  compactOperationId :: "jsstring option"
  recoveryPayloadHash :: jsstring
  recoveryPayload :: jsval
  attemptNativeSessionId :: jsstring
  processGeneration :: "jsstring option"
  attemptNativeTurnId :: "jsstring option"
  nativeOperationId :: "jsstring option"
  ownerInstanceId :: jsstring
  attemptState :: DeliveryAttemptState
  crossedAt :: "nat option"
  acceptanceEvidence :: "ProviderAcceptanceEvidence option"
  transcriptGap :: bool

record StagedProviderEnvelope =
  stagedOrdinal :: nat
  observationId :: jsstring
  stagedEnvelope :: ProviderEventEnvelope
  stagedByteLength :: nat
  stagedObservedAt :: nat

text \<open>A legacy caller is told of an acceptance, or gets the error with its outcome.\<close>

datatype LegacyOutcome = LegacyAccepted "jsstring option" | LegacyThrown jsstring bool ProviderCrossing

text \<open>\<open>LegacyThrown message unknown crossing\<close>: the error thrown for a result not accepted.\<close>

fun requireLegacyAcceptance :: "ProviderDispatchResult \<Rightarrow> LegacyOutcome" where
  "requireLegacyAcceptance (DispatchAccepted ev turn op) = LegacyAccepted turn"
| "requireLegacyAcceptance (DispatchRejected crossing ev err) =
     LegacyThrown (deliveryMessage err) False crossing"
| "requireLegacyAcceptance (DispatchUnknown crossing err) =
     LegacyThrown (deliveryMessage err) True crossing"

subsection \<open>Evidence as a stored object\<close>

fun encodeEvidence :: "ProviderAcceptanceEvidence \<Rightarrow> jsval" where
  "encodeEvidence (CodexTurnStartResponse t n c) = objectOf
     [(''kind'', Some (JString (js ''codex-turn-start-response''))), (''threadId'', Some (JString t)),
      (''turnId'', Some (JString n)), (''nativeClientMessageId'', Some (JString c))]"
| "encodeEvidence (CodexTurnSteerResponse t n c) = objectOf
     [(''kind'', Some (JString (js ''codex-turn-steer-response''))), (''threadId'', Some (JString t)),
      (''turnId'', Some (JString n)), (''nativeClientMessageId'', Some (JString c))]"
| "encodeEvidence (CodexCompactResponse t r g) = objectOf
     [(''kind'', Some (JString (js ''codex-compact-response''))), (''threadId'', Some (JString t)),
      (''requestId'', Some (JNumber r)), (''connectionGeneration'', Some (JString g))]"
| "encodeEvidence (CodexHistoryClientId t c n) = objectOf
     [(''kind'', Some (JString (js ''codex-history-client-id''))), (''threadId'', Some (JString t)),
      (''nativeClientMessageId'', Some (JString c)), (''nativeTurnId'', map_option JString n)]"
| "encodeEvidence (ClaudeInputReplay s u n g) = objectOf
     [(''kind'', Some (JString (js ''claude-input-replay''))), (''sessionId'', Some (JString s)),
      (''userMessageUuid'', Some (JString u)), (''nativeTurnId'', Some (JString n)),
      (''processGeneration'', Some (JString g))]"
| "encodeEvidence (ClaudeRootProcessing s u b) = objectOf
     [(''kind'', Some (JString (js ''claude-root-processing''))), (''sessionId'', Some (JString s)),
      (''userMessageUuid'', Some (JString u)), (''observationUuid'', Some (JString b))]"
| "encodeEvidence (ClaudeManualCompactBoundary s b g) = objectOf
     [(''kind'', Some (JString (js ''claude-manual-compact-boundary''))), (''sessionId'', Some (JString s)),
      (''boundaryUuid'', Some (JString b)), (''processGeneration'', Some (JString g)),
      (''trigger'', Some (JString (js ''manual'')))]"
| "encodeEvidence (ClaudeManualCompactStatus s i u g st) = objectOf
     [(''kind'', Some (JString (js ''claude-manual-compact-status''))), (''sessionId'', Some (JString s)),
      (''inputUuid'', Some (JString i)), (''statusUuid'', Some (JString u)),
      (''processGeneration'', Some (JString g)),
      (''status'', Some (JString (case st of CompactingStatus \<Rightarrow> js ''compacting''
                                  | FailedCompactStatus \<Rightarrow> js ''failed'')))]"
| "encodeEvidence (FixtureCorrelatedAcceptance s c n) = objectOf
     [(''kind'', Some (JString (js ''fixture-correlated-acceptance''))), (''sessionId'', Some (JString s)),
      (''commandId'', Some (JString c)), (''nativeTurnId'', map_option JString n)]"

text \<open>
  When two proofs speak of the same acceptance.  The two Codex root proofs are compared by
  thread, client message and turn, a turn that is not named agreeing with every turn.
\<close>

fun codexIdentity :: "ProviderAcceptanceEvidence \<Rightarrow> (jsstring \<times> jsstring \<times> jsstring option) option" where
  "codexIdentity (CodexTurnStartResponse t n c) = Some (t, c, Some n)"
| "codexIdentity (CodexHistoryClientId t c n) = Some (t, c, n)"
| "codexIdentity e = None"

definition sameCodexIdentity :: "ProviderAcceptanceEvidence \<Rightarrow> ProviderAcceptanceEvidence \<Rightarrow> bool" where
  "sameCodexIdentity l r =
     (case codexIdentity l of
        None \<Rightarrow> False
      | Some (t, c, n) \<Rightarrow>
          (case codexIdentity r of
             None \<Rightarrow> False
           | Some (t', c', n') \<Rightarrow> t = t' \<and> c = c' \<and> (n = None \<or> n' = None \<or> n = n')))"

fun evidenceCompatible :: "ProviderAcceptanceEvidence \<Rightarrow> ProviderAcceptanceEvidence \<Rightarrow> bool" where
  "evidenceCompatible (ClaudeInputReplay s u n g) r =
     (case r of ClaudeInputReplay s' u' n' g' \<Rightarrow> s = s' \<and> u = u' \<and> n = n' \<and> g = g' | _ \<Rightarrow> False)"
| "evidenceCompatible (ClaudeManualCompactStatus s i u g st) r =
     (case r of ClaudeManualCompactStatus s' i' u' g' st' \<Rightarrow> s = s' \<and> i = i' \<and> g = g' | _ \<Rightarrow> False)"
| "evidenceCompatible (ClaudeRootProcessing s u b) r =
     (case r of ClaudeRootProcessing s' u' b' \<Rightarrow> s = s' \<and> u = u' | _ \<Rightarrow> False)"
| "evidenceCompatible (FixtureCorrelatedAcceptance s c n) r =
     (case r of FixtureCorrelatedAcceptance s' c' n' \<Rightarrow> s = s' \<and> c = c' \<and> n = n' | _ \<Rightarrow> False)"
| "evidenceCompatible (CodexTurnSteerResponse t n c) r =
     (case r of CodexTurnSteerResponse t' n' c' \<Rightarrow> t = t' \<and> n = n' \<and> c = c' | _ \<Rightarrow> False)"
| "evidenceCompatible (CodexCompactResponse t q g) r =
     (case r of CodexCompactResponse t' q' g' \<Rightarrow> t = t' \<and> q = q' \<and> g = g' | _ \<Rightarrow> False)"
| "evidenceCompatible (ClaudeManualCompactBoundary s b g) r =
     (case r of ClaudeManualCompactBoundary s' b' g' \<Rightarrow> s = s' \<and> b = b' \<and> g = g' | _ \<Rightarrow> False)"
| "evidenceCompatible (CodexTurnStartResponse t n c) r =
     sameCodexIdentity (CodexTurnStartResponse t n c) r"
| "evidenceCompatible (CodexHistoryClientId t c n) r =
     sameCodexIdentity (CodexHistoryClientId t c n) r"

lemma evidenceCompatible_refl: "evidenceCompatible e e"
  by (cases e) (simp_all add: sameCodexIdentity_def)

lemma evidenceCompatible_sym: "evidenceCompatible l r \<Longrightarrow> evidenceCompatible r l"
  by (cases l; cases r) (auto simp: sameCodexIdentity_def)

text \<open>Compatible proofs name the same thread or session and never two different turns.\<close>

fun evidenceSession :: "ProviderAcceptanceEvidence \<Rightarrow> jsstring" where
  "evidenceSession (CodexTurnStartResponse t n c) = t"
| "evidenceSession (CodexTurnSteerResponse t n c) = t"
| "evidenceSession (CodexCompactResponse t r g) = t"
| "evidenceSession (CodexHistoryClientId t c n) = t"
| "evidenceSession (ClaudeInputReplay s u n g) = s"
| "evidenceSession (ClaudeRootProcessing s u b) = s"
| "evidenceSession (ClaudeManualCompactBoundary s b g) = s"
| "evidenceSession (ClaudeManualCompactStatus s i u g st) = s"
| "evidenceSession (FixtureCorrelatedAcceptance s c n) = s"

fun evidenceTurn :: "ProviderAcceptanceEvidence \<Rightarrow> jsstring option" where
  "evidenceTurn (CodexTurnStartResponse t n c) = Some n"
| "evidenceTurn (CodexTurnSteerResponse t n c) = Some n"
| "evidenceTurn (CodexHistoryClientId t c n) = n"
| "evidenceTurn (ClaudeInputReplay s u n g) = Some n"
| "evidenceTurn (FixtureCorrelatedAcceptance s c n) = n"
| "evidenceTurn e = None"

lemma evidenceCompatible_agree:
  "evidenceCompatible l r \<Longrightarrow>
     evidenceSession l = evidenceSession r \<and>
     (evidenceTurn l = None \<or> evidenceTurn r = None \<or> evidenceTurn l = evidenceTurn r)"
  by (cases l; cases r) (auto simp: sameCodexIdentity_def)

subsection \<open>Rejections a provider states itself\<close>

definition CODEX_ACTIVE_COMPACT_REJECTION :: jsstring where
  "CODEX_ACTIVE_COMPACT_REJECTION =
     js ''Codex App Server turn/start failed (-32603): failed to submit turn input: ActiveTurnNotSteerable { turn_kind: Compact }''"

definition isCodexActiveCompactRejection :: "jsval \<Rightarrow> bool" where
  "isCodexActiveCompactRejection message = (message = JString CODEX_ACTIVE_COMPACT_REJECTION)"

end
