(* ===== verification/DeliveryJson.thy ===== *)
theory DeliveryJson
  imports DeliveryContract "HOL-Library.Multiset"
begin

text \<open>
  The JSON the delivery owner writes
  (extensions/agent/server/src/native-runtime/delivery-attempt-owner.ts): \<^verbatim>\<open>canonicalJson\<close>, whose
  text does not depend on the order of an object's members, the bounded form of an error, and
  object spread.  \<^verbatim>\<open>localeCompare\<close> is platform code: the parameter \<open>le\<close> says that a key does
  not sort after another.
\<close>

subsection \<open>Faults\<close>

text \<open>
  What an operation of the owner may throw: an error of its own, a contract error raised while a
  stored envelope is read, a failed constraint of the two delivery tables, or whatever the
  journal throws in work on its own tables.
\<close>

datatype Fault =
    Refused jsstring
  | ContractFault ProviderContractError
  | ConstraintFailed
  | JournalFault jsstring

definition refuse :: "string \<Rightarrow> Fault + 'a" where
  "refuse message = Inl (Refused (js message))"

lemma refuse_simps [simp]: "refuse m \<noteq> Inr x" "ebind (refuse m) f = refuse m"
  by (simp_all add: refuse_def)

definition guard :: "bool \<Rightarrow> string \<Rightarrow> Fault + unit" where
  "guard c message = (if c then Inr () else refuse message)"

lemma guard_eq_Inr [simp]: "guard c m = Inr u \<longleftrightarrow> c"
  by (simp add: guard_def)

subsection \<open>Canonical text\<close>

fun insort_le :: "('k \<Rightarrow> 'k \<Rightarrow> bool) \<Rightarrow> 'k \<times> 'a \<Rightarrow> ('k \<times> 'a) list \<Rightarrow> ('k \<times> 'a) list"
  where
  "insort_le le x [] = [x]"
| "insort_le le x (y # ys) =
     (if le (fst x) (fst y) then x # y # ys else y # insort_le le x ys)"

definition sort_keys :: "('k \<Rightarrow> 'k \<Rightarrow> bool) \<Rightarrow> ('k \<times> 'a) list \<Rightarrow> ('k \<times> 'a) list" where
  "sort_keys le xs = foldr (insort_le le) xs []"

fun all_or_first :: "(jsstring \<times> ('e + 'a)) list \<Rightarrow> 'e + (jsstring \<times> 'a) list" where
  "all_or_first [] = Inr []"
| "all_or_first ((k, m) # rest) =
     ebind m (\<lambda>x. ebind (all_or_first rest) (\<lambda>xs. Inr ((k, x) # xs)))"

fun canonicalJson :: "(jsstring \<Rightarrow> jsstring \<Rightarrow> bool) \<Rightarrow> jsval \<Rightarrow> Fault + jsstring"
  and canonicalElements :: "(jsstring \<Rightarrow> jsstring \<Rightarrow> bool) \<Rightarrow> jsval list \<Rightarrow> (jsstring \<times> (Fault + jsstring)) list"
  and canonicalMembers :: "(jsstring \<Rightarrow> jsstring \<Rightarrow> bool) \<Rightarrow> jsrecord \<Rightarrow> (jsstring \<times> (Fault + jsstring)) list"
  where
  "canonicalJson le v =
     (case v of
        JUndefined \<Rightarrow> refuse ''Delivery payload contains an unsupported value.''
      | JNonFinite \<Rightarrow> refuse ''Delivery payload contains a non-finite number.''
      | JArray xs \<Rightarrow>
          ebind (all_or_first (canonicalElements le xs))
            (\<lambda>ts. Inr (js ''['' @ join_with (js '','') (map snd ts) @ js '']''))
      | JObject r \<Rightarrow>
          ebind (all_or_first (sort_keys le (canonicalMembers le r)))
            (\<lambda>ts. Inr (js ''{'' @ join_with (js '','') (map (\<lambda>(k, t). json_quote k @ js '':'' @ t) ts) @ js ''}''))
      | JInstance r \<Rightarrow>
          ebind (all_or_first (sort_keys le (canonicalMembers le r)))
            (\<lambda>ts. Inr (js ''{'' @ join_with (js '','') (map (\<lambda>(k, t). json_quote k @ js '':'' @ t) ts) @ js ''}''))
      | _ \<Rightarrow> Inr (or_else (json_text v) []))"
| "canonicalElements le [] = []"
| "canonicalElements le (x # xs) = ([], canonicalJson le x) # canonicalElements le xs"
| "canonicalMembers le [] = []"
| "canonicalMembers le ((k, v) # r) =
     (if v = JUndefined then canonicalMembers le r
      else (k, canonicalJson le v) # canonicalMembers le r)"

declare canonicalJson.simps [simp del]

text \<open>What a parse of the text gives back: the value without its undefined members.\<close>

fun definedCopy :: "jsval \<Rightarrow> jsval" and definedElements :: "jsval list \<Rightarrow> jsval list"
  and definedMembers :: "jsrecord \<Rightarrow> jsrecord" where
  "definedCopy (JArray xs) = JArray (definedElements xs)"
| "definedCopy (JObject r) = JObject (definedMembers r)"
| "definedCopy (JInstance r) = JObject (definedMembers r)"
| "definedCopy v = v"
| "definedElements [] = []"
| "definedElements (x # xs) = definedCopy x # definedElements xs"
| "definedMembers [] = []"
| "definedMembers ((k, v) # r) =
     (if v = JUndefined then definedMembers r else (k, definedCopy v) # definedMembers r)"

lemma definedCopy_undefined [simp]: "definedCopy v = JUndefined \<longleftrightarrow> v = JUndefined"
  by (cases v) simp_all

text \<open>Writing and parsing again does not change the canonical text.\<close>

lemma canonicalJson_definedCopy:
  "canonicalJson le (definedCopy v) = canonicalJson le v"
  "canonicalElements le (definedElements xs) = canonicalElements le xs"
  "canonicalMembers le (definedMembers r) = canonicalMembers le r"
proof (induction v and xs and r rule: definedCopy_definedElements_definedMembers.induct)
  case (2 r)
  then show ?case by (simp add: canonicalJson.simps)
next
  case (3 r)
  then show ?case by (simp add: canonicalJson.simps)
next
  case (1 xs)
  then show ?case by (simp add: canonicalJson.simps)
qed simp_all

lemma mset_insort_le: "mset (insort_le le x ys) = add_mset x (mset ys)"
  by (induction ys) auto

lemma mset_sort_keys: "mset (sort_keys le xs) = mset xs"
  by (induction xs) (auto simp: sort_keys_def mset_insort_le)

definition total_order_on_keys :: "('k \<Rightarrow> 'k \<Rightarrow> bool) \<Rightarrow> 'k set \<Rightarrow> bool" where
  "total_order_on_keys le K =
     ((\<forall>a\<in>K. \<forall>b\<in>K. le a b \<or> le b a) \<and>
      (\<forall>a\<in>K. \<forall>b\<in>K. le a b \<and> le b a \<longrightarrow> a = b) \<and>
      (\<forall>a\<in>K. \<forall>b\<in>K. \<forall>c\<in>K. le a b \<and> le b c \<longrightarrow> le a c))"

lemma total_order_onD:
  assumes "total_order_on_keys le K"
  shows "a \<in> K \<Longrightarrow> b \<in> K \<Longrightarrow> le a b \<or> le b a"
    and "a \<in> K \<Longrightarrow> b \<in> K \<Longrightarrow> le a b \<Longrightarrow> le b a \<Longrightarrow> a = b"
    and "a \<in> K \<Longrightarrow> b \<in> K \<Longrightarrow> c \<in> K \<Longrightarrow> le a b \<Longrightarrow> le b c \<Longrightarrow> le a c"
  using assms unfolding total_order_on_keys_def by blast+

lemma set_insort_le: "set (insort_le le x ys) = insert x (set ys)"
  by (induction ys) auto

lemma sorted_insort_le:
  assumes K: "total_order_on_keys le K" and "fst x \<in> K" "fst ` set ys \<subseteq> K"
    and "sorted_wrt (\<lambda>a b. le (fst a) (fst b)) ys"
  shows "sorted_wrt (\<lambda>a b. le (fst a) (fst b)) (insort_le le x ys)"
  using assms(2-)
proof (induction ys)
  case (Cons y ys)
  have y: "fst y \<in> K" and ys: "\<And>z. z \<in> set ys \<Longrightarrow> fst z \<in> K \<and> le (fst y) (fst z)"
    using Cons.prems by auto
  show ?case
  proof (cases "le (fst x) (fst y)")
    case True
    then have "\<forall>z\<in>set ys. le (fst x) (fst z)"
      using total_order_onD(3) [OF K Cons.prems(1) y] ys by blast
    with True Cons.prems(3) show ?thesis by simp
  next
    case False
    then have "le (fst y) (fst x)"
      using total_order_onD(1) [OF K Cons.prems(1) y] by blast
    with False Cons ys show ?thesis by (simp add: set_insort_le)
  qed
qed simp

lemma sorted_sort_keys:
  "total_order_on_keys le K \<Longrightarrow> fst ` set xs \<subseteq> K \<Longrightarrow>
     sorted_wrt (\<lambda>a b. le (fst a) (fst b)) (sort_keys le xs)"
proof (induction xs)
  case (Cons x xs)
  have "set (sort_keys le xs) = set xs"
    using mset_sort_keys [of le xs] by (metis set_mset_mset)
  with Cons show ?case
    by (auto simp: sort_keys_def intro!: sorted_insort_le)
qed (simp add: sort_keys_def)

lemma sorted_keys_unique:
  "total_order_on_keys le K \<Longrightarrow> fst ` set xs \<subseteq> K \<Longrightarrow> mset xs = mset ys \<Longrightarrow> distinct (map fst xs) \<Longrightarrow>
   sorted_wrt (\<lambda>a b. le (fst a) (fst b)) xs \<Longrightarrow> sorted_wrt (\<lambda>a b. le (fst a) (fst b)) ys \<Longrightarrow> xs = ys"
proof (induction xs arbitrary: ys)
  case (Cons x xs)
  then obtain y ys' where ys: "ys = y # ys'"
    by (cases ys) auto
  have sets: "set ys = set (x # xs)"
    using Cons.prems(3) by (metis set_mset_mset)
  have "x = y"
  proof (rule ccontr)
    assume "x \<noteq> y"
    then have "x \<in> set ys'" "y \<in> set xs"
      using sets ys by auto
    then have "le (fst x) (fst y)" "le (fst y) (fst x)"
      using Cons.prems ys by auto
    moreover have "fst x \<in> K" "fst y \<in> K"
      using Cons.prems(2) \<open>y \<in> set xs\<close> by auto
    ultimately have "fst x = fst y"
      using total_order_onD(2) [OF Cons.prems(1)] by blast
    with \<open>y \<in> set xs\<close> Cons.prems(4) show False
      by auto
  qed
  with Cons ys show ?case by auto
qed simp

text \<open>Objects with the same members have the same canonical text.\<close>

lemma canonicalMembers_filter:
  "canonicalMembers le r = map (\<lambda>(k, v). (k, canonicalJson le v)) (filter (\<lambda>(k, v). v \<noteq> JUndefined) r)"
  by (induction r) auto

lemma canonicalMembers_keys:
  "map fst (canonicalMembers le r) = map fst (filter (\<lambda>(k, v). v \<noteq> JUndefined) r)"
  by (induction r) auto

lemma canonicalJson_permute:
  assumes "total_order_on_keys le (fst ` set r)" "distinct (map fst r)" "mset r = mset r'"
  shows "canonicalJson le (JObject r) = canonicalJson le (JObject r')"
proof -
  have same: "mset (canonicalMembers le r) = mset (canonicalMembers le r')"
    using assms(3) by (simp add: canonicalMembers_filter mset_filter mset_map)
  have keys: "fst ` set (canonicalMembers le r) \<subseteq> fst ` set r"
    by (force simp: canonicalMembers_filter)
  have keys': "fst ` set (canonicalMembers le r') \<subseteq> fst ` set r"
    using keys same by (metis set_mset_mset)
  have "distinct (map fst (canonicalMembers le r))"
    using assms(2) canonicalMembers_keys by (metis distinct_map_filter)
  then have "distinct (map fst (sort_keys le (canonicalMembers le r)))"
    using mset_sort_keys by (metis mset_eq_imp_distinct_iff mset_map)
  moreover have "fst ` set (sort_keys le (canonicalMembers le r)) \<subseteq> fst ` set r"
    using keys mset_sort_keys by (metis set_mset_mset)
  ultimately have "sort_keys le (canonicalMembers le r) = sort_keys le (canonicalMembers le r')"
    using sorted_keys_unique [OF assms(1)] sorted_sort_keys [OF assms(1)] keys keys' same
    by (metis mset_sort_keys)
  then show ?thesis
    by (simp add: canonicalJson.simps)
qed

subsection \<open>Object spread\<close>

text \<open>\<^verbatim>\<open>{ ...r, ...d }\<close>: a member of \<open>d\<close> replaces the one of \<open>r\<close> in its place, or follows.\<close>

fun put_member :: "jsrecord \<Rightarrow> jsstring \<times> jsval \<Rightarrow> jsrecord" where
  "put_member [] (k, v) = [(k, v)]"
| "put_member ((k', v') # r) (k, v) =
     (if k' = k then (k, v) # r else (k', v') # put_member r (k, v))"

definition spread :: "jsrecord \<Rightarrow> jsrecord \<Rightarrow> jsrecord" where
  "spread r d = foldl put_member r d"

lemma map_of_put_member: "map_of (put_member r (k, v)) = (map_of r)(k \<mapsto> v)"
  by (induction r "(k, v)" rule: put_member.induct) auto

lemma map_of_spread:
  "distinct (map fst d) \<Longrightarrow> map_of (spread r d) = map_of r ++ map_of d"
proof (induction d arbitrary: r)
  case (Cons kv d)
  obtain k v where kv: "kv = (k, v)" by fastforce
  with Cons.prems have k: "k \<notin> dom (map_of d)"
    by (auto simp: dom_map_of_conv_image_fst)
  have "map_of (spread r (kv # d)) = (map_of r)(k \<mapsto> v) ++ map_of d"
    using Cons.IH [of "put_member r (k, v)"] Cons.prems
    by (simp add: kv map_of_put_member spread_def fun_upd_def)
  also have "\<dots> = map_of r ++ (map_of d)(k \<mapsto> v)"
    using k by (auto simp: map_add_def fun_eq_iff split: option.splits)
  also have "(map_of d)(k \<mapsto> v) = map_of (kv # d)"
    by (simp add: kv fun_eq_iff)
  finally show ?case .
qed (simp add: spread_def)

subsection \<open>Bounded errors\<close>

text \<open>
  \<^verbatim>\<open>boundedDeliveryError\<close> on an object; \<^verbatim>\<open>String(value)\<close> of an object is its class tag.  Only
  strings are ever stored under \<^verbatim>\<open>boundaryViolation\<close>.
\<close>

definition asString :: "jsval \<Rightarrow> jsstring option" where
  "asString v = (case v of JString s \<Rightarrow> Some s | _ \<Rightarrow> None)"

definition boundedDeliveryError :: "jsrecord \<Rightarrow> jsval" where
  "boundedDeliveryError r =
     (let originalMessage = or_else (asString (fld r ''message'')) (js ''[object Object]'');
          message = utf16_take 8192 originalMessage
      in objectOf
        [(''code'', Some (JString (case asString (fld r ''code'') of
             Some code \<Rightarrow> utf16_take 256 code | None \<Rightarrow> js ''provider_delivery_failed''))),
         (''message'', Some (JString message)),
         (''truncated'', if utf16_length message < utf16_length originalMessage
           then Some (JBool True) else None),
         (''retryable'', case fld r ''retryable'' of JBool b \<Rightarrow> Some (JBool b) | _ \<Rightarrow> None),
         (''boundaryViolation'', case asString (fld r ''boundaryViolation'') of
             Some s \<Rightarrow> if s = [] then None else Some (JString (utf16_take 256 s)) | None \<Rightarrow> None)])"

text \<open>The members of a typed error, and \<^verbatim>\<open>deliveryError\<close> of a thrown value with its message.\<close>

definition errorMembers :: "ProviderDeliveryError \<Rightarrow> jsrecord" where
  "errorMembers e = members
     [(''code'', Some (JString (deliveryCode e))), (''message'', Some (JString (deliveryMessage e))),
      (''retryable'', map_option JBool (deliveryRetryable e))]"

definition deliveryError :: "jsstring \<Rightarrow> ProviderDeliveryError" where
  "deliveryError message =
     \<lparr>deliveryCode = js ''provider_delivery_failed'', deliveryMessage = utf16_take 8192 message,
      deliveryRetryable = Some True\<rparr>"

text \<open>
  A thrown value: the Codex connection's own error with its phase, or any other, as the members
  an object has and the message it is reported with.
\<close>

datatype Thrown =
    CodexRequestError bool jsstring
  | ThrownValue jsval jsstring

fun thrownText :: "Thrown \<Rightarrow> jsstring" where
  "thrownText (CodexRequestError sent message) = message"
| "thrownText (ThrownValue v message) = message"

fun providerPossiblySent :: "Thrown \<Rightarrow> bool" where
  "providerPossiblySent (CodexRequestError sent message) = sent"
| "providerPossiblySent (ThrownValue v message) =
     (case asObject v of
        None \<Rightarrow> False
      | Some r \<Rightarrow>
          (case asObject (fld r ''crossing'') of
             None \<Rightarrow> False
           | Some c \<Rightarrow> fld r ''deliveryOutcome'' = JString (js ''unknown'') \<and>
               fld c ''phase'' = JString (js ''possibly-sent'')))"

subsection \<open>The bounded form fits its column\<close>

lemma utf8_width_le: "utf8_width c \<le> 4"
  by simp

lemma utf8_length_concat: "utf8_length (concat ss) = sum_list (map utf8_length ss)"
  by (induction ss) (simp_all add: utf8_length_def)

lemma utf8_hex_digit [simp]: "utf8_width (hex_digit (d mod 16)) = 1"
proof -
  have "hex_digit (d mod 16) < 128"
    using mod_less_divisor [of 16 d] by (auto simp: hex_digit_def)
  then show ?thesis by simp
qed

lemma utf8_length_escape [simp]: "utf8_length (unicode_escape c) = 6"
proof -
  have "utf8_width 92 = 1" "utf8_width 117 = 1"
    by simp_all
  then show ?thesis
    by (simp add: unicode_escape_def utf8_length_def js_def del: utf8_width.simps)
qed

lemma utf8_length_if:
  "utf8_length a \<le> n \<Longrightarrow> utf8_length b \<le> n \<Longrightarrow> utf8_length (if c then a else b) \<le> n"
  by simp

lemma quote_two:
  "utf8_length (js [CHR 0x5C, CHR ''b'']) \<le> 6" "utf8_length (js [CHR 0x5C, CHR ''t'']) \<le> 6"
  "utf8_length (js [CHR 0x5C, CHR ''n'']) \<le> 6" "utf8_length (js [CHR 0x5C, CHR ''f'']) \<le> 6"
  "utf8_length (js [CHR 0x5C, CHR ''r'']) \<le> 6" "utf8_length (js [CHR 0x5C, CHR 0x22]) \<le> 6"
  "utf8_length (js [CHR 0x5C, CHR 0x5C]) \<le> 6"
  by (simp_all add: js_def utf8_length_def)

lemma quote_char_bound: "utf8_length (quote_char c) \<le> 6"
  unfolding quote_char_def
  by (intro utf8_length_if quote_two; simp (no_asm) add: utf8_length_def [of "[c]"])

lemma json_quote_bound: "utf8_length (json_quote s) \<le> 6 * utf16_length s + 2"
proof -
  have "utf8_length (concat (map quote_char s)) \<le> 6 * utf16_length s"
  proof (induction s)
    case (Cons c s)
    then show ?case
      using quote_char_bound [of c] by simp
  qed (simp add: utf8_length_def)
  then show ?thesis
    by (simp add: json_quote_def utf8_length_def)
qed

lemma quoted_take_bound: "utf8_length (json_quote (utf16_take n s)) \<le> 6 * n + 2"
  using json_quote_bound [of "utf16_take n s"] utf16_length_take [of n s] by linarith

definition member_size :: "jsrecord \<Rightarrow> nat" where
  "member_size r = sum_list (map (\<lambda>(k, v). utf8_length (json_quote k) + byte_length v + 2) r)"

lemma member_size_simps:
  "member_size [] = 0"
  "member_size ((k, v) # r) = utf8_length (json_quote k) + byte_length v + 2 + member_size r"
  by (simp_all add: member_size_def)

lemma join_with_bound:
  "utf8_length (join_with (js '','') ss) \<le> sum_list (map utf8_length ss) + length ss"
proof (induction "js '',''" ss rule: join_with.induct)
  case (3 s t ss)
  have "utf8_length (js '','') = 1"
    by (simp add: js_def utf8_length_def)
  with 3 show ?case by simp
qed (simp_all add: utf8_length_def)

lemma json_members_bound:
  "sum_list (map utf8_length (json_members r)) + length (json_members r) \<le> member_size r"
proof (induction r)
  case (Cons kv r)
  obtain k v where kv: "kv = (k, v)" by fastforce
  have "utf8_length (js '':'') = 1"
    by (simp add: js_def utf8_length_def)
  with Cons show ?case
    by (cases "json_text v") (simp_all add: kv member_size_simps byte_length_def)
qed (simp add: member_size_simps)

lemma byte_length_object: "byte_length (JObject r) \<le> member_size r + 2"
proof -
  have "utf8_length (js ''{'') = 1" "utf8_length (js ''}'') = 1"
    by (simp_all add: js_def utf8_length_def)
  then show ?thesis
    using join_with_bound [of "json_members r"] json_members_bound [of r]
    by (simp add: byte_length_def)
qed

lemma member_size_members:
  "member_size (members ((k, ov) # fs)) =
     (case ov of None \<Rightarrow> 0 | Some v \<Rightarrow> utf8_length (json_quote (js k)) + byte_length v + 2) +
     member_size (members fs)"
  by (simp add: members.simps member_size_simps split: option.split)

lemma json_quote_key: "utf8_length (json_quote (js k)) \<le> 12 * length k + 2"
proof -
  have "utf16_length (js k) \<le> 2 * length k"
    by (induction k) (auto simp: js_def)
  then show ?thesis
    using json_quote_bound [of "js k"] by linarith
qed

text \<open>Keys of at most 17 characters; three strings; two booleans.\<close>

lemma boundedDeliveryError_bound: "byte_length (boundedDeliveryError r) \<le> 65002"
proof -
  define originalMessage where
    "originalMessage = or_else (asString (fld r ''message'')) (js ''[object Object]'')"
  have str: "byte_length (JString t) = utf8_length (json_quote t)" for t
    by (simp add: byte_length_def)
  have bool: "byte_length (JBool b) \<le> 5" for b
    by (simp add: byte_length_def js_def utf8_length_def)
  have code: "byte_length (JString (case asString (fld r ''code'') of
      Some code \<Rightarrow> utf16_take 256 code | None \<Rightarrow> js ''provider_delivery_failed'')) \<le> 1538"
  proof (cases "asString (fld r ''code'')")
    case None
    then show ?thesis
      using json_quote_key [of "''provider_delivery_failed''"] by (simp add: str)
  next
    case (Some c)
    then show ?thesis
      using quoted_take_bound [of 256 c] by (simp add: str)
  qed
  have message: "byte_length (JString (utf16_take 8192 originalMessage)) \<le> 49154"
    using quoted_take_bound [of 8192 originalMessage] by (simp add: str)
  have violation: "(case (case asString (fld r ''boundaryViolation'') of
        Some s \<Rightarrow> if s = [] then None else Some (JString (utf16_take 256 s)) | None \<Rightarrow> None) of
      None \<Rightarrow> 0 | Some v \<Rightarrow> utf8_length (json_quote (js ''boundaryViolation'')) + byte_length v + 2)
      \<le> 1746"
  proof (cases "asString (fld r ''boundaryViolation'')")
    case (Some t)
    then show ?thesis
      using json_quote_key [of "''boundaryViolation''"] quoted_take_bound [of 256 t]
      by (simp add: str)
  qed simp
  have flag: "(case (if c then Some (JBool True) else None) of
      None \<Rightarrow> 0 | Some v \<Rightarrow> utf8_length (json_quote (js ''truncated'')) + byte_length v + 2) \<le> 117" for c
    using json_quote_key [of "''truncated''"] bool [of True] by simp
  have retry: "(case (case fld r ''retryable'' of JBool b \<Rightarrow> Some (JBool b) | _ \<Rightarrow> None) of
      None \<Rightarrow> 0 | Some v \<Rightarrow> utf8_length (json_quote (js ''retryable'')) + byte_length v + 2) \<le> 117"
  proof (cases "fld r ''retryable''")
    case (JBool b)
    then show ?thesis
      using json_quote_key [of "''retryable''"] bool [of b] by simp
  qed simp_all
  have keys: "utf8_length (json_quote (js ''code'')) \<le> 50"
    "utf8_length (json_quote (js ''message'')) \<le> 86"
    using json_quote_key [of "''code''"] json_quote_key [of "''message''"] by simp_all
  have "member_size (members
        [(''code'', Some (JString (case asString (fld r ''code'') of
             Some code \<Rightarrow> utf16_take 256 code | None \<Rightarrow> js ''provider_delivery_failed''))),
         (''message'', Some (JString (utf16_take 8192 originalMessage))),
         (''truncated'', if utf16_length (utf16_take 8192 originalMessage) < utf16_length originalMessage
           then Some (JBool True) else None),
         (''retryable'', case fld r ''retryable'' of JBool b \<Rightarrow> Some (JBool b) | _ \<Rightarrow> None),
         (''boundaryViolation'', case asString (fld r ''boundaryViolation'') of
             Some s \<Rightarrow> if s = [] then None else Some (JString (utf16_take 256 s)) | None \<Rightarrow> None)])
      \<le> 65000"
    using code message violation flag [of "utf16_length (utf16_take 8192 originalMessage) <
        utf16_length originalMessage"] retry keys
    unfolding member_size_members option.case(2) members.simps(1) member_size_simps(1)
    by linarith
  from order.trans [OF byte_length_object add_mono [OF this order.refl]]
  have "byte_length (boundedDeliveryError r) \<le> 65000 + 2"
    unfolding boundedDeliveryError_def Let_def objectOf_def originalMessage_def .
  then show ?thesis by simp
qed

lemma boundedDeliveryError_size: "byte_length (boundedDeliveryError r) \<le> 65536"
  using boundedDeliveryError_bound [of r] by simp

end
