(* ===== verification/DeliveryEvidence.thy ===== *)
theory DeliveryEvidence
  imports DeliveryJson
begin

text \<open>
  Acceptance evidence and the scope of an observation
  (extensions/agent/server/src/native-runtime/delivery-attempt-owner.ts):
  \<^verbatim>\<open>validateRootEvidence\<close>, which admits a proof of acceptance only for the frozen attempt it
  speaks of, \<^verbatim>\<open>validateEnvelopeScope\<close>, \<^verbatim>\<open>declaredNativeChildSession\<close>, \<^verbatim>\<open>validTurnTrigger\<close>
  and \<^verbatim>\<open>validateActiveCompactPayload\<close>, over the field checks at the end of the file.
\<close>

subsection \<open>Field checks\<close>

definition requireRecord :: "jsval \<Rightarrow> string \<Rightarrow> Fault + jsrecord" where
  "requireRecord v name =
     (case asObject v of None \<Rightarrow> refuse (name @ '' must be an object.'') | Some r \<Rightarrow> Inr r)"

definition requiredString :: "jsval \<Rightarrow> string \<Rightarrow> nat \<Rightarrow> Fault + jsstring" where
  "requiredString v name maxLength =
     (case asString v of
        None \<Rightarrow> refuse (name @ '' must be a non-empty bounded string.'')
      | Some s \<Rightarrow>
          if s = [] \<or> maxLength < utf8_length s
          then refuse (name @ '' must be a non-empty bounded string.'') else Inr s)"

definition requireIdentifier :: "jsval \<Rightarrow> string \<Rightarrow> Fault + jsstring" where
  "requireIdentifier v name =
     ebind (requiredString v name 512) (\<lambda>s.
       if identifier_chars s then Inr s
       else refuse (name @ '' contains unsupported identifier characters.''))"

definition optionalIdentifier :: "jsval \<Rightarrow> string \<Rightarrow> Fault + jsstring option" where
  "optionalIdentifier v name =
     (if v = JUndefined then Inr None
      else ebind (requireIdentifier v name) (\<lambda>s. Inr (Some s)))"

definition requireExactKeys :: "jsrecord \<Rightarrow> string list \<Rightarrow> string list \<Rightarrow> Fault + unit" where
  "requireExactKeys r required optional =
     guard ((\<forall>k\<in>set required. has r k) \<and> keysIn r (required @ optional))
       ''Acceptance evidence contains missing or unsupported fields.''"

definition is_identifier :: "jsstring \<Rightarrow> bool" where
  "is_identifier s = (identifier_chars s \<and> length s \<le> 512)"

lemma asString_eq_Some [simp]: "asString v = Some s \<longleftrightarrow> v = JString s" "asString (JString s) = Some s"
  by (auto simp: asString_def split: jsval.splits)

lemma alnum_ascii: "alnum c \<Longrightarrow> c < 128"
  by (auto simp: alnum_def)

lemma identifier_ascii: "identifier_chars s \<Longrightarrow> utf8_length s = length s"
proof -
  have special: "\<And>c. c \<in> set (js ''._:/@+-'') \<Longrightarrow> c < 128"
    by (auto simp: js_def)
  assume "identifier_chars s"
  then have "list_all (\<lambda>c. c < 128) s"
    using special by (cases s) (auto simp: identifier_chars_def list_all_iff alnum_ascii)
  then show ?thesis
    by (induction s) (simp_all add: utf8_length_def)
qed

lemma requireIdentifier_iff [simp]:
  "requireIdentifier v n = Inr s \<longleftrightarrow> v = JString s \<and> is_identifier s"
proof -
  have "(if identifier_chars t then Inr t else refuse m) = Inr s \<longleftrightarrow> identifier_chars t \<and> t = s"
    for t and m :: string by simp
  then show ?thesis
    by (auto simp: requireIdentifier_def requiredString_def is_identifier_def identifier_ascii
        split: option.splits if_splits)
qed

lemma optionalIdentifier_iff [simp]:
  "optionalIdentifier v n = Inr os \<longleftrightarrow>
     v = or_else (map_option JString os) JUndefined \<and> (\<forall>s. os = Some s \<longrightarrow> is_identifier s)"
  by (cases os) (auto simp: optionalIdentifier_def)

lemma optional_string_eq [simp]:
  "or_else (map_option JString a) JUndefined = or_else (map_option JString b) JUndefined \<longleftrightarrow> a = b"
  "or_else (map_option JString a) JUndefined = JString x \<longleftrightarrow> a = Some x"
  "JString x = or_else (map_option JString a) JUndefined \<longleftrightarrow> a = Some x"
  by (cases a; cases b; auto)+

lemma requireExactKeys_iff [simp]:
  "requireExactKeys r ks os = Inr u \<longleftrightarrow> (\<forall>k\<in>set ks. has r k) \<and> keysIn r (ks @ os)"
  by (simp add: requireExactKeys_def)

lemma requireRecord_iff [simp]: "requireRecord v n = Inr r \<longleftrightarrow> asObject v = Some r"
  by (simp add: requireRecord_def split: option.split)

lemma requireRecord_objectOf [simp]: "requireRecord (objectOf fs) n = Inr (members fs)"
  by (simp add: objectOf_def asObject_def)

subsection \<open>Evidence of acceptance\<close>

datatype EvidenceKind =
    CodexStartKind | CodexHistoryKind | CodexSteerKind | CodexCompactKind | ClaudeReplayKind
  | ClaudeRootKind | ClaudeBoundaryKind | ClaudeStatusKind | FixtureKind

fun evidenceKindName :: "EvidenceKind \<Rightarrow> string" where
  "evidenceKindName CodexStartKind = ''codex-turn-start-response''"
| "evidenceKindName CodexHistoryKind = ''codex-history-client-id''"
| "evidenceKindName CodexSteerKind = ''codex-turn-steer-response''"
| "evidenceKindName CodexCompactKind = ''codex-compact-response''"
| "evidenceKindName ClaudeReplayKind = ''claude-input-replay''"
| "evidenceKindName ClaudeRootKind = ''claude-root-processing''"
| "evidenceKindName ClaudeBoundaryKind = ''claude-manual-compact-boundary''"
| "evidenceKindName ClaudeStatusKind = ''claude-manual-compact-status''"
| "evidenceKindName FixtureKind = ''fixture-correlated-acceptance''"

definition evidenceKinds :: "EvidenceKind list" where
  "evidenceKinds =
     [CodexStartKind, CodexHistoryKind, CodexSteerKind, CodexCompactKind, ClaudeReplayKind,
      ClaudeRootKind, ClaudeBoundaryKind, ClaudeStatusKind, FixtureKind]"

text \<open>The payload's \<^verbatim>\<open>expectedNativeTurnId\<close>, which names a steer's turn.\<close>

definition expectedTurn :: "FrozenDeliveryAttempt \<Rightarrow> Fault + jsval" where
  "expectedTurn a =
     ebind (requireRecord (recoveryPayload a) ''delivery recovery payload'')
       (\<lambda>p. Inr (fld p ''expectedNativeTurnId''))"

text \<open>The branch of \<^verbatim>\<open>validateRootEvidence\<close> for each kind; it returns the evidence it asserts.\<close>

fun evidenceOf :: "EvidenceKind \<Rightarrow> FrozenDeliveryAttempt \<Rightarrow> jsrecord \<Rightarrow> Fault + ProviderAcceptanceEvidence"
  where
  "evidenceOf CodexStartKind a r =
     ebind (requireExactKeys r [''kind'', ''threadId'', ''turnId'', ''nativeClientMessageId''] []) (\<lambda>_.
     ebind (requireIdentifier (fld r ''threadId'') ''threadId'') (\<lambda>t.
     ebind (requireIdentifier (fld r ''turnId'') ''turnId'') (\<lambda>n.
     ebind (requireIdentifier (fld r ''nativeClientMessageId'') ''nativeClientMessageId'') (\<lambda>c.
     ebind (guard (attemptKind a = RootTurn \<and> attemptProvider a = Codex \<and>
         t = attemptNativeSessionId a \<and> Some c = nativeClientMessageId a \<and>
         (attemptNativeTurnId a = None \<or> Some n = attemptNativeTurnId a))
       ''Codex acceptance evidence does not match frozen delivery scope.'') (\<lambda>_.
     Inr (CodexTurnStartResponse t n c))))))"
| "evidenceOf CodexHistoryKind a r =
     ebind (requireExactKeys r [''kind'', ''threadId'', ''nativeClientMessageId''] [''nativeTurnId'']) (\<lambda>_.
     ebind (requireIdentifier (fld r ''threadId'') ''threadId'') (\<lambda>t.
     ebind (requireIdentifier (fld r ''nativeClientMessageId'') ''nativeClientMessageId'') (\<lambda>c.
     ebind (optionalIdentifier (fld r ''nativeTurnId'') ''nativeTurnId'') (\<lambda>n.
     ebind (expectedTurn a) (\<lambda>expected.
     ebind (guard (
         ((attemptKind a = RootTurn \<and>
             (attemptNativeTurnId a = None \<or> n = None \<or> n = attemptNativeTurnId a)) \<or>
          (attemptKind a = Steer \<and> n \<noteq> None \<and> or_else (map_option JString n) JUndefined = expected)) \<and>
         attemptProvider a = Codex \<and> t = attemptNativeSessionId a \<and>
         Some c = nativeClientMessageId a \<and> \<not> (attemptKind a = Steer \<and> n = None))
       ''Codex history evidence does not match frozen delivery scope.'') (\<lambda>_.
     Inr (CodexHistoryClientId t c n)))))))"
| "evidenceOf CodexSteerKind a r =
     ebind (requireExactKeys r [''kind'', ''threadId'', ''turnId'', ''nativeClientMessageId''] []) (\<lambda>_.
     ebind (expectedTurn a) (\<lambda>expected.
     let message = ''Codex steer evidence does not match frozen delivery scope.'' in
     ebind (guard (attemptKind a = Steer \<and> attemptProvider a = Codex) message) (\<lambda>_.
     ebind (requireIdentifier (fld r ''threadId'') ''threadId'') (\<lambda>t.
     ebind (guard (t = attemptNativeSessionId a) message) (\<lambda>_.
     ebind (requireIdentifier (fld r ''nativeClientMessageId'') ''nativeClientMessageId'') (\<lambda>c.
     ebind (guard (Some c = nativeClientMessageId a) message) (\<lambda>_.
     ebind (requireIdentifier (fld r ''turnId'') ''turnId'') (\<lambda>n.
     ebind (guard (JString n = expected) message) (\<lambda>_.
     Inr (CodexTurnSteerResponse t n c))))))))))"
| "evidenceOf CodexCompactKind a r =
     ebind (requireExactKeys r [''kind'', ''threadId'', ''requestId'', ''connectionGeneration''] []) (\<lambda>_.
     let message = ''Codex Compact evidence does not match frozen delivery scope.'' in
     ebind (guard (attemptKind a = ManualCompact \<and> attemptProvider a = Codex) message) (\<lambda>_.
     ebind (requireIdentifier (fld r ''threadId'') ''threadId'') (\<lambda>t.
     ebind (guard (t = attemptNativeSessionId a) message) (\<lambda>_.
     ebind (case fld r ''requestId'' of
         JNumber q \<Rightarrow> ebind (guard (is_safe_integer q \<and> 0 \<le> q) message) (\<lambda>_. Inr q)
       | _ \<Rightarrow> refuse message) (\<lambda>q.
     ebind (requireIdentifier (fld r ''connectionGeneration'') ''connectionGeneration'') (\<lambda>g.
     ebind (guard (Some g = processGeneration a) message) (\<lambda>_.
     Inr (CodexCompactResponse t q g))))))))"
| "evidenceOf ClaudeReplayKind a r =
     ebind (requireExactKeys r
       [''kind'', ''sessionId'', ''userMessageUuid'', ''nativeTurnId'', ''processGeneration''] []) (\<lambda>_.
     ebind (expectedTurn a) (\<lambda>expected.
     let message = ''Claude input replay does not match frozen delivery scope.'' in
     ebind (guard (attemptKind a = Steer \<and> attemptProvider a = ClaudeCode) message) (\<lambda>_.
     ebind (requireIdentifier (fld r ''sessionId'') ''sessionId'') (\<lambda>s.
     ebind (guard (s = attemptNativeSessionId a) message) (\<lambda>_.
     ebind (requireIdentifier (fld r ''userMessageUuid'') ''userMessageUuid'') (\<lambda>u.
     ebind (guard (Some u = nativeClientMessageId a) message) (\<lambda>_.
     ebind (requireIdentifier (fld r ''nativeTurnId'') ''nativeTurnId'') (\<lambda>n.
     ebind (guard (JString n = expected) message) (\<lambda>_.
     ebind (requireIdentifier (fld r ''processGeneration'') ''processGeneration'') (\<lambda>g.
     ebind (guard (Some g = processGeneration a) message) (\<lambda>_.
     Inr (ClaudeInputReplay s u n g))))))))))))"
| "evidenceOf ClaudeRootKind a r =
     ebind (requireExactKeys r [''kind'', ''sessionId'', ''userMessageUuid'', ''observationUuid''] []) (\<lambda>_.
     ebind (requireIdentifier (fld r ''sessionId'') ''sessionId'') (\<lambda>s.
     ebind (requireIdentifier (fld r ''userMessageUuid'') ''userMessageUuid'') (\<lambda>u.
     ebind (requireIdentifier (fld r ''observationUuid'') ''observationUuid'') (\<lambda>b.
     ebind (guard (attemptKind a = RootTurn \<and> attemptProvider a = ClaudeCode \<and>
         s = attemptNativeSessionId a \<and> Some u = nativeClientMessageId a)
       ''Claude acceptance evidence does not match frozen delivery scope.'') (\<lambda>_.
     Inr (ClaudeRootProcessing s u b))))))"
| "evidenceOf ClaudeBoundaryKind a r =
     ebind (requireExactKeys r
       [''kind'', ''sessionId'', ''boundaryUuid'', ''processGeneration'', ''trigger''] []) (\<lambda>_.
     let message = ''Claude Compact evidence does not match frozen delivery scope.'' in
     ebind (guard (attemptKind a = ManualCompact \<and> attemptProvider a = ClaudeCode) message) (\<lambda>_.
     ebind (requireIdentifier (fld r ''sessionId'') ''sessionId'') (\<lambda>s.
     ebind (guard (s = attemptNativeSessionId a) message) (\<lambda>_.
     ebind (requireIdentifier (fld r ''processGeneration'') ''processGeneration'') (\<lambda>g.
     ebind (guard (Some g = processGeneration a) message) (\<lambda>_.
     ebind (requireIdentifier (fld r ''boundaryUuid'') ''boundaryUuid'') (\<lambda>b.
     ebind (guard (fld r ''trigger'' = JString (js ''manual'')) message) (\<lambda>_.
     Inr (ClaudeManualCompactBoundary s b g)))))))))"
| "evidenceOf ClaudeStatusKind a r =
     ebind (requireExactKeys r
       [''kind'', ''sessionId'', ''inputUuid'', ''statusUuid'', ''processGeneration'', ''status''] []) (\<lambda>_.
     let message = ''Claude Compact status evidence does not match frozen delivery scope.'' in
     ebind (guard (attemptKind a = ManualCompact \<and> attemptProvider a = ClaudeCode) message) (\<lambda>_.
     ebind (requireIdentifier (fld r ''sessionId'') ''sessionId'') (\<lambda>s.
     ebind (guard (s = attemptNativeSessionId a) message) (\<lambda>_.
     ebind (requireIdentifier (fld r ''inputUuid'') ''inputUuid'') (\<lambda>i.
     ebind (guard (Some i = nativeClientMessageId a) message) (\<lambda>_.
     ebind (requireIdentifier (fld r ''processGeneration'') ''processGeneration'') (\<lambda>g.
     ebind (guard (Some g = processGeneration a) message) (\<lambda>_.
     ebind (requireIdentifier (fld r ''statusUuid'') ''statusUuid'') (\<lambda>u.
     if fld r ''status'' = JString (js ''compacting'')
     then Inr (ClaudeManualCompactStatus s i u g CompactingStatus)
     else if fld r ''status'' = JString (js ''failed'')
     then Inr (ClaudeManualCompactStatus s i u g FailedCompactStatus)
     else refuse message)))))))))"
| "evidenceOf FixtureKind a r =
     ebind (requireExactKeys r [''kind'', ''sessionId'', ''commandId''] [''nativeTurnId'']) (\<lambda>_.
     ebind (requireIdentifier (fld r ''sessionId'') ''sessionId'') (\<lambda>s.
     ebind (requireIdentifier (fld r ''commandId'') ''commandId'') (\<lambda>c.
     ebind (optionalIdentifier (fld r ''nativeTurnId'') ''nativeTurnId'') (\<lambda>n.
     ebind (guard (attemptProvider a = FixtureProvider \<and> s = attemptNativeSessionId a \<and>
         Some c = (if attemptKind a = ManualCompact then compactOperationId a
                   else Some (attemptCommandId a)) \<and>
         (attemptNativeTurnId a = None \<or> n = None \<or> n = attemptNativeTurnId a))
       ''Fixture acceptance evidence does not match frozen delivery scope.'') (\<lambda>_.
     Inr (FixtureCorrelatedAcceptance s c n))))))"

definition validateRootEvidence ::
  "FrozenDeliveryAttempt \<Rightarrow> jsval \<Rightarrow> Fault + ProviderAcceptanceEvidence" where
  "validateRootEvidence a raw =
     ebind (requireRecord raw ''acceptance evidence'') (\<lambda>r.
     ebind (requiredString (fld r ''kind'') ''acceptance evidence kind'' 64) (\<lambda>kind.
     case find (\<lambda>k. js (evidenceKindName k) = kind) evidenceKinds of
       Some k \<Rightarrow> evidenceOf k a r
     | None \<Rightarrow> Inl (Refused (js ''Evidence '' @ kind @
         js '' cannot accept a root-turn delivery attempt in S2a1.''))))"

text \<open>What a proof must say of the attempt it accepts.\<close>

fun evidence_proves :: "FrozenDeliveryAttempt \<Rightarrow> ProviderAcceptanceEvidence \<Rightarrow> bool" where
  "evidence_proves a (CodexTurnStartResponse t n c) =
     (attemptKind a = RootTurn \<and> attemptProvider a = Codex \<and> t = attemptNativeSessionId a \<and>
      nativeClientMessageId a = Some c \<and> attemptNativeTurnId a \<in> {None, Some n} \<and>
      is_identifier t \<and> is_identifier n \<and> is_identifier c)"
| "evidence_proves a (CodexHistoryClientId t c n) =
     (attemptProvider a = Codex \<and> t = attemptNativeSessionId a \<and> nativeClientMessageId a = Some c \<and>
      (attemptKind a = RootTurn \<and> (attemptNativeTurnId a = None \<or> n \<in> {None, attemptNativeTurnId a}) \<and>
         \<not> isl (expectedTurn a) \<or>
       attemptKind a = Steer \<and> n \<noteq> None \<and> expectedTurn a = Inr (or_else (map_option JString n) JUndefined)) \<and>
      is_identifier t \<and> is_identifier c \<and> (\<forall>x. n = Some x \<longrightarrow> is_identifier x))"
| "evidence_proves a (CodexTurnSteerResponse t n c) =
     (attemptKind a = Steer \<and> attemptProvider a = Codex \<and> t = attemptNativeSessionId a \<and>
      nativeClientMessageId a = Some c \<and> expectedTurn a = Inr (JString n) \<and>
      is_identifier t \<and> is_identifier n \<and> is_identifier c)"
| "evidence_proves a (CodexCompactResponse t q g) =
     (attemptKind a = ManualCompact \<and> attemptProvider a = Codex \<and> t = attemptNativeSessionId a \<and>
      processGeneration a = Some g \<and> is_safe_integer q \<and> 0 \<le> q \<and> is_identifier t \<and> is_identifier g)"
| "evidence_proves a (ClaudeInputReplay s u n g) =
     (attemptKind a = Steer \<and> attemptProvider a = ClaudeCode \<and> s = attemptNativeSessionId a \<and>
      nativeClientMessageId a = Some u \<and> expectedTurn a = Inr (JString n) \<and>
      processGeneration a = Some g \<and>
      is_identifier s \<and> is_identifier u \<and> is_identifier n \<and> is_identifier g)"
| "evidence_proves a (ClaudeRootProcessing s u b) =
     (attemptKind a = RootTurn \<and> attemptProvider a = ClaudeCode \<and> s = attemptNativeSessionId a \<and>
      nativeClientMessageId a = Some u \<and> is_identifier s \<and> is_identifier u \<and> is_identifier b)"
| "evidence_proves a (ClaudeManualCompactBoundary s b g) =
     (attemptKind a = ManualCompact \<and> attemptProvider a = ClaudeCode \<and> s = attemptNativeSessionId a \<and>
      processGeneration a = Some g \<and> is_identifier s \<and> is_identifier b \<and> is_identifier g)"
| "evidence_proves a (ClaudeManualCompactStatus s i u g st) =
     (attemptKind a = ManualCompact \<and> attemptProvider a = ClaudeCode \<and> s = attemptNativeSessionId a \<and>
      nativeClientMessageId a = Some i \<and> processGeneration a = Some g \<and>
      is_identifier s \<and> is_identifier i \<and> is_identifier u \<and> is_identifier g)"
| "evidence_proves a (FixtureCorrelatedAcceptance s c n) =
     (attemptProvider a = FixtureProvider \<and> s = attemptNativeSessionId a \<and>
      (if attemptKind a = ManualCompact then compactOperationId a = Some c else c = attemptCommandId a) \<and>
      (attemptNativeTurnId a = None \<or> n \<in> {None, attemptNativeTurnId a}) \<and>
      is_identifier s \<and> is_identifier c \<and> (\<forall>x. n = Some x \<longrightarrow> is_identifier x))"

lemma evidenceKind_found [simp]:
  "find (\<lambda>k'. evidenceKindName k' = evidenceKindName k) evidenceKinds = Some k"
  by (cases k) (simp_all add: evidenceKinds_def)

lemma requiredKind [simp]:
  "requiredString (JString (js (evidenceKindName k))) ''acceptance evidence kind'' 64 =
     Inr (js (evidenceKindName k))"
  by (cases k) (simp_all add: requiredString_def js_def utf8_length_def)

fun evidenceKindOf :: "ProviderAcceptanceEvidence \<Rightarrow> EvidenceKind" where
  "evidenceKindOf (CodexTurnStartResponse t n c) = CodexStartKind"
| "evidenceKindOf (CodexTurnSteerResponse t n c) = CodexSteerKind"
| "evidenceKindOf (CodexCompactResponse t r g) = CodexCompactKind"
| "evidenceKindOf (CodexHistoryClientId t c n) = CodexHistoryKind"
| "evidenceKindOf (ClaudeInputReplay s u n g) = ClaudeReplayKind"
| "evidenceKindOf (ClaudeRootProcessing s u b) = ClaudeRootKind"
| "evidenceKindOf (ClaudeManualCompactBoundary s b g) = ClaudeBoundaryKind"
| "evidenceKindOf (ClaudeManualCompactStatus s i u g st) = ClaudeStatusKind"
| "evidenceKindOf (FixtureCorrelatedAcceptance s c n) = FixtureKind"

fun evidenceMembers :: "ProviderAcceptanceEvidence \<Rightarrow> jsrecord" where
  "evidenceMembers e = (case encodeEvidence e of JObject r \<Rightarrow> r | _ \<Rightarrow> [])"

declare evidenceMembers.simps [simp del]

lemma encodeEvidence_members: "encodeEvidence e = JObject (evidenceMembers e)"
  by (cases e) (simp_all add: evidenceMembers.simps objectOf_def)

lemma evidence_kind_member:
  "fld (evidenceMembers e) ''kind'' = JString (js (evidenceKindName (evidenceKindOf e)))"
  by (cases e) (simp_all add: evidenceMembers.simps objectOf_def)

lemma validateRootEvidence_branch:
  "validateRootEvidence a (encodeEvidence e) = evidenceOf (evidenceKindOf e) a (evidenceMembers e)"
  by (simp add: validateRootEvidence_def encodeEvidence_members asObject_def requireRecord_def
      evidence_kind_member)

lemma evidenceOf_members:
  "evidenceOf (evidenceKindOf e) a (evidenceMembers e) = Inr e' \<longleftrightarrow> e' = e \<and> evidence_proves a e"
proof (cases e)
  case (CodexCompactResponse t q g)
  then show ?thesis
    by (auto simp: evidenceMembers.simps objectOf_def Let_def)
next
  case (CodexHistoryClientId t c n)
  then show ?thesis
    by (cases "expectedTurn a") (auto simp: evidenceMembers.simps objectOf_def Let_def)
next
  case (ClaudeManualCompactStatus s i u g st)
  then show ?thesis
    by (cases st) (auto simp: evidenceMembers.simps objectOf_def Let_def)
qed (auto simp: evidenceMembers.simps objectOf_def Let_def)

text \<open>Evidence is admitted exactly when it proves the acceptance of the attempt.\<close>

lemma validateRootEvidence_iff:
  "validateRootEvidence a (encodeEvidence e) = Inr e' \<longleftrightarrow> e' = e \<and> evidence_proves a e"
  by (simp add: validateRootEvidence_branch evidenceOf_members)

subsection \<open>Triggers and active Compact targets\<close>

definition validTurnTrigger :: "jsval \<Rightarrow> bool" where
  "validTurnTrigger v =
     (case asObject v of
        None \<Rightarrow> False
      | Some r \<Rightarrow>
          keysIn r [''kind'', ''childExecutionId'', ''summary''] \<and>
          (fld r ''kind'' = JString (js ''federation'') \<or> fld r ''kind'' = JString (js ''native-child'')) \<and>
          \<not> isl (optionalIdentifier (fld r ''childExecutionId'') ''trigger child'') \<and>
          (fld r ''summary'' = JUndefined \<or>
           (case asString (fld r ''summary'') of None \<Rightarrow> False | Some t \<Rightarrow> utf8_length t \<le> 65536)))"

text \<open>
  \<^verbatim>\<open>new Set(values).size === values.length\<close>: objects and arrays are told apart by identity,
  so only the other values can repeat.
\<close>

definition set_distinct :: "jsval list \<Rightarrow> bool" where
  "set_distinct vs =
     distinct (filter (\<lambda>v. case v of JArray xs \<Rightarrow> False | JObject r \<Rightarrow> False | JInstance r \<Rightarrow> False | _ \<Rightarrow> True) vs)"

fun requireIdentifiers :: "jsval list \<Rightarrow> string \<Rightarrow> Fault + unit" where
  "requireIdentifiers [] name = Inr ()"
| "requireIdentifiers (v # vs) name =
     ebind (requireIdentifier v name) (\<lambda>_. requireIdentifiers vs name)"

definition validateActiveCompactPayload :: "jsrecord \<Rightarrow> ProviderKind \<Rightarrow> Fault + unit" where
  "validateActiveCompactPayload payload provider =
     (if fld payload ''activeParent'' = JUndefined then Inr () else
      ebind (requireRecord (fld payload ''activeParent'') ''active Compact target'') (\<lambda>target.
      ebind (guard (provider = ClaudeCode \<and> keysIn target [''nativeTurnId'', ''toolUseIds''])
        ''Invalid active Compact target.'') (\<lambda>_.
      case fld target ''toolUseIds'' of
        JArray ids \<Rightarrow>
          ebind (guard (ids \<noteq> [] \<and> length ids \<le> 128 \<and> set_distinct ids)
            ''Invalid active Compact target.'') (\<lambda>_.
          ebind (requireIdentifier (fld target ''nativeTurnId'') ''active Compact native turn'') (\<lambda>_.
          requireIdentifiers ids ''active Compact tool use''))
      | _ \<Rightarrow> refuse ''Invalid active Compact target.'')))"

subsection \<open>The scope of an observation\<close>

fun scopeProviderInstance :: "ProviderEventScope \<Rightarrow> jsstring" where
  "scopeProviderInstance (AccountScope i) = i"
| "scopeProviderInstance (ConversationScope i c e) = i"
| "scopeProviderInstance (TurnScope i c e t) = i"
| "scopeProviderInstance (ExecutionScope i c e p t) = i"

fun scopeConversation :: "ProviderEventScope \<Rightarrow> jsstring option" where
  "scopeConversation (AccountScope i) = None"
| "scopeConversation (ConversationScope i c e) = Some c"
| "scopeConversation (TurnScope i c e t) = Some c"
| "scopeConversation (ExecutionScope i c e p t) = Some c"

fun scopeExecution :: "ProviderEventScope \<Rightarrow> jsstring option" where
  "scopeExecution (AccountScope i) = None"
| "scopeExecution (ConversationScope i c e) = Some e"
| "scopeExecution (TurnScope i c e t) = Some e"
| "scopeExecution (ExecutionScope i c e p t) = Some e"

fun scopeTurn :: "ProviderEventScope \<Rightarrow> jsstring option" where
  "scopeTurn (TurnScope i c e t) = Some t"
| "scopeTurn s = None"

fun eventBlock :: "ProviderEvent \<Rightarrow> TurnBlockSnapshot option" where
  "eventBlock (TurnBlockStarted s b) = Some b"
| "eventBlock (TurnBlockRevised s n h b) = Some b"
| "eventBlock (TurnBlockCompleted s n h b) = Some b"
| "eventBlock x = None"

definition declaredNativeChildSession :: "ProviderEventEnvelope \<Rightarrow> jsstring \<Rightarrow> jsstring option" where
  "declaredNativeChildSession envelope execution =
     (case eventBlock (envEvent envelope) of
        None \<Rightarrow> None
      | Some b \<Rightarrow>
          (case blockPayload b of
             NativeChildBlock c \<Rightarrow>
               if childExecutionId (payloadChild c) = execution
               then childNativeSessionId (payloadChild c) else None
           | _ \<Rightarrow> None))"

text \<open>
  \<^verbatim>\<open>staged.map(...).find(Boolean)\<close>: the first session a staged block declares for the child.
\<close>

definition declaredSession :: "ProviderEventEnvelope list \<Rightarrow> jsstring \<Rightarrow> jsstring option" where
  "declaredSession envelopes execution =
     (case find (\<lambda>d. d \<noteq> None \<and> d \<noteq> Some []) (map (\<lambda>e. declaredNativeChildSession e execution) envelopes) of
        None \<Rightarrow> None | Some d \<Rightarrow> d)"

text \<open>Trigger and operation of a compaction event.\<close>

fun compactionEvent :: "ProviderEvent \<Rightarrow> (CompactionTrigger \<times> jsstring) option" where
  "compactionEvent (CompactionStarted t i b) = Some (t, i)"
| "compactionEvent (CompactionCompleted t i b a) = Some (t, i)"
| "compactionEvent (CompactionFailed t i err) = Some (t, i)"
| "compactionEvent x = None"

definition validateEnvelopeScope ::
  "FrozenDeliveryAttempt \<Rightarrow> ProviderEventEnvelope \<Rightarrow> jsstring option \<Rightarrow> Fault + unit" where
  "validateEnvelopeScope a envelope declaredChildSession =
     (let scope = envScope envelope;
          own = (scopeExecution scope = Some (attemptExecutionId a))
      in
      ebind (guard (envProvider envelope = attemptProvider a \<and> scopeKind scope \<noteq> AccountKind \<and>
          scopeProviderInstance scope = attemptProviderInstanceId a \<and>
          scopeConversation scope = Some (attemptConversationId a))
        ''Provider observation does not match delivery scope.'') (\<lambda>_.
      ebind (guard (own \<or> declaredChildSession \<noteq> None)
        ''Provider observation execution is outside the unresolved root boundary.'') (\<lambda>_.
      ebind (guard (\<not> (attemptKind a \<noteq> ManualCompact \<and> scopeKind scope = TurnKind \<and> own \<and>
          scopeTurn scope \<noteq> intendedTurnId a))
        ''Provider observation turn is outside the unresolved root boundary.'') (\<lambda>_.
      ebind (guard (nativeSessionId (envNative envelope) =
          (if own then Some (attemptNativeSessionId a) else declaredChildSession))
        ''Provider observation native session does not match delivery scope.'') (\<lambda>_.
      guard (\<not> (attemptKind a = ManualCompact \<and>
          (case compactionEvent (envEvent envelope) of
             None \<Rightarrow> False
           | Some (trigger, operation) \<Rightarrow>
               trigger \<noteq> AutomaticCompaction \<and> Some operation \<noteq> compactOperationId a)))
        ''Provider Compact observation does not match the frozen operation.'')))))"

text \<open>The observations that belong to an attempt.\<close>

definition observation_belongs ::
  "FrozenDeliveryAttempt \<Rightarrow> ProviderEventEnvelope \<Rightarrow> jsstring option \<Rightarrow> bool" where
  "observation_belongs a envelope child =
     (envProvider envelope = attemptProvider a \<and>
      scopeProviderInstance (envScope envelope) = attemptProviderInstanceId a \<and>
      scopeConversation (envScope envelope) = Some (attemptConversationId a) \<and>
      (if scopeExecution (envScope envelope) = Some (attemptExecutionId a)
       then nativeSessionId (envNative envelope) = Some (attemptNativeSessionId a) \<and>
         (attemptKind a \<noteq> ManualCompact \<and> scopeKind (envScope envelope) = TurnKind \<longrightarrow>
            scopeTurn (envScope envelope) = intendedTurnId a)
       else child \<noteq> None \<and> nativeSessionId (envNative envelope) = child) \<and>
      (attemptKind a = ManualCompact \<longrightarrow>
         (\<forall>t i. compactionEvent (envEvent envelope) = Some (t, i) \<longrightarrow>
            t = AutomaticCompaction \<or> compactOperationId a = Some i)))"

lemma validateEnvelopeScope_iff:
  "validateEnvelopeScope a e child = Inr () \<longleftrightarrow> observation_belongs a e child"
  by (cases "envScope e")
     (auto simp: validateEnvelopeScope_def observation_belongs_def Let_def split: option.split)

end
