(* ===== verification/StoreOps.thy ===== *)
theory StoreOps
  imports Prelude
begin

text \<open>
  Operations on a store that may throw.  An operation maps a store to its result or error and the
  store it leaves; what it wrote before a throw stays, unless a transaction takes it back.  The
  rules below follow an operation statement by statement: \<open>returns\<close> for what holds when it
  returns, \<open>refuses\<close> for a throw that changed nothing, \<open>keeps\<close> for what it never breaks, whether
  it returns or throws.
\<close>

subsection \<open>Operations\<close>

type_synonym ('s, 'e, 'a) store_op = "'s \<Rightarrow> ('e + 'a) \<times> 's"

definition ret :: "'a \<Rightarrow> ('s, 'e, 'a) store_op" where
  "ret x s = (Inr x, s)"

definition throw :: "'e \<Rightarrow> ('s, 'e, 'a) store_op" where
  "throw e s = (Inl e, s)"

definition obind ::
  "('s, 'e, 'a) store_op \<Rightarrow> ('a \<Rightarrow> ('s, 'e, 'b) store_op) \<Rightarrow> ('s, 'e, 'b) store_op" where
  "obind m f s = (case m s of (Inl e, s') \<Rightarrow> (Inl e, s') | (Inr x, s') \<Rightarrow> f x s')"

text \<open>A pure computation that may fault, and one that reads the store.\<close>

definition lift :: "'e + 'a \<Rightarrow> ('s, 'e, 'a) store_op" where
  "lift m s = (m, s)"

definition reads :: "('s \<Rightarrow> 'a) \<Rightarrow> ('s, 'e, 'a) store_op" where
  "reads f s = (Inr (f s), s)"

text \<open>\<^verbatim>\<open>journal.transaction(work)\<close>: a throw takes back what \<^verbatim>\<open>work\<close> wrote.\<close>

definition transaction :: "('s, 'e, 'a) store_op \<Rightarrow> ('s, 'e, 'a) store_op" where
  "transaction work s = (case work s of (Inl e, s') \<Rightarrow> (Inl e, s) | (Inr x, s') \<Rightarrow> (Inr x, s'))"

text \<open>\<^verbatim>\<open>try { ... } catch (error) { ... }\<close>.\<close>

definition catching :: "('s, 'e, 'a) store_op \<Rightarrow> ('e \<Rightarrow> ('s, 'e, 'a) store_op) \<Rightarrow> ('s, 'e, 'a) store_op" where
  "catching m h s = (case m s of (Inl e, s') \<Rightarrow> h e s' | (Inr x, s') \<Rightarrow> (Inr x, s'))"

fun for_each :: "('a \<Rightarrow> ('s, 'e, unit) store_op) \<Rightarrow> 'a list \<Rightarrow> ('s, 'e, unit) store_op" where
  "for_each f [] = ret ()"
| "for_each f (x # xs) = obind (f x) (\<lambda>_. for_each f xs)"

subsection \<open>What an operation returns with\<close>

definition returns :: "('s, 'e, 'a) store_op \<Rightarrow> 's \<Rightarrow> ('a \<Rightarrow> 's \<Rightarrow> bool) \<Rightarrow> bool" where
  "returns m s P = (\<forall>x t. m s = (Inr x, t) \<longrightarrow> P x t)"

lemma returnsD: "returns m s P \<Longrightarrow> m s = (Inr x, t) \<Longrightarrow> P x t"
  by (simp add: returns_def)

named_theorems returns_intros

lemma returns_basic [returns_intros]:
  "P x s \<Longrightarrow> returns (ret x) s P"
  "R (h s) s \<Longrightarrow> returns (reads h) s R"
  "returns (throw e) s Q"
  "(\<And>x. m = Inr x \<Longrightarrow> V x s) \<Longrightarrow> returns (lift m) s V"
  by (auto simp: returns_def ret_def lift_def reads_def throw_def)

lemma returns_composed [returns_intros]:
  "returns m s (\<lambda>x t. returns (f x) t P) \<Longrightarrow> returns (obind m f) s P"
  "returns m' s Q \<Longrightarrow> returns (transaction m') s Q"
  "(c \<Longrightarrow> returns n s R) \<Longrightarrow> (\<not> c \<Longrightarrow> returns n' s R) \<Longrightarrow> returns (if c then n else n') s R"
  by (auto simp: returns_def obind_def transaction_def split: prod.splits sum.splits)

subsection \<open>When it refuses\<close>

definition refuses :: "('s, 'e, 'a) store_op \<Rightarrow> 's \<Rightarrow> bool" where
  "refuses m s = (\<exists>e. m s = (Inl e, s))"

lemma refuses_composed:
  "refuses m s \<Longrightarrow> refuses (obind m f) s"
  "m s = (Inr x, s) \<Longrightarrow> refuses (f x) s \<Longrightarrow> refuses (obind m f) s"
  by (auto simp: refuses_def obind_def)

text \<open>A transaction that does not return leaves the store as it was.\<close>

lemma refuses_transaction: "returns m s (\<lambda>x t. False) \<Longrightarrow> refuses (transaction m) s"
  by (cases "m s"; cases "fst (m s)") (auto simp: returns_def refuses_def transaction_def)

subsection \<open>What it never breaks\<close>

definition keeps :: "('s \<Rightarrow> bool) \<Rightarrow> ('s, 'e, 'a) store_op \<Rightarrow> bool" where
  "keeps I m = (\<forall>s. I s \<longrightarrow> I (snd (m s)))"

lemma keepsD: "keeps I m \<Longrightarrow> I s \<Longrightarrow> m s = (r, t) \<Longrightarrow> I t"
  unfolding keeps_def by (metis snd_conv)

named_theorems keeps_intros

lemma keeps_basic [keeps_intros]:
  "keeps I (ret x)" "keeps I (throw e)" "keeps I (lift m)" "keeps I (reads h)"
  by (simp_all add: keeps_def ret_def throw_def lift_def reads_def)

lemma keeps_obind [keeps_intros]: "keeps I m \<Longrightarrow> (\<And>x. keeps I (f x)) \<Longrightarrow> keeps I (obind m f)"
  by (auto simp: keeps_def obind_def split: prod.split sum.split)

lemma keeps_transaction [keeps_intros]: "keeps I m \<Longrightarrow> keeps I (transaction m)"
  by (auto simp: keeps_def transaction_def split: prod.split sum.split)

lemma keeps_catching [keeps_intros]: "keeps I m \<Longrightarrow> (\<And>e. keeps I (h e)) \<Longrightarrow> keeps I (catching m h)"
  by (auto simp: keeps_def catching_def split: prod.split sum.split)

lemma keeps_branch [keeps_intros]:
  "(c \<Longrightarrow> keeps I m) \<Longrightarrow> (\<not> c \<Longrightarrow> keeps I n) \<Longrightarrow> keeps I (if c then m else n)"
  "keeps I n' \<Longrightarrow> (\<And>x. ox = Some x \<Longrightarrow> keeps I (g x)) \<Longrightarrow> keeps I (case ox of None \<Rightarrow> n' | Some x \<Rightarrow> g x)"
  by (auto split: option.split)

lemma keeps_for_each [keeps_intros]: "(\<And>x. keeps I (f x)) \<Longrightarrow> keeps I (for_each f xs)"
  by (induction xs) (auto intro!: keeps_intros)

end
