(* ===== verification/DeliveryStore.thy ===== *)
theory DeliveryStore
  imports DeliveryEvidence StoreOps
begin

text \<open>
  The durable side of a delivery: the tables \<^verbatim>\<open>delivery_attempts\<close> and
  \<^verbatim>\<open>delivery_attempt_staging\<close> with the constraints that
  extensions/agent/server/src/native-runtime/schema.ts puts on their rows, the columns of the
  journal's other tables that the owner reads, the statements it runs on them, and the journal's
  \<^verbatim>\<open>transaction\<close>.

  \<^item> An operation maps a store to its result or fault and the store it leaves; what it wrote
    before a fault stays, unless a transaction takes it back.
  \<^item> A JSON column holds the value its text denotes; the text is \<open>json_text\<close> of it, and the
    canonical text for the recovery payload.
  \<^item> A column with a list of admissible values is the datatype of these values.
\<close>

subsection \<open>Rows\<close>

record AttemptRow =
  rowAttemptId :: jsstring
  rowCommandId :: jsstring
  rowKind :: DeliveryAttemptKind
  rowProvider :: ProviderKind
  rowProviderInstanceId :: jsstring
  rowConversationId :: jsstring
  rowExecutionId :: jsstring
  rowIntendedTurnId :: "jsstring option"
  rowClientMessageId :: "jsstring option"
  rowNativeClientMessageId :: "jsstring option"
  rowCompactOperationId :: "jsstring option"
  rowPayloadHash :: jsstring
  rowPayload :: jsval
  rowNativeSessionId :: jsstring
  rowProcessGeneration :: "jsstring option"
  rowNativeTurnId :: "jsstring option"
  rowNativeOperationId :: "jsstring option"
  rowOwnerInstanceId :: jsstring
  rowState :: DeliveryAttemptState
  rowCrossedAt :: "nat option"
  rowAcceptedAt :: "nat option"
  rowRejectedAt :: "nat option"
  rowUnknownAt :: "nat option"
  rowEvidence :: "jsval option"
  rowRejection :: "jsval option"
  rowRecovery :: "jsval option"
  rowTranscriptGap :: bool
  rowCreatedAt :: nat
  rowUpdatedAt :: nat

record StageRow =
  stageAttemptId :: jsstring
  stageOrdinal :: nat
  stageObservationId :: jsstring
  stageEnvelopeJson :: jsval
  stageByteLength :: nat
  stageObservedAt :: nat

record ConversationRow =
  convProviderInstanceId :: jsstring
  convRootExecutionId :: jsstring
  convActiveTurnId :: "jsstring option"

record ExecutionRow =
  execConversationId :: jsstring
  execProviderInstanceId :: jsstring

record SessionRow =
  sessionNativeSessionId :: jsstring
  sessionProviderInstanceId :: jsstring

record ReceiptRow =
  receiptKind :: jsstring
  receiptState :: jsstring

record QueuedRow =
  queuedCommandId :: jsstring
  queuedConversationId :: jsstring
  queuedIntent :: jsstring
  queuedState :: jsstring
  queuedTurnId :: jsstring
  queuedClientMessageId :: jsstring
  queuedContent :: jsval
  queuedModel :: "jsstring option"
  queuedEffort :: "jsstring option"
  queuedServiceTier :: "jsstring option"
  queuedAccess :: jsstring
  queuedOrigin :: "jsstring option"
  queuedTrigger :: "jsval option"

record TurnRow =
  turnConversationId :: jsstring
  turnExecutionId :: jsstring
  turnNativeTurnId :: "jsstring option"
  turnRowState :: jsstring

record CompactionRow =
  compactionCommandId :: "jsstring option"
  compactionConversationId :: jsstring
  compactionRowTrigger :: jsstring
  compactionState :: jsstring
  compactionSubjectKey :: "jsstring option"

record Tables =
  providerInstances :: "(jsstring \<times> ProviderKind) list"
  conversations :: "(jsstring \<times> ConversationRow) list"
  executions :: "(jsstring \<times> ExecutionRow) list"
  nativeSessions :: "(jsstring \<times> SessionRow) list"
  commandReceipts :: "(jsstring \<times> ReceiptRow) list"
  queuedMessages :: "QueuedRow list"
  turns :: "(jsstring \<times> TurnRow) list"
  compactionOperations :: "(jsstring \<times> CompactionRow) list"

record Store =
  attempts :: "AttemptRow list"
  staging :: "StageRow list"
  tables :: Tables

text \<open>
  The owner: its instance, the collation of \<^verbatim>\<open>localeCompare\<close>, SHA-256 in hex, and the journal's
  \<^verbatim>\<open>appendProviderEvents\<close>, which writes the journal's other tables.
\<close>

record Owner =
  ownerId :: jsstring
  localeLe :: "jsstring \<Rightarrow> jsstring \<Rightarrow> bool"
  sha256Hex :: "jsstring \<Rightarrow> jsstring"
  appendEvents :: "ProviderEventEnvelope list \<Rightarrow> Tables \<Rightarrow> jsstring + Tables"

subsection \<open>Constraints\<close>

definition withinBytes :: "nat \<Rightarrow> jsval option \<Rightarrow> bool" where
  "withinBytes limit v = (case v of None \<Rightarrow> True | Some w \<Rightarrow> byte_length w \<le> limit)"

definition codexCompactRejection :: "jsval option \<Rightarrow> bool" where
  "codexCompactRejection rejection =
     (case rejection of
        None \<Rightarrow> False
      | Some v \<Rightarrow>
          (case asObject v of
             None \<Rightarrow> False
           | Some r \<Rightarrow>
               (case asObject (fld r ''evidence'') of
                  None \<Rightarrow> False
                | Some e \<Rightarrow> fld e ''kind'' = JString (js ''codex-active-compact-rejection''))))"

definition stampOk :: "AttemptRow \<Rightarrow> nat option \<Rightarrow> bool" where
  "stampOk r at_time = (case at_time of None \<Rightarrow> True | Some t \<Rightarrow> rowCreatedAt r \<le> t \<and> t \<le> rowUpdatedAt r)"

text \<open>The \<^verbatim>\<open>CHECK\<close> clauses of \<^verbatim>\<open>delivery_attempts\<close>, in their order.\<close>

definition attemptChecks :: "Owner \<Rightarrow> AttemptRow \<Rightarrow> bool" where
  "attemptChecks ow r =
     (is_sha256 (rowPayloadHash r) \<and>
      (case canonicalJson (localeLe ow) (rowPayload r) of
         Inl e \<Rightarrow> False | Inr t \<Rightarrow> utf8_length t \<le> 67108864) \<and>
      withinBytes 65536 (rowEvidence r) \<and> withinBytes 65536 (rowRejection r) \<and> withinBytes 65536 (rowRecovery r) \<and>
      rowCreatedAt r \<le> rowUpdatedAt r \<and>
      (if rowKind r = ManualCompact
       then rowIntendedTurnId r = None \<and> rowClientMessageId r = None \<and> rowCompactOperationId r \<noteq> None
       else rowIntendedTurnId r \<noteq> None \<and> rowClientMessageId r \<noteq> None \<and>
         rowNativeClientMessageId r \<noteq> None \<and> rowCompactOperationId r = None) \<and>
      (case rowState r of
         Preparing \<Rightarrow> rowCrossedAt r = None
       | Rejected \<Rightarrow> rowCrossedAt r = None \<or>
           rowProvider r = Codex \<and> rowKind r = RootTurn \<and> codexCompactRejection (rowRejection r)
       | _ \<Rightarrow> rowCrossedAt r \<noteq> None) \<and>
      (rowState r = Accepted \<longleftrightarrow> rowAcceptedAt r \<noteq> None) \<and>
      (rowState r = Rejected \<longleftrightarrow> rowRejectedAt r \<noteq> None) \<and>
      (rowState r \<in> {Unknown, Abandoned} \<longleftrightarrow> rowUnknownAt r \<noteq> None) \<and>
      (rowState r = Accepted \<longrightarrow> rowEvidence r \<noteq> None) \<and>
      (rowEvidence r \<noteq> None \<longrightarrow> rowState r \<in> {Dispatching, Unknown, Accepted}) \<and>
      (rowState r = Rejected \<longleftrightarrow> rowRejection r \<noteq> None) \<and>
      stampOk r (rowCrossedAt r) \<and> stampOk r (rowAcceptedAt r) \<and>
      stampOk r (rowRejectedAt r) \<and> stampOk r (rowUnknownAt r))"

text \<open>The foreign keys of an attempt.\<close>

definition attemptReferences :: "Tables \<Rightarrow> AttemptRow \<Rightarrow> bool" where
  "attemptReferences T r =
     (map_of (commandReceipts T) (rowCommandId r) \<noteq> None \<and>
      map_of (providerInstances T) (rowProviderInstanceId r) \<noteq> None \<and>
      map_of (conversations T) (rowConversationId r) \<noteq> None \<and>
      map_of (executions T) (rowExecutionId r) \<noteq> None \<and>
      (case rowCompactOperationId r of None \<Rightarrow> True | Some i \<Rightarrow> map_of (compactionOperations T) i \<noteq> None))"

definition stageChecks :: "StageRow \<Rightarrow> bool" where
  "stageChecks r =
     (stageOrdinal r < 256 \<and> byte_length (stageEnvelopeJson r) \<le> 33554432 \<and>
      stageByteLength r = byte_length (stageEnvelopeJson r) \<and> stageByteLength r \<le> 33554432)"

subsection \<open>Operations\<close>

type_synonym 'a op = "(Store, Fault, 'a) store_op"

definition require_that :: "bool \<Rightarrow> string \<Rightarrow> unit op" where
  "require_that c message = lift (guard c message)"

definition updateAttempts ::
  "Owner \<Rightarrow> (AttemptRow \<Rightarrow> bool) \<Rightarrow> (AttemptRow \<Rightarrow> AttemptRow) \<Rightarrow> nat op" where
  "updateAttempts ow sel upd s =
     (if list_ex (\<lambda>r. sel r \<and> \<not> attemptChecks ow (upd r)) (attempts s)
      then (Inl ConstraintFailed, s)
      else (Inr (length (filter sel (attempts s))),
            s\<lparr>attempts := map (\<lambda>r. if sel r then upd r else r) (attempts s)\<rparr>))"

definition insertAttempt :: "Owner \<Rightarrow> AttemptRow \<Rightarrow> unit op" where
  "insertAttempt ow r s =
     (if \<not> attemptChecks ow r \<or> \<not> attemptReferences (tables s) r \<or>
         rowAttemptId r \<in> rowAttemptId ` set (attempts s) \<or>
         rowCommandId r \<in> rowCommandId ` set (attempts s)
      then (Inl ConstraintFailed, s)
      else (Inr (), s\<lparr>attempts := attempts s @ [r]\<rparr>))"

definition insertStage :: "StageRow \<Rightarrow> unit op" where
  "insertStage r s =
     (if \<not> stageChecks r \<or> stageAttemptId r \<notin> rowAttemptId ` set (attempts s) \<or>
         (stageAttemptId r, stageOrdinal r) \<in>
           (\<lambda>q. (stageAttemptId q, stageOrdinal q)) ` set (staging s) \<or>
         (stageAttemptId r, stageObservationId r) \<in>
           (\<lambda>q. (stageAttemptId q, stageObservationId q)) ` set (staging s)
      then (Inl ConstraintFailed, s)
      else (Inr (), s\<lparr>staging := staging s @ [r]\<rparr>))"

definition deleteStage :: "(StageRow \<Rightarrow> bool) \<Rightarrow> unit op" where
  "deleteStage sel s = (Inr (), s\<lparr>staging := filter (\<lambda>r. \<not> sel r) (staging s)\<rparr>)"

text \<open>Work of the journal on its own tables; what it throws is reported as it is.\<close>

definition on_tables :: "(Tables \<Rightarrow> jsstring + ('a \<times> Tables)) \<Rightarrow> 'a op" where
  "on_tables f s =
     (case f (tables s) of Inl m \<Rightarrow> (Inl (JournalFault m), s) | Inr (x, T) \<Rightarrow> (Inr x, s\<lparr>tables := T\<rparr>))"

text \<open>\<^verbatim>\<open>SELECT ... WHERE attempt_id=? ORDER BY ordinal\<close>.\<close>

definition stageRows :: "Store \<Rightarrow> jsstring \<Rightarrow> StageRow list" where
  "stageRows s i = sort_key stageOrdinal (filter (\<lambda>r. stageAttemptId r = i) (staging s))"

definition attemptRow :: "Store \<Rightarrow> jsstring \<Rightarrow> AttemptRow option" where
  "attemptRow s i = find (\<lambda>r. rowAttemptId r = i) (attempts s)"

subsection \<open>Decoding an attempt\<close>

text \<open>
  \<^verbatim>\<open>String(value)\<close> of a value parsed from JSON.
\<close>

fun js_String :: "jsval \<Rightarrow> jsstring" and js_Elements :: "jsval list \<Rightarrow> jsstring list" where
  "js_String JUndefined = js ''undefined''"
| "js_String JNull = js ''null''"
| "js_String (JBool b) = (if b then js ''true'' else js ''false'')"
| "js_String (JNumber q) = number_text q"
| "js_String JNonFinite = js ''NaN''"
| "js_String (JString t) = t"
| "js_String (JArray vs) = join_with (js '','') (js_Elements vs)"
| "js_String (JObject r) = js ''[object Object]''"
| "js_String (JInstance r) = js ''[object Object]''"
| "js_Elements [] = []"
| "js_Elements (v # vs) = (if v = JUndefined \<or> v = JNull then [] else js_String v) # js_Elements vs"

definition optVal :: "jsstring option \<Rightarrow> jsval" where
  "optVal ot = or_else (map_option JString ot) JUndefined"

definition nullish :: "jsval \<Rightarrow> jsval" where
  "nullish v = (if v = JNull then JUndefined else v)"

definition payloadKeys :: "DeliveryAttemptKind \<Rightarrow> string list" where
  "payloadKeys kind =
     [''turnId'', ''clientMessageId'', ''nativeClientMessageId'', ''content'', ''model'', ''effort'',
      ''serviceTier'', ''access'', ''origin'', ''trigger''] @
     (if kind = Steer then [''expectedNativeTurnId'', ''afterBlockId''] else [])"

definition validateDecodedRootPayload :: "FrozenDeliveryAttempt \<Rightarrow> Fault + unit" where
  "validateDecodedRootPayload a =
     ebind (requireRecord (recoveryPayload a) ''delivery recovery payload'') (\<lambda>p.
     if attemptKind a = ManualCompact then
       ebind (validateActiveCompactPayload p (attemptProvider a)) (\<lambda>_.
       guard (keysIn p [''operationId'', ''nativeInputUuid'', ''activeParent''] \<and>
           fld p ''operationId'' = optVal (compactOperationId a) \<and>
           nullish (fld p ''nativeInputUuid'') = optVal (nativeClientMessageId a))
         ''Durable Compact payload does not match its frozen attempt shape.'')
     else
       let message = ''Durable root recovery payload does not match its frozen attempt shape.'' in
       ebind (guard (keysIn p (payloadKeys (attemptKind a)) \<and>
           fld p ''turnId'' = optVal (intendedTurnId a) \<and>
           (fld p ''origin'' = JUndefined \<or>
            js_String (fld p ''origin'') \<in> js ` {''user'', ''native-followup'', ''federation-notification''}) \<and>
           (fld p ''trigger'' = JUndefined \<or> validTurnTrigger (fld p ''trigger'')) \<and>
           fld p ''clientMessageId'' = optVal (clientMessageId a) \<and>
           fld p ''nativeClientMessageId'' = optVal (nativeClientMessageId a) \<and>
           (case fld p ''content'' of JArray vs \<Rightarrow> True | _ \<Rightarrow> False) \<and>
           isString (fld p ''model'') \<and> fld p ''model'' \<noteq> JString [] \<and>
           (fld p ''effort'' = JUndefined \<or> isString (fld p ''effort'')) \<and>
           (fld p ''serviceTier'' = JUndefined \<or> isString (fld p ''serviceTier''))) message) (\<lambda>_.
       ebind (if attemptKind a = Steer
              then optionalIdentifier (fld p ''expectedNativeTurnId'') ''expectedNativeTurnId''
              else Inr (Some [])) (\<lambda>expected.
       guard (expected \<noteq> None \<and>
           js_String (fld p ''access'') \<in> js ` {''read-only'', ''workspace-write'', ''full-access''})
         message)))"

text \<open>\<^verbatim>\<open>identifier(row.column, name)\<close> for a column that may be null, and one that may not.\<close>

definition rowIdentifier :: "jsstring \<Rightarrow> string \<Rightarrow> Fault + jsstring" where
  "rowIdentifier t name = requireIdentifier (JString t) name"

definition nullableIdentifier :: "jsstring option \<Rightarrow> string \<Rightarrow> Fault + jsstring option" where
  "nullableIdentifier ot name =
     (case ot of None \<Rightarrow> Inr None | Some t \<Rightarrow> ebind (rowIdentifier t name) (\<lambda>u. Inr (Some u)))"

definition decodeAttempt :: "AttemptRow \<Rightarrow> Fault + FrozenDeliveryAttempt" where
  "decodeAttempt r =
     ebind (case rowEvidence r of
         None \<Rightarrow> Inr ()
       | Some v \<Rightarrow>
           ebind (guard (byte_length v \<le> 65536)
             ''acceptance_evidence_json must be a non-empty bounded string.'') (\<lambda>_.
           ebind (requireRecord v ''acceptance evidence'') (\<lambda>_. Inr ()))) (\<lambda>_.
     ebind (rowIdentifier (rowAttemptId r) ''attempt_id'') (\<lambda>_.
     ebind (rowIdentifier (rowCommandId r) ''command_id'') (\<lambda>_.
     ebind (rowIdentifier (rowProviderInstanceId r) ''provider_instance_id'') (\<lambda>_.
     ebind (rowIdentifier (rowConversationId r) ''conversation_id'') (\<lambda>_.
     ebind (rowIdentifier (rowExecutionId r) ''execution_id'') (\<lambda>_.
     ebind (nullableIdentifier (rowIntendedTurnId r) ''intended_turn_id'') (\<lambda>_.
     ebind (nullableIdentifier (rowClientMessageId r) ''client_message_id'') (\<lambda>_.
     ebind (nullableIdentifier (rowNativeClientMessageId r) ''native_client_message_id'') (\<lambda>_.
     ebind (nullableIdentifier (rowCompactOperationId r) ''compact_operation_id'') (\<lambda>_.
     ebind (rowIdentifier (rowNativeSessionId r) ''native_session_id'') (\<lambda>_.
     ebind (nullableIdentifier (rowProcessGeneration r) ''process_generation'') (\<lambda>_.
     ebind (nullableIdentifier (rowNativeTurnId r) ''native_turn_id'') (\<lambda>_.
     ebind (nullableIdentifier (rowNativeOperationId r) ''native_operation_id'') (\<lambda>_.
     ebind (rowIdentifier (rowOwnerInstanceId r) ''owner_instance_id'') (\<lambda>_.
     ebind (guard
         (if rowKind r = ManualCompact
          then rowIntendedTurnId r = None \<and> rowClientMessageId r = None \<and> rowCompactOperationId r \<noteq> None
          else rowIntendedTurnId r \<noteq> None \<and> rowClientMessageId r \<noteq> None \<and>
            rowNativeClientMessageId r \<noteq> None \<and> rowCompactOperationId r = None)
       ''Durable delivery attempt has an invalid frozen shape.'') (\<lambda>_.
     Inr \<lparr>attemptId = rowAttemptId r, attemptCommandId = rowCommandId r, attemptKind = rowKind r,
          attemptProvider = rowProvider r, attemptProviderInstanceId = rowProviderInstanceId r,
          attemptConversationId = rowConversationId r, attemptExecutionId = rowExecutionId r,
          intendedTurnId = rowIntendedTurnId r, clientMessageId = rowClientMessageId r,
          nativeClientMessageId = rowNativeClientMessageId r,
          compactOperationId = rowCompactOperationId r, recoveryPayloadHash = rowPayloadHash r,
          recoveryPayload = rowPayload r, attemptNativeSessionId = rowNativeSessionId r,
          processGeneration = rowProcessGeneration r, attemptNativeTurnId = rowNativeTurnId r,
          nativeOperationId = rowNativeOperationId r, ownerInstanceId = rowOwnerInstanceId r,
          attemptState = rowState r, crossedAt = rowCrossedAt r, acceptanceEvidence = None,
          transcriptGap = rowTranscriptGap r\<rparr>))))))))))))))))"

text \<open>The evidence is typed once it has passed \<^verbatim>\<open>validateEvidence\<close>.\<close>

definition decodeVerified :: "Owner \<Rightarrow> AttemptRow \<Rightarrow> Fault + FrozenDeliveryAttempt" where
  "decodeVerified ow r =
     ebind (canonicalJson (localeLe ow) (rowPayload r)) (\<lambda>json.
     ebind (guard (json \<noteq> [] \<and> utf8_length json \<le> 67108864)
       ''recovery_payload_json must be a non-empty bounded string.'') (\<lambda>_.
     ebind (guard (rowPayloadHash r \<noteq> [] \<and> utf8_length (rowPayloadHash r) \<le> 64)
       ''recovery_payload_hash must be a non-empty bounded string.'') (\<lambda>_.
     ebind (guard (sha256Hex ow json = rowPayloadHash r)
       ''Delivery recovery payload hash does not match its durable body.'') (\<lambda>_.
     ebind (decodeAttempt r) (\<lambda>a.
     ebind (validateDecodedRootPayload a) (\<lambda>_.
     case rowEvidence r of
       None \<Rightarrow> Inr a
     | Some v \<Rightarrow> ebind (validateRootEvidence a v) (\<lambda>e. Inr (a\<lparr>acceptanceEvidence := Some e\<rparr>))))))))"

definition get_attempt :: "Owner \<Rightarrow> jsstring \<Rightarrow> FrozenDeliveryAttempt option op" where
  "get_attempt ow i s =
     (case attemptRow s i of
        None \<Rightarrow> (Inr None, s)
      | Some r \<Rightarrow> (ebind (decodeVerified ow r) (\<lambda>a. Inr (Some a)), s))"

definition byCommand :: "Owner \<Rightarrow> jsstring \<Rightarrow> FrozenDeliveryAttempt option op" where
  "byCommand ow c s =
     (case find (\<lambda>r. rowCommandId r = c) (attempts s) of
        None \<Rightarrow> (Inr None, s)
      | Some r \<Rightarrow> (ebind (decodeVerified ow r) (\<lambda>a. Inr (Some a)), s))"

definition require_attempt :: "Owner \<Rightarrow> jsstring \<Rightarrow> FrozenDeliveryAttempt op" where
  "require_attempt ow i = obind (get_attempt ow i) (\<lambda>oa.
     case oa of None \<Rightarrow> lift (refuse ''Delivery attempt not found.'') | Some a \<Rightarrow> ret a)"

definition transitionTime :: "jsstring \<Rightarrow> nat \<Rightarrow> nat op" where
  "transitionTime i now = reads (\<lambda>s.
     case attemptRow s i of
       None \<Rightarrow> now
     | Some r \<Rightarrow> max (max now (rowCreatedAt r)) (max (rowUpdatedAt r) (or_else (rowCrossedAt r) 0)))"

definition staged :: "jsstring \<Rightarrow> StagedProviderEnvelope list op" where
  "staged i s =
     (case traverse (\<lambda>r _. parseProviderEventEnvelope (stageEnvelopeJson r)) 0 (stageRows s i) of
        Inl e \<Rightarrow> (Inl (ContractFault e), s)
      | Inr envelopes \<Rightarrow>
          (Inr (map2 (\<lambda>r e. \<lparr>stagedOrdinal = stageOrdinal r, observationId = stageObservationId r,
                 stagedEnvelope = e, stagedByteLength = stageByteLength r,
                 stagedObservedAt = stageObservedAt r\<rparr>) (stageRows s i) envelopes), s))"

end
