(* ===== verification/DeliveryOwner.thy ===== *)
theory DeliveryOwner
  imports DeliveryStore "HOL-Library.List_Lexorder" "HOL-Library.Product_Lexorder"
begin

text \<open>
  The operations of \<^verbatim>\<open>DeliveryAttemptOwner\<close>
  (extensions/agent/server/src/native-runtime/delivery-attempt-owner.ts), each as the statements
  it runs.  A reading of the clock is an argument: \<open>now\<close> for the one reading of an operation,
  \<open>now k\<close> for the reading stored by the \<open>k\<close>-th of several.  What stands between two awaits of
  \<^verbatim>\<open>dispatch\<close> and \<^verbatim>\<open>reconcile\<close> is an operation of its own, for other operations may run there.
\<close>

subsection \<open>Recovery details\<close>

text \<open>\<^verbatim>\<open>recoveryDetail\<close>: the members are added to the stored ones while the text fits.\<close>

definition recoveryDetail :: "jsval option \<Rightarrow> jsrecord \<Rightarrow> jsval" where
  "recoveryDetail stored detail =
     (let previous = (case stored of None \<Rightarrow> [] | Some v \<Rightarrow> or_else (asObject v) []);
          merged = JObject (spread previous detail)
      in if byte_length merged \<le> 65536 then merged
         else objectOf [(''truncated'', Some (JBool True)),
                        (''latest'', Some (boundedDeliveryError detail))])"

definition storedRecovery :: "jsstring \<Rightarrow> jsval option op" where
  "storedRecovery i = reads (\<lambda>s. case attemptRow s i of None \<Rightarrow> None | Some r \<Rightarrow> rowRecovery r)"

definition hasId :: "jsstring \<Rightarrow> AttemptRow \<Rightarrow> bool" where
  "hasId i r = (rowAttemptId r = i)"

definition markGap :: "Owner \<Rightarrow> jsstring \<Rightarrow> jsstring \<Rightarrow> nat \<Rightarrow> unit op" where
  "markGap ow i reason now =
     obind (transitionTime i now) (\<lambda>t.
     obind (storedRecovery i) (\<lambda>stored.
     let recovery = recoveryDetail stored
           (members [(''stage_overflow'', Some (objectOf
              [(''reason'', Some (JString (utf16_take 4096 reason)))]))]) in
     obind (updateAttempts ow (hasId i) (\<lambda>r. r\<lparr>
         rowTranscriptGap := True, rowRecovery := Some recovery,
         rowState := (if rowState r = Dispatching then Unknown else rowState r),
         rowUnknownAt := (if rowState r = Dispatching then Some t else rowUnknownAt r),
         rowUpdatedAt := t\<rparr>)) (\<lambda>_. ret ())))"

definition markRecovery :: "Owner \<Rightarrow> jsstring \<Rightarrow> string \<Rightarrow> nat \<Rightarrow> unit op" where
  "markRecovery ow i reason t =
     obind (storedRecovery i) (\<lambda>stored.
     obind (updateAttempts ow (hasId i) (\<lambda>r. r\<lparr>
         rowRecovery := Some (recoveryDetail stored (members [(reason, Some (JBool True))])),
         rowUpdatedAt := t\<rparr>)) (\<lambda>_. ret ()))"

definition mark_unknown :: "Owner \<Rightarrow> jsstring \<Rightarrow> jsrecord \<Rightarrow> nat \<Rightarrow> unit op" where
  "mark_unknown ow i err now =
     obind (transitionTime i now) (\<lambda>t.
     obind (storedRecovery i) (\<lambda>stored.
     obind (updateAttempts ow (\<lambda>r. hasId i r \<and> rowState r = Dispatching) (\<lambda>r. r\<lparr>
         rowState := Unknown, rowUnknownAt := Some t,
         rowRecovery := Some (recoveryDetail stored
           (members [(''transport'', Some (boundedDeliveryError err))])),
         rowUpdatedAt := t\<rparr>)) (\<lambda>_. ret ())))"

definition markProviderSignalledCrossing :: "Owner \<Rightarrow> jsstring \<Rightarrow> string \<Rightarrow> nat \<Rightarrow> unit op" where
  "markProviderSignalledCrossing ow i violation now =
     obind (require_attempt ow i) (\<lambda>a.
     obind (transitionTime i now) (\<lambda>t.
     obind (storedRecovery i) (\<lambda>stored.
     obind (updateAttempts ow
         (\<lambda>r. hasId i r \<and> rowState r = Preparing \<and> rowOwnerInstanceId r = ownerInstanceId a) (\<lambda>r. r\<lparr>
         rowState := Dispatching, rowCrossedAt := Some t, rowUpdatedAt := t,
         rowRecovery := Some (recoveryDetail stored
           (members [(''boundary_violation'', Some (JString (js violation)))]))\<rparr>)) (\<lambda>changed.
     require_that (changed = 1) ''Provider crossing signal could not retain its delivery hold.''))))"

subsection \<open>Preparing an attempt\<close>

record PrepareDeliveryAttempt =
  prepAttemptId :: "jsstring option"
  prepCommandId :: jsstring
  prepKind :: DeliveryAttemptKind
  prepProvider :: ProviderKind
  prepProviderInstanceId :: jsstring
  prepConversationId :: jsstring
  prepExecutionId :: jsstring
  prepIntendedTurnId :: "jsstring option"
  prepClientMessageId :: "jsstring option"
  prepNativeClientMessageId :: "jsstring option"
  prepCompactOperationId :: "jsstring option"
  prepRecoveryPayload :: jsval
  prepNativeSessionId :: jsstring
  prepProcessGeneration :: "jsstring option"
  prepOwnerInstanceId :: jsstring
  prepNow :: nat

definition validatePrepareIdentifiers :: "PrepareDeliveryAttempt \<Rightarrow> Fault + unit" where
  "validatePrepareIdentifiers p =
     ebind (nullableIdentifier (prepAttemptId p) ''attemptId'') (\<lambda>_.
     ebind (rowIdentifier (prepCommandId p) ''commandId'') (\<lambda>_.
     ebind (rowIdentifier (prepProviderInstanceId p) ''providerInstanceId'') (\<lambda>_.
     ebind (rowIdentifier (prepConversationId p) ''conversationId'') (\<lambda>_.
     ebind (rowIdentifier (prepExecutionId p) ''executionId'') (\<lambda>_.
     ebind (nullableIdentifier (prepIntendedTurnId p) ''intendedTurnId'') (\<lambda>_.
     ebind (nullableIdentifier (prepClientMessageId p) ''clientMessageId'') (\<lambda>_.
     ebind (nullableIdentifier (prepNativeClientMessageId p) ''nativeClientMessageId'') (\<lambda>_.
     ebind (rowIdentifier (prepNativeSessionId p) ''nativeSessionId'') (\<lambda>_.
     ebind (nullableIdentifier (prepProcessGeneration p) ''processGeneration'') (\<lambda>_.
     ebind (rowIdentifier (prepOwnerInstanceId p) ''ownerInstanceId'') (\<lambda>_.
     Inr ())))))))))))"

text \<open>
  The queued message a payload must repeat; \<^verbatim>\<open>null\<close> columns compare as \<^verbatim>\<open>null\<close> or, under
  \<^verbatim>\<open>??\<close>, as their default.
\<close>

definition storedJson :: "jsval \<Rightarrow> Fault + jsval" where
  "storedJson v =
     (if byte_length v = 0 \<or> 67108864 < byte_length v
      then refuse ''queued content must be a non-empty bounded string.'' else Inr v)"

definition sameCanonical :: "Owner \<Rightarrow> jsval \<Rightarrow> jsval \<Rightarrow> Fault + bool" where
  "sameCanonical ow v w =
     ebind (canonicalJson (localeLe ow) v) (\<lambda>a.
     ebind (canonicalJson (localeLe ow) w) (\<lambda>b. Inr (a = b)))"

definition and_then :: "Fault + bool \<Rightarrow> Fault + bool \<Rightarrow> Fault + bool" where
  "and_then a b = ebind a (\<lambda>x. if x then b else Inr False)"

definition matchesQueued ::
  "Owner \<Rightarrow> QueuedRow \<Rightarrow> PrepareDeliveryAttempt \<Rightarrow> jsrecord \<Rightarrow> Fault + bool" where
  "matchesQueued ow q p payload =
     and_then (Inr (Some (queuedClientMessageId q) = prepClientMessageId p))
    (and_then (ebind (storedJson (queuedContent q)) (\<lambda>c. sameCanonical ow c (fld payload ''content'')))
    (and_then (Inr (orNull JString (queuedModel q) = fld payload ''model'' \<and>
         optVal (queuedEffort q) = fld payload ''effort'' \<and>
         optVal (queuedServiceTier q) = fld payload ''serviceTier'' \<and>
         JString (queuedAccess q) = fld payload ''access'' \<and>
         JString (or_else (queuedOrigin q) (js ''user'')) =
           (if nullish (fld payload ''origin'') = JUndefined then JString (js ''user'')
            else fld payload ''origin'')))
    (sameCanonical ow (or_else (queuedTrigger q) JNull)
       (if fld payload ''trigger'' = JUndefined then JNull else fld payload ''trigger''))))"

definition scopeMatches :: "Tables \<Rightarrow> PrepareDeliveryAttempt \<Rightarrow> bool" where
  "scopeMatches T p =
     (map_of (providerInstances T) (prepProviderInstanceId p) = Some (prepProvider p) \<and>
      (case map_of (conversations T) (prepConversationId p) of
         None \<Rightarrow> False
       | Some c \<Rightarrow> convProviderInstanceId c = prepProviderInstanceId p \<and>
           convRootExecutionId c = prepExecutionId p) \<and>
      (case map_of (executions T) (prepExecutionId p) of
         None \<Rightarrow> False
       | Some e \<Rightarrow> execConversationId e = prepConversationId p \<and>
           execProviderInstanceId e = prepProviderInstanceId p) \<and>
      (case map_of (nativeSessions T) (prepExecutionId p) of
         None \<Rightarrow> False
       | Some s \<Rightarrow> sessionNativeSessionId s = prepNativeSessionId p \<and>
           sessionProviderInstanceId s = prepProviderInstanceId p))"

definition activeTurnOf :: "Tables \<Rightarrow> PrepareDeliveryAttempt \<Rightarrow> jsstring option" where
  "activeTurnOf T p =
     (case map_of (conversations T) (prepConversationId p) of
        None \<Rightarrow> None | Some c \<Rightarrow> convActiveTurnId c)"

definition validateSteerScope ::
  "Owner \<Rightarrow> Tables \<Rightarrow> PrepareDeliveryAttempt \<Rightarrow> jsrecord \<Rightarrow> Fault + unit" where
  "validateSteerScope ow T p payload =
     (let receipt = map_of (commandReceipts T) (prepCommandId p);
          turn = (case prepIntendedTurnId p of None \<Rightarrow> None | Some t \<Rightarrow> map_of (turns T) t);
          queued = (if map_option receiptState receipt = Some (js ''accepted'')
            then find (\<lambda>q. queuedCommandId q = prepCommandId p \<and>
                   queuedConversationId q = prepConversationId p \<and>
                   queuedIntent q = js ''auto'' \<and> queuedState q = js ''dispatching'')
                 (queuedMessages T)
            else None)
      in
      ebind (case queued of None \<Rightarrow> Inr False | Some q \<Rightarrow> matchesQueued ow q p payload) (\<lambda>matches.
      guard (keysIn payload (payloadKeys Steer) \<and>
          fld payload ''turnId'' = optVal (prepIntendedTurnId p) \<and>
          fld payload ''clientMessageId'' = optVal (prepClientMessageId p) \<and>
          fld payload ''nativeClientMessageId'' = optVal (prepNativeClientMessageId p) \<and>
          (case receipt of
             None \<Rightarrow> False
           | Some c \<Rightarrow> receiptKind c = js ''turn.send'' \<and>
               (receiptState c = js ''dispatching'' \<or> matches)) \<and>
          (case turn of
             None \<Rightarrow> False
           | Some t \<Rightarrow> turnConversationId t = prepConversationId p \<and>
               turnExecutionId t = prepExecutionId p \<and>
               activeTurnOf T p = prepIntendedTurnId p \<and>
               turnRowState t \<in> js ` {''running'', ''recovering''} \<and>
               orNull JString (turnNativeTurnId t) = fld payload ''expectedNativeTurnId''))
        ''Delivery steer attempt does not match its active turn and frozen input.''))"

definition validateCompactScope ::
  "Tables \<Rightarrow> PrepareDeliveryAttempt \<Rightarrow> jsrecord \<Rightarrow> Fault + unit" where
  "validateCompactScope T p payload =
     (let operation = (case prepCompactOperationId p of
            None \<Rightarrow> None | Some i \<Rightarrow> map_of (compactionOperations T) i);
          receipt = map_of (commandReceipts T) (prepCommandId p);
          parentTurn = (case map_of (turns T) (or_else (activeTurnOf T p) (js ''null'')) of
            None \<Rightarrow> JUndefined | Some t \<Rightarrow> optVal (turnNativeTurnId t))
      in
      ebind (validateActiveCompactPayload payload (prepProvider p)) (\<lambda>_.
      ebind (guard (fld payload ''activeParent'' = JUndefined \<or>
          (case asObject (fld payload ''activeParent'') of
             None \<Rightarrow> False | Some target \<Rightarrow> parentTurn = fld target ''nativeTurnId''))
        ''Active Compact target does not match its current native parent.'') (\<lambda>_.
      guard (keysIn payload [''operationId'', ''nativeInputUuid'', ''activeParent''] \<and>
          fld payload ''operationId'' = optVal (prepCompactOperationId p) \<and>
          nullish (fld payload ''nativeInputUuid'') = optVal (prepNativeClientMessageId p) \<and>
          (case operation of
             None \<Rightarrow> False
           | Some c \<Rightarrow> compactionCommandId c = Some (prepCommandId p) \<and>
               compactionConversationId c = prepConversationId p \<and>
               compactionRowTrigger c = js ''manual'' \<and> compactionState c = js ''running'') \<and>
          (case receipt of
             None \<Rightarrow> False
           | Some c \<Rightarrow> receiptKind c = js ''conversation.compact'' \<and>
               receiptState c \<in> js ` {''dispatching'', ''accepted''}))
        ''Delivery Compact attempt does not match its running manual operation.'')))"

definition validateRootScope ::
  "Owner \<Rightarrow> Tables \<Rightarrow> PrepareDeliveryAttempt \<Rightarrow> jsrecord \<Rightarrow> Fault + unit" where
  "validateRootScope ow T p payload =
     ebind (guard (keysIn payload (payloadKeys RootTurn) \<and>
         fld payload ''turnId'' = optVal (prepIntendedTurnId p) \<and>
         fld payload ''clientMessageId'' = optVal (prepClientMessageId p) \<and>
         fld payload ''nativeClientMessageId'' = optVal (prepNativeClientMessageId p))
       ''Delivery payload identities or fields do not match the root-turn allowlist.'') (\<lambda>_.
     let receipt = map_of (commandReceipts T) (prepCommandId p);
         queued = find (\<lambda>q. queuedCommandId q = prepCommandId p \<and>
                   queuedConversationId q = prepConversationId p) (queuedMessages T)
     in
     ebind (case queued of
         None \<Rightarrow> Inr False
       | Some q \<Rightarrow>
           and_then (Inr ((case receipt of
               None \<Rightarrow> False
             | Some c \<Rightarrow> receiptKind c = js ''turn.send'' \<and> receiptState c = js ''accepted'') \<and>
             Some (queuedTurnId q) = prepIntendedTurnId p))
           (matchesQueued ow q p payload)) (\<lambda>matches.
     guard matches ''Delivery root attempt does not match its accepted queued intent.''))"

definition validateScope :: "Owner \<Rightarrow> Tables \<Rightarrow> PrepareDeliveryAttempt \<Rightarrow> Fault + unit" where
  "validateScope ow T p =
     ebind (validatePrepareIdentifiers p) (\<lambda>_.
     ebind (guard (scopeMatches T p)
       ''Delivery attempt scope does not match its provider, conversation, execution, and native session.'') (\<lambda>_.
     ebind (requireRecord (definedCopy (prepRecoveryPayload p)) ''delivery recovery payload'') (\<lambda>payload.
     case prepKind p of
       Steer \<Rightarrow> validateSteerScope ow T p payload
     | ManualCompact \<Rightarrow> validateCompactScope T p payload
     | RootTurn \<Rightarrow> validateRootScope ow T p payload)))"

definition preparedRow :: "PrepareDeliveryAttempt \<Rightarrow> jsstring \<Rightarrow> jsstring \<Rightarrow> AttemptRow" where
  "preparedRow p uuid hash =
     \<lparr>rowAttemptId = or_else (prepAttemptId p) uuid, rowCommandId = prepCommandId p,
      rowKind = prepKind p, rowProvider = prepProvider p,
      rowProviderInstanceId = prepProviderInstanceId p, rowConversationId = prepConversationId p,
      rowExecutionId = prepExecutionId p, rowIntendedTurnId = prepIntendedTurnId p,
      rowClientMessageId = prepClientMessageId p,
      rowNativeClientMessageId = prepNativeClientMessageId p,
      rowCompactOperationId = prepCompactOperationId p, rowPayloadHash = hash,
      rowPayload = definedCopy (prepRecoveryPayload p), rowNativeSessionId = prepNativeSessionId p,
      rowProcessGeneration = prepProcessGeneration p, rowNativeTurnId = None,
      rowNativeOperationId = None, rowOwnerInstanceId = prepOwnerInstanceId p,
      rowState = Preparing, rowCrossedAt = None, rowAcceptedAt = None, rowRejectedAt = None,
      rowUnknownAt = None, rowEvidence = None, rowRejection = None, rowRecovery = None,
      rowTranscriptGap = False, rowCreatedAt = prepNow p, rowUpdatedAt = prepNow p\<rparr>"

text \<open>An earlier attempt of the same command must have the same immutable input.\<close>

definition sameImmutableInput :: "FrozenDeliveryAttempt \<Rightarrow> PrepareDeliveryAttempt \<Rightarrow> jsstring \<Rightarrow> bool" where
  "sameImmutableInput a p hash =
     (attemptKind a = prepKind p \<and> recoveryPayloadHash a = hash \<and>
      attemptProvider a = prepProvider p \<and> attemptProviderInstanceId a = prepProviderInstanceId p \<and>
      attemptConversationId a = prepConversationId p \<and> attemptExecutionId a = prepExecutionId p \<and>
      intendedTurnId a = prepIntendedTurnId p \<and> clientMessageId a = prepClientMessageId p \<and>
      nativeClientMessageId a = prepNativeClientMessageId p \<and>
      attemptNativeSessionId a = prepNativeSessionId p \<and>
      compactOperationId a = prepCompactOperationId p \<and>
      (prepProcessGeneration p = None \<or> processGeneration a = prepProcessGeneration p))"

definition prepare_attempt ::
  "Owner \<Rightarrow> jsstring \<Rightarrow> PrepareDeliveryAttempt \<Rightarrow> FrozenDeliveryAttempt op" where
  "prepare_attempt ow uuid p =
     obind (require_that (prepOwnerInstanceId p = ownerId ow)
       ''Delivery attempt preparation owner does not match this owner instance.'') (\<lambda>_.
     obind (lift (canonicalJson (localeLe ow) (prepRecoveryPayload p))) (\<lambda>json.
     let hash = sha256Hex ow json in
     obind (require_that (utf8_length json \<le> 67108864) ''Delivery recovery payload exceeds 64 MiB.'') (\<lambda>_.
     obind (lift (validatePrepareIdentifiers p)) (\<lambda>_.
     obind (byCommand ow (prepCommandId p)) (\<lambda>previous.
     case previous of
       Some a \<Rightarrow>
         obind (require_that (sameImmutableInput a p hash)
           ''Delivery command ID was reused with different immutable input.'') (\<lambda>_. ret a)
     | None \<Rightarrow>
         obind (reads tables) (\<lambda>T.
         obind (lift (validateScope ow T p)) (\<lambda>_.
         obind (insertAttempt ow (preparedRow p uuid hash)) (\<lambda>_.
         obind (byCommand ow (prepCommandId p)) (\<lambda>inserted.
         case inserted of None \<Rightarrow> throw (Refused []) | Some a \<Rightarrow> ret a)))))))))"

end
