(* ===== verification/DeliveryTransitions.thy ===== *)
theory DeliveryTransitions
  imports DeliveryOwner
begin

text \<open>
  The transitions of an attempt once it is prepared
  (extensions/agent/server/src/native-runtime/delivery-attempt-owner.ts): crossing, acceptance,
  observation, admission, rejection, abandonment, reconciliation, and the pass over all open
  attempts that a restarted server makes.

  \<^item> What the callers pass as a function of an attempt and its observations, and what the journal
    appends, is an argument on the journal's other tables.
  \<^item> An observation is stored as \<open>encodeEnvelope\<close> of it.
\<close>

subsection \<open>Crossing\<close>

text \<open>
  \<^verbatim>\<open>DispatchBoundary.markPossiblySent\<close>; \<open>crossed\<close> is the flag of the running dispatch, the
  result its new value.
\<close>

definition markPossiblySent ::
  "Owner \<Rightarrow> jsstring \<Rightarrow> bool \<Rightarrow> jsstring \<Rightarrow> jsstring option \<Rightarrow> nat \<Rightarrow> bool op" where
  "markPossiblySent ow i crossed session generation now =
     obind (require_that (\<not> crossed) ''Delivery crossing marker may only be used once.'') (\<lambda>_.
     obind (require_attempt ow i) (\<lambda>a.
     obind (require_that (ownerInstanceId a = ownerId ow)
       ''Delivery attempt belongs to another owner instance.'') (\<lambda>_.
     obind (require_that (session = attemptNativeSessionId a \<and>
         (processGeneration a = None \<or> generation = processGeneration a))
       ''Delivery crossing scope does not match the frozen native session.'') (\<lambda>_.
     obind (transitionTime i now) (\<lambda>t.
     obind (updateAttempts ow (\<lambda>r. hasId i r \<and> rowState r = Preparing \<and>
         rowOwnerInstanceId r = ownerId ow \<and> rowNativeSessionId r = attemptNativeSessionId a) (\<lambda>r. r\<lparr>
         rowState := Dispatching, rowCrossedAt := Some t, rowNativeSessionId := session,
         rowProcessGeneration := (if generation = None then rowProcessGeneration r else generation),
         rowUpdatedAt := t\<rparr>)) (\<lambda>changed.
     obind (require_that (changed = 1)
       ''Delivery attempt cannot cross from its current state.'') (\<lambda>_.
     ret True)))))))"

subsection \<open>Acceptance\<close>

definition isCompactProof :: "ProviderAcceptanceEvidence \<Rightarrow> bool" where
  "isCompactProof e =
     (case e of
        ClaudeManualCompactBoundary s b g \<Rightarrow> True
      | ClaudeManualCompactStatus s i u g st \<Rightarrow> True
      | _ \<Rightarrow> False)"

definition recordAcceptance ::
  "Owner \<Rightarrow> jsstring \<Rightarrow> ProviderAcceptanceEvidence \<Rightarrow> jsstring option \<Rightarrow> jsstring option \<Rightarrow> nat \<Rightarrow> unit op"
  where
  "recordAcceptance ow i e turn operation now =
     obind (require_attempt ow i) (\<lambda>a.
     obind (require_that (\<not> (isCompactProof e \<and> transcriptGap a \<and> acceptanceEvidence a = None))
       ''Claude Compact boundary cannot prove acceptance after a transcript gap.'') (\<lambda>_.
     obind (lift (validateRootEvidence a (encodeEvidence e))) (\<lambda>_.
     obind (require_that (byte_length (encodeEvidence e) \<le> 65536)
       ''Acceptance evidence exceeds 64 KiB.'') (\<lambda>_.
     transaction (
       obind (require_attempt ow i) (\<lambda>current.
       case acceptanceEvidence current of
         Some known \<Rightarrow>
           obind (lift (validateRootEvidence current (encodeEvidence known))) (\<lambda>_.
           obind (require_that (evidenceCompatible known e)
             ''Contradictory delivery acceptance evidence.'') (\<lambda>_.
           require_that (turn \<in> {None, Some []} \<or> attemptNativeTurnId current = None \<or>
               turn = attemptNativeTurnId current)
             ''Contradictory native turn identity in delivery acceptance evidence.''))
       | None \<Rightarrow>
           obind (transitionTime i now) (\<lambda>t.
           obind (updateAttempts ow
               (\<lambda>r. hasId i r \<and> rowState r \<in> {Dispatching, Unknown}) (\<lambda>r. r\<lparr>
               rowEvidence := Some (encodeEvidence e),
               rowNativeTurnId := (if turn = None then rowNativeTurnId r else turn),
               rowNativeOperationId := (if operation = None then rowNativeOperationId r else operation),
               rowUpdatedAt := t\<rparr>)) (\<lambda>changed.
           require_that (changed = 1) ''Delivery acceptance proof could not be persisted.''))))))))"

subsection \<open>Observations\<close>

datatype ObserveResult = Staged | DuplicateObservation | ConflictingObservation | StageOverflow

definition maxStageBytes :: nat where
  "maxStageBytes = 64 * 1024 * 1024"

definition maxStageRowBytes :: nat where
  "maxStageRowBytes = 32 * 1024 * 1024"

text \<open>The session of a native child that the observations so far declared.\<close>

definition declaredChild :: "jsstring \<Rightarrow> FrozenDeliveryAttempt \<Rightarrow> jsstring option \<Rightarrow> jsstring option op" where
  "declaredChild i a observed =
     (case observed of
        None \<Rightarrow> ret None
      | Some x \<Rightarrow>
          if x = attemptExecutionId a then ret None
          else obind (staged i) (\<lambda>rows. ret (declaredSession (map stagedEnvelope rows) x)))"

definition observe :: "Owner \<Rightarrow> jsstring \<Rightarrow> ProviderEventEnvelope \<Rightarrow> nat \<Rightarrow> ObserveResult op" where
  "observe ow i e now =
     obind (require_attempt ow i) (\<lambda>a.
     obind (declaredChild i a (scopeExecution (envScope e))) (\<lambda>child.
     obind (lift (validateEnvelopeScope a e child)) (\<lambda>_.
     let v = encodeEnvelope e in
     transaction (
       obind (reads (\<lambda>s. filter (\<lambda>r. stageAttemptId r = i) (staging s))) (\<lambda>rows.
       case find (\<lambda>r. stageObservationId r = eventId e) rows of
         Some r \<Rightarrow>
           if json_text (stageEnvelopeJson r) = json_text v then ret DuplicateObservation
           else obind (markGap ow i (js ''observation_identity_conflict'') now)
             (\<lambda>_. ret ConflictingObservation)
       | None \<Rightarrow>
           if 256 \<le> length rows \<or> maxStageRowBytes < byte_length v \<or>
             maxStageBytes < sum_list (map stageByteLength rows) + byte_length v
           then obind (markGap ow i (js ''stage_overflow'') now) (\<lambda>_. ret StageOverflow)
           else obind (insertStage \<lparr>stageAttemptId = i, stageOrdinal = length rows,
               stageObservationId = eventId e, stageEnvelopeJson = v,
               stageByteLength = byte_length v, stageObservedAt = observedAt e\<rparr>)
             (\<lambda>_. ret Staged))))))"

definition ownsObservation :: "Owner \<Rightarrow> jsstring \<Rightarrow> ProviderEventEnvelope \<Rightarrow> bool op" where
  "ownsObservation ow i e =
     obind (require_attempt ow i) (\<lambda>a.
     case envScope e of
       TurnScope inst conversation execution turn \<Rightarrow>
         if inst \<noteq> attemptProviderInstanceId a \<or> conversation \<noteq> attemptConversationId a then ret False
         else if execution = attemptExecutionId a
         then ret (Some turn = intendedTurnId a \<and>
           nativeSessionId (envNative e) = Some (attemptNativeSessionId a))
         else obind (declaredChild i a (Some execution)) (\<lambda>child.
           ret (child \<noteq> None \<and> nativeSessionId (envNative e) = child))
     | _ \<Rightarrow> ret False)"

text \<open>
  \<open>now k\<close> is the reading \<^verbatim>\<open>markGap\<close> makes for the \<open>k\<close>-th attempt; the one made for its
  argument is not used there.
\<close>

fun markGaps :: "Owner \<Rightarrow> jsstring \<Rightarrow> (nat \<Rightarrow> nat) \<Rightarrow> nat \<Rightarrow> jsstring list \<Rightarrow> unit op" where
  "markGaps ow reason now k [] = ret ()"
| "markGaps ow reason now k (i # is) =
     obind (markGap ow i reason (now k)) (\<lambda>_. markGaps ow reason now (Suc k) is)"

definition markStreamGap :: "Owner \<Rightarrow> jsstring \<Rightarrow> jsstring \<Rightarrow> jsstring \<Rightarrow> (nat \<Rightarrow> nat) \<Rightarrow> unit op" where
  "markStreamGap ow execution generation reason now =
     obind (reads (\<lambda>s. map rowAttemptId (filter (\<lambda>r. rowExecutionId r = execution \<and>
         rowProcessGeneration r = Some generation \<and> rowState r \<in> {Dispatching, Unknown}) (attempts s))))
       (markGaps ow reason now 0)"

text \<open>
  \<^verbatim>\<open>deleteStagedPrefix\<close>: the named observations go, the retained ones are written again under
  dense ordinals.
\<close>

fun reinsert :: "nat \<Rightarrow> StageRow list \<Rightarrow> unit op" where
  "reinsert k [] = ret ()"
| "reinsert k (r # rs) =
     obind (insertStage (r\<lparr>stageOrdinal := k\<rparr>)) (\<lambda>_. reinsert (Suc k) rs)"

definition deleteStagedPrefix :: "jsstring \<Rightarrow> jsstring list \<Rightarrow> unit op" where
  "deleteStagedPrefix i ids =
     (if ids = [] then ret () else
      obind (deleteStage (\<lambda>r. stageAttemptId r = i \<and> stageObservationId r \<in> set ids)) (\<lambda>_.
      obind (reads (\<lambda>s. stageRows s i)) (\<lambda>retained.
      obind (deleteStage (\<lambda>r. stageAttemptId r = i)) (\<lambda>_.
      reinsert 0 retained))))"

subsection \<open>Admission\<close>

text \<open>
  \<^verbatim>\<open>admit\<close>: the callback works on the journal's tables in the same transaction.  The result is
  \<open>None\<close> for an attempt already accepted.
\<close>

definition admit_attempt ::
  "Owner \<Rightarrow> jsstring \<Rightarrow>
   (FrozenDeliveryAttempt \<Rightarrow> StagedProviderEnvelope list \<Rightarrow> Tables \<Rightarrow> jsstring + ('a \<times> Tables)) \<Rightarrow>
   StagedProviderEnvelope list \<Rightarrow> jsstring list \<Rightarrow> nat \<Rightarrow> 'a option op" where
  "admit_attempt ow i f prepared drained now = transaction (
     obind (require_attempt ow i) (\<lambda>a.
     if attemptState a = Accepted then ret None else
     obind (require_that (acceptanceEvidence a \<noteq> None)
       ''Delivery admission requires durable positive evidence.'') (\<lambda>_.
     obind (on_tables (f a prepared)) (\<lambda>x.
     obind (transitionTime i now) (\<lambda>t.
     obind (updateAttempts ow (\<lambda>r. hasId i r \<and> rowState r \<in> {Dispatching, Unknown}) (\<lambda>r. r\<lparr>
         rowState := Accepted, rowAcceptedAt := Some t, rowUnknownAt := None,
         rowUpdatedAt := t\<rparr>)) (\<lambda>changed.
     obind (require_that (changed = 1) ''Delivery attempt acceptance CAS failed.'') (\<lambda>_.
     obind (deleteStagedPrefix i drained) (\<lambda>_.
     ret (Some x)))))))))"

definition drainAccepted ::
  "Owner \<Rightarrow> jsstring \<Rightarrow> StagedProviderEnvelope list \<Rightarrow> jsstring list \<Rightarrow>
   (ProviderEventEnvelope list \<Rightarrow> Tables \<Rightarrow> jsstring + Tables) \<Rightarrow> unit op" where
  "drainAccepted ow i prepared sourceIds appendTo = transaction (
     obind (require_attempt ow i) (\<lambda>a.
     obind (require_that (attemptState a = Accepted)
       ''Only an accepted attempt can drain its suffix.'') (\<lambda>_.
     obind (on_tables (\<lambda>T. ebind (appendTo (map stagedEnvelope prepared) T) (\<lambda>T'. Inr ((), T')))) (\<lambda>_.
     deleteStagedPrefix i sourceIds))))"

subsection \<open>Rejection and abandonment\<close>

definition reject_attempt :: "Owner \<Rightarrow> jsstring \<Rightarrow> ProviderDeliveryError \<Rightarrow> nat \<Rightarrow> unit op" where
  "reject_attempt ow i err now =
     obind (transitionTime i now) (\<lambda>t.
     obind (updateAttempts ow (\<lambda>r. hasId i r \<and> rowState r = Preparing) (\<lambda>r. r\<lparr>
         rowState := Rejected, rowRejectedAt := Some t,
         rowRejection := Some (boundedDeliveryError (errorMembers err)), rowUpdatedAt := t\<rparr>)) (\<lambda>changed.
     require_that (changed = 1) ''Delivery rejection CAS failed.''))"

definition encodeRejection :: "ProviderRejectionEvidence \<Rightarrow> jsval" where
  "encodeRejection e = objectOf
     [(''kind'', Some (JString (js ''codex-active-compact-rejection''))),
      (''threadId'', Some (JString (rejectionThreadId e))),
      (''nativeCode'', Some (JNumber (- 32603))),
      (''source'', Some (JString (case rejectionSource e of
          RpcResponse \<Rightarrow> js ''rpc-response'' | LegacyRecordedResponse \<Rightarrow> js ''legacy-recorded-response''))),
      (''requestId'', map_option JNumber (rejectionRequestId e))]"

text \<open>
  Whether a rejected turn may leave an observation to the journal: a control of the conversation's
  own compaction, whose subject the journal knows under the same key.
\<close>

definition ownCompactionControl :: "Tables \<Rightarrow> FrozenDeliveryAttempt \<Rightarrow> ProviderEventEnvelope \<Rightarrow> bool" where
  "ownCompactionControl T a e =
     (case envScope e of
        ConversationScope inst conversation execution \<Rightarrow>
          conversation = attemptConversationId a \<and> execution = attemptExecutionId a \<and>
          nativeSessionId (envNative e) = Some (attemptNativeSessionId a) \<and>
          (case compactionEvent (envEvent e) of
             None \<Rightarrow> False
           | Some (trigger, operation) \<Rightarrow>
               (case map_of (compactionOperations T) operation of
                  None \<Rightarrow> False
                | Some c \<Rightarrow> compactionSubjectKey c \<notin> {None, Some []} \<and>
                    compactionSubjectKey c = map_option subjectKey (nativeSubject (envNative e))))
      | _ \<Rightarrow> False)"

definition rejectionApplies ::
  "FrozenDeliveryAttempt \<Rightarrow> ProviderRejectionEvidence \<Rightarrow> ProviderDeliveryError \<Rightarrow> bool" where
  "rejectionApplies a e err =
     (attemptProvider a = Codex \<and> attemptKind a = RootTurn \<and>
      attemptState a \<in> {Dispatching, Unknown} \<and>
      rejectionThreadId e = attemptNativeSessionId a \<and>
      (rejectionSource e = RpcResponse \<longrightarrow>
         (case rejectionRequestId e of None \<Rightarrow> False | Some q \<Rightarrow> is_safe_integer q)) \<and>
      isCodexActiveCompactRejection (JString (deliveryMessage err)) \<and>
      acceptanceEvidence a = None \<and> attemptNativeTurnId a = None \<and> \<not> transcriptGap a)"

definition rejectProviderResponse ::
  "Owner \<Rightarrow> jsstring \<Rightarrow> ProviderRejectionEvidence \<Rightarrow> ProviderDeliveryError \<Rightarrow> nat \<Rightarrow> bool op" where
  "rejectProviderResponse ow i e err now = transaction (
     obind (require_attempt ow i) (\<lambda>a.
     if \<not> rejectionApplies a e err then ret False else
     obind (staged i) (\<lambda>rows.
     obind (reads tables) (\<lambda>T.
     if list_ex (\<lambda>r. \<not> ownCompactionControl T a (stagedEnvelope r)) rows then ret False else
     obind (on_tables (\<lambda>T. ebind (appendEvents ow (map stagedEnvelope rows) T) (\<lambda>T'. Inr ((), T')))) (\<lambda>_.
     obind (deleteStagedPrefix i (map observationId rows)) (\<lambda>_.
     obind (transitionTime i now) (\<lambda>t.
     obind (updateAttempts ow (\<lambda>r. hasId i r \<and> rowState r \<in> {Dispatching, Unknown}) (\<lambda>r. r\<lparr>
         rowState := Rejected, rowRejectedAt := Some t, rowUnknownAt := None,
         rowRejection := Some (JObject (spread (errorMembers err)
           [(js ''evidence'', encodeRejection e)])), rowUpdatedAt := t\<rparr>)) (\<lambda>changed.
     ret (changed = 1)))))))))"

definition resolutionDetail :: "jsstring \<Rightarrow> nat \<Rightarrow> jsrecord" where
  "resolutionDetail command t = members
     [(''resolution'', Some (objectOf
        [(''kind'', Some (JString (js ''user-abandoned''))), (''commandId'', Some (JString command)),
         (''resolvedAt'', Some (natVal t)), (''deliveryOutcome'', Some (JString (js ''unknown'')))]))]"

definition abandon :: "Owner \<Rightarrow> jsstring \<Rightarrow> jsstring \<Rightarrow> nat \<Rightarrow> FrozenDeliveryAttempt op" where
  "abandon ow i resolutionCommand now = transaction (
     obind (require_attempt ow i) (\<lambda>a.
     let refusal = ''Only an unconfirmed message without acceptance or staged observations can be abandoned.'' in
     obind (require_that (attemptState a = Unknown \<and> acceptanceEvidence a = None \<and> \<not> transcriptGap a)
       refusal) (\<lambda>_.
     obind (staged i) (\<lambda>rows.
     obind (require_that (rows = [] \<and> attemptKind a \<noteq> ManualCompact) refusal) (\<lambda>_.
     obind (transitionTime i now) (\<lambda>t.
     obind (storedRecovery i) (\<lambda>stored.
     obind (updateAttempts ow (\<lambda>r. hasId i r \<and> rowState r = Unknown) (\<lambda>r. r\<lparr>
         rowState := Abandoned,
         rowRecovery := Some (recoveryDetail stored (resolutionDetail resolutionCommand t)),
         rowUpdatedAt := t\<rparr>)) (\<lambda>_.
     ret a))))))))"

subsection \<open>Dispatch\<close>

definition dispatchBegin :: "Owner \<Rightarrow> jsstring \<Rightarrow> unit op" where
  "dispatchBegin ow i =
     obind (require_attempt ow i) (\<lambda>a.
     obind (require_that (ownerInstanceId a = ownerId ow)
       ''Delivery attempt belongs to another owner instance.'') (\<lambda>_.
     require_that (attemptState a = Preparing)
       ''Only a preparing delivery attempt can be dispatched.''))"

text \<open>The result that stands for a thrown error.\<close>

definition dispatchThrown :: "Owner \<Rightarrow> jsstring \<Rightarrow> Thrown \<Rightarrow> nat \<Rightarrow> ProviderDispatchResult op" where
  "dispatchThrown ow i e now =
     obind (get_attempt ow i) (\<lambda>oa.
     let persisted = (case oa of None \<Rightarrow> False | Some a \<Rightarrow> crossedAt a \<noteq> None);
         signalled = providerPossiblySent e in
     obind (if \<not> persisted \<and> signalled
       then markProviderSignalledCrossing ow i ''thrown-possibly-sent-without-marker'' now
       else ret ()) (\<lambda>_.
     ret (if persisted \<or> signalled
       then DispatchUnknown (PossiblySent ResponseLost) (deliveryError (thrownText e))
       else DispatchRejected (NotSent PreparationFailed) None (deliveryError (thrownText e)))))"

datatype DispatchOutcome = OutcomeRejected | OutcomeUnknown | OutcomeAccepted

definition contradictsEvidence :: "ProviderAcceptanceEvidence \<Rightarrow> jsstring option \<Rightarrow> bool" where
  "contradictsEvidence e turn =
     (case e of
        CodexTurnStartResponse t n c \<Rightarrow> turn \<noteq> Some n
      | FixtureCorrelatedAcceptance s c n \<Rightarrow> n \<noteq> None \<and> turn \<noteq> n
      | _ \<Rightarrow> False)"

text \<open>
  From the result of \<^verbatim>\<open>invoke\<close> to the return, or, with \<open>OutcomeAccepted\<close>, to the preparation of
  the staged observations, which \<open>admit_attempt\<close> or \<open>dispatchPrepareFailed\<close> ends.
\<close>

fun dispatchSettle ::
  "Owner \<Rightarrow> jsstring \<Rightarrow> ProviderDispatchResult \<Rightarrow> (nat \<Rightarrow> nat) \<Rightarrow>
   (DispatchOutcome \<times> StagedProviderEnvelope list) op" where
  "dispatchSettle ow i (DispatchRejected crossing evidence err) now =
     obind (require_attempt ow i) (\<lambda>a.
     if crossedAt a \<noteq> None then
       obind (case evidence of
           None \<Rightarrow> ret False
         | Some e \<Rightarrow> rejectProviderResponse ow i e err (now 0)) (\<lambda>rejected.
       if rejected then ret (OutcomeRejected, []) else
       obind (mark_unknown ow i (spread (errorMembers err)
           [(js ''boundaryViolation'', JString (js ''rejected-after-crossing''))]) (now 1)) (\<lambda>_.
       ret (OutcomeUnknown, [])))
     else
       obind (reject_attempt ow i err (now 0)) (\<lambda>_. ret (OutcomeRejected, [])))"
| "dispatchSettle ow i (DispatchUnknown crossing err) now =
     obind (require_attempt ow i) (\<lambda>a.
     obind (if crossedAt a = None
       then markProviderSignalledCrossing ow i ''unknown-without-marker'' (now 0) else ret ()) (\<lambda>_.
     obind (mark_unknown ow i (errorMembers err) (now 1)) (\<lambda>_.
     ret (OutcomeUnknown, []))))"
| "dispatchSettle ow i (DispatchAccepted evidence turn operation) now =
     obind (require_attempt ow i) (\<lambda>a.
     obind (if crossedAt a = None
       then markProviderSignalledCrossing ow i ''accepted-without-marker'' (now 0) else ret ()) (\<lambda>_.
     obind (require_that (\<not> contradictsEvidence evidence turn)
       ''Provider native turn result contradicts its acceptance evidence.'') (\<lambda>_.
     obind (recordAcceptance ow i evidence turn operation (now 1)) (\<lambda>_.
     obind (staged i) (\<lambda>rows.
     ret (OutcomeAccepted, rows))))))"

definition dispatchPrepareFailed :: "Owner \<Rightarrow> jsstring \<Rightarrow> Thrown \<Rightarrow> nat \<Rightarrow> ProviderDispatchResult op" where
  "dispatchPrepareFailed ow i e now =
     obind (markGap ow i (js ''preparation:'' @ deliveryMessage (deliveryError (thrownText e))) now) (\<lambda>_.
     ret (DispatchUnknown (PossiblySent ResponseLost) (deliveryError (thrownText e))))"

end
