(* ===== verification/DeliveryRecovery.thy ===== *)
theory DeliveryRecovery
  imports DeliveryTransitions
begin

text \<open>
  What the server does with the attempts a stopped process left
  (extensions/agent/server/src/native-runtime/delivery-attempt-owner.ts): reconciliation with the
  provider's own record, the lanes still open, the evidence a late Compact boundary gives, and the
  pass of \<^verbatim>\<open>recover\<close> over every open attempt in pages of 256.
\<close>

subsection \<open>Lanes\<close>

definition get_first :: "Owner \<Rightarrow> AttemptRow list \<Rightarrow> FrozenDeliveryAttempt option op" where
  "get_first ow rows =
     (case sort_key rowCreatedAt rows of
        [] \<Rightarrow> ret None
      | r # rs \<Rightarrow> get_attempt ow (rowAttemptId r))"

definition unresolvedLane :: "Owner \<Rightarrow> jsstring \<Rightarrow> FrozenDeliveryAttempt option op" where
  "unresolvedLane ow conversation =
     obind (reads (\<lambda>s. filter (\<lambda>r. rowConversationId r = conversation \<and>
         rowState r \<in> {Preparing, Dispatching, Unknown}) (attempts s))) (get_first ow)"

definition acceptedWithStage :: "Owner \<Rightarrow> jsstring \<Rightarrow> FrozenDeliveryAttempt option op" where
  "acceptedWithStage ow execution =
     obind (reads (\<lambda>s. filter (\<lambda>r. rowExecutionId r = execution \<and> rowState r = Accepted \<and>
         rowAttemptId r \<in> stageAttemptId ` set (staging s)) (attempts s))) (get_first ow)"

subsection \<open>Reconciliation\<close>

text \<open>
  \<^verbatim>\<open>reconcile\<close> in the parts between its awaits.  \<open>reconcileBegin\<close> yields the staged
  observations when the evidence is already stored, and otherwise the attempt the provider is asked
  about.  \<open>reconcilePresence\<close> goes on with the provider's answer; with \<open>None\<close> the delivery stays
  unknown.  The preparation of the observations and \<open>admit_attempt\<close> follow.
\<close>

definition positiveTurn :: "ProviderAcceptanceEvidence \<Rightarrow> jsstring option" where
  "positiveTurn e =
     (case e of
        CodexHistoryClientId t c n \<Rightarrow> n
      | FixtureCorrelatedAcceptance s c n \<Rightarrow> n
      | _ \<Rightarrow> None)"

definition reconcileBegin ::
  "Owner \<Rightarrow> jsstring \<Rightarrow> (FrozenDeliveryAttempt + StagedProviderEnvelope list) op" where
  "reconcileBegin ow i =
     obind (require_attempt ow i) (\<lambda>a.
     if acceptanceEvidence a \<noteq> None
     then obind (staged i) (\<lambda>rows. ret (Inr rows))
     else ret (Inl a))"

definition reconcilePresence ::
  "Owner \<Rightarrow> jsstring \<Rightarrow> ProviderPresenceRead \<Rightarrow> nat \<Rightarrow> StagedProviderEnvelope list option op" where
  "reconcilePresence ow i presence now =
     (case presence of
        PresenceUnknown reason \<Rightarrow> ret None
      | PresencePresent e \<Rightarrow>
          obind (recordAcceptance ow i e (positiveTurn e) None now) (\<lambda>_.
          obind (require_attempt ow i) (\<lambda>_.
          obind (staged i) (\<lambda>rows. ret (Some rows)))))"

subsection \<open>A late Compact boundary\<close>

definition isOwnBoundary :: "FrozenDeliveryAttempt \<Rightarrow> nat \<Rightarrow> ProviderEventEnvelope \<Rightarrow> bool" where
  "isOwnBoundary a crossed e =
     (envProvider e = ClaudeCode \<and>
      envScope e = ConversationScope (attemptProviderInstanceId a) (attemptConversationId a)
        (attemptExecutionId a) \<and>
      nativeSessionId (envNative e) = Some (attemptNativeSessionId a) \<and>
      nativeKind (envNative e) = js ''system/compact_boundary'' \<and>
      (case nativePosition (envNative e) of Some (NativeSequence n k) \<Rightarrow> True | _ \<Rightarrow> False) \<and>
      nativeMessageId (envNative e) \<notin> {None, Some []} \<and>
      crossed \<le> observedAt e \<and>
      (case envEvent e of
         CompactionCompleted trigger operation before_tokens after_tokens \<Rightarrow>
           trigger = ManualCompaction \<and> Some operation = compactOperationId a
       | _ \<Rightarrow> False))"

definition recoverCompactionEvidence :: "Owner \<Rightarrow> jsstring \<Rightarrow> nat \<Rightarrow> bool op" where
  "recoverCompactionEvidence ow i now =
     obind (require_attempt ow i) (\<lambda>a.
     case (processGeneration a, crossedAt a) of
       (Some generation, Some crossed) \<Rightarrow>
         if attemptKind a \<noteq> ManualCompact \<or> attemptProvider a \<noteq> ClaudeCode \<or>
           attemptState a \<noteq> Unknown \<or> acceptanceEvidence a \<noteq> None \<or> transcriptGap a \<or>
           generation = []
         then ret False
         else
           obind (staged i) (\<lambda>rows.
           case filter (isOwnBoundary a crossed) (map stagedEnvelope rows) of
             [e] \<Rightarrow>
               obind (recordAcceptance ow i (ClaudeManualCompactBoundary (attemptNativeSessionId a)
                   (or_else (nativeMessageId (envNative e)) []) generation) None None now) (\<lambda>_.
               ret True)
           | _ \<Rightarrow> ret False)
     | _ \<Rightarrow> ret False)"

subsection \<open>Rejections recorded by older adapters\<close>

text \<open>The message of a recorded transport error that is the explicit Codex rejection.\<close>

definition recordedRejection :: "jsval \<Rightarrow> jsstring option" where
  "recordedRejection recovery =
     (case asObject recovery of
        None \<Rightarrow> None
      | Some r \<Rightarrow>
          (case asObject (fld r ''transport'') of
             None \<Rightarrow> None
           | Some t \<Rightarrow>
               if fld t ''code'' = JString (js ''codex_request_failed'') \<and>
                 isCodexActiveCompactRejection (fld t ''message'')
               then asString (fld t ''message'') else None))"

definition legacyRejectionRows :: "Store \<Rightarrow> (jsstring \<times> jsval) list" where
  "legacyRejectionRows s =
     map (\<lambda>r. (rowAttemptId r, or_else (rowRecovery r) JNull))
       (filter (\<lambda>r. rowProvider r = Codex \<and> rowKind r = RootTurn \<and> rowState r = Unknown \<and>
          rowRecovery r \<noteq> None) (attempts s))"

fun recoverRejections :: "Owner \<Rightarrow> (nat \<Rightarrow> nat) \<Rightarrow> nat \<Rightarrow> (jsstring \<times> jsval) list \<Rightarrow> unit op" where
  "recoverRejections ow now k [] = ret ()"
| "recoverRejections ow now k ((i, recovery) # rows) =
     (if recovery = JNull then throw (JournalFault (js ''Cannot read properties of null'')) else
      case recordedRejection recovery of
        None \<Rightarrow> recoverRejections ow now k rows
      | Some message \<Rightarrow>
          obind (require_attempt ow i) (\<lambda>a.
          obind (rejectProviderResponse ow (attemptId a)
            \<lparr>rejectionThreadId = attemptNativeSessionId a,
             rejectionSource = LegacyRecordedResponse, rejectionRequestId = None\<rparr>
            \<lparr>deliveryCode = js ''codex_active_compaction'', deliveryMessage = message,
             deliveryRetryable = None\<rparr> (now k)) (\<lambda>_.
          recoverRejections ow now (Suc k) rows)))"

subsection \<open>The pass over open attempts\<close>

definition rowKey :: "AttemptRow \<Rightarrow> nat \<times> jsstring" where
  "rowKey r = (rowCreatedAt r, rowAttemptId r)"

definition beyond :: "(nat \<times> jsstring) option \<Rightarrow> AttemptRow \<Rightarrow> bool" where
  "beyond cursor r = (case cursor of None \<Rightarrow> True | Some c \<Rightarrow> c < rowKey r)"

text \<open>\<^verbatim>\<open>ORDER BY created_at, attempt_id LIMIT 256\<close>: text compares by its bytes, as code points do.\<close>

definition openPage :: "(nat \<times> jsstring) option \<Rightarrow> Store \<Rightarrow> (nat \<times> jsstring) list" where
  "openPage cursor s =
     map rowKey (take 256 (sort_key rowKey
       (filter (\<lambda>r. rowState r \<in> {Preparing, Dispatching} \<and> beyond cursor r) (attempts s))))"

definition recoverAttempt :: "Owner \<Rightarrow> jsstring \<Rightarrow> nat \<Rightarrow> unit op" where
  "recoverAttempt ow i now =
     obind (require_attempt ow i) (\<lambda>a.
     obind (transitionTime (attemptId a) now) (\<lambda>t.
     if attemptState a = Preparing \<and> ownerInstanceId a \<noteq> ownerId ow
     then markRecovery ow (attemptId a) ''owner_unresolved'' t
     else if attemptState a = Dispatching
     then obind (updateAttempts ow (\<lambda>r. hasId (attemptId a) r \<and> rowState r = Dispatching) (\<lambda>r. r\<lparr>
         rowState := Unknown, rowUnknownAt := Some t, rowUpdatedAt := t\<rparr>)) (\<lambda>_. ret ())
     else ret ()))"

fun recoverPage :: "Owner \<Rightarrow> (nat \<Rightarrow> nat) \<Rightarrow> nat \<Rightarrow> (nat \<times> jsstring) list \<Rightarrow> unit op" where
  "recoverPage ow now k [] = ret ()"
| "recoverPage ow now k (key # keys) =
     obind (recoverAttempt ow (snd key) (now k)) (\<lambda>_. recoverPage ow now (Suc k) keys)"

end
