(* ===== verification/DeliveryRules.thy ===== *)
theory DeliveryRules
  imports DeliveryRecovery
begin

text \<open>
  How a property of the store is carried through the owner's operations.  A relation between the
  store an operation finds, the fault it ends with and the store it leaves is a
  \<open>store_relation\<close> when faults of pure steps keep it, steps compose, and a transaction that is
  taken back keeps it; inside the locale every combinator has a rule, so an operation is followed
  statement by statement down to what it writes.
\<close>

subsection \<open>Steps that only fail by refusing\<close>

text \<open>A pure step never reports a failed constraint of the database.\<close>

definition plain :: "Fault + 'a \<Rightarrow> bool" where
  "plain m = (m \<noteq> Inl ConstraintFailed)"

named_theorems plain_intros

lemma plain_rules [plain_intros]:
  "plain (Inr x)" "plain (refuse msg)" "plain (guard c msg)" "plain (Inl (Refused t))"
  "plain (Inl (ContractFault e))" "plain (Inl (JournalFault t))"
  "plain m \<Longrightarrow> (\<And>x. plain (f x)) \<Longrightarrow> plain (ebind m f)"
  "(c \<Longrightarrow> plain a) \<Longrightarrow> (\<not> c \<Longrightarrow> plain b) \<Longrightarrow> plain (if c then a else b)"
  "plain a0 \<Longrightarrow> (\<And>x. plain (g x)) \<Longrightarrow> plain (case ox of None \<Rightarrow> a0 | Some x \<Rightarrow> g x)"
  by (auto simp: plain_def refuse_def guard_def ebind_eq_Inl split: option.split)

lemma plain_all_or_first: "(\<And>k m. (k, m) \<in> set xs \<Longrightarrow> plain m) \<Longrightarrow> plain (all_or_first xs)"
proof (induction xs rule: all_or_first.induct)
  case (2 k m rest)
  from 2(2) have "plain m" by auto
  moreover have "plain (all_or_first rest)" if "m = Inr x" for x
    using that 2 by auto
  ultimately show ?case
    by (cases m) (auto simp: plain_def ebind_eq_Inl)
qed (simp add: plain_intros)

lemma insort_le_set: "set (insort_le le x ys) = insert x (set ys)"
  by (induction ys) auto

lemma sort_keys_set: "set (sort_keys le xs) = set xs"
  by (induction xs) (simp_all add: sort_keys_def insort_le_set)

lemma plain_canonicalJson [plain_intros]:
  shows "plain (canonicalJson le v)"
    and "\<And>k m. (k, m) \<in> set (canonicalElements le xs) \<Longrightarrow> plain m"
    and "\<And>k m. (k, m) \<in> set (canonicalMembers le r) \<Longrightarrow> plain m"
proof (induction le v and le xs and le r rule: canonicalJson_canonicalElements_canonicalMembers.induct)
  case (1 le v)
  then show ?case
    by (subst canonicalJson.simps)
       (auto split: jsval.splits intro!: plain_intros plain_all_or_first simp: sort_keys_set)
qed (auto split: if_splits)

lemma plain_reads [plain_intros]:
  "plain (requireRecord v name)" "plain (requiredString v name n)" "plain (requireIdentifier v name)"
  "plain (optionalIdentifier v name)" "plain (requireExactKeys r ks os)"
  "plain (rowIdentifier t name)" "plain (nullableIdentifier ot name)"
  by (auto simp: requireRecord_def requiredString_def requireIdentifier_def optionalIdentifier_def
      requireExactKeys_def rowIdentifier_def nullableIdentifier_def
      intro!: plain_rules split: option.split)

lemma plain_evidenceOf [plain_intros]: "plain (evidenceOf k a r)"
  by (cases k) (auto simp: expectedTurn_def Let_def intro!: plain_intros split: jsval.split)

lemma plain_validations [plain_intros]:
  "plain (validateRootEvidence a v)" "plain (validateEnvelopeScope a e child)"
  "plain (requireIdentifiers vs name)" "plain (validateActiveCompactPayload r provider)"
  "plain (decodeAttempt row)"
proof -
  show ids: "plain (requireIdentifiers vs name)" for vs name
    by (induction vs) (auto intro!: plain_intros)
  show "plain (validateActiveCompactPayload r provider)"
    by (auto simp: validateActiveCompactPayload_def intro!: plain_intros ids split: jsval.split)
qed (auto simp: validateRootEvidence_def validateEnvelopeScope_def decodeAttempt_def Let_def
    intro!: plain_intros split: option.split)

lemma plain_decode [plain_intros]: "plain (validateDecodedRootPayload a)" "plain (decodeVerified ow row)"
proof -
  show payload: "plain (validateDecodedRootPayload a)" for a
    unfolding validateDecodedRootPayload_def Let_def by (intro plain_intros)
  show "plain (decodeVerified ow row)"
    unfolding decodeVerified_def by (intro plain_intros payload)
qed

subsection \<open>Operations that only read\<close>

definition read_only :: "'a op \<Rightarrow> bool" where
  "read_only m = (\<forall>s. snd (m s) = s \<and> plain (fst (m s)))"

named_theorems read_only_intros

lemma read_only_rules [read_only_intros]:
  "read_only (ret x)" "plain p \<Longrightarrow> read_only (lift p)" "read_only (reads h)"
  "read_only (require_that c msg)" "e \<noteq> ConstraintFailed \<Longrightarrow> read_only (throw e)"
  "read_only m \<Longrightarrow> (\<And>x. read_only (f x)) \<Longrightarrow> read_only (obind m f)"
  "(c \<Longrightarrow> read_only a) \<Longrightarrow> (\<not> c \<Longrightarrow> read_only b) \<Longrightarrow> read_only (if c then a else b)"
  "read_only n \<Longrightarrow> (\<And>x. read_only (g x)) \<Longrightarrow> read_only (case ox of None \<Rightarrow> n | Some x \<Rightarrow> g x)"
proof -
  show "read_only (obind m f)" if "read_only m" "\<And>x. read_only (f x)"
    unfolding read_only_def
  proof
    fix s
    from that(1) have "snd (m s) = s" "plain (fst (m s))" by (auto simp: read_only_def)
    with that(2) show "snd (obind m f s) = s \<and> plain (fst (obind m f s))"
      by (cases "m s"; cases "fst (m s)") (auto simp: obind_def read_only_def plain_def)
  qed
qed (auto simp: read_only_def ret_def lift_def reads_def require_that_def throw_def plain_def
    guard_def refuse_def split: option.split)

lemma read_only_owner [read_only_intros]:
  "read_only (get_attempt ow i)" "read_only (byCommand ow c)" "read_only (require_attempt ow i)"
  "read_only (transitionTime i now)" "read_only (staged i)" "read_only (storedRecovery i)"
  "read_only (declaredChild i a x)"
proof -
  show get: "read_only (get_attempt ow i)" for i
    by (auto simp: read_only_def get_attempt_def intro!: plain_intros split: option.split)
  show "read_only (byCommand ow c)"
    by (auto simp: read_only_def byCommand_def intro!: plain_intros split: option.split)
  show "read_only (require_attempt ow i)"
    unfolding require_attempt_def by (intro read_only_rules get plain_intros)
  show staged: "read_only (staged i)" for i
    by (auto simp: read_only_def staged_def intro!: plain_intros split: sum.split)
  show "read_only (declaredChild i a x)"
    unfolding declaredChild_def by (intro read_only_rules staged)
qed (auto simp: transitionTime_def storedRecovery_def intro!: read_only_rules)

lemma read_only_D: "read_only m \<Longrightarrow> m s = (x, t) \<Longrightarrow> t = s"
  by (metis read_only_def snd_conv)

lemma read_only_transaction: "read_only m \<Longrightarrow> read_only (transaction m)"
  unfolding read_only_def transaction_def
  by (auto split: prod.split sum.split) (metis fst_conv snd_conv)+

lemma read_only_lanes [read_only_intros]:
  "read_only (get_first ow rows)" "read_only (unresolvedLane ow c)" "read_only (acceptedWithStage ow x)"
  "read_only (ownsObservation ow i e)" "read_only (dispatchBegin ow i)"
proof -
  show first: "read_only (get_first ow rows)" for rows
    by (auto simp: get_first_def split: list.split intro!: read_only_intros)
  show "read_only (unresolvedLane ow c)" "read_only (acceptedWithStage ow x)"
    unfolding unresolvedLane_def acceptedWithStage_def by (intro read_only_intros first)+
  show "read_only (ownsObservation ow i e)"
    unfolding ownsObservation_def
    by (cases "envScope e") (simp_all, (intro read_only_intros)+)
  show "read_only (dispatchBegin ow i)"
    unfolding dispatchBegin_def by (intro read_only_intros)
qed

subsection \<open>Relations carried through operations\<close>

definition fault_of :: "Fault + 'a \<Rightarrow> Fault option" where
  "fault_of m = (case m of Inl e \<Rightarrow> Some e | Inr x \<Rightarrow> None)"

definition leads :: "(Store \<Rightarrow> Fault option \<Rightarrow> Store \<Rightarrow> bool) \<Rightarrow> 'a op \<Rightarrow> Store \<Rightarrow> bool" where
  "leads R m s = R s (fault_of (fst (m s))) (snd (m s))"

locale store_relation =
  fixes R :: "Store \<Rightarrow> Fault option \<Rightarrow> Store \<Rightarrow> bool"
  assumes same: "e \<noteq> Some ConstraintFailed \<Longrightarrow> R s e s"
    and chain: "R s None t \<Longrightarrow> R t e u \<Longrightarrow> R s e u"
    and undo: "R s (Some x) t \<Longrightarrow> R s (Some x) s"
begin

lemma leads_read_only: "read_only m \<Longrightarrow> leads R m s"
  by (auto simp: leads_def read_only_def plain_def fault_of_def intro!: same split: sum.split)

lemma leads_bind:
  assumes "leads R m s" "\<And>x t. m s = (Inr x, t) \<Longrightarrow> leads R (f x) t"
  shows "leads R (obind m f) s"
proof (cases "m s")
  case (Pair r t)
  then show ?thesis
  proof (cases r)
    case (Inl e)
    with Pair assms(1) show ?thesis by (simp add: leads_def obind_def fault_of_def)
  next
    case (Inr x)
    with Pair assms have "R s None t" "R t (fault_of (fst (f x t))) (snd (f x t))"
      by (auto simp: leads_def fault_of_def)
    with Pair Inr show ?thesis by (auto simp: leads_def obind_def intro: chain)
  qed
qed

lemma leads_read:
  assumes "read_only m" "\<And>x. m s = (Inr x, s) \<Longrightarrow> leads R (f x) s"
  shows "leads R (obind m f) s"
  using assms read_only_D [OF assms(1)] by (blast intro: leads_bind leads_read_only)

lemma leads_transaction: "leads R m s \<Longrightarrow> leads R (transaction m) s"
  by (auto simp: leads_def transaction_def fault_of_def split: prod.splits sum.splits dest: undo)

lemma leads_if: "(c \<Longrightarrow> leads R a s) \<Longrightarrow> (\<not> c \<Longrightarrow> leads R b s) \<Longrightarrow> leads R (if c then a else b) s"
  by simp

lemma leads_option:
  "(ox = None \<Longrightarrow> leads R a s) \<Longrightarrow> (\<And>x. ox = Some x \<Longrightarrow> leads R (g x) s) \<Longrightarrow>
     leads R (case ox of None \<Rightarrow> a | Some x \<Rightarrow> g x) s"
  by (cases ox) simp_all

end

end
