(* ===== verification/DeliveryPass.thy ===== *)
theory DeliveryPass
  imports DeliveryRules
begin

text \<open>
  \<^verbatim>\<open>recover\<close> of extensions/agent/server/src/native-runtime/delivery-attempt-owner.ts: first the
  rejections older adapters recorded, then every attempt still preparing or dispatching, in pages
  of 256 behind a cursor.  The loop ends because a page moves the cursor past rows whose keys no
  step of the pass changes.
\<close>

definition keeps_keys :: "Store \<Rightarrow> Fault option \<Rightarrow> Store \<Rightarrow> bool" where
  "keeps_keys s e t = (map rowKey (attempts t) = map rowKey (attempts s))"

interpretation keys: store_relation keeps_keys
  by unfold_locales (simp_all add: keeps_keys_def)

lemma keys_update:
  assumes "\<And>r. sel r \<Longrightarrow> rowKey (upd r) = rowKey r"
  shows "leads keeps_keys (updateAttempts ow sel upd) s"
  using assms by (auto simp: leads_def keeps_keys_def updateAttempts_def)

lemma keys_recoverAttempt: "leads keeps_keys (recoverAttempt ow i now) s"
  unfolding recoverAttempt_def markRecovery_def
  by (intro keys.leads_read keys.leads_bind keys.leads_if keys_update keys.leads_read_only
      read_only_intros) (simp_all add: rowKey_def)

lemma keys_recoverPage: "leads keeps_keys (recoverPage ow now k ks) s"
proof (induction ks arbitrary: k s)
  case (Cons a ks)
  then show ?case
    by (auto intro: keys.leads_bind [OF keys_recoverAttempt])
qed (auto intro!: keys.leads_read_only read_only_intros)

text \<open>The attempts beyond the cursor become fewer with every page.\<close>

definition ahead :: "(nat \<times> jsstring) option \<Rightarrow> (nat \<times> jsstring) list \<Rightarrow> nat" where
  "ahead cursor ks = length (filter (\<lambda>k. case cursor of None \<Rightarrow> True | Some c \<Rightarrow> c < k) ks)"

lemma openPage_members:
  "k \<in> set (openPage cursor s) \<Longrightarrow>
     \<exists>r\<in>set (attempts s). k = rowKey r \<and> beyond cursor r \<and> rowState r \<in> {Preparing, Dispatching}"
  by (auto simp: openPage_def dest!: in_set_takeD)

lemma filter_after_less:
  fixes k :: "'k :: linorder"
  assumes "k \<in> set ks" "P k" "\<And>x. k < x \<Longrightarrow> P x"
  shows "length (filter (\<lambda>x. k < x) ks) < length (filter P ks)"
  using assms
proof (induction ks)
  case (Cons a ks)
  have "length (filter (\<lambda>x. k < x) ks) \<le> length (filter P ks)"
    using Cons.prems(3) by (induction ks) auto
  with Cons show ?case by auto
qed simp

lemma ahead_decreases:
  assumes "k \<in> set ks" "case cursor of None \<Rightarrow> True | Some c \<Rightarrow> c < k"
  shows "ahead (Some k) ks < ahead cursor ks"
  unfolding ahead_def option.case(2)
proof (rule filter_after_less [OF assms(1)])
  show "case cursor of None \<Rightarrow> True | Some c \<Rightarrow> c < k"
    by (rule assms(2))
next
  fix x assume "k < x"
  with assms(2) show "case cursor of None \<Rightarrow> True | Some c \<Rightarrow> c < x"
    by (cases cursor) (simp, metis option.case(2) less_trans)
qed

function recoverPages ::
  "Owner \<Rightarrow> (nat \<Rightarrow> nat) \<Rightarrow> (nat \<times> jsstring) option \<Rightarrow> nat \<Rightarrow> unit op" where
  "recoverPages ow now cursor k s =
     (let page = openPage cursor s in
      if page = [] then (Inr (), s)
      else case recoverPage ow now k page s of
        (Inl e, t) \<Rightarrow> (Inl e, t)
      | (Inr u, t) \<Rightarrow> recoverPages ow now (Some (last page)) (k + length page) t)"
  by pat_completeness auto
termination
proof (relation "measure (\<lambda>(ow, now, cursor, k, s). ahead cursor (map rowKey (attempts s)))")
  fix ow now cursor k s page r t u
  assume page: "page = openPage cursor s" "page \<noteq> []"
    and ran: "(r, t) = recoverPage ow now k page s"
  from ran keys_recoverPage [of ow now k page s] have kept: "map rowKey (attempts t) = map rowKey (attempts s)"
    by (metis keeps_keys_def leads_def snd_conv)
  from page openPage_members [of "last page" cursor s] have
    "last page \<in> set (map rowKey (attempts s))"
    "case cursor of None \<Rightarrow> True | Some c \<Rightarrow> c < last page"
    by (auto simp: beyond_def split: option.splits)
  with kept show "((ow, now, Some (last page), k + length page, t), ow, now, cursor, k, s)
    \<in> measure (\<lambda>(ow, now, cursor, k, s). ahead cursor (map rowKey (attempts s)))"
    by (simp add: ahead_decreases)
qed simp

declare recoverPages.simps [simp del]

definition recover :: "Owner \<Rightarrow> (nat \<Rightarrow> nat) \<Rightarrow> (nat \<Rightarrow> nat) \<Rightarrow> unit op" where
  "recover ow rejectNow now =
     obind (reads legacyRejectionRows) (\<lambda>rejected.
     obind (recoverRejections ow rejectNow 0 rejected) (\<lambda>_.
     recoverPages ow now None 0))"

end
