(* ===== verification/DeliveryProtocol.thy ===== *)
theory DeliveryProtocol
  imports DeliveryPass
begin

text \<open>
  The protocol of delivery attempts, as the owner's operations keep it: every row meets the
  database's checks, identities are unique, the observations of an attempt stand under dense
  ordinals within their bounds, a state moves only along the life cycle, and what an attempt has
  recorded of its crossing, its proof and its identity never changes.
\<close>

subsection \<open>The life cycle\<close>

text \<open>The transitions an attempt makes; an accepted, rejected or abandoned one makes none.\<close>

inductive lifecycle :: "DeliveryAttemptState \<Rightarrow> DeliveryAttemptState \<Rightarrow> bool" where
  crosses: "lifecycle Preparing Dispatching"
| refused: "lifecycle Preparing Rejected"
| lost: "lifecycle Dispatching Unknown"
| confirmed: "lifecycle Dispatching Accepted"
| declined: "lifecycle Dispatching Rejected"
| resolved: "lifecycle Unknown Accepted"
| recognised: "lifecycle Unknown Rejected"
| given_up: "lifecycle Unknown Abandoned"

inductive_cases lifecycle_from:
  "lifecycle Accepted x" "lifecycle Rejected x" "lifecycle Abandoned x"

inductive_simps lifecycle_iff: "lifecycle x y"

definition terminal :: "DeliveryAttemptState set" where
  "terminal = {Accepted, Rejected, Abandoned}"

lemma lifecycle_terminal: "lifecycle\<^sup>*\<^sup>* x y \<Longrightarrow> x \<in> terminal \<Longrightarrow> y = x"
  by (cases x) (auto simp: terminal_def elim: converse_rtranclpE dest: lifecycle_iff [THEN iffD1])

lemma lifecycle_preparing: "lifecycle\<^sup>*\<^sup>* x Preparing \<Longrightarrow> x = Preparing"
  by (erule rtranclp.cases) (auto simp: lifecycle_iff)

definition kept :: "'a option \<Rightarrow> 'a option \<Rightarrow> bool" where
  "kept a b = (a = None \<or> b = a)"

lemma kept_simps [simp]: "kept None b" "kept a a" "kept (Some x) b \<longleftrightarrow> b = Some x"
  by (auto simp: kept_def)

lemma kept_trans: "kept a b \<Longrightarrow> kept b c \<Longrightarrow> kept a c"
  by (auto simp: kept_def)

text \<open>What one row may become.\<close>

definition row_le :: "AttemptRow \<Rightarrow> AttemptRow \<Rightarrow> bool" where
  "row_le r q =
     (rowAttemptId q = rowAttemptId r \<and> rowCommandId q = rowCommandId r \<and> rowKind q = rowKind r \<and>
      rowProvider q = rowProvider r \<and> rowProviderInstanceId q = rowProviderInstanceId r \<and>
      rowConversationId q = rowConversationId r \<and> rowExecutionId q = rowExecutionId r \<and>
      rowIntendedTurnId q = rowIntendedTurnId r \<and> rowClientMessageId q = rowClientMessageId r \<and>
      rowNativeClientMessageId q = rowNativeClientMessageId r \<and>
      rowCompactOperationId q = rowCompactOperationId r \<and> rowPayloadHash q = rowPayloadHash r \<and>
      rowPayload q = rowPayload r \<and> rowNativeSessionId q = rowNativeSessionId r \<and>
      rowOwnerInstanceId q = rowOwnerInstanceId r \<and> rowCreatedAt q = rowCreatedAt r \<and>
      kept (rowProcessGeneration r) (rowProcessGeneration q) \<and>
      kept (rowNativeTurnId r) (rowNativeTurnId q) \<and>
      kept (rowNativeOperationId r) (rowNativeOperationId q) \<and>
      kept (rowCrossedAt r) (rowCrossedAt q) \<and> kept (rowEvidence r) (rowEvidence q) \<and>
      (rowTranscriptGap r \<longrightarrow> rowTranscriptGap q) \<and> rowUpdatedAt r \<le> rowUpdatedAt q \<and>
      lifecycle\<^sup>*\<^sup>* (rowState r) (rowState q))"

lemma row_le_refl [simp]: "row_le r r"
  by (simp add: row_le_def)

lemma row_le_trans: "row_le r q \<Longrightarrow> row_le q p \<Longrightarrow> row_le r p"
  unfolding row_le_def
  by (elim conjE, intro conjI; (metis | erule (1) kept_trans | erule (1) rtranclp_trans | erule (1) order_trans))

definition evolves :: "Store \<Rightarrow> Store \<Rightarrow> bool" where
  "evolves s t =
     (length (attempts s) \<le> length (attempts t) \<and>
      (\<forall>k<length (attempts s). row_le (attempts s ! k) (attempts t ! k)))"

lemma evolves_refl: "evolves s s"
  by (simp add: evolves_def)

lemma evolves_trans: "evolves s t \<Longrightarrow> evolves t u \<Longrightarrow> evolves s u"
  unfolding evolves_def by (auto intro: row_le_trans)

subsection \<open>Valid stores\<close>

definition row_ok :: "Owner \<Rightarrow> AttemptRow \<Rightarrow> bool" where
  "row_ok ow r =
     (attemptChecks ow r \<and>
      (rowEvidence r = None \<longrightarrow> rowNativeTurnId r = None \<and> rowNativeOperationId r = None))"

definition stage_of :: "Store \<Rightarrow> jsstring \<Rightarrow> StageRow list" where
  "stage_of s i = filter (\<lambda>r. stageAttemptId r = i) (staging s)"

text \<open>Dense ordinals, distinct observations, at most 256 rows and 64 MiB.\<close>

definition stage_ok :: "StageRow list \<Rightarrow> bool" where
  "stage_ok rows =
     (map stageOrdinal rows = [0..<length rows] \<and> length rows \<le> 256 \<and>
      distinct (map stageObservationId rows) \<and> list_all stageChecks rows \<and>
      sum_list (map stageByteLength rows) \<le> maxStageBytes)"

definition valid :: "Owner \<Rightarrow> Store \<Rightarrow> bool" where
  "valid ow s =
     (list_all (row_ok ow) (attempts s) \<and>
      distinct (map rowAttemptId (attempts s)) \<and> distinct (map rowCommandId (attempts s)) \<and>
      (\<forall>i. stage_ok (stage_of s i)) \<and>
      stageAttemptId ` set (staging s) \<subseteq> rowAttemptId ` set (attempts s))"

definition protocol :: "Owner \<Rightarrow> Store \<Rightarrow> Fault option \<Rightarrow> Store \<Rightarrow> bool" where
  "protocol ow s e t = (valid ow s \<longrightarrow> valid ow t \<and> evolves s t \<and> e \<noteq> Some ConstraintFailed)"

interpretation protocol: store_relation "protocol ow" for ow
  by unfold_locales (auto simp: protocol_def evolves_refl intro: evolves_trans)

lemma find_unique: "distinct (map f xs) \<Longrightarrow> x \<in> set xs \<Longrightarrow> find (\<lambda>y. f y = f x) xs = Some x"
  by (induction xs) (auto simp: rev_image_eqI)

lemma attemptRow_unique:
  assumes "valid ow s" "r \<in> set (attempts s)" "hasId i r"
  shows "attemptRow s i = Some r"
  using assms find_unique [of rowAttemptId "attempts s" r]
  by (simp add: valid_def hasId_def attemptRow_def)

lemma attemptRow_in: "attemptRow s i = Some r \<Longrightarrow> r \<in> set (attempts s) \<and> rowAttemptId r = i"
  by (auto simp: attemptRow_def find_Some_iff)

lemma valid_row: "valid ow s \<Longrightarrow> attemptRow s i = Some r \<Longrightarrow> row_ok ow r"
  by (auto simp: valid_def list_all_iff dest: attemptRow_in)

text \<open>An update of the rows of one attempt.\<close>

lemma protocol_update:
  assumes "\<And>r. valid ow s \<Longrightarrow> attemptRow s i = Some r \<Longrightarrow> row_ok ow r \<Longrightarrow> sel r \<Longrightarrow>
      row_ok ow (upd r) \<and> row_le r (upd r)"
  shows "leads (protocol ow) (updateAttempts ow (\<lambda>r. hasId i r \<and> sel r) upd) s"
proof -
  have "valid ow t \<and> evolves s t \<and> fault_of e \<noteq> Some ConstraintFailed"
    if v: "valid ow s" and run: "updateAttempts ow (\<lambda>r. hasId i r \<and> sel r) upd s = (e, t)" for e t
  proof -
    have step: "row_ok ow (upd r) \<and> row_le r (upd r)"
      if "r \<in> set (attempts s)" "hasId i r" "sel r" for r
    proof -
      have "attemptRow s i = Some r" by (rule attemptRow_unique [OF v that(1,2)])
      with assms [OF v this] v that show ?thesis by (auto dest: valid_row)
    qed
    let ?u = "\<lambda>r. if hasId i r \<and> sel r then upd r else r"
    from step run have t: "t = s\<lparr>attempts := map ?u (attempts s)\<rparr>" and e: "\<exists>n. e = Inr n"
      by (auto simp: updateAttempts_def list_ex_iff row_ok_def split: if_splits)
    have ids: "rowAttemptId (?u r) = rowAttemptId r \<and> rowCommandId (?u r) = rowCommandId r"
      if "r \<in> set (attempts s)" for r
      using step [OF that] by (auto simp: row_le_def)
    define L where "L = map ?u (attempts s)"
    have "map rowAttemptId L = map rowAttemptId (attempts s)"
      "map rowCommandId L = map rowCommandId (attempts s)"
      using ids by (auto simp: L_def)
    moreover from this(1) have "rowAttemptId ` set L = rowAttemptId ` set (attempts s)"
      by (metis set_map)
    moreover have "list_all (row_ok ow) L"
      using v step by (auto simp: valid_def list_all_iff L_def)
    moreover have "t = s\<lparr>attempts := L\<rparr>" "stage_of (s\<lparr>attempts := L\<rparr>) = stage_of s"
      by (simp_all add: t L_def stage_of_def fun_eq_iff)
    ultimately have "valid ow t"
      using v by (simp add: valid_def)
    moreover have "evolves s t"
      using step by (auto simp: t evolves_def)
    ultimately show ?thesis using e by (auto simp: fault_of_def)
  qed
  then show ?thesis
    by (auto simp: leads_def protocol_def) (metis prod.collapse)+
qed

end
