(* ===== verification/DeliverySafety.thy ===== *)
theory DeliverySafety
  imports DeliveryProtocol
begin

text \<open>
  Every operation of the owner keeps the protocol: from a valid store it leaves a valid one that
  evolves it, and the database's constraints never refuse a statement.
\<close>

subsection \<open>What the reads of an operation tell\<close>

lemma get_attempt_D: "get_attempt ow i s = (Inr (Some a), s) \<Longrightarrow>
    \<exists>r. attemptRow s i = Some r \<and> decodeVerified ow r = Inr a"
  by (auto simp: get_attempt_def split: option.splits)

lemma require_attempt_D: "require_attempt ow i s = (Inr a, s) \<Longrightarrow>
    \<exists>r. attemptRow s i = Some r \<and> decodeVerified ow r = Inr a"
  by (auto simp: require_attempt_def get_attempt_def obind_def lift_def ret_def refuse_def
      split: option.splits prod.splits sum.splits)

lemma decodeAttempt_fields:
  assumes "decodeAttempt r = Inr a"
  shows "attemptId a = rowAttemptId r" "attemptCommandId a = rowCommandId r"
    "attemptKind a = rowKind r" "attemptProvider a = rowProvider r"
    "attemptProviderInstanceId a = rowProviderInstanceId r"
    "attemptConversationId a = rowConversationId r" "attemptExecutionId a = rowExecutionId r"
    "intendedTurnId a = rowIntendedTurnId r" "clientMessageId a = rowClientMessageId r"
    "nativeClientMessageId a = rowNativeClientMessageId r"
    "compactOperationId a = rowCompactOperationId r" "recoveryPayloadHash a = rowPayloadHash r"
    "recoveryPayload a = rowPayload r" "attemptNativeSessionId a = rowNativeSessionId r"
    "processGeneration a = rowProcessGeneration r" "attemptNativeTurnId a = rowNativeTurnId r"
    "ownerInstanceId a = rowOwnerInstanceId r" "attemptState a = rowState r"
    "crossedAt a = rowCrossedAt r" "acceptanceEvidence a = None"
    "transcriptGap a = rowTranscriptGap r"
  using assms unfolding decodeAttempt_def ebind_eq_Inr
  by - (elim exE conjE; drule sum.inject(2) [THEN iffD1]; hypsubst; simp only: FrozenDeliveryAttempt.simps)+

lemma decodeVerified_decodes:
  assumes "decodeVerified ow r = Inr a"
  shows "\<exists>b e. decodeAttempt r = Inr b \<and> a = b\<lparr>acceptanceEvidence := e\<rparr> \<and>
     (e = None \<longleftrightarrow> rowEvidence r = None)"
proof -
  from assms obtain b where "decodeAttempt r = Inr b"
    "(case rowEvidence r of None \<Rightarrow> Inr b
      | Some v \<Rightarrow> ebind (validateRootEvidence b v) (\<lambda>e. Inr (b\<lparr>acceptanceEvidence := Some e\<rparr>))) = Inr a"
    unfolding decodeVerified_def ebind_eq_Inr by blast
  then show ?thesis
    using decodeAttempt_fields(20) [of r b]
    by (cases "rowEvidence r"; cases b) (auto intro!: exI [of _ b] exI [of _ "acceptanceEvidence a"])
qed

lemma decodeVerified_fields:
  assumes "decodeVerified ow r = Inr a"
  shows "attemptId a = rowAttemptId r" "attemptKind a = rowKind r" "attemptProvider a = rowProvider r"
    "attemptNativeSessionId a = rowNativeSessionId r" "processGeneration a = rowProcessGeneration r"
    "attemptNativeTurnId a = rowNativeTurnId r" "ownerInstanceId a = rowOwnerInstanceId r"
    "attemptState a = rowState r" "crossedAt a = rowCrossedAt r"
    "acceptanceEvidence a = None \<longleftrightarrow> rowEvidence r = None" "transcriptGap a = rowTranscriptGap r"
  using decodeVerified_decodes [OF assms] by (auto simp: decodeAttempt_fields)

lemma transitionTime_D:
  "transitionTime i now s = (Inr t, s) \<Longrightarrow> attemptRow s i = Some r \<Longrightarrow>
     rowCreatedAt r \<le> t \<and> rowUpdatedAt r \<le> t"
  by (auto simp: transitionTime_def reads_def)

lemma recoveryDetail_size: "byte_length (recoveryDetail stored detail) \<le> 65536"
proof -
  let ?fs = "[(''truncated'', Some (JBool True)), (''latest'', Some (boundedDeliveryError detail))]"
  have "utf8_length (json_quote (js ''truncated'')) \<le> 110"
    "utf8_length (json_quote (js ''latest'')) \<le> 80"
    using json_quote_key [of "''truncated''"] json_quote_key [of "''latest''"] by simp_all
  moreover have "byte_length (JBool True) = 4"
    by (simp add: byte_length_def js_def utf8_length_def)
  ultimately have "member_size (members ?fs) \<le> 65300"
    using boundedDeliveryError_bound [of detail]
    by (simp add: member_size_members member_size_simps members.simps)
  with byte_length_object [of "members ?fs"] have "byte_length (objectOf ?fs) \<le> 65536"
    by (simp add: objectOf_def)
  then show ?thesis
    by (simp add: recoveryDetail_def Let_def)
qed

subsection \<open>Steps of a row\<close>

text \<open>The proof obligations of the updates, on one row at a later time.\<close>

lemma lifecycle_steps:
  "lifecycle\<^sup>*\<^sup>* Preparing Dispatching" "lifecycle\<^sup>*\<^sup>* Preparing Rejected"
  "lifecycle\<^sup>*\<^sup>* Dispatching Unknown" "lifecycle\<^sup>*\<^sup>* Dispatching Accepted"
  "lifecycle\<^sup>*\<^sup>* Dispatching Rejected" "lifecycle\<^sup>*\<^sup>* Unknown Accepted"
  "lifecycle\<^sup>*\<^sup>* Unknown Rejected" "lifecycle\<^sup>*\<^sup>* Unknown Abandoned"
  by (auto intro: lifecycle.intros)

lemmas row_step_defs = row_ok_def attemptChecks_def row_le_def withinBytes_def stampOk_def

lemma step_cross:
  assumes "row_ok ow r" "rowState r = Preparing" "rowCreatedAt r \<le> t \<and> rowUpdatedAt r \<le> t"
    "kept (rowProcessGeneration r) g" "withinBytes 65536 v"
    and q: "q = r\<lparr>rowState := Dispatching, rowCrossedAt := Some t, rowProcessGeneration := g,
      rowRecovery := v, rowUpdatedAt := t\<rparr>"
  shows "row_ok ow q \<and> row_le r q"
  using assms by (auto simp: row_step_defs lifecycle_steps split: option.splits)

lemma step_evidence:
  assumes "row_ok ow r" "rowState r \<in> {Dispatching, Unknown}" "rowEvidence r = None"
    "rowCreatedAt r \<le> t \<and> rowUpdatedAt r \<le> t" "byte_length v \<le> 65536"
  shows "row_ok ow (r\<lparr>rowEvidence := Some v, rowNativeTurnId := n, rowNativeOperationId := q,
      rowUpdatedAt := t\<rparr>) \<and>
    row_le r (r\<lparr>rowEvidence := Some v, rowNativeTurnId := n, rowNativeOperationId := q,
      rowUpdatedAt := t\<rparr>)"
  using assms by (auto simp: row_step_defs split: option.splits)

lemma step_gap:
  assumes "row_ok ow r" "rowCreatedAt r \<le> t \<and> rowUpdatedAt r \<le> t" "byte_length v \<le> 65536"
    and q: "q = r\<lparr>rowTranscriptGap := True, rowRecovery := Some v,
      rowState := (if rowState r = Dispatching then Unknown else rowState r),
      rowUnknownAt := (if rowState r = Dispatching then Some t else rowUnknownAt r),
      rowUpdatedAt := t\<rparr>"
  shows "row_ok ow q \<and> row_le r q"
  using assms by (cases "rowState r") (auto simp: row_step_defs lifecycle_steps split: option.splits)

lemma step_recovery:
  assumes "row_ok ow r" "rowCreatedAt r \<le> t \<and> rowUpdatedAt r \<le> t" "byte_length v \<le> 65536"
  shows "row_ok ow (r\<lparr>rowRecovery := Some v, rowUpdatedAt := t\<rparr>) \<and>
    row_le r (r\<lparr>rowRecovery := Some v, rowUpdatedAt := t\<rparr>)"
  using assms by (cases "rowState r") (auto simp: row_step_defs split: option.splits)

lemma step_unknown:
  assumes "row_ok ow r" "rowState r = Dispatching" "rowCreatedAt r \<le> t \<and> rowUpdatedAt r \<le> t"
    "withinBytes 65536 v"
  shows "row_ok ow (r\<lparr>rowState := Unknown, rowUnknownAt := Some t, rowRecovery := v, rowUpdatedAt := t\<rparr>) \<and>
    row_le r (r\<lparr>rowState := Unknown, rowUnknownAt := Some t, rowRecovery := v, rowUpdatedAt := t\<rparr>)"
  using assms by (auto simp: row_step_defs lifecycle_steps split: option.splits)

lemma step_accept:
  assumes "row_ok ow r" "rowState r \<in> {Dispatching, Unknown}" "rowEvidence r \<noteq> None"
    "rowCreatedAt r \<le> t \<and> rowUpdatedAt r \<le> t"
  shows "row_ok ow (r\<lparr>rowState := Accepted, rowAcceptedAt := Some t, rowUnknownAt := None, rowUpdatedAt := t\<rparr>) \<and>
    row_le r (r\<lparr>rowState := Accepted, rowAcceptedAt := Some t, rowUnknownAt := None, rowUpdatedAt := t\<rparr>)"
  using assms by (auto simp: row_step_defs lifecycle_steps split: option.splits)

lemma step_reject:
  assumes "row_ok ow r" "rowState r = Preparing" "rowCreatedAt r \<le> t \<and> rowUpdatedAt r \<le> t"
    "byte_length v \<le> 65536"
  shows "row_ok ow (r\<lparr>rowState := Rejected, rowRejectedAt := Some t, rowRejection := Some v, rowUpdatedAt := t\<rparr>) \<and>
    row_le r (r\<lparr>rowState := Rejected, rowRejectedAt := Some t, rowRejection := Some v, rowUpdatedAt := t\<rparr>)"
  using assms by (auto simp: row_step_defs lifecycle_steps split: option.splits)

lemma step_decline:
  assumes "row_ok ow r" "rowState r \<in> {Dispatching, Unknown}" "rowEvidence r = None"
    "rowProvider r = Codex" "rowKind r = RootTurn"
    "rowCreatedAt r \<le> t \<and> rowUpdatedAt r \<le> t" "byte_length v \<le> 65536"
    "codexCompactRejection (Some v)"
  shows "row_ok ow (r\<lparr>rowState := Rejected, rowRejectedAt := Some t, rowUnknownAt := None,
      rowRejection := Some v, rowUpdatedAt := t\<rparr>) \<and>
    row_le r (r\<lparr>rowState := Rejected, rowRejectedAt := Some t, rowUnknownAt := None,
      rowRejection := Some v, rowUpdatedAt := t\<rparr>)"
  using assms by (auto simp: row_step_defs lifecycle_steps split: option.splits)

lemma step_abandon:
  assumes "row_ok ow r" "rowState r = Unknown" "rowEvidence r = None"
    "rowCreatedAt r \<le> t \<and> rowUpdatedAt r \<le> t" "byte_length v \<le> 65536"
  shows "row_ok ow (r\<lparr>rowState := Abandoned, rowRecovery := Some v, rowUpdatedAt := t\<rparr>) \<and>
    row_le r (r\<lparr>rowState := Abandoned, rowRecovery := Some v, rowUpdatedAt := t\<rparr>)"
  using assms by (auto simp: row_step_defs lifecycle_steps split: option.splits)

subsection \<open>The operations\<close>

lemma protocol_update_row:
  assumes "\<And>r. valid ow s \<Longrightarrow> attemptRow s i = Some r \<Longrightarrow> row_ok ow r \<Longrightarrow>
      row_ok ow (upd r) \<and> row_le r (upd r)"
  shows "leads (protocol ow) (updateAttempts ow (hasId i) upd) s"
  using protocol_update [of ow s i "\<lambda>r. True" upd] assms by simp

lemmas protocol_rules =
  protocol.leads_transaction
  protocol.leads_bind [where m = "updateAttempts ow sel upd" for ow sel upd]
  protocol.leads_read protocol.leads_if protocol.leads_option
  protocol_update protocol_update_row
  protocol.leads_read_only [OF read_only_rules(1)] protocol.leads_read_only [OF read_only_rules(4)]
  read_only_intros

lemma safe_markGap: "leads (protocol ow) (markGap ow i reason now) s"
  unfolding markGap_def Let_def
  by (intro protocol_rules)
     (rule step_gap, assumption, erule (1) transitionTime_D, rule recoveryDetail_size, rule refl)

lemma safe_markRecovery:
  assumes "transitionTime i now s = (Inr t, s)"
  shows "leads (protocol ow) (markRecovery ow i reason t) s"
  unfolding markRecovery_def
  by (intro protocol_rules)
     (rule step_recovery, assumption, erule transitionTime_D [OF assms], rule recoveryDetail_size)

lemma safe_mark_unknown: "leads (protocol ow) (mark_unknown ow i err now) s"
  unfolding mark_unknown_def
  by (intro protocol_rules)
     (rule step_unknown, assumption, assumption, erule (1) transitionTime_D,
      simp add: withinBytes_def recoveryDetail_size)

lemma safe_reject_attempt: "leads (protocol ow) (reject_attempt ow i err now) s"
  unfolding reject_attempt_def
  by (intro protocol_rules)
     (rule step_reject, assumption, assumption, erule (1) transitionTime_D,
      rule boundedDeliveryError_size)

lemma safe_markProviderSignalledCrossing:
  "leads (protocol ow) (markProviderSignalledCrossing ow i violation now) s"
  unfolding markProviderSignalledCrossing_def
proof (intro protocol_rules)
  fix a t stored and r :: AttemptRow
  let ?v = "Some (recoveryDetail stored
    (members [(''boundary_violation'', Some (JString (js violation)))]))"
  assume "transitionTime i now s = (Inr t, s)" "attemptRow s i = Some r" "row_ok ow r"
    "rowState r = Preparing \<and> rowOwnerInstanceId r = ownerInstanceId a"
  then show "row_ok ow (r\<lparr>rowState := Dispatching, rowCrossedAt := Some t, rowUpdatedAt := t,
        rowRecovery := ?v\<rparr>) \<and>
    row_le r (r\<lparr>rowState := Dispatching, rowCrossedAt := Some t, rowUpdatedAt := t,
        rowRecovery := ?v\<rparr>)"
    using transitionTime_D [of i now s t r]
    by (intro step_cross [where g = "rowProcessGeneration r" and v = "?v" and t = t])
       (auto simp: withinBytes_def recoveryDetail_size)
qed

lemma safe_markPossiblySent:
  "leads (protocol ow) (markPossiblySent ow i crossed session generation now) s"
  unfolding markPossiblySent_def
proof (intro protocol_rules)
  fix a t u and r :: AttemptRow
  let ?g = "if generation = None then rowProcessGeneration r else generation"
  assume "require_attempt ow i s = (Inr a, s)" and r: "attemptRow s i = Some r" "row_ok ow r"
    and scope: "require_that (session = attemptNativeSessionId a \<and>
       (processGeneration a = None \<or> generation = processGeneration a))
       ''Delivery crossing scope does not match the frozen native session.'' s = (Inr u, s)"
    and t: "transitionTime i now s = (Inr t, s)"
    and sel: "rowState r = Preparing \<and> rowOwnerInstanceId r = ownerId ow \<and>
       rowNativeSessionId r = attemptNativeSessionId a"
  then have "processGeneration a = rowProcessGeneration r"
    by (auto dest!: require_attempt_D dest: decodeVerified_fields(5))
  with scope have "kept (rowProcessGeneration r) ?g" "session = attemptNativeSessionId a"
    by (cases "rowProcessGeneration r"; cases generation; simp add: require_that_def lift_def)+
  moreover have "withinBytes 65536 (rowRecovery r)"
    using r by (simp add: row_ok_def attemptChecks_def)
  ultimately show "row_ok ow (r\<lparr>rowState := Dispatching, rowCrossedAt := Some t,
       rowNativeSessionId := session, rowProcessGeneration := ?g, rowUpdatedAt := t\<rparr>) \<and>
     row_le r (r\<lparr>rowState := Dispatching, rowCrossedAt := Some t,
       rowNativeSessionId := session, rowProcessGeneration := ?g, rowUpdatedAt := t\<rparr>)"
    using r sel transitionTime_D [OF t]
    by (intro step_cross [where g = "?g" and v = "rowRecovery r" and t = t]) auto
qed

lemma safe_recordAcceptance: "leads (protocol ow) (recordAcceptance ow i e turn operation now) s"
  unfolding recordAcceptance_def
proof (intro protocol_rules)
  fix a u c t and r :: AttemptRow
  assume "require_that (byte_length (encodeEvidence e) \<le> 65536)
      ''Acceptance evidence exceeds 64 KiB.'' s = (Inr u, s)"
    and c: "require_attempt ow i s = (Inr c, s)" "acceptanceEvidence c = None"
    and r: "attemptRow s i = Some r" "row_ok ow r" "rowState r \<in> {Dispatching, Unknown}"
    and t: "transitionTime i now s = (Inr t, s)"
  then have size: "byte_length (encodeEvidence e) \<le> 65536"
    by (simp add: require_that_def lift_def)
  from c r have "rowEvidence r = None"
    by (auto dest!: require_attempt_D dest: decodeVerified_fields(10))
  then show "row_ok ow (r\<lparr>rowEvidence := Some (encodeEvidence e),
        rowNativeTurnId := (if turn = None then rowNativeTurnId r else turn),
        rowNativeOperationId := (if operation = None then rowNativeOperationId r else operation),
        rowUpdatedAt := t\<rparr>) \<and>
      row_le r (r\<lparr>rowEvidence := Some (encodeEvidence e),
        rowNativeTurnId := (if turn = None then rowNativeTurnId r else turn),
        rowNativeOperationId := (if operation = None then rowNativeOperationId r else operation),
        rowUpdatedAt := t\<rparr>)"
    by (intro step_evidence r size transitionTime_D [OF t])
qed (intro plain_intros)+

subsection \<open>Staged observations\<close>

fun renumber :: "nat \<Rightarrow> StageRow list \<Rightarrow> StageRow list" where
  "renumber k [] = []"
| "renumber k (r # rs) = r\<lparr>stageOrdinal := k\<rparr> # renumber (Suc k) rs"

lemma renumber_simps [simp]:
  "length (renumber k rs) = length rs" "map stageOrdinal (renumber k rs) = [k..<k + length rs]"
  "map stageObservationId (renumber k rs) = map stageObservationId rs"
  "map stageByteLength (renumber k rs) = map stageByteLength rs"
  "map stageEnvelopeJson (renumber k rs) = map stageEnvelopeJson rs"
  by (induction rs arbitrary: k) (simp_all add: upt_rec)

lemma renumber_attempt:
  "list_all (\<lambda>r. stageAttemptId r = i) rs \<Longrightarrow> list_all (\<lambda>r. stageAttemptId r = i) (renumber k rs)"
  by (induction rs arbitrary: k) auto

lemma renumber_checks:
  "list_all stageChecks rs \<Longrightarrow> k + length rs \<le> 256 \<Longrightarrow> list_all stageChecks (renumber k rs)"
  by (induction rs arbitrary: k) (auto simp: stageChecks_def)

lemma stage_rows_sorted: "map stageOrdinal rows = [0..<length rows] \<Longrightarrow> sort_key stageOrdinal (filter P rows) = filter P rows"
  by (intro sort_key_id_if_sorted sorted_filter) simp

lemma reinsert_run:
  assumes "list_all (\<lambda>r. stageAttemptId r = i) rs" "i \<in> rowAttemptId ` set (attempts s)"
    "list_all stageChecks rs" "k + length rs \<le> 256" "distinct (map stageObservationId rs)"
    "\<And>q. q \<in> set (stage_of s i) \<Longrightarrow>
       stageOrdinal q < k \<and> stageObservationId q \<notin> stageObservationId ` set rs"
  shows "reinsert k rs s = (Inr (), s\<lparr>staging := staging s @ renumber k rs\<rparr>)"
  using assms
proof (induction rs arbitrary: k s)
  case (Cons r rs)
  let ?r = "r\<lparr>stageOrdinal := k\<rparr>" and ?t = "s\<lparr>staging := staging s @ [r\<lparr>stageOrdinal := k\<rparr>]\<rparr>"
  have fresh: "(stageAttemptId ?r, stageOrdinal ?r) \<notin> (\<lambda>q. (stageAttemptId q, stageOrdinal q)) ` set (staging s)"
    "(stageAttemptId ?r, stageObservationId ?r) \<notin> (\<lambda>q. (stageAttemptId q, stageObservationId q)) ` set (staging s)"
    using Cons.prems(1,6) by (fastforce simp: stage_of_def)+
  have "insertStage ?r s = (Inr (), ?t)"
    using Cons.prems(1-4) fresh by (simp add: insertStage_def stageChecks_def)
  moreover have "reinsert (Suc k) rs ?t = (Inr (), ?t\<lparr>staging := staging ?t @ renumber (Suc k) rs\<rparr>)"
  proof (rule Cons.IH)
    fix q assume "q \<in> set (stage_of ?t i)"
    then have "q \<in> set (stage_of s i) \<or> q = ?r"
      using Cons.prems(1) by (auto simp: stage_of_def split: if_splits)
    with Cons.prems(5,6) show "stageOrdinal q < Suc k \<and> stageObservationId q \<notin> stageObservationId ` set rs"
      by (auto simp: less_Suc_eq)
  qed (use Cons.prems in auto)
  ultimately show ?case
    by (simp add: obind_def)
qed (simp add: ret_def)

lemma valid_stage: "valid ow s \<Longrightarrow> stage_ok (stage_of s i)"
  by (simp add: valid_def)

lemma stage_of_member: "r \<in> set (stage_of s i) \<Longrightarrow> r \<in> set (staging s) \<and> stageAttemptId r = i"
  by (simp add: stage_of_def)

lemma stageRows_valid: "valid ow s \<Longrightarrow> stageRows s i = stage_of s i"
  using stage_rows_sorted [of "stage_of s i" "\<lambda>r. True"] valid_stage [of ow s i]
  by (simp add: stageRows_def stage_of_def stage_ok_def)

text \<open>What \<^verbatim>\<open>deleteStagedPrefix\<close> leaves.\<close>

definition without_staged :: "Store \<Rightarrow> jsstring \<Rightarrow> jsstring list \<Rightarrow> Store" where
  "without_staged s i ids = s\<lparr>staging := filter (\<lambda>r. stageAttemptId r \<noteq> i) (staging s) @
     renumber 0 (filter (\<lambda>r. stageObservationId r \<notin> set ids) (stage_of s i))\<rparr>"

lemma without_staged_simps [simp]:
  "attempts (without_staged s i ids) = attempts s" "tables (without_staged s i ids) = tables s"
  by (simp_all add: without_staged_def)

lemma stage_attempt:
  assumes "valid ow s" "r \<in> set (stage_of s i)"
  shows "i \<in> rowAttemptId ` set (attempts s)"
proof -
  from stage_of_member [OF assms(2)] have "i \<in> stageAttemptId ` set (staging s)" by auto
  with assms(1) show ?thesis by (auto simp: valid_def)
qed

lemma deleteStagedPrefix_run:
  assumes "valid ow s" "ids \<noteq> []"
  shows "deleteStagedPrefix i ids s = (Inr (), without_staged s i ids)"
proof -
  let ?gone = "\<lambda>r. stageAttemptId r = i \<and> stageObservationId r \<in> set ids"
  let ?kept = "filter (\<lambda>r. stageObservationId r \<notin> set ids) (stage_of s i)"
  let ?s1 = "s\<lparr>staging := filter (\<lambda>r. \<not> ?gone r) (staging s)\<rparr>"
  let ?s2 = "s\<lparr>staging := filter (\<lambda>r. stageAttemptId r \<noteq> i) (staging s)\<rparr>"
  have ok: "stage_ok (stage_of s i)" by (rule valid_stage [OF assms(1)])
  have "stage_of ?s1 i = ?kept"
    by (simp add: stage_of_def) (rule filter_cong, auto)
  then have rows: "stageRows ?s1 i = ?kept"
    using stage_rows_sorted [of "stage_of s i"] ok
    by (simp add: stageRows_def stage_of_def stage_ok_def)
  have del: "filter (\<lambda>r. (stageAttemptId r = i \<longrightarrow> stageObservationId r \<notin> set ids) \<and>
      stageAttemptId r \<noteq> i) (staging s) = filter (\<lambda>r. stageAttemptId r \<noteq> i) (staging s)"
    by (intro filter_cong) auto
  have "reinsert 0 ?kept ?s2 = (Inr (), ?s2\<lparr>staging := staging ?s2 @ renumber 0 ?kept\<rparr>)"
  proof (cases "?kept = []")
    case False
    then obtain r where "r \<in> set (stage_of s i)" by (auto simp: filter_empty_conv)
    with assms(1) have "i \<in> rowAttemptId ` set (attempts s)"
      by (rule stage_attempt)
    moreover have "length ?kept \<le> 256"
      using ok by (simp add: stage_ok_def order.trans [OF length_filter_le])
    moreover have "list_all (\<lambda>r. stageAttemptId r = i) ?kept"
      by (simp add: list_all_iff stage_of_def)
    moreover have "list_all stageChecks ?kept" "distinct (map stageObservationId ?kept)"
      using ok by (simp_all add: stage_ok_def list_all_iff distinct_map_filter)
    ultimately show ?thesis
      by (intro reinsert_run) (simp_all add: stage_of_def [of "s\<lparr>staging := x\<rparr>" for x], blast)
  qed (simp add: ret_def)
  then show ?thesis
    using assms(2) rows
    by (simp add: deleteStagedPrefix_def obind_def deleteStage_def reads_def del without_staged_def)
qed

lemma sum_filter_le: "sum_list (map f (filter P xs)) \<le> sum_list (map f (xs :: 'a list)) " for f :: "'a \<Rightarrow> nat"
  by (induction xs) auto

lemma valid_without_staged:
  assumes "valid ow s"
  shows "valid ow (without_staged s i ids)"
proof -
  let ?P = "\<lambda>r. stageObservationId r \<notin> set ids"
  let ?kept = "filter ?P (stage_of s i)"
  let ?t = "without_staged s i ids"
  have ok: "stage_ok (stage_of s i)" by (rule valid_stage [OF assms])
  have mine: "list_all (\<lambda>r. stageAttemptId r = i) (renumber 0 ?kept)"
    by (rule renumber_attempt) (simp add: stage_of_def list_all_iff)
  have own: "stage_of ?t i = renumber 0 ?kept"
  proof -
    from mine have "filter (\<lambda>r. stageAttemptId r = i) (renumber 0 ?kept) = renumber 0 ?kept"
      by (simp add: filter_id_conv list_all_iff)
    then show ?thesis
      unfolding without_staged_def stage_of_def [of "s\<lparr>staging := x\<rparr>" for x] by simp
  qed
  have other: "stage_of ?t j = stage_of s j" if "j \<noteq> i" for j
  proof -
    have "filter (\<lambda>r. stageAttemptId r = j) (renumber 0 ?kept) = []"
      using mine that by (auto simp: filter_empty_conv list_all_iff)
    moreover have "filter (\<lambda>r. stageAttemptId r = j) (filter (\<lambda>r. stageAttemptId r \<noteq> i) (staging s)) =
        filter (\<lambda>r. stageAttemptId r = j) (staging s)"
      using that by (simp, intro filter_cong) auto
    ultimately show ?thesis by (simp add: without_staged_def stage_of_def)
  qed
  have size: "length ?kept \<le> 256" "sum_list (map stageByteLength ?kept) \<le> maxStageBytes"
    using ok sum_filter_le [of stageByteLength ?P "stage_of s i"]
    by (simp_all add: stage_ok_def order.trans [OF length_filter_le])
  then have "stage_ok (renumber 0 ?kept)"
    using ok renumber_checks [of ?kept 0]
    by (simp add: stage_ok_def list_all_iff distinct_map_filter)
  with own other assms have "stage_ok (stage_of ?t j)" for j
    by (cases "j = i") (simp_all add: valid_def)
  moreover have "stageAttemptId ` set (staging ?t) \<subseteq> rowAttemptId ` set (attempts ?t)"
  proof -
    have "i \<in> stageAttemptId ` set (staging s)" if "r \<in> set (renumber 0 ?kept)" for r
    proof -
      from that have "renumber 0 ?kept \<noteq> []" by auto
      then have "?kept \<noteq> []" by (metis length_0_conv renumber_simps(1))
      then show ?thesis by (auto simp: filter_empty_conv dest!: stage_of_member)
    qed
    with mine assms show ?thesis
      by (auto simp: without_staged_def valid_def list_all_iff)
  qed
  ultimately show ?thesis
    using assms by (simp add: valid_def without_staged_def)
qed

lemma safe_deleteStagedPrefix: "leads (protocol ow) (deleteStagedPrefix i ids) s"
proof (cases "ids = []")
  case True
  then show ?thesis
    by (simp add: deleteStagedPrefix_def protocol.leads_read_only read_only_intros)
next
  case False
  then show ?thesis
    by (auto simp: leads_def protocol_def deleteStagedPrefix_run valid_without_staged fault_of_def
        evolves_def)
qed

text \<open>An observation is appended under the next ordinal.\<close>

lemma safe_insertStage:
  assumes "valid ow s \<Longrightarrow> i \<in> rowAttemptId ` set (attempts s)"
    and "length (stage_of s i) < 256" "byte_length v \<le> maxStageRowBytes"
    and "sum_list (map stageByteLength (stage_of s i)) + byte_length v \<le> maxStageBytes"
    and "\<forall>r\<in>set (stage_of s i). stageObservationId r \<noteq> e"
  shows "leads (protocol ow) (insertStage \<lparr>stageAttemptId = i, stageOrdinal = length (stage_of s i),
    stageObservationId = e, stageEnvelopeJson = v, stageByteLength = byte_length v,
    stageObservedAt = at_time\<rparr>) s"
proof -
  let ?r = "\<lparr>stageAttemptId = i, stageOrdinal = length (stage_of s i), stageObservationId = e,
    stageEnvelopeJson = v, stageByteLength = byte_length v, stageObservedAt = at_time\<rparr>"
  let ?t = "s\<lparr>staging := staging s @ [?r]\<rparr>"
  have checks: "stageChecks ?r"
    using assms(2,3) by (simp add: stageChecks_def maxStageRowBytes_def)
  have "valid ow ?t" "insertStage ?r s = (Inr (), ?t)" if v: "valid ow s"
  proof -
    have ok: "stage_ok (stage_of s i)" by (rule valid_stage [OF v])
    have stage: "stage_of ?t j = (if j = i then stage_of s i @ [?r] else stage_of s j)" for j
      by (simp add: stage_of_def)
    have "stage_ok (stage_of s i @ [?r])"
      using ok assms checks by (auto simp: stage_ok_def)
    with stage v assms(1) show "valid ow ?t"
      by (auto simp: valid_def)
    have ordinal: "stageOrdinal q \<noteq> length (stage_of s i)" if "q \<in> set (stage_of s i)" for q
    proof -
      have "stageOrdinal q \<in> set (map stageOrdinal (stage_of s i))" using that by simp
      with ok show ?thesis by (auto simp: stage_ok_def)
    qed
    have mem: "q \<in> set (stage_of s i)" if "q \<in> set (staging s)" "stageAttemptId q = i" for q
      using that by (simp add: stage_of_def)
    have apart: "\<forall>q\<in>set (staging s). stageAttemptId q = i \<longrightarrow>
        stageOrdinal q \<noteq> length (stage_of s i) \<and> stageObservationId q \<noteq> e"
      using mem ordinal assms(5) by blast
    then have "(i, length (stage_of s i)) \<notin> (\<lambda>q. (stageAttemptId q, stageOrdinal q)) ` set (staging s)"
      "(i, e) \<notin> (\<lambda>q. (stageAttemptId q, stageObservationId q)) ` set (staging s)"
      by auto
    with checks assms(1) v show "insertStage ?r s = (Inr (), ?t)"
      by (simp add: insertStage_def)
  qed
  then show ?thesis
    by (auto simp: leads_def protocol_def fault_of_def evolves_def)
qed

lemma safe_observe: "leads (protocol ow) (observe ow i e now) s"
  unfolding observe_def Let_def
proof (intro protocol.leads_bind [OF safe_markGap] protocol.leads_bind [where m = "insertStage q" for q]
    protocol_rules)
  fix a child u rows
  let ?v = "encodeEnvelope e"
  assume "require_attempt ow i s = (Inr a, s)"
    and rows: "reads (\<lambda>s. filter (\<lambda>r. stageAttemptId r = i) (staging s)) s = (Inr rows, s)"
    and new: "find (\<lambda>r. stageObservationId r = eventId e) rows = None"
    and room: "\<not> (256 \<le> length rows \<or> maxStageRowBytes < byte_length ?v \<or>
      maxStageBytes < sum_list (map stageByteLength rows) + byte_length ?v)"
  then have "rows = stage_of s i" "i \<in> rowAttemptId ` set (attempts s)"
    by (auto simp: reads_def stage_of_def dest!: require_attempt_D attemptRow_in)
  with new room show "leads (protocol ow) (insertStage \<lparr>stageAttemptId = i, stageOrdinal = length rows,
      stageObservationId = eventId e, stageEnvelopeJson = ?v, stageByteLength = byte_length ?v,
      stageObservedAt = observedAt e\<rparr>) s"
    by (auto intro!: safe_insertStage simp: find_None_iff)
qed (intro plain_intros)+

end
