(* ===== verification/DeliveryInvariant.thy ===== *)
theory DeliveryInvariant
  imports DeliverySafety
begin

text \<open>
  The operations of the owner that also work on the journal's other tables, its composed
  operations, and the reachable stores: every store the operations lead to, in any order and with
  the journal's own work between them, is valid.
\<close>

subsection \<open>Work on other tables\<close>

lemma on_tables_D:
  "on_tables f s = (r, t) \<Longrightarrow> attempts t = attempts s \<and> staging t = staging s"
  by (auto simp: on_tables_def split: sum.splits prod.splits)

lemma attemptRow_cong: "attempts t = attempts s \<Longrightarrow> attemptRow t i = attemptRow s i"
  by (simp add: attemptRow_def)

lemma valid_cong: "attempts t = attempts s \<Longrightarrow> staging t = staging s \<Longrightarrow> valid ow s \<Longrightarrow> valid ow t"
  by (simp add: valid_def stage_of_def)

lemma evolves_cong: "attempts t = attempts s \<Longrightarrow> evolves s t"
  by (simp add: evolves_def)

lemma safe_on_tables: "leads (protocol ow) (on_tables f) s"
proof -
  obtain r t where run: "on_tables f s = (r, t)" by fastforce
  then have "fault_of r \<noteq> Some ConstraintFailed"
    by (auto simp: on_tables_def fault_of_def split: sum.splits prod.splits)
  moreover note on_tables_D [OF run]
  ultimately show ?thesis
    unfolding leads_def protocol_def run by (auto intro: valid_cong evolves_cong)
qed

lemma reinsert_attempts: "attempts (snd (reinsert k rs s)) = attempts s"
proof (induction rs arbitrary: k s)
  case (Cons r rs)
  then show ?case
    by (auto simp: obind_def insertStage_def split: prod.splits sum.splits)
qed (simp add: ret_def)

lemma deleteStagedPrefix_attempts:
  "deleteStagedPrefix i ids s = (r, t) \<Longrightarrow> attempts t = attempts s"
  by (auto simp: deleteStagedPrefix_def obind_def deleteStage_def reads_def ret_def reinsert_attempts
      split: if_splits dest!: arg_cong [where f = "\<lambda>x. attempts (snd x)"])

subsection \<open>Admission\<close>

lemma safe_admit_attempt: "leads (protocol ow) (admit_attempt ow i f prepared drained now) s"
  unfolding admit_attempt_def
proof (intro protocol.leads_bind [OF safe_on_tables] protocol.leads_bind [OF safe_deleteStagedPrefix]
    protocol_rules)
  fix a u x t w and r :: AttemptRow
  assume a: "require_attempt ow i s = (Inr a, s)"
    and evidence: "require_that (acceptanceEvidence a \<noteq> None)
      ''Delivery admission requires durable positive evidence.'' s = (Inr u, s)"
    and work: "on_tables (f a prepared) s = (Inr x, w)"
    and t: "transitionTime i now w = (Inr t, w)"
    and r: "attemptRow w i = Some r" "row_ok ow r" "rowState r \<in> {Dispatching, Unknown}"
  have "attemptRow s i = Some r"
    using r(1) attemptRow_cong [OF on_tables_D [OF work, THEN conjunct1], of i] by simp
  with a evidence have "rowEvidence r \<noteq> None"
    by (auto simp: require_that_def lift_def dest!: require_attempt_D dest: decodeVerified_fields(10))
  with r transitionTime_D [OF t] show "row_ok ow (r\<lparr>rowState := Accepted, rowAcceptedAt := Some t,
      rowUnknownAt := None, rowUpdatedAt := t\<rparr>) \<and>
    row_le r (r\<lparr>rowState := Accepted, rowAcceptedAt := Some t, rowUnknownAt := None, rowUpdatedAt := t\<rparr>)"
    by (intro step_accept) auto
qed

lemma safe_drainAccepted: "leads (protocol ow) (drainAccepted ow i prepared ids appendTo) s"
  unfolding drainAccepted_def
  by (intro protocol.leads_bind [OF safe_on_tables] safe_deleteStagedPrefix protocol_rules)

subsection \<open>Rejection\<close>

text \<open>The stored rejection, and when it fits its column.\<close>

definition rejectionJson :: "ProviderDeliveryError \<Rightarrow> ProviderRejectionEvidence \<Rightarrow> jsval" where
  "rejectionJson err e = JObject (spread (errorMembers err) [(js ''evidence'', encodeRejection e)])"

lemma rejectionJson_kind: "codexCompactRejection (Some (rejectionJson err e))"
proof -
  have "fld (spread (errorMembers err) [(js ''evidence'', encodeRejection e)]) ''evidence'' =
      encodeRejection e"
    by (simp add: fld_def map_of_spread)
  then show ?thesis
    by (simp add: codexCompactRejection_def rejectionJson_def asObject_def encodeRejection_def objectOf_def)
qed

lemma safe_rejectProviderResponse:
  assumes "\<And>r. attemptRow s i = Some r \<Longrightarrow> rejectionThreadId e = rowNativeSessionId r \<Longrightarrow>
      isCodexActiveCompactRejection (JString (deliveryMessage err)) \<Longrightarrow>
      byte_length (rejectionJson err e) \<le> 65536"
  shows "leads (protocol ow) (rejectProviderResponse ow i e err now) s"
  unfolding rejectProviderResponse_def
proof (intro protocol.leads_bind [OF safe_on_tables] protocol.leads_bind [OF safe_deleteStagedPrefix]
    protocol_rules)
  fix a rows T u w v x t and r :: AttemptRow
  assume a: "require_attempt ow i s = (Inr a, s)" "\<not> \<not> rejectionApplies a e err"
    and work: "on_tables (\<lambda>T. ebind (appendEvents ow (map stagedEnvelope rows) T) (\<lambda>T'. Inr ((), T'))) s =
      (Inr u, w)"
    and gone: "deleteStagedPrefix i (map observationId rows) w = (Inr x, v)"
    and t: "transitionTime i now v = (Inr t, v)"
    and r: "attemptRow v i = Some r" "row_ok ow r" "rowState r \<in> {Dispatching, Unknown}"
  have row: "attemptRow s i = Some r"
    using r(1) attemptRow_cong [OF on_tables_D [OF work, THEN conjunct1], of i]
      attemptRow_cong [OF deleteStagedPrefix_attempts [OF gone], of i] by simp
  with a(1) have "decodeVerified ow r = Inr a"
    by (auto dest!: require_attempt_D)
  note fields = decodeVerified_fields [OF this]
  with a(2) have "rowEvidence r = None" "rowProvider r = Codex" "rowKind r = RootTurn"
    "byte_length (rejectionJson err e) \<le> 65536"
    using assms [OF row] by (simp_all add: rejectionApplies_def)
  with r transitionTime_D [OF t] show "row_ok ow (r\<lparr>rowState := Rejected, rowRejectedAt := Some t,
      rowUnknownAt := None, rowRejection := Some (JObject (spread (errorMembers err)
        [(js ''evidence'', encodeRejection e)])), rowUpdatedAt := t\<rparr>) \<and>
    row_le r (r\<lparr>rowState := Rejected, rowRejectedAt := Some t, rowUnknownAt := None,
      rowRejection := Some (JObject (spread (errorMembers err)
        [(js ''evidence'', encodeRejection e)])), rowUpdatedAt := t\<rparr>)"
    unfolding rejectionJson_def [symmetric]
    by (intro step_decline rejectionJson_kind) auto
qed

lemma safe_abandon: "leads (protocol ow) (abandon ow i command now) s"
  unfolding abandon_def Let_def
proof (intro protocol_rules)
  fix a u rows w t stored and r :: AttemptRow
  assume a: "require_attempt ow i s = (Inr a, s)"
    and state: "require_that (attemptState a = Unknown \<and> acceptanceEvidence a = None \<and> \<not> transcriptGap a)
      ''Only an unconfirmed message without acceptance or staged observations can be abandoned.'' s =
      (Inr u, s)"
    and t: "transitionTime i now s = (Inr t, s)"
    and r: "attemptRow s i = Some r" "row_ok ow r" "rowState r = Unknown"
  then have "rowEvidence r = None"
    by (auto simp: require_that_def lift_def dest!: require_attempt_D dest: decodeVerified_fields(10))
  with r transitionTime_D [OF t] show "row_ok ow (r\<lparr>rowState := Abandoned,
      rowRecovery := Some (recoveryDetail stored (resolutionDetail command t)), rowUpdatedAt := t\<rparr>) \<and>
    row_le r (r\<lparr>rowState := Abandoned,
      rowRecovery := Some (recoveryDetail stored (resolutionDetail command t)), rowUpdatedAt := t\<rparr>)"
    by (intro step_abandon recoveryDetail_size) auto
qed

subsection \<open>Composed operations\<close>

text \<open>The rejection \<^verbatim>\<open>recover\<close> writes for an older adapter fits its column.\<close>

lemma member_size_put_member:
  "member_size (put_member r (k, v)) \<le> member_size r + utf8_length (json_quote k) + byte_length v + 2"
  by (induction r "(k, v)" rule: put_member.induct) (auto simp: member_size_simps)

lemma byte_length_string: "byte_length (JString t) \<le> 12 * length t + 2"
proof -
  have "utf16_length t \<le> 2 * length t"
    by (induction t) auto
  then show ?thesis
    using json_quote_bound [of t] by (simp add: byte_length_def)
qed

lemma legacy_rejection_fits:
  assumes "length t \<le> 512" "isCodexActiveCompactRejection (JString message)"
  shows "byte_length (rejectionJson
      \<lparr>deliveryCode = js ''codex_active_compaction'', deliveryMessage = message, deliveryRetryable = None\<rparr>
      \<lparr>rejectionThreadId = t, rejectionSource = LegacyRecordedResponse, rejectionRequestId = None\<rparr>)
    \<le> 65536"
proof -
  let ?err = "\<lparr>deliveryCode = js ''codex_active_compaction'', deliveryMessage = message,
    deliveryRetryable = None\<rparr>"
  let ?e = "\<lparr>rejectionThreadId = t, rejectionSource = LegacyRecordedResponse, rejectionRequestId = None\<rparr>"
  have key: "utf8_length (json_quote (js k)) \<le> 12 * length k + 2" for k
    by (rule json_quote_key)
  have str: "byte_length (JString (js k)) \<le> 12 * length k + 2" for k
    using byte_length_string [of "js k"] by simp
  have number: "byte_length (JNumber (- 32603)) \<le> 12"
    by (simp add: byte_length_def number_text_def is_safe_integer_def decimal.simps utf8_length_def js_def)
  have message: "byte_length (JString message) \<le> 2000"
    using assms(2) byte_length_string [of message]
    by (simp add: isCodexActiveCompactRejection_def CODEX_ACTIVE_COMPACT_REJECTION_def)
  have thread: "byte_length (JString t) \<le> 6146"
    using byte_length_string [of t] assms(1) by simp
  have "byte_length (encodeRejection ?e) \<le> 10000"
  proof -
    have "byte_length (encodeRejection ?e) \<le> member_size (members
        [(''kind'', Some (JString (js ''codex-active-compact-rejection''))), (''threadId'', Some (JString t)),
         (''nativeCode'', Some (JNumber (- 32603))),
         (''source'', Some (JString (js ''legacy-recorded-response''))), (''requestId'', None)]) + 2"
      using byte_length_object by (simp add: encodeRejection_def objectOf_def)
    also have "\<dots> \<le> 10000"
      using key [of "''kind''"] key [of "''threadId''"] key [of "''nativeCode''"] key [of "''source''"]
        str [of "''codex-active-compact-rejection''"] str [of "''legacy-recorded-response''"]
        number thread
      by (simp add: member_size_members member_size_simps members.simps)
    finally show ?thesis .
  qed
  moreover have "member_size (errorMembers ?err) \<le> 3000"
    using key [of "''code''"] key [of "''message''"] str [of "''codex_active_compaction''"] message
    by (simp add: errorMembers_def member_size_members member_size_simps members.simps)
  moreover have "byte_length (rejectionJson ?err ?e) \<le>
      member_size (put_member (errorMembers ?err) (js ''evidence'', encodeRejection ?e)) + 2"
    using byte_length_object by (simp add: rejectionJson_def spread_def)
  moreover note member_size_put_member [of "errorMembers ?err" "js ''evidence''" "encodeRejection ?e"]
    key [of "''evidence''"]
  ultimately show ?thesis by simp
qed

lemma decodeVerified_session:
  assumes "decodeVerified ow r = Inr a"
  shows "length (rowNativeSessionId r) \<le> 512"
proof -
  from assms have "\<exists>u. rowIdentifier (rowNativeSessionId r) ''native_session_id'' = Inr u"
    unfolding decodeVerified_def decodeAttempt_def ebind_eq_Inr by blast
  then show ?thesis
    by (simp add: rowIdentifier_def is_identifier_def)
qed

lemma safe_legacy_rejection:
  assumes "require_attempt ow i s = (Inr a, s)"
  shows "leads (protocol ow) (rejectProviderResponse ow (attemptId a)
    \<lparr>rejectionThreadId = attemptNativeSessionId a, rejectionSource = LegacyRecordedResponse,
     rejectionRequestId = None\<rparr>
    \<lparr>deliveryCode = js ''codex_active_compaction'', deliveryMessage = message,
     deliveryRetryable = None\<rparr> now) s"
proof (rule safe_rejectProviderResponse)
  from assms obtain r where r: "attemptRow s i = Some r" "decodeVerified ow r = Inr a"
    by (auto dest: require_attempt_D)
  then have "length (attemptNativeSessionId a) \<le> 512"
    using decodeVerified_session decodeVerified_fields(4) by metis
  then show "byte_length (rejectionJson
      \<lparr>deliveryCode = js ''codex_active_compaction'', deliveryMessage = message, deliveryRetryable = None\<rparr>
      \<lparr>rejectionThreadId = attemptNativeSessionId a, rejectionSource = LegacyRecordedResponse,
       rejectionRequestId = None\<rparr>) \<le> 65536"
    if "isCodexActiveCompactRejection (JString (deliveryMessage
      \<lparr>deliveryCode = js ''codex_active_compaction'', deliveryMessage = message,
       deliveryRetryable = None\<rparr>))"
    using that by (intro legacy_rejection_fits) simp_all
qed

lemma safe_recoverRejections: "leads (protocol ow) (recoverRejections ow now k rows) s"
proof (induction rows arbitrary: k s)
  case (Cons row rows k s)
  obtain i recovery where row: "row = (i, recovery)" by fastforce
  have "leads (protocol ow) (throw (JournalFault m) :: unit op) s" for m
    by (intro protocol.leads_read_only read_only_intros) simp
  with Cons.IH show ?case
    unfolding row recoverRejections.simps
    by (intro protocol.leads_if protocol.leads_option protocol.leads_bind
        [OF safe_legacy_rejection] protocol.leads_read read_only_intros)
qed (simp add: protocol.leads_read_only read_only_intros)

lemma row_ok_recovery: "row_ok ow r \<Longrightarrow> withinBytes 65536 (rowRecovery r)"
  by (simp add: row_ok_def attemptChecks_def)

lemma same_recovery:
  "r\<lparr>rowState := Unknown, rowUnknownAt := Some t, rowRecovery := rowRecovery r, rowUpdatedAt := t\<rparr> =
     r\<lparr>rowState := Unknown, rowUnknownAt := Some t, rowUpdatedAt := t\<rparr>"
  by (cases r) simp

lemma safe_recoverAttempt: "leads (protocol ow) (recoverAttempt ow i now) s"
  unfolding recoverAttempt_def
proof (intro protocol_rules)
  fix a t
  assume "transitionTime (attemptId a) now s = (Inr t, s)"
  then show "leads (protocol ow) (markRecovery ow (attemptId a) ''owner_unresolved'' t) s"
    by (rule safe_markRecovery)
next
  fix a t and r :: AttemptRow
  assume "transitionTime (attemptId a) now s = (Inr t, s)" "attemptRow s (attemptId a) = Some r"
    "row_ok ow r" "rowState r = Dispatching"
  then show "row_ok ow (r\<lparr>rowState := Unknown, rowUnknownAt := Some t, rowUpdatedAt := t\<rparr>) \<and>
    row_le r (r\<lparr>rowState := Unknown, rowUnknownAt := Some t, rowUpdatedAt := t\<rparr>)"
    using step_unknown [of ow r t "rowRecovery r"] transitionTime_D [of "attemptId a" now s t r]
      same_recovery [where r = r and t = t] row_ok_recovery [of ow r]
    by simp
qed

lemma safe_recoverPage: "leads (protocol ow) (recoverPage ow now k ks) s"
proof (induction ks arbitrary: k s)
  case (Cons key ks)
  then show ?case
    by (auto intro: protocol.leads_bind [OF safe_recoverAttempt])
qed (simp add: protocol.leads_read_only read_only_intros)

lemma safe_recoverPages: "leads (protocol ow) (recoverPages ow now cursor k) s"
proof (induction ow now cursor k s rule: recoverPages.induct)
  case (1 ow now cursor k s)
  let ?page = "openPage cursor s"
  have page: "leads (protocol ow) (recoverPage ow now k ?page) s"
    by (rule safe_recoverPage)
  show ?case
  proof (cases "?page = []")
    case True
    then show ?thesis
      by (simp add: leads_def fault_of_def protocol.same recoverPages.simps [of ow now cursor k s])
  next
    case False
    obtain r t where run: "recoverPage ow now k ?page s = (r, t)" by fastforce
    show ?thesis
    proof (cases r)
      case (Inl e)
      with False run page show ?thesis
        by (simp add: leads_def recoverPages.simps [of ow now cursor k s])
    next
      case (Inr u)
      with "1.IH" [OF refl False run [symmetric]] page run False show ?thesis
        by (auto simp: leads_def fault_of_def Let_def recoverPages.simps [of ow now cursor k s]
            intro: protocol.chain)
    qed
  qed
qed

lemma safe_recover: "leads (protocol ow) (recover ow rejectNow now) s"
  unfolding recover_def
  by (intro protocol.leads_bind [OF safe_recoverRejections] protocol_rules safe_recoverPages)

lemma safe_recoverCompactionEvidence: "leads (protocol ow) (recoverCompactionEvidence ow i now) s"
proof -
  have no: "leads (protocol ow) (ret x) s" for x :: bool and s
    by (intro protocol_rules)
  show ?thesis
    unfolding recoverCompactionEvidence_def
    by (rule protocol.leads_read [OF read_only_owner(3)])
       (auto split: option.split list.split intro!: no protocol.leads_read [OF read_only_owner(5)]
         protocol.leads_bind [OF safe_recordAcceptance])
qed

lemma safe_reconcilePresence: "leads (protocol ow) (reconcilePresence ow i presence now) s"
proof (cases presence)
  case (PresenceUnknown reason)
  show ?thesis
    unfolding reconcilePresence_def PresenceUnknown ProviderPresenceRead.case
    by (intro protocol_rules)
next
  case (PresencePresent e)
  show ?thesis
    unfolding reconcilePresence_def PresencePresent ProviderPresenceRead.case
    by (intro protocol.leads_bind [OF safe_recordAcceptance] protocol_rules)
qed

lemma safe_markStreamGap: "leads (protocol ow) (markStreamGap ow execution generation reason now) s"
proof -
  have "leads (protocol ow) (markGaps ow reason now k ids) t" for k ids t
    by (induction ids arbitrary: k t)
       (auto intro!: protocol.leads_bind [OF safe_markGap] protocol_rules)
  then show ?thesis
    unfolding markStreamGap_def by (intro protocol_rules)
qed

lemma safe_dispatchThrown: "leads (protocol ow) (dispatchThrown ow i e now) s"
  unfolding dispatchThrown_def Let_def
  by (intro protocol.leads_read [OF read_only_owner(1)]
      protocol.leads_bind [where m = "if c then markProviderSignalledCrossing ow i v now else ret ()" for c v]
      protocol.leads_if safe_markProviderSignalledCrossing protocol_rules)

lemma safe_dispatchPrepareFailed: "leads (protocol ow) (dispatchPrepareFailed ow i e now) s"
  unfolding dispatchPrepareFailed_def
  by (intro protocol.leads_bind [OF safe_markGap] protocol_rules)

text \<open>A result of a dispatch whose rejection fits its column.\<close>

fun result_fits :: "ProviderDispatchResult \<Rightarrow> bool" where
  "result_fits (DispatchRejected crossing (Some e) err) = (byte_length (rejectionJson err e) \<le> 65536)"
| "result_fits x = True"

lemma safe_crossing_signal:
  "leads (protocol ow) (if c then markProviderSignalledCrossing ow i v now else ret ()) s"
  by (intro protocol.leads_if safe_markProviderSignalledCrossing protocol_rules)

lemma safe_dispatchSettle:
  assumes "result_fits result"
  shows "leads (protocol ow) (dispatchSettle ow i result now) s"
proof (cases result)
  case (DispatchRejected crossing evidence err)
  let ?reject = "\<lambda>t. case evidence of None \<Rightarrow> ret False
      | Some e \<Rightarrow> rejectProviderResponse ow i e err t"
  have "leads (protocol ow) (?reject t) s" for t s
    using assms DispatchRejected
    by (cases evidence) (auto intro!: safe_rejectProviderResponse protocol_rules)
  note reject = protocol.leads_bind [where m = "?reject (now 0)", OF this]
  show ?thesis
    unfolding DispatchRejected dispatchSettle.simps
    by (intro reject protocol.leads_bind [OF safe_mark_unknown]
        protocol.leads_bind [OF safe_reject_attempt] protocol_rules)
next
  case (DispatchUnknown crossing err)
  show ?thesis
    unfolding DispatchUnknown dispatchSettle.simps
    by (intro protocol.leads_bind [OF safe_crossing_signal] protocol.leads_bind [OF safe_mark_unknown]
        protocol_rules)
next
  case (DispatchAccepted evidence turn operation)
  show ?thesis
    unfolding DispatchAccepted dispatchSettle.simps
    by (intro protocol.leads_bind [OF safe_crossing_signal] protocol.leads_bind [OF safe_recordAcceptance]
        protocol_rules)
qed

end
