(* ===== verification/DeliveryReach.thy ===== *)
theory DeliveryReach
  imports DeliveryInvariant
begin

text \<open>
  The owner as a state machine: one step for every operation, with the work of the rest of the
  server on the other tables and a restart of the server as steps of their own.  Every store the
  steps lead to is valid and is a later stage of the store they began with.
\<close>

subsection \<open>Operations that may be refused by a constraint\<close>

text \<open>Preparing an attempt may run into a constraint of the database; the store stays valid.\<close>

definition grows :: "Owner \<Rightarrow> Store \<Rightarrow> Fault option \<Rightarrow> Store \<Rightarrow> bool" where
  "grows ow s e t = (valid ow s \<longrightarrow> valid ow t \<and> evolves s t)"

interpretation grows: store_relation "grows ow" for ow
  by unfold_locales (auto simp: grows_def evolves_refl intro: evolves_trans)

lemma protocol_grows: "leads (protocol ow) m s \<Longrightarrow> leads (grows ow) m s"
  by (auto simp: leads_def protocol_def grows_def)

lemma protocol_unrefused: "leads (protocol ow) m s \<Longrightarrow> valid ow s \<Longrightarrow> fst (m s) \<noteq> Inl ConstraintFailed"
  by (auto simp: leads_def protocol_def fault_of_def)

lemma grows_update:
  assumes "\<And>r. valid ow s \<Longrightarrow> attemptRow s i = Some r \<Longrightarrow> row_ok ow r \<Longrightarrow> sel r \<Longrightarrow>
      attemptChecks ow (upd r) \<Longrightarrow> row_ok ow (upd r) \<and> row_le r (upd r)"
  shows "leads (grows ow) (updateAttempts ow (\<lambda>r. hasId i r \<and> sel r) upd) s"
proof (cases "list_ex (\<lambda>r. (hasId i r \<and> sel r) \<and> \<not> attemptChecks ow (upd r)) (attempts s)")
  case True
  then show ?thesis
    by (simp add: leads_def grows_def updateAttempts_def evolves_refl)
next
  case False
  have "leads (protocol ow) (updateAttempts ow (\<lambda>r. hasId i r \<and> sel r) upd) s"
  proof (rule protocol_update)
    fix r assume r: "valid ow s" "attemptRow s i = Some r" "row_ok ow r" "sel r"
    with False have "attemptChecks ow (upd r)"
      by (auto simp: list_ex_iff hasId_def dest: attemptRow_in)
    with r show "row_ok ow (upd r) \<and> row_le r (upd r)" by (rule assms)
  qed
  then show ?thesis by (rule protocol_grows)
qed

lemma preparedRow_ok:
  "attemptChecks ow (preparedRow p uuid hash) \<Longrightarrow> row_ok ow (preparedRow p uuid hash)"
  by (simp add: row_ok_def preparedRow_def)

lemma grows_insertAttempt:
  assumes "attemptChecks ow r \<Longrightarrow> row_ok ow r"
  shows "leads (grows ow) (insertAttempt ow r) s"
proof -
  have "valid ow (s\<lparr>attempts := attempts s @ [r]\<rparr>) \<and> evolves s (s\<lparr>attempts := attempts s @ [r]\<rparr>)"
    if "valid ow s" "attemptChecks ow r" "rowAttemptId r \<notin> rowAttemptId ` set (attempts s)"
      "rowCommandId r \<notin> rowCommandId ` set (attempts s)"
    using that assms by (auto simp: valid_def evolves_def stage_of_def nth_append)
  then show ?thesis
    by (auto simp: leads_def grows_def insertAttempt_def evolves_refl)
qed

lemma plain_scope [plain_intros]: "plain (validatePrepareIdentifiers p)" "plain (validateScope ow T p)"
proof -
  show ids: "plain (validatePrepareIdentifiers p)" for p
    unfolding validatePrepareIdentifiers_def by (intro plain_intros)
  have queued: "plain (matchesQueued ow q p payload)" for q payload
    unfolding matchesQueued_def and_then_def storedJson_def sameCanonical_def by (intro plain_intros)
  have "plain (validateSteerScope ow T p payload)" "plain (validateCompactScope T p payload)"
    "plain (validateRootScope ow T p payload)" for payload
    unfolding validateSteerScope_def validateCompactScope_def validateRootScope_def Let_def and_then_def
    by (intro plain_intros queued)+
  then show "plain (validateScope ow T p)"
    unfolding validateScope_def
    by (intro plain_intros ids) (simp split: DeliveryAttemptKind.split)
qed

lemma grows_prepare_attempt: "leads (grows ow) (prepare_attempt ow uuid p) s"
  unfolding prepare_attempt_def Let_def
  by (intro grows.leads_read grows.leads_option grows.leads_bind [OF grows_insertAttempt]
      preparedRow_ok grows.leads_read_only read_only_intros plain_intros) simp_all

text \<open>A rejection too long for its column is taken back.\<close>

lemma grows_rejectProviderResponse: "leads (grows ow) (rejectProviderResponse ow i e err now) s"
proof (cases "byte_length (rejectionJson err e) \<le> 65536")
  case True
  then show ?thesis by (intro protocol_grows safe_rejectProviderResponse)
next
  case False
  then have no: "\<not> attemptChecks ow (r\<lparr>rowState := Rejected, rowRejectedAt := Some t,
      rowUnknownAt := None, rowRejection := Some (JObject (spread (errorMembers err)
        [(js ''evidence'', encodeRejection e)])), rowUpdatedAt := t\<rparr>)" for r t
    by (simp add: attemptChecks_def withinBytes_def rejectionJson_def)
  show ?thesis
    unfolding rejectProviderResponse_def
    by (intro grows.leads_transaction grows.leads_read grows.leads_if
        grows.leads_bind [OF protocol_grows [OF safe_on_tables]]
        grows.leads_bind [OF protocol_grows [OF safe_deleteStagedPrefix]]
        grows.leads_bind [OF grows_update] grows.leads_read_only read_only_intros) (simp add: no)
qed

lemma grows_dispatchSettle: "leads (grows ow) (dispatchSettle ow i result now) s"
proof (cases "result_fits result")
  case True
  then show ?thesis by (intro protocol_grows safe_dispatchSettle)
next
  case False
  then obtain crossing e err where result: "result = DispatchRejected crossing (Some e) err"
    by (cases result rule: result_fits.cases) auto
  show ?thesis
    unfolding result dispatchSettle.simps option.case
    by (intro grows.leads_read grows.leads_if grows.leads_bind [OF grows_rejectProviderResponse]
        grows.leads_bind [OF protocol_grows [OF safe_mark_unknown]]
        grows.leads_bind [OF protocol_grows [OF safe_reject_attempt]]
        grows.leads_read_only read_only_intros)
qed

subsection \<open>Steps\<close>

text \<open>
  \<open>journal\<close> is any work of the server on the other tables, \<open>restarted\<close> a step of an owner with
  another instance id.
\<close>

inductive delivery_step :: "Owner \<Rightarrow> Store \<Rightarrow> Store \<Rightarrow> bool" where
  prepared: "prepare_attempt ow u p s = (r, t) \<Longrightarrow> delivery_step ow s t"
| crossed: "markPossiblySent ow i c n g now s = (r, t) \<Longrightarrow> delivery_step ow s t"
| signalled: "markProviderSignalledCrossing ow i v now s = (r, t) \<Longrightarrow> delivery_step ow s t"
| proved: "recordAcceptance ow i e turn operation now s = (r, t) \<Longrightarrow> delivery_step ow s t"
| observed: "observe ow i x now s = (r, t) \<Longrightarrow> delivery_step ow s t"
| gap: "markStreamGap ow i g reason nows s = (r, t) \<Longrightarrow> delivery_step ow s t"
| admitted: "admit_attempt ow i (f :: FrozenDeliveryAttempt \<Rightarrow> StagedProviderEnvelope list \<Rightarrow>
      Tables \<Rightarrow> jsstring + (unit \<times> Tables)) ps ids now s = (r, t) \<Longrightarrow> delivery_step ow s t"
| drained: "drainAccepted ow i ps ids h s = (r, t) \<Longrightarrow> delivery_step ow s t"
| refused: "reject_attempt ow i err now s = (r, t) \<Longrightarrow> delivery_step ow s t"
| declined: "rejectProviderResponse ow i re err now s = (r, t) \<Longrightarrow> delivery_step ow s t"
| abandoned: "abandon ow i command now s = (r, t) \<Longrightarrow> delivery_step ow s t"
| thrown: "dispatchThrown ow i err' now s = (r, t) \<Longrightarrow> delivery_step ow s t"
| settled: "dispatchSettle ow i result nows s = (r, t) \<Longrightarrow> delivery_step ow s t"
| unprepared: "dispatchPrepareFailed ow i err' now s = (r, t) \<Longrightarrow> delivery_step ow s t"
| reconciled: "reconcilePresence ow i presence now s = (r, t) \<Longrightarrow> delivery_step ow s t"
| boundary: "recoverCompactionEvidence ow i now s = (r, t) \<Longrightarrow> delivery_step ow s t"
| recovered: "recover ow nows nows' s = (r, t) \<Longrightarrow> delivery_step ow s t"
| journal: "delivery_step ow s (s\<lparr>tables := T\<rparr>)"
| restarted: "delivery_step (ow\<lparr>ownerId := x\<rparr>) s t \<Longrightarrow> delivery_step ow s t"

lemma valid_restart [simp]: "valid (ow\<lparr>ownerId := x\<rparr>) s = valid ow s"
  by (simp add: valid_def row_ok_def attemptChecks_def list_all_iff)

lemmas grows_operations =
  grows_prepare_attempt grows_rejectProviderResponse grows_dispatchSettle
  safe_markPossiblySent [THEN protocol_grows] safe_markProviderSignalledCrossing [THEN protocol_grows]
  safe_recordAcceptance [THEN protocol_grows] safe_observe [THEN protocol_grows]
  safe_markStreamGap [THEN protocol_grows] safe_admit_attempt [THEN protocol_grows]
  safe_drainAccepted [THEN protocol_grows] safe_reject_attempt [THEN protocol_grows]
  safe_abandon [THEN protocol_grows] safe_dispatchThrown [THEN protocol_grows]
  safe_dispatchPrepareFailed [THEN protocol_grows] safe_reconcilePresence [THEN protocol_grows]
  safe_recoverCompactionEvidence [THEN protocol_grows] safe_recover [THEN protocol_grows]

lemma grows_run:
  assumes "m s = (r, t)" "leads (grows ow) m s" "valid ow s"
  shows "valid ow t \<and> evolves s t"
  using assms by (simp add: leads_def grows_def)

lemma step_grows: "delivery_step ow s t \<Longrightarrow> valid ow s \<Longrightarrow> valid ow t \<and> evolves s t"
proof (induction rule: delivery_step.induct)
  case (journal ow s T)
  then show ?case
    by (auto intro: valid_cong evolves_cong)
qed (simp_all add: grows_run [OF _ grows_operations(1)] grows_run [OF _ grows_operations(2)]
    grows_run [OF _ grows_operations(3)] grows_run [OF _ grows_operations(4)]
    grows_run [OF _ grows_operations(5)] grows_run [OF _ grows_operations(6)]
    grows_run [OF _ grows_operations(7)] grows_run [OF _ grows_operations(8)]
    grows_run [OF _ grows_operations(9)] grows_run [OF _ grows_operations(10)]
    grows_run [OF _ grows_operations(11)] grows_run [OF _ grows_operations(12)]
    grows_run [OF _ grows_operations(13)] grows_run [OF _ grows_operations(14)]
    grows_run [OF _ grows_operations(15)] grows_run [OF _ grows_operations(16)]
    grows_run [OF _ grows_operations(17)])

lemma steps_grow:
  assumes "(delivery_step ow)\<^sup>*\<^sup>* s t" "valid ow s"
  shows "valid ow t \<and> evolves s t"
  using assms
proof (induction rule: rtranclp_induct)
  case (step t u)
  then show ?case by (blast intro: evolves_trans dest: step_grows)
qed (simp add: evolves_refl)

end
