(* ===== verification/DeliveryLaws.thy ===== *)
theory DeliveryLaws
  imports DeliveryReach
begin

text \<open>
  What the owner's operations do to one attempt: what a later stage of the store still knows of
  it, when an operation succeeds and what it leaves, and what it does the second time.
\<close>

subsection \<open>One attempt over time\<close>

lemma evolves_row:
  assumes "valid ow t" "evolves s t" "attemptRow s i = Some r"
  shows "\<exists>q. attemptRow t i = Some q \<and> row_le r q"
proof -
  from attemptRow_in [OF assms(3)] obtain k where k: "k < length (attempts s)" "attempts s ! k = r"
    "rowAttemptId r = i"
    by (auto simp: in_set_conv_nth)
  with assms(2) have "attempts t ! k \<in> set (attempts t)" "row_le r (attempts t ! k)"
    by (auto simp: evolves_def)
  moreover from this k(3) have "attemptRow t i = Some (attempts t ! k)"
    by (intro attemptRow_unique [OF assms(1)]) (simp_all add: hasId_def row_le_def)
  ultimately show ?thesis by blast
qed

lemma steps_row:
  assumes "valid ow s" "(delivery_step ow)\<^sup>*\<^sup>* s t" "attemptRow s i = Some r"
  shows "\<exists>q. attemptRow t i = Some q \<and> row_ok ow q \<and> row_le r q"
  using steps_grow [OF assms(2,1)] evolves_row [of ow t s i r] assms(3) by (auto dest: valid_row)

lemma row_le_D:
  assumes "row_le r q"
  shows "lifecycle\<^sup>*\<^sup>* (rowState r) (rowState q)" "kept (rowEvidence r) (rowEvidence q)"
    "kept (rowCrossedAt r) (rowCrossedAt q)" "rowTranscriptGap r \<Longrightarrow> rowTranscriptGap q"
  using assms unfolding row_le_def by blast+

lemma row_le_state: "row_le r q \<Longrightarrow> rowState r \<noteq> Preparing \<Longrightarrow> rowState q \<noteq> Preparing"
  using row_le_D(1) [of r q] lifecycle_preparing by metis

lemma row_ok_evidence:
  assumes "row_ok ow r"
  shows "rowState r = Accepted \<Longrightarrow> rowEvidence r \<noteq> None"
    and "rowEvidence r \<noteq> None \<Longrightarrow> rowState r \<in> {Dispatching, Unknown, Accepted}"
  using assms unfolding row_ok_def attemptChecks_def by blast+

text \<open>A row in a final state keeps its proof too.\<close>

lemma row_le_terminal:
  assumes "row_le r q" "rowState r \<in> terminal" "row_ok ow r" "row_ok ow q"
  shows "rowState q = rowState r \<and> rowEvidence q = rowEvidence r"
proof -
  have state: "rowState q = rowState r"
    by (rule lifecycle_terminal [OF row_le_D(1) [OF assms(1)] assms(2)])
  moreover have "rowEvidence q = rowEvidence r"
    using row_le_D(2) [OF assms(1)] row_ok_evidence [OF assms(3)] row_ok_evidence [OF assms(4)]
      assms(2) state
    by (cases "rowEvidence q"; cases "rowState r") (auto simp: kept_def terminal_def)
  ultimately show ?thesis by simp
qed

subsection \<open>What an operation returns with, and when it refuses\<close>

lemma returns_statements [returns_intros]:
  "(c \<Longrightarrow> Q () s) \<Longrightarrow> returns (require_that c msg) s Q"
  "(\<And>x. U x s) \<Longrightarrow> returns (storedRecovery i) s U"
  by (auto simp: returns_def require_that_def lift_def guard_def refuse_def reads_def storedRecovery_def)

lemma returns_transitionTime [returns_intros]:
  assumes "\<And>x. (\<And>r. attemptRow s i = Some r \<Longrightarrow> rowCreatedAt r \<le> x \<and> rowUpdatedAt r \<le> x) \<Longrightarrow> P x s"
  shows "returns (transitionTime i now) s P"
  using assms transitionTime_D [of i now s] read_only_D [OF read_only_owner(4)]
  unfolding returns_def by metis

lemma returns_require [returns_intros]:
  assumes "\<And>a r. attemptRow s i = Some r \<Longrightarrow> decodeVerified ow r = Inr a \<Longrightarrow> P a s"
  shows "returns (require_attempt ow i) s P"
  using assms read_only_D [OF read_only_owner(3)] unfolding returns_def by (metis require_attempt_D)

lemma returns_read: "read_only m \<Longrightarrow> (\<And>x. m s = (Inr x, s) \<Longrightarrow> P x s) \<Longrightarrow> returns m s P"
  unfolding returns_def using read_only_D by blast

lemma refuses_require: "\<not> c \<Longrightarrow> refuses (require_that c msg) s"
  by (simp add: refuses_def require_that_def lift_def guard_def refuse_def)

lemmas refuses_rules = refuses_require refuses_composed

lemma refuses_read:
  assumes "read_only m" "\<And>x. m s = (Inr x, s) \<Longrightarrow> refuses (f x) s"
  shows "refuses (obind m f) s"
  using read_only_D [OF assms(1), of s] assms(2)
  by (cases "m s"; cases "fst (m s)") (auto simp: refuses_def obind_def)

subsection \<open>Updates of one attempt\<close>

lemma filter_unique: "distinct (map f xs) \<Longrightarrow> x \<in> set xs \<Longrightarrow> filter (\<lambda>y. f y = f x) xs = [x]"
proof (induction xs)
  case (Cons a xs)
  then have "filter (\<lambda>y. f y = f a) xs = []"
    by (auto simp: filter_empty_conv rev_image_eqI)
  with Cons show ?case by auto
qed simp

lemma selected_row:
  assumes "valid ow s" "attemptRow s i = Some r"
  shows "filter (\<lambda>q. hasId i q \<and> sel q) (attempts s) = (if sel r then [r] else [])"
proof -
  have "filter (hasId i) (attempts s) = [r]"
    using assms filter_unique [of rowAttemptId "attempts s" r] attemptRow_in [OF assms(2)]
    by (simp add: valid_def hasId_def [abs_def])
  then have "filter sel (filter (hasId i) (attempts s)) = filter sel [r]" by simp
  then show ?thesis by (simp add: conj_commute)
qed

lemma updated_row:
  assumes "attemptRow s i = Some r" "\<And>q. rowAttemptId (upd q) = rowAttemptId q"
  shows "attemptRow (s\<lparr>attempts := map (\<lambda>q. if hasId i q \<and> sel q then upd q else q) (attempts s)\<rparr>) i =
    Some (if sel r then upd r else r)"
proof -
  have "find (\<lambda>q. rowAttemptId q = i) xs = Some r \<Longrightarrow>
      find (\<lambda>q. rowAttemptId q = i) (map (\<lambda>q. if hasId i q \<and> sel q then upd q else q) xs) =
        Some (if sel r then upd r else r)" for xs
    by (induction xs) (auto simp: hasId_def assms(2) split: if_splits)
  with assms(1) show ?thesis by (simp add: attemptRow_def)
qed

lemma update_none:
  assumes "valid ow s" "attemptRow s i = Some r" "\<not> sel r"
  shows "updateAttempts ow (\<lambda>q. hasId i q \<and> sel q) upd s = (Inr 0, s)"
proof -
  have none: "\<not> (hasId i q \<and> sel q)" if "q \<in> set (attempts s)" for q
    using selected_row [OF assms(1,2), of sel] assms(3) that by (auto simp: filter_empty_conv)
  then have "map (\<lambda>q. if hasId i q \<and> sel q then upd q else q) (attempts s) = attempts s"
    by (intro map_idI) auto
  with none show ?thesis
    by (auto simp: updateAttempts_def list_ex_iff)
qed

lemma returns_update:
  assumes "valid ow s" "attemptRow s i = Some r" "\<And>q. rowAttemptId (upd q) = rowAttemptId q"
    and "\<And>t. sel r \<Longrightarrow> attemptRow t i = Some (upd r) \<Longrightarrow> staging t = staging s \<Longrightarrow> tables t = tables s \<Longrightarrow> P 1 t"
    and "\<not> sel r \<Longrightarrow> P 0 s"
  shows "returns (updateAttempts ow (\<lambda>q. hasId i q \<and> sel q) upd) s P"
proof (cases "sel r")
  case True
  then show ?thesis
    using updated_row [OF assms(2,3), of sel] selected_row [OF assms(1,2), of sel] assms(4)
    by (auto simp: returns_def updateAttempts_def)
next
  case False
  then show ?thesis
    using update_none [OF assms(1,2), of sel] assms(5) by (simp add: returns_def)
qed

lemma refuses_update:
  assumes "valid ow s" "attemptRow s i = Some r" "\<not> sel r" "refuses (f 0) s"
  shows "refuses (obind (updateAttempts ow (\<lambda>q. hasId i q \<and> sel q) upd) f) s"
  using update_none [OF assms(1,2), of sel upd] assms(3,4) by (simp add: refuses_rules(3))

text \<open>An update that is a transition leaves a valid store.\<close>

lemma returns_transition:
  assumes "valid ow s" "attemptRow s i = Some r" and id: "\<And>q. rowAttemptId (upd q) = rowAttemptId q"
    and step: "\<And>q. attemptRow s i = Some q \<Longrightarrow> row_ok ow q \<Longrightarrow> sel q \<Longrightarrow> row_ok ow (upd q) \<and> row_le q (upd q)"
    and P: "\<And>t. sel r \<Longrightarrow> attemptRow t i = Some (upd r) \<Longrightarrow> valid ow t \<Longrightarrow> staging t = staging s \<Longrightarrow>
      tables t = tables s \<Longrightarrow> P 1 t"
    and "\<not> sel r \<Longrightarrow> P 0 s"
  shows "returns (updateAttempts ow (\<lambda>q. hasId i q \<and> sel q) upd) s P"
proof (cases "sel r")
  case True
  let ?t = "s\<lparr>attempts := map (\<lambda>q. if hasId i q \<and> sel q then upd q else q) (attempts s)\<rparr>"
  have row: "attemptRow ?t i = Some (upd r)"
    using updated_row [OF assms(2) id, of sel] True by simp
  have "leads (protocol ow) (updateAttempts ow (\<lambda>q. hasId i q \<and> sel q) upd) s"
    by (rule protocol_update) (rule step)
  then have "valid ow ?t" if "updateAttempts ow (\<lambda>q. hasId i q \<and> sel q) upd s = (Inr n, ?t)" for n
    using that assms(1) by (simp add: leads_def protocol_def)
  then show ?thesis
    using selected_row [OF assms(1,2), of sel] P [OF True row] True
    by (auto simp: returns_def updateAttempts_def)
next
  case False
  then show ?thesis
    using update_none [OF assms(1,2), of sel] assms(6) by (simp add: returns_def)
qed

lemma returns_on_tables [returns_intros]:
  "(\<And>x T. f (tables s) = Inr (x, T) \<Longrightarrow> P x (s\<lparr>tables := T\<rparr>)) \<Longrightarrow> returns (on_tables f) s P"
  by (auto simp: returns_def on_tables_def split: sum.splits prod.splits)

lemma attemptRow_tables [simp]: "attemptRow (s\<lparr>tables := T\<rparr>) i = attemptRow s i"
  by (simp add: attemptRow_def)

lemma valid_tables [simp]: "valid ow (s\<lparr>tables := T\<rparr>) = valid ow s"
  by (simp add: valid_def stage_of_def)

text \<open>What deleting staged observations leaves.\<close>

lemma without_staged_rows:
  assumes "valid ow s"
  shows "stageRows (without_staged s i ids) i =
      renumber 0 (filter (\<lambda>r. stageObservationId r \<notin> set ids) (stageRows s i))"
    and "j \<noteq> i \<Longrightarrow> stageRows (without_staged s i ids) j = stageRows s j"
proof -
  have own: "list_all (\<lambda>r. stageAttemptId r = i)
      (renumber 0 (filter (\<lambda>r. stageObservationId r \<notin> set ids) (stage_of s i)))"
    by (rule renumber_attempt) (auto simp: stage_of_def list_all_iff)
  then have "stage_of (without_staged s i ids) i =
      renumber 0 (filter (\<lambda>r. stageObservationId r \<notin> set ids) (stage_of s i))"
    by (simp add: list_all_iff stage_of_def [where s = "without_staged s i ids"] filter_id_conv)
       (simp add: without_staged_def filter_id_conv)
  then show "stageRows (without_staged s i ids) i =
      renumber 0 (filter (\<lambda>r. stageObservationId r \<notin> set ids) (stageRows s i))"
    using stageRows_valid [OF assms] stageRows_valid [OF valid_without_staged [OF assms]] by simp
  show "stageRows (without_staged s i ids) j = stageRows s j" if "j \<noteq> i"
  proof -
    have 1: "filter (\<lambda>r. stageAttemptId r = j) (filter (\<lambda>r. stageAttemptId r \<noteq> i) (staging s)) = stage_of s j"
      unfolding stage_of_def filter_filter using that by (intro filter_cong) auto
    have 2: "filter (\<lambda>r. stageAttemptId r = j)
        (renumber 0 (filter (\<lambda>r. stageObservationId r \<notin> set ids) (stage_of s i))) = []"
      using own that by (auto simp: list_all_iff filter_empty_conv)
    have "staging (without_staged s i ids) = filter (\<lambda>r. stageAttemptId r \<noteq> i) (staging s) @
        renumber 0 (filter (\<lambda>r. stageObservationId r \<notin> set ids) (stage_of s i))"
      by (simp add: without_staged_def)
    then have "stage_of (without_staged s i ids) j = stage_of s j"
      by (simp only: stage_of_def [where s = "without_staged s i ids"] filter_append 1 2 append_Nil2)
    then show ?thesis
      using stageRows_valid [OF assms] stageRows_valid [OF valid_without_staged [OF assms]] by simp
  qed
qed

definition drained :: "Store \<Rightarrow> jsstring \<Rightarrow> jsstring list \<Rightarrow> Store \<Rightarrow> bool" where
  "drained s i ids t =
     (map stageObservationId (stageRows t i) =
        filter (\<lambda>x. x \<notin> set ids) (map stageObservationId (stageRows s i)) \<and>
      map stageOrdinal (stageRows t i) = [0..<length (stageRows t i)] \<and>
      (\<forall>j. j \<noteq> i \<longrightarrow> stageRows t j = stageRows s j))"

lemma drained_same: "valid ow s \<Longrightarrow> drained s i [] s"
  using stageRows_valid [of ow s i] valid_stage [of ow s i] by (simp add: drained_def stage_ok_def)

lemma drained_without:
  assumes "valid ow s"
  shows "drained s i ids (without_staged s i ids)"
proof -
  have "map f (filter (P \<circ> f) xs) = filter P (map f xs)" for f :: "StageRow \<Rightarrow> jsstring" and P xs
    by (simp add: filter_map)
  from this [of stageObservationId "\<lambda>x. x \<notin> set ids"] show ?thesis
    by (simp add: drained_def without_staged_rows [OF assms] comp_def)
qed

lemma deleteStagedPrefix_drains:
  assumes "valid ow s"
  shows "\<exists>t. deleteStagedPrefix i ids s = (Inr (), t) \<and> drained s i ids t \<and> valid ow t"
proof (cases "ids = []")
  case True
  then show ?thesis
    using assms drained_same by (simp add: deleteStagedPrefix_def ret_def)
next
  case False
  then show ?thesis
    using assms deleteStagedPrefix_run drained_without valid_without_staged by metis
qed

lemma returns_deleteStagedPrefix:
  assumes "valid ow s"
    and "\<And>t. drained s i ids t \<Longrightarrow> (\<And>j. attemptRow t j = attemptRow s j) \<Longrightarrow> tables t = tables s \<Longrightarrow> valid ow t \<Longrightarrow> P () t"
  shows "returns (deleteStagedPrefix i ids) s P"
proof (cases "ids = []")
  case True
  then show ?thesis
    using assms drained_same by (simp add: deleteStagedPrefix_def returns_def ret_def)
next
  case False
  then show ?thesis
    using assms deleteStagedPrefix_run [OF assms(1) False] drained_without valid_without_staged
    by (simp add: returns_def attemptRow_def)
qed

subsection \<open>Crossing\<close>

lemma returns_markPossiblySent:
  assumes "valid ow s"
  shows "returns (markPossiblySent ow i c session g now) s (\<lambda>b t.
    \<exists>r q. attemptRow s i = Some r \<and> rowState r = Preparing \<and> \<not> c \<and> b \<and>
      attemptRow t i = Some q \<and> rowState q = Dispatching)"
  unfolding markPossiblySent_def
  by (intro returns_intros returns_update [OF assms]) auto

text \<open>What is not preparing is refused.\<close>

lemma markPossiblySent_refused:
  assumes "valid ow s" "attemptRow s i = Some r" "rowState r \<noteq> Preparing"
  shows "refuses (markPossiblySent ow i c session g now) s"
  unfolding markPossiblySent_def
  by (intro refuses_read read_only_intros refuses_update [OF assms(1,2)] refuses_rules(1,2))
     (simp_all add: assms(3))

lemma returns_dispatchBegin:
  "returns (dispatchBegin ow i) s (\<lambda>u t. \<exists>r. attemptRow s i = Some r \<and> rowState r = Preparing)"
  unfolding dispatchBegin_def
  by (intro returns_intros) (simp add: decodeVerified_fields(8))

lemma dispatchBegin_refused:
  assumes "attemptRow s i = Some r" "rowState r \<noteq> Preparing"
  shows "refuses (dispatchBegin ow i) s"
  unfolding dispatchBegin_def
  by (intro refuses_read read_only_intros refuses_rules(1))
     (use assms in \<open>auto dest!: require_attempt_D dest: decodeVerified_fields(8)\<close>)

subsection \<open>Admission, abandonment and rejection\<close>

lemma returns_admit:
  assumes "valid ow s"
  shows "returns (admit_attempt ow i f prepared ids now) s (\<lambda>x t.
    \<exists>r. attemptRow s i = Some r \<and>
      (if rowState r = Accepted then x = None \<and> t = s
       else rowEvidence r \<noteq> None \<and> rowState r \<in> {Dispatching, Unknown} \<and>
         (\<exists>a y q T. decodeVerified ow r = Inr a \<and> f a prepared (tables s) = Inr (y, T) \<and> x = Some y \<and>
            tables t = T \<and> attemptRow t i = Some q \<and> rowState q = Accepted \<and>
            rowEvidence q = rowEvidence r \<and> drained s i ids t)))"
proof -
  have evidence: "acceptanceEvidence a \<noteq> None \<longleftrightarrow> rowEvidence r \<noteq> None" "attemptState a = rowState r"
    if "decodeVerified ow r = Inr a" for a r
    using decodeVerified_fields(8,10) [OF that] by simp_all
  have drain: "drained s i ids u" if "drained (s') i ids u" "staging s' = staging s" for s' u
    using that by (simp add: drained_def stageRows_def)
  show ?thesis
    unfolding admit_attempt_def
  proof (intro returns_intros returns_transition returns_deleteStagedPrefix step_accept)
  qed (use assms evidence drain in auto)
qed

text \<open>The observations read back are the staged rows, in their order.\<close>

lemma map2_fst: "length xs = length ys \<Longrightarrow> map f (map2 g xs ys) = map f' xs"
  if "\<And>x y. f (g x y) = f' x"
proof (induction xs ys rule: list_induct2)
  case (Cons x xs y ys)
  then show ?case by (simp add: that)
qed simp

lemma returns_staged [returns_intros]:
  assumes "\<And>rows. map observationId rows = map stageObservationId (stageRows s i) \<Longrightarrow> P rows s"
  shows "returns (staged i) s P"
proof (cases "traverse (\<lambda>r _. parseProviderEventEnvelope (stageEnvelopeJson r)) 0 (stageRows s i)")
  case (Inr envelopes)
  let ?row = "\<lambda>r e. \<lparr>stagedOrdinal = stageOrdinal r, observationId = stageObservationId r,
     stagedEnvelope = e, stagedByteLength = stageByteLength r, stagedObservedAt = stageObservedAt r\<rparr>"
  have "map observationId (map2 ?row (stageRows s i) envelopes) = map stageObservationId (stageRows s i)"
    using traverse_length [OF Inr] by (intro map2_fst) simp_all
  with assms Inr show ?thesis
    by (simp add: returns_def staged_def)
qed (simp add: returns_def staged_def)

lemma returns_abandon:
  assumes "valid ow s"
  shows "returns (abandon ow i command now) s (\<lambda>a t. \<exists>r q. attemptRow s i = Some r \<and>
      rowState r = Unknown \<and> rowEvidence r = None \<and> \<not> rowTranscriptGap r \<and>
      rowKind r \<noteq> ManualCompact \<and> stageRows s i = [] \<and>
      attemptRow t i = Some q \<and> rowState q = Abandoned \<and> staging t = staging s \<and> tables t = tables s)"
proof -
  have decoded: "acceptanceEvidence a = None \<longleftrightarrow> rowEvidence r = None" "attemptState a = rowState r"
    "transcriptGap a = rowTranscriptGap r" "attemptKind a = rowKind r"
    if "decodeVerified ow r = Inr a" for a r
    using decodeVerified_fields [OF that] by simp_all
  show ?thesis
    unfolding abandon_def Let_def
    by (intro returns_intros returns_update [OF assms]) (use decoded in auto)
qed

lemma transaction_keeps: "transaction m s = (Inl e, t) \<Longrightarrow> t = s"
  by (auto simp: transaction_def split: prod.splits sum.splits)

lemma abandon_keeps_store: "abandon ow i command now s = (Inl e, t) \<Longrightarrow> t = s"
  unfolding abandon_def by (rule transaction_keeps)

lemma returns_recordAcceptance:
  assumes "valid ow s"
  shows "returns (recordAcceptance ow i e turn operation now) s (\<lambda>u t.
    \<exists>r a. attemptRow s i = Some r \<and> decodeVerified ow r = Inr a \<and> evidence_proves a e \<and>
      (case acceptanceEvidence a of
         Some known \<Rightarrow> evidenceCompatible known e \<and> t = s
       | None \<Rightarrow> rowState r \<in> {Dispatching, Unknown} \<and>
           (\<exists>q. attemptRow t i = Some q \<and> rowEvidence q = Some (encodeEvidence e) \<and>
              rowState q = rowState r)))"
proof -
  have proves: "evidence_proves a e" if "validateRootEvidence a (encodeEvidence e) = Inr x" for a x
    using that by (simp add: validateRootEvidence_iff)
  have option: "returns (case ox of None \<Rightarrow> m | Some x \<Rightarrow> f x) s P"
    if "ox = None \<Longrightarrow> returns m s P" "\<And>x. ox = Some x \<Longrightarrow> returns (f x) s P"
    for ox :: "ProviderAcceptanceEvidence option" and m :: "unit op" and f s P
    using that by (cases ox) simp_all
  show ?thesis
    unfolding recordAcceptance_def
    by (intro returns_intros option returns_update [OF assms]) (auto dest: proves)
qed

lemma returns_rejectProviderResponse:
  assumes "valid ow s"
  shows "returns (rejectProviderResponse ow i e err now) s (\<lambda>b t.
    if b then \<exists>r a q T. attemptRow s i = Some r \<and> decodeVerified ow r = Inr a \<and> rejectionApplies a e err \<and>
        appendEvents ow T (tables s) = Inr (tables t) \<and> length T = length (stageRows s i) \<and>
        list_all (ownCompactionControl (tables s) a) T \<and> stageRows t i = [] \<and>
        attemptRow t i = Some q \<and> rowState q = Rejected \<and> rowRejection q = Some (rejectionJson err e)
    else t = s)"
proof -
  have none: "stageRows u i = []"
    if "drained (s\<lparr>tables := T\<rparr>) i (map stageObservationId (stageRows s i)) t" "staging u = staging t" for T t u
  proof -
    have "stageRows (s\<lparr>tables := T\<rparr>) i = stageRows s i" "stageRows u i = stageRows t i"
      using that(2) by (simp_all add: stageRows_def)
    with that(1) have "map stageObservationId (stageRows u i) = []"
      by (simp add: drained_def filter_empty_conv)
    then show ?thesis by simp
  qed
  have state: "rowState r = Dispatching \<or> rowState r = Unknown"
    if "decodeVerified ow r = Inr a" "rejectionApplies a e err" for r a
    using that decodeVerified_fields(8) [OF that(1)] by (simp add: rejectionApplies_def)
  show ?thesis
    unfolding rejectProviderResponse_def rejectionJson_def [symmetric]
    apply (intro returns_intros returns_deleteStagedPrefix returns_update)
               apply (simp_all add: assms)
    subgoal for a r rows T t x u
      using none [of T t u] map_eq_imp_length_eq [of observationId rows stageObservationId "stageRows s i"]
      by (intro exI [of _ "the (attemptRow u i)"] exI [of _ "map stagedEnvelope rows"])
         (auto simp: list_all_iff list_ex_iff)
    subgoal for a r rows T t x
      using state by blast
    done
qed

subsection \<open>Observations\<close>

lemma returns_markGap:
  assumes "valid ow s" "attemptRow s i = Some r"
    and "\<And>t q. attemptRow t i = Some q \<Longrightarrow> rowTranscriptGap q \<Longrightarrow> staging t = staging s \<Longrightarrow> P () t"
  shows "returns (markGap ow i reason now) s P"
proof -
  have sel: "hasId i = (\<lambda>q. hasId i q \<and> True)" by simp
  show ?thesis
    unfolding markGap_def Let_def
    by (subst sel, intro returns_intros returns_update [OF assms(1,2)]) (auto intro: assms(3))
qed

lemma returns_insertStage [returns_intros]:
  "P () (s\<lparr>staging := staging s @ [r]\<rparr>) \<Longrightarrow> returns (insertStage r) s P"
  by (auto simp: returns_def insertStage_def)

definition stageFor :: "jsstring \<Rightarrow> nat \<Rightarrow> ProviderEventEnvelope \<Rightarrow> StageRow" where
  "stageFor i k e = \<lparr>stageAttemptId = i, stageOrdinal = k, stageObservationId = eventId e,
     stageEnvelopeJson = encodeEnvelope e, stageByteLength = byte_length (encodeEnvelope e),
     stageObservedAt = observedAt e\<rparr>"

definition gap_only :: "jsstring \<Rightarrow> Store \<Rightarrow> Store \<Rightarrow> bool" where
  "gap_only i s t = (staging t = staging s \<and> (\<exists>q. attemptRow t i = Some q \<and> rowTranscriptGap q))"

lemma returns_observe:
  assumes "valid ow s"
  shows "returns (observe ow i e now) s (\<lambda>result t. \<exists>a child.
    require_attempt ow i s = (Inr a, s) \<and>
    declaredChild i a (scopeExecution (envScope e)) s = (Inr child, s) \<and>
    observation_belongs a e child \<and>
    (let rows = stage_of s i; earlier = find (\<lambda>r. stageObservationId r = eventId e) rows;
         full = (256 \<le> length rows \<or> maxStageRowBytes < byte_length (encodeEnvelope e) \<or>
           maxStageBytes < sum_list (map stageByteLength rows) + byte_length (encodeEnvelope e))
     in case result of
        Staged \<Rightarrow> earlier = None \<and> \<not> full \<and> t = s\<lparr>staging := staging s @ [stageFor i (length rows) e]\<rparr>
      | DuplicateObservation \<Rightarrow> t = s \<and>
          map_option (\<lambda>r. json_text (stageEnvelopeJson r)) earlier = Some (json_text (encodeEnvelope e))
      | ConflictingObservation \<Rightarrow> gap_only i s t \<and> earlier \<noteq> None \<and>
          map_option (\<lambda>r. json_text (stageEnvelopeJson r)) earlier \<noteq> Some (json_text (encodeEnvelope e))
      | StageOverflow \<Rightarrow> gap_only i s t \<and> earlier = None \<and> full))"
proof -
  have option: "returns (case ox of None \<Rightarrow> m | Some x \<Rightarrow> f x) s P"
    if "ox = None \<Longrightarrow> returns m s P" "\<And>x. ox = Some x \<Longrightarrow> returns (f x) s P"
    for ox :: "StageRow option" and m :: "ObserveResult op" and f s P
    using that by (cases ox) simp_all
  have get: "require_attempt ow i s = (Inr a, s)" if "attemptRow s i = Some r" "decodeVerified ow r = Inr a" for a r
    using that by (simp add: require_attempt_def get_attempt_def obind_def ret_def)
  have child: "read_only (declaredChild i a x)" for a x by (rule read_only_owner)
  show ?thesis
    unfolding observe_def Let_def stageFor_def [symmetric] stage_of_def
    by (intro returns_intros returns_read [OF child] option returns_markGap [OF assms])
       (auto simp: get validateEnvelopeScope_iff gap_only_def)
qed

text \<open>The session declared for a child does not change when more is staged.\<close>

lemma find_Some_append: "find P xs = Some x \<Longrightarrow> find P (xs @ ys) = Some x"
  by (induction xs) auto

lemma declaredSession_append: "declaredSession es x = Some d \<Longrightarrow> declaredSession (es @ es') x = Some d"
  by (auto simp: declaredSession_def find_Some_append split: option.splits)

lemma traverse_snoc:
  "traverse (\<lambda>r _. f r) k xs = Inr ys \<Longrightarrow> f x = Inr y \<Longrightarrow>
     traverse (\<lambda>r _. f r) k (xs @ [x]) = Inr (ys @ [y])"
  by (induction "\<lambda>r (_ :: nat). f r" k xs arbitrary: ys rule: traverse.induct)
     (auto simp: ebind_eq_Inr)

lemma staged_append:
  assumes "staged i s = (Inr rows, s)" "stageRows t i = stageRows s i @ [r]"
    "parseProviderEventEnvelope (stageEnvelopeJson r) = Inr e"
  shows "\<exists>x. staged i t = (Inr (rows @ [x]), t)"
proof -
  from assms(1) obtain es where es: "traverse (\<lambda>r _. parseProviderEventEnvelope (stageEnvelopeJson r)) 0
      (stageRows s i) = Inr es"
    and rows: "rows = map2 (\<lambda>r e. \<lparr>stagedOrdinal = stageOrdinal r, observationId = stageObservationId r,
      stagedEnvelope = e, stagedByteLength = stageByteLength r, stagedObservedAt = stageObservedAt r\<rparr>)
      (stageRows s i) es"
    by (auto simp: staged_def split: sum.splits)
  from traverse_snoc [where f = "\<lambda>r. parseProviderEventEnvelope (stageEnvelopeJson r)", OF es assms(3)]
  show ?thesis
    using traverse_length [OF es] by (simp add: staged_def assms(2) rows)
qed

lemma observe_again:
  assumes "valid ow s" "observe ow i e now s = (Inr Staged, t)"
    and "parseProviderEventEnvelope (encodeEnvelope e) = Inr e'"
  shows "observe ow i e now' t = (Inr DuplicateObservation, t)"
proof -
  from returnsD [OF returns_observe [OF assms(1)] assms(2)] obtain a child where
    get: "require_attempt ow i s = (Inr a, s)"
    and child: "declaredChild i a (scopeExecution (envScope e)) s = (Inr child, s)"
    and scope: "observation_belongs a e child"
    and none: "find (\<lambda>r. stageObservationId r = eventId e) (stage_of s i) = None"
    and t: "t = s\<lparr>staging := staging s @ [stageFor i (length (stage_of s i)) e]\<rparr>"
    by (auto simp: Let_def)
  let ?r = "stageFor i (length (stage_of s i)) e"
  have rows: "stage_of t i = stage_of s i @ [?r]"
    by (simp add: t stage_of_def stageFor_def)
  have valid: "valid ow t"
    using step_grows [OF delivery_step.observed [OF assms(2)] assms(1)] by simp
  have get': "require_attempt ow i t = (Inr a, t)"
    using get by (auto simp: t require_attempt_def get_attempt_def attemptRow_def obind_def ret_def
        lift_def split: option.splits sum.splits)
  have child': "declaredChild i a (scopeExecution (envScope e)) t = (Inr child, t)"
  proof (cases "scopeExecution (envScope e) \<in> {None, Some (attemptExecutionId a)}")
    case True
    then show ?thesis using child by (auto simp: declaredChild_def ret_def)
  next
    case False
    then obtain x where x: "scopeExecution (envScope e) = Some x" "x \<noteq> attemptExecutionId a" by auto
    with scope obtain d where d: "child = Some d" by (auto simp: observation_belongs_def)
    from child x obtain known where known: "staged i s = (Inr known, s)"
      and "declaredSession (map stagedEnvelope known) x = Some d"
      using returnsD [OF returns_staged] read_only_D [OF read_only_owner(5)]
      by (auto simp: declaredChild_def obind_def ret_def d split: prod.splits sum.splits)
    moreover obtain y where "staged i t = (Inr (known @ [y]), t)"
      using staged_append [OF known, of t ?r] assms(3) rows
      by (auto simp: stageRows_valid [OF assms(1)] stageRows_valid [OF valid] stageFor_def)
    ultimately show ?thesis
      using x d by (simp add: declaredChild_def obind_def ret_def declaredSession_append)
  qed
  have "find (\<lambda>r. stageObservationId r = eventId e) (stage_of t i) = Some ?r"
  proof -
    have "find P xs = None \<Longrightarrow> P x \<Longrightarrow> find P (xs @ [x]) = Some x" for P :: "StageRow \<Rightarrow> bool" and x xs
      by (induction xs) auto
    from this [OF none, of ?r] show ?thesis by (simp add: rows stageFor_def)
  qed
  then have found: "find (\<lambda>r. stageObservationId r = eventId e) (filter (\<lambda>r. stageAttemptId r = i) (staging t)) =
      Some ?r"
    by (simp add: stage_of_def)
  have belongs: "validateEnvelopeScope a e child = Inr ()"
    using scope by (simp add: validateEnvelopeScope_iff)
  show ?thesis
    by (simp add: observe_def Let_def obind_def get' child' belongs lift_def transaction_def reads_def found
        stageFor_def ret_def)
qed

subsection \<open>Preparation\<close>

lemma returns_option:
  "(ox = None \<Longrightarrow> returns m s P) \<Longrightarrow> (\<And>x. ox = Some x \<Longrightarrow> returns (f x) s P) \<Longrightarrow>
     returns (case ox of None \<Rightarrow> m | Some x \<Rightarrow> f x) s P"
  by (cases ox) simp_all

lemma byCommand_Inr:
  "byCommand ow c s = (Inr oa, s) \<longleftrightarrow>
     (case find (\<lambda>r. rowCommandId r = c) (attempts s) of
        None \<Rightarrow> oa = None
      | Some r \<Rightarrow> \<exists>a. decodeVerified ow r = Inr a \<and> oa = Some a)"
  by (auto simp: byCommand_def ebind_eq_Inr split: option.split)

lemma find_snoc: "find P xs = None \<Longrightarrow> find P (xs @ [x]) = (if P x then Some x else None)"
  by (induction xs) auto

lemma returns_insertAttempt:
  "(attemptChecks ow r \<Longrightarrow> P () (s\<lparr>attempts := attempts s @ [r]\<rparr>)) \<Longrightarrow> returns (insertAttempt ow r) s P"
  by (auto simp: returns_def insertAttempt_def)

lemma prepared_fields:
  assumes "decodeVerified ow (preparedRow p u hash) = Inr a"
  shows "sameImmutableInput a p hash"
proof -
  from decodeVerified_decodes [OF assms] obtain b e where
    b: "decodeAttempt (preparedRow p u hash) = Inr b" "a = b\<lparr>acceptanceEvidence := e\<rparr>" by blast
  show ?thesis
    using decodeAttempt_fields [OF b(1)] by (simp add: sameImmutableInput_def b(2) preparedRow_def)
qed

lemma returns_prepare:
  "returns (prepare_attempt ow u p) s (\<lambda>a t.
    \<exists>json. prepOwnerInstanceId p = ownerId ow \<and> canonicalJson (localeLe ow) (prepRecoveryPayload p) = Inr json \<and>
      utf8_length json \<le> 67108864 \<and> validatePrepareIdentifiers p = Inr () \<and>
      sameImmutableInput a p (sha256Hex ow json) \<and> byCommand ow (prepCommandId p) t = (Inr (Some a), t) \<and>
      (t = s \<or>
       find (\<lambda>r. rowCommandId r = prepCommandId p) (attempts s) = None \<and>
       validateScope ow (tables s) p = Inr () \<and>
       t = s\<lparr>attempts := attempts s @ [preparedRow p u (sha256Hex ow json)]\<rparr>))"
proof -
  have read: "read_only (byCommand ow c)" for c by (rule read_only_owner)
  have new: "sameImmutableInput a p hash"
    if "find (\<lambda>r. rowCommandId r = prepCommandId p) (attempts s) = None"
      "byCommand ow (prepCommandId p) (s\<lparr>attempts := attempts s @ [preparedRow p u hash]\<rparr>) =
        (Inr (Some a), s\<lparr>attempts := attempts s @ [preparedRow p u hash]\<rparr>)" for a hash
    using that by (auto simp: byCommand_Inr find_snoc preparedRow_def [of p u hash, THEN arg_cong [of _ _ rowCommandId]]
        dest: prepared_fields)
  have none: "find (\<lambda>r. rowCommandId r = prepCommandId p) (attempts s) = None"
    if "byCommand ow (prepCommandId p) s = (Inr None, s)"
    using that by (auto simp: byCommand_Inr split: option.splits)
  show ?thesis
    unfolding prepare_attempt_def Let_def
    by (intro returns_intros returns_read [OF read] returns_option returns_insertAttempt)
       (use new none in auto)
qed

lemma prepare_again:
  assumes "prepare_attempt ow u p s = (Inr a, t)"
  shows "prepare_attempt ow u' p t = (Inr a, t)"
proof -
  from returnsD [OF returns_prepare assms] obtain json where
    "prepOwnerInstanceId p = ownerId ow" "canonicalJson (localeLe ow) (prepRecoveryPayload p) = Inr json"
    "utf8_length json \<le> 67108864" "validatePrepareIdentifiers p = Inr ()"
    "sameImmutableInput a p (sha256Hex ow json)" "byCommand ow (prepCommandId p) t = (Inr (Some a), t)"
    by blast
  then show ?thesis
    by (simp add: prepare_attempt_def Let_def obind_def require_that_def lift_def guard_def ret_def)
qed

end
