(* ===== verification/DeliveryRestart.thy ===== *)
theory DeliveryRestart
  imports DeliveryLaws
begin

text \<open>
  What the pass of a restarted server achieves: it ends, it ends without a fault when the open
  attempts can be decoded, and it leaves no attempt dispatching.  A page only touches its own
  attempts, and every attempt behind the cursor is settled.
\<close>

subsection \<open>Recovery\<close>

text \<open>Only the attempts with the given ids change, and none of them is dispatching.\<close>

definition quiet_row :: "jsstring set \<Rightarrow> AttemptRow \<Rightarrow> AttemptRow \<Rightarrow> bool" where
  "quiet_row I r q = (rowKey q = rowKey r \<and>
     (rowState q = Dispatching \<longrightarrow> rowState r = Dispatching \<and> rowAttemptId r \<notin> I) \<and>
     (rowAttemptId r \<in> I \<or> q = r))"

definition quiets :: "jsstring set \<Rightarrow> Store \<Rightarrow> Store \<Rightarrow> bool" where
  "quiets I s t = (\<exists>g. attempts t = map g (attempts s) \<and> (\<forall>r\<in>set (attempts s). quiet_row I r (g r)))"

lemma rowKey_id: "rowKey q = rowKey r \<Longrightarrow> rowAttemptId q = rowAttemptId r"
  by (simp add: rowKey_def)

lemma quiet_row_if:
  assumes "c \<Longrightarrow> rowKey q = rowKey r \<and> rowState q \<noteq> Dispatching \<and> rowAttemptId r \<in> I"
    "\<not> c \<Longrightarrow> rowAttemptId r \<in> I \<Longrightarrow> rowState r \<noteq> Dispatching"
  shows "quiet_row I r (if c then q else r)"
  using assms by (cases c) (auto simp: quiet_row_def)

lemma quiet_row_id: "quiet_row I r q \<Longrightarrow> rowAttemptId q = rowAttemptId r"
  unfolding quiet_row_def by (blast intro: rowKey_id)

lemma quiet_row_trans: "quiet_row I r q \<Longrightarrow> quiet_row J q p \<Longrightarrow> quiet_row (I \<union> J) r p"
  using quiet_row_id [of I r q] unfolding quiet_row_def by auto

definition distinct_ids :: "Store \<Rightarrow> bool" where
  "distinct_ids s = distinct (map rowAttemptId (attempts s))"

lemma quiets_distinct:
  assumes "quiets I s t" "distinct_ids s"
  shows "distinct_ids t"
proof -
  from assms(1) obtain g where g: "attempts t = map g (attempts s)" "\<forall>r\<in>set (attempts s). quiet_row I r (g r)"
    by (auto simp: quiets_def)
  have "map rowAttemptId (map g (attempts s)) = map rowAttemptId (attempts s)"
    unfolding map_map by (rule map_cong [OF refl]) (use g(2) quiet_row_id in auto)
  with assms(2) show ?thesis by (simp add: distinct_ids_def g(1) del: map_map)
qed

lemma quiets_chain:
  assumes "quiets I s t" "quiets J t u"
  shows "quiets (I \<union> J) s u"
proof -
  from assms obtain f g where "attempts t = map f (attempts s)" "\<forall>r\<in>set (attempts s). quiet_row I r (f r)"
    "attempts u = map g (attempts t)" "\<forall>r\<in>set (attempts t). quiet_row J r (g r)"
    unfolding quiets_def by blast
  then show ?thesis
    unfolding quiets_def by (intro exI [of _ "g \<circ> f"]) (auto intro: quiet_row_trans)
qed

lemma returns_update_all:
  "(\<And>n. P n (s\<lparr>attempts := map (\<lambda>r. if sel r then upd r else r) (attempts s)\<rparr>)) \<Longrightarrow>
     returns (updateAttempts ow sel upd) s P"
  by (auto simp: returns_def updateAttempts_def)

lemma quiets_map:
  assumes "\<And>r. r \<in> set (attempts s) \<Longrightarrow> quiet_row I r (g r)"
  shows "quiets I s (s\<lparr>attempts := map g (attempts s)\<rparr>)"
  using assms by (auto simp: quiets_def)

lemma quiets_same: "(\<And>r. r \<in> set (attempts s) \<Longrightarrow> quiet_row I r r) \<Longrightarrow> quiets I s s"
  unfolding quiets_def by (rule exI [of _ "\<lambda>r. r"]) simp

lemma distinct_row:
  assumes "distinct_ids s" "attemptRow s i = Some r" "q \<in> set (attempts s)" "rowAttemptId q = i"
  shows "q = r"
  using assms find_unique [of rowAttemptId "attempts s" q]
  by (simp add: distinct_ids_def attemptRow_def)

lemma returns_recoverAttempt:
  assumes "distinct_ids s"
  shows "returns (recoverAttempt ow i now) s (\<lambda>u t. quiets {i} s t)"
proof -
  have decoded: "attemptId a = i" "attemptState a = rowState r"
    if "attemptRow s i = Some r" "decodeVerified ow r = Inr a" for a r
    using decodeVerified_fields(1,8) [OF that(2)] attemptRow_in [OF that(1)] by simp_all
  have row: "q = r" if "attemptRow s (rowAttemptId q) = Some r" "q \<in> set (attempts s)" for q r
    using distinct_row [OF assms that refl] .
  show ?thesis
    unfolding recoverAttempt_def markRecovery_def
    apply (intro returns_intros returns_update_all)
    subgoal for a r x y n
      by (intro quiets_map) (auto simp: decoded [of r a] hasId_def rowKey_def quiet_row_def dest: row)
    subgoal for a r x n
      by (intro quiets_map) (rule quiet_row_if, auto simp: decoded [of r a] hasId_def rowKey_def)
    subgoal for a r x
      by (intro quiets_same) (auto simp: decoded [of r a] quiet_row_def dest: row)
    done
qed

lemma returns_recoverPage:
  "distinct_ids s \<Longrightarrow> returns (recoverPage ow now k ks) s (\<lambda>u t. quiets (snd ` set ks) s t)"
proof (induction ks arbitrary: k s)
  case Nil
  then show ?case
    using quiets_same [of s "{}"] by (simp add: returns_def ret_def quiet_row_def)
next
  case (Cons key ks k s)
  have "returns (recoverPage ow now (Suc k) ks) t (\<lambda>u w. quiets (snd ` set (key # ks)) s w)"
    if "quiets {snd key} s t" for t
    using Cons.IH [OF quiets_distinct [OF that Cons.prems], of "Suc k"] quiets_chain [OF that]
    by (auto simp: returns_def)
  then show ?case
    using returns_recoverAttempt [OF Cons.prems, of ow "snd key" "now k"]
    unfolding recoverPage.simps by (intro returns_composed(1)) (auto simp: returns_def)
qed

lemma sorted_take_last:
  fixes x :: "'k :: linorder"
  assumes "sorted xs" "x \<in> set xs" "x \<notin> set (take n xs)" "take n xs \<noteq> []"
  shows "last (take n xs) < x"
proof -
  have "xs = take n xs @ drop n xs" by simp
  with assms have "x \<in> set (drop n xs)" "sorted (take n xs @ drop n xs)"
    by (metis Un_iff set_append, simp)
  with assms(4) have "last (take n xs) \<le> x"
    by (metis last_in_set sorted_append)
  moreover have "last (take n xs) \<noteq> x"
    using assms(3,4) last_in_set by metis
  ultimately show ?thesis by simp
qed

lemma page_before:
  assumes "r \<in> set (attempts s)" "rowState r \<in> {Preparing, Dispatching}" "beyond cursor r"
    "rowAttemptId r \<notin> snd ` set (openPage cursor s)" "openPage cursor s \<noteq> []"
  shows "last (openPage cursor s) < rowKey r"
proof -
  let ?open = "filter (\<lambda>r. rowState r \<in> {Preparing, Dispatching} \<and> beyond cursor r) (attempts s)"
  let ?keys = "map rowKey (sort_key rowKey ?open)"
  have page: "openPage cursor s = take 256 ?keys"
    by (simp add: openPage_def take_map)
  have "rowKey r \<notin> set (openPage cursor s)"
    using assms(4) by (metis image_eqI rowKey_def snd_conv)
  moreover have "sorted ?keys" "rowKey r \<in> set ?keys"
    using assms(1-3) by simp_all
  ultimately show ?thesis
    using assms(5) unfolding page by (intro sorted_take_last)
qed

lemma recoverPages_settles:
  "recoverPages ow now cursor k s = (Inr u, t) \<Longrightarrow> distinct_ids s \<Longrightarrow>
     (\<forall>r\<in>set (attempts s). rowState r = Dispatching \<longrightarrow> beyond cursor r) \<Longrightarrow>
     (\<forall>r\<in>set (attempts t). rowState r \<noteq> Dispatching)"
proof (induction ow now cursor k s rule: recoverPages.induct)
  case (1 ow now cursor k s)
  let ?page = "openPage cursor s"
  show ?case
  proof (cases "?page = []")
    case True
    then have "t = s" using 1(2) by (simp add: recoverPages.simps [of ow now cursor k s])
    moreover have "filter (\<lambda>r. rowState r \<in> {Preparing, Dispatching} \<and> beyond cursor r) (attempts s) = []"
    proof -
      from True have "length (sort_key rowKey (filter (\<lambda>r. rowState r \<in> {Preparing, Dispatching} \<and>
          beyond cursor r) (attempts s))) = 0"
        by (simp add: openPage_def del: length_sort)
      then show ?thesis by simp
    qed
    ultimately show ?thesis
      using 1(4) by (auto simp: filter_empty_conv)
  next
    case False
    then obtain v w where run: "recoverPage ow now k ?page s = (Inr v, w)"
      and rest: "recoverPages ow now (Some (last ?page)) (k + length ?page) w = (Inr u, t)"
      using 1(2) by (auto simp: recoverPages.simps [of ow now cursor k s] Let_def split: prod.splits sum.splits)
    from returnsD [OF returns_recoverPage [OF 1(3)] run] have quiet: "quiets (snd ` set ?page) s w" .
    then obtain g where g: "attempts w = map g (attempts s)"
      "\<forall>r\<in>set (attempts s). quiet_row (snd ` set ?page) r (g r)"
      unfolding quiets_def by blast
    have "\<forall>q\<in>set (attempts w). rowState q = Dispatching \<longrightarrow> beyond (Some (last ?page)) q"
    proof (intro ballI impI)
      fix q assume "q \<in> set (attempts w)" "rowState q = Dispatching"
      then obtain r where r: "r \<in> set (attempts s)" "q = g r" "rowState (g r) = Dispatching"
        by (auto simp: g(1))
      with g(2) have "rowState r = Dispatching" "rowAttemptId r \<notin> snd ` set ?page" "rowKey q = rowKey r"
        by (auto simp: quiet_row_def)
      with r(1) 1(4) page_before [of r s cursor] False show "beyond (Some (last ?page)) q"
        by (simp add: beyond_def)
    qed
    with 1(1) [OF refl False run [symmetric] refl rest quiets_distinct [OF quiet 1(3)]] show ?thesis
      by blast
  qed
qed

lemma recover_settles:
  assumes "valid ow s" "recover ow rejectNow now s = (Inr u, t)"
  shows "\<forall>r\<in>set (attempts t). rowState r \<noteq> Dispatching"
proof -
  from assms(2) obtain v w where run: "recoverRejections ow rejectNow 0 (legacyRejectionRows s) s = (Inr v, w)"
    and rest: "recoverPages ow now None 0 w = (Inr u, t)"
    by (auto simp: recover_def obind_def reads_def split: prod.splits sum.splits)
  have "valid ow w"
    using safe_recoverRejections [of ow rejectNow 0 "legacyRejectionRows s" s] assms(1) run
    by (simp add: leads_def protocol_def)
  then show ?thesis
    using recoverPages_settles [OF rest] by (simp add: valid_def distinct_ids_def beyond_def)
qed

text \<open>The pass ends without a fault when the open attempts can be decoded.\<close>

lemma recoverAttempt_returns:
  assumes "valid ow s" "attemptRow s i = Some r" "decodeVerified ow r = Inr a"
  shows "\<exists>t. recoverAttempt ow i now s = (Inr (), t)"
proof -
  obtain m t where run: "recoverAttempt ow i now s = (m, t)" by fastforce
  have "require_attempt ow i s = (Inr a, s)"
    using assms(2,3) by (simp add: require_attempt_def get_attempt_def obind_def ret_def)
  with run have "m = Inl ConstraintFailed \<or> m = Inr ()"
    by (auto simp: recoverAttempt_def markRecovery_def obind_def transitionTime_def storedRecovery_def reads_def
        updateAttempts_def ret_def split: if_splits)
  moreover have "m \<noteq> Inl ConstraintFailed"
    using safe_recoverAttempt [of ow i now s] assms(1) run by (auto simp: leads_def protocol_def fault_of_def)
  ultimately show ?thesis using run by auto
qed

lemma quiets_other:
  assumes "quiets I s t" "j \<notin> I"
  shows "attemptRow t j = attemptRow s j"
proof -
  from assms(1) obtain g where g: "attempts t = map g (attempts s)" "\<forall>r\<in>set (attempts s). quiet_row I r (g r)"
    unfolding quiets_def by blast
  have "find (\<lambda>r. rowAttemptId r = j) (map g xs) = find (\<lambda>r. rowAttemptId r = j) xs"
    if "set xs \<subseteq> set (attempts s)" for xs
    using that
  proof (induction xs)
    case (Cons x xs)
    with g(2) have x: "quiet_row I x (g x)" by simp
    then have "rowAttemptId (g x) = rowAttemptId x" "rowAttemptId x = j \<longrightarrow> g x = x"
      using assms(2) quiet_row_id [OF x] by (auto simp: quiet_row_def)
    with Cons show ?case by auto
  qed simp
  then show ?thesis by (simp add: attemptRow_def g(1))
qed

lemma valid_recoverAttempt: "valid ow s \<Longrightarrow> recoverAttempt ow i now s = (Inr u, t) \<Longrightarrow> valid ow t"
  using safe_recoverAttempt [of ow i now s] by (simp add: leads_def protocol_def)

lemma recoverPage_returns:
  assumes "valid ow s" "distinct (map snd ks)"
    "\<forall>key\<in>set ks. \<exists>r a. attemptRow s (snd key) = Some r \<and> decodeVerified ow r = Inr a"
  shows "\<exists>t. recoverPage ow now k ks s = (Inr (), t)"
  using assms
proof (induction ks arbitrary: k s)
  case (Cons key ks k s)
  from Cons.prems(3) recoverAttempt_returns [OF Cons.prems(1)] obtain t where
    t: "recoverAttempt ow (snd key) (now k) s = (Inr (), t)" by fastforce
  have "quiets {snd key} s t"
    using returnsD [OF returns_recoverAttempt t] Cons.prems(1) by (simp add: valid_def distinct_ids_def)
  then have "attemptRow t j = attemptRow s j" if "j \<noteq> snd key" for j
    using that by (simp add: quiets_other)
  moreover have "snd key' \<noteq> snd key" if "key' \<in> set ks" for key'
    using that Cons.prems(2) by (metis distinct.simps(2) image_eqI list.simps(9) set_map)
  ultimately have "\<forall>key'\<in>set ks. \<exists>r a. attemptRow t (snd key') = Some r \<and> decodeVerified ow r = Inr a"
    using Cons.prems(3) by simp
  with Cons.IH [OF valid_recoverAttempt [OF Cons.prems(1) t], of "Suc k"] Cons.prems(2)
  obtain u where "recoverPage ow now (Suc k) ks t = (Inr (), u)" by auto
  with t show ?case by (auto simp: obind_def)
qed (simp add: ret_def)

lemma page_keys:
  assumes "valid ow s"
  shows "distinct (map snd (openPage cursor s))"
    and "key \<in> set (openPage cursor s) \<Longrightarrow> key \<le> last (openPage cursor s)"
proof -
  let ?open = "filter (\<lambda>r. rowState r \<in> {Preparing, Dispatching} \<and> beyond cursor r) (attempts s)"
  have page: "openPage cursor s = take 256 (map rowKey (sort_key rowKey ?open))"
    by (simp add: openPage_def take_map)
  have "distinct (map rowAttemptId ?open)"
    using assms by (simp add: valid_def distinct_map_filter)
  then have "distinct (map rowAttemptId (sort_key rowKey ?open))"
    by (simp add: distinct_map)
  moreover have "map snd (openPage cursor s) = take 256 (map rowAttemptId (sort_key rowKey ?open))"
    by (simp add: page take_map comp_def rowKey_def)
  ultimately show "distinct (map snd (openPage cursor s))" by simp
  have "sorted (openPage cursor s)"
    unfolding page by (intro sorted_wrt_take) simp
  then show "key \<le> last (openPage cursor s)" if "key \<in> set (openPage cursor s)"
    using that by (cases "openPage cursor s" rule: rev_cases) (auto simp: sorted_append)
qed

lemma recoverPages_returns:
  "valid ow s \<Longrightarrow> (\<forall>r\<in>set (attempts s). rowState r \<in> {Preparing, Dispatching} \<and> beyond cursor r \<longrightarrow>
     (\<exists>a. decodeVerified ow r = Inr a)) \<Longrightarrow> \<exists>t. recoverPages ow now cursor k s = (Inr (), t)"
proof (induction ow now cursor k s rule: recoverPages.induct)
  case (1 ow now cursor k s)
  let ?page = "openPage cursor s"
  show ?case
  proof (cases "?page = []")
    case True
    then show ?thesis by (simp add: recoverPages.simps [of ow now cursor k s])
  next
    case False
    have "\<exists>r a. attemptRow s (snd key) = Some r \<and> decodeVerified ow r = Inr a" if "key \<in> set ?page" for key
    proof -
      from openPage_members [OF that] obtain r where r: "r \<in> set (attempts s)" "key = rowKey r"
        "beyond cursor r" "rowState r \<in> {Preparing, Dispatching}" by blast
      then have "attemptRow s (snd key) = Some r"
        by (intro attemptRow_unique [OF 1(2)]) (simp_all add: hasId_def rowKey_def)
      with r 1(3) show ?thesis by blast
    qed
    with recoverPage_returns [OF 1(2) page_keys(1) [OF 1(2)]] obtain w where
      run: "recoverPage ow now k ?page s = (Inr (), w)" by blast
    have "distinct_ids s" using 1(2) by (simp add: valid_def distinct_ids_def)
    from returnsD [OF returns_recoverPage [OF this] run] obtain g where
      g: "attempts w = map g (attempts s)" "\<forall>r\<in>set (attempts s). quiet_row (snd ` set ?page) r (g r)"
      unfolding quiets_def by blast
    have "valid ow w"
      using safe_recoverPage [of ow now k ?page s] 1(2) run by (simp add: leads_def protocol_def)
    moreover have "\<exists>a. decodeVerified ow q = Inr a"
      if q: "q \<in> set (attempts w)" "rowState q \<in> {Preparing, Dispatching}" "beyond (Some (last ?page)) q" for q
    proof -
      from q(1) obtain r where r: "r \<in> set (attempts s)" "q = g r" by (auto simp: g(1))
      with g(2) have quiet: "quiet_row (snd ` set ?page) r q" by simp
      then have key: "last ?page < rowKey r" using q(3) by (simp add: beyond_def quiet_row_def)
      have "rowAttemptId r \<notin> snd ` set ?page"
      proof
        assume "rowAttemptId r \<in> snd ` set ?page"
        then obtain key where k: "key \<in> set ?page" "snd key = rowAttemptId r" by auto
        from openPage_members [OF k(1)] obtain r' where "r' \<in> set (attempts s)" "key = rowKey r'" by blast
        moreover from this k(2) have "r' = r"
          using 1(2) r(1) by (simp add: rowKey_def valid_def inj_on_def distinct_map)
        ultimately have "rowKey r \<le> last ?page" using page_keys(2) [OF 1(2) k(1)] by simp
        with key show False by simp
      qed
      then have "q = r" using quiet by (simp add: quiet_row_def)
      moreover have "beyond cursor r"
      proof -
        have "last ?page \<in> set ?page" using False by simp
        from openPage_members [OF this] have "case cursor of None \<Rightarrow> True | Some c \<Rightarrow> c < last ?page"
          by (auto simp: beyond_def split: option.splits)
        with key show ?thesis by (auto simp: beyond_def split: option.splits)
      qed
      ultimately show ?thesis using 1(3) r(1) q(2) by blast
    qed
    ultimately have "\<exists>t. recoverPages ow now (Some (last ?page)) (k + length ?page) w = (Inr (), t)"
      using 1(1) [OF refl False run [symmetric] refl] by blast
    with run False show ?thesis
      by (simp add: recoverPages.simps [of ow now cursor k s] Let_def)
  qed
qed

lemma recoverRejections_none:
  "(\<forall>(i, recovery)\<in>set rows. recovery \<noteq> JNull \<and> recordedRejection recovery = None) \<Longrightarrow>
     recoverRejections ow now k rows s = (Inr (), s)"
  by (induction rows) (auto simp: ret_def)

lemma recover_returns:
  assumes "valid ow s" "\<forall>(i, recovery)\<in>set (legacyRejectionRows s). recovery \<noteq> JNull \<and> recordedRejection recovery = None"
    and "\<forall>r\<in>set (attempts s). rowState r \<in> {Preparing, Dispatching} \<longrightarrow> (\<exists>a. decodeVerified ow r = Inr a)"
  shows "\<exists>t. recover ow rejectNow now s = (Inr (), t)"
proof -
  from assms(3) have "\<exists>t. recoverPages ow now None 0 s = (Inr (), t)"
    by (intro recoverPages_returns [OF assms(1)]) blast
  with recoverRejections_none [OF assms(2), of ow rejectNow 0 s] show ?thesis
    by (simp add: recover_def obind_def reads_def)
qed

end
