(* ===== verification/ContractCommands.thy ===== *)
theory ContractCommands
  imports ContractEnvelope
begin

text \<open>
  The commands the coordinator sends to a provider adapter, as
  extensions/agent/shared/provider-runtime.ts reads them: starting, steering and interrupting a
  turn, interrupting a child, compacting, reading a snapshot, forking, rolling back, discovering
  sessions, login and logout.  Every reader starts at the path \<^verbatim>\<open>$\<close>; all but
  \<^verbatim>\<open>parseInterruptProviderChildInput\<close> bound the encoded size first.

  The interface \<open>contract_command\<close> is what a caller relies on: an error names a path below
  \<^verbatim>\<open>$\<close>, and an accepted command of admissible size is read back unchanged from its encoding.
\<close>

abbreviation dollar :: jsstring where
  "dollar \<equiv> js ''$''"

definition sized :: "(jsval \<Rightarrow> 'a res) \<Rightarrow> jsval \<Rightarrow> 'a res" where
  "sized parse v = ebind (assertEncodedSize v eventBytes dollar) (\<lambda>_. parse v)"

locale contract_command =
  fixes parse :: "jsval \<Rightarrow> 'a res" and encode :: "'a \<Rightarrow> jsval"
  assumes root_blame: "blames dollar (parse v)"
    and root_reparse: "parse v = Inr x \<Longrightarrow> byte_length (encode x) \<le> eventBytes \<Longrightarrow> parse (encode x) = Inr x"
begin

lemma error_path: "parse v = Inl e \<Longrightarrow> \<exists>s. epath e = dollar @ s"
  using root_blame [of v] by (auto simp: blames_def prefix_def)

lemma encode_inj:
  assumes "parse v = Inr x" "parse w = Inr y"
    and "byte_length (encode x) \<le> eventBytes" "encode x = encode y"
  shows "x = y"
  using root_reparse [of v x] root_reparse [of w y] assms by simp

end

text \<open>A reader whose encodings are defined values stays a command reader behind the size check.\<close>

lemma blames_sized [blame_intros]: "(\<And>v. blames dollar (parse v)) \<Longrightarrow> blames dollar (sized parse v)"
  unfolding sized_def by (intro blame_intros) simp_all

lemma sized_eq_Inr:
  "sized parse v = Inr x \<longleftrightarrow> v \<noteq> JUndefined \<and> byte_length v \<le> eventBytes \<and> parse v = Inr x"
  by (auto simp: sized_def assertEncodedSize_iff)

lemma command_by_members:
  assumes "\<And>v. blames dollar (parse v)"
    and "\<And>v x. parse v = Inr x \<Longrightarrow> parse (encode x) = Inr x \<and> encode x \<noteq> JUndefined"
  shows "contract_command (sized parse) encode"
  using assms by unfold_locales (auto simp: sized_eq_Inr intro!: blame_intros)

definition encodeContent :: "UserContentPart list \<Rightarrow> jsval" where
  "encodeContent parts = JArray (map encodeContentPart parts)"

subsection \<open>Turns\<close>

record StartProviderTurnInput =
  startCommandId :: jsstring
  startConversationId :: jsstring
  startTurnId :: jsstring
  startExecutionId :: jsstring
  startContent :: "UserContentPart list"
  startModel :: "jsstring option"
  startEffort :: "jsstring option"
  startServiceTier :: "jsstring option"

definition parseStartProviderTurnInput :: "jsval \<Rightarrow> StartProviderTurnInput res" where
  "parseStartProviderTurnInput = sized (\<lambda>v.
     ebind (strictRecord v dollar
       [''commandId'', ''conversationId'', ''turnId'', ''executionId'', ''content'',
        ''model'', ''effort'', ''serviceTier''] [''model'', ''effort'', ''serviceTier'']) (\<lambda>r.
     ebind (parseUserContentParts (fld r ''content'') (dot dollar ''content'')) (\<lambda>content.
     ebind (parseIdentifier (fld r ''commandId'') (dot dollar ''commandId'')) (\<lambda>commandId.
     ebind (parseIdentifier (fld r ''conversationId'')
       (dot dollar ''conversationId'')) (\<lambda>conversationId.
     ebind (parseIdentifier (fld r ''turnId'') (dot dollar ''turnId'')) (\<lambda>turnId.
     ebind (parseIdentifier (fld r ''executionId'')
       (dot dollar ''executionId'')) (\<lambda>executionId.
     ebind (optionally (boundedString stringChars) (fld r ''model'')
       (dot dollar ''model'')) (\<lambda>model.
     ebind (optionally (boundedString stringChars) (fld r ''effort'')
       (dot dollar ''effort'')) (\<lambda>effort.
     ebind (optionally (boundedString stringChars) (fld r ''serviceTier'')
       (dot dollar ''serviceTier'')) (\<lambda>serviceTier.
     Inr \<lparr>startCommandId = commandId, startConversationId = conversationId,
          startTurnId = turnId, startExecutionId = executionId, startContent = content,
          startModel = model, startEffort = effort, startServiceTier = serviceTier\<rparr>))))))))))"

definition encodeStart :: "StartProviderTurnInput \<Rightarrow> jsval" where
  "encodeStart c = objectOf
     [(''commandId'', Some (JString (startCommandId c))),
      (''conversationId'', Some (JString (startConversationId c))),
      (''turnId'', Some (JString (startTurnId c))),
      (''executionId'', Some (JString (startExecutionId c))),
      (''content'', Some (encodeContent (startContent c))),
      (''model'', map_option JString (startModel c)),
      (''effort'', map_option JString (startEffort c)),
      (''serviceTier'', map_option JString (startServiceTier c))]"

interpretation parseStartProviderTurnInput:
  contract_command parseStartProviderTurnInput encodeStart
  unfolding parseStartProviderTurnInput_def
  by (rule command_by_members)
    (auto simp: encodeStart_def encodeContent_def intro!: blame_intros dest!: reparse_dests)

record SteerProviderTurnInput =
  steerCommandId :: jsstring
  steerTurnId :: jsstring
  steerContent :: "UserContentPart list"

definition parseSteerProviderTurnInput :: "jsval \<Rightarrow> SteerProviderTurnInput res" where
  "parseSteerProviderTurnInput = sized (\<lambda>v.
     ebind (strictRecord v dollar
       [''commandId'', ''turnId'', ''content''] []) (\<lambda>r.
     ebind (parseUserContentParts (fld r ''content'') (dot dollar ''content'')) (\<lambda>content.
     ebind (parseIdentifier (fld r ''commandId'') (dot dollar ''commandId'')) (\<lambda>commandId.
     ebind (parseIdentifier (fld r ''turnId'') (dot dollar ''turnId'')) (\<lambda>turnId.
     Inr \<lparr>steerCommandId = commandId, steerTurnId = turnId, steerContent = content\<rparr>)))))"

definition encodeSteer :: "SteerProviderTurnInput \<Rightarrow> jsval" where
  "encodeSteer c = objectOf
     [(''commandId'', Some (JString (steerCommandId c))),
      (''turnId'', Some (JString (steerTurnId c))),
      (''content'', Some (encodeContent (steerContent c)))]"

interpretation parseSteerProviderTurnInput:
  contract_command parseSteerProviderTurnInput encodeSteer
  unfolding parseSteerProviderTurnInput_def
  by (rule command_by_members)
    (auto simp: encodeSteer_def encodeContent_def intro!: blame_intros dest!: reparse_dests)

record InterruptProviderTurnInput =
  interruptCommandId :: jsstring
  interruptTurnId :: jsstring

definition parseInterruptProviderTurnInput :: "jsval \<Rightarrow> InterruptProviderTurnInput res" where
  "parseInterruptProviderTurnInput = sized (\<lambda>v.
     ebind (strictRecord v dollar
       [''commandId'', ''turnId''] []) (\<lambda>r.
     ebind (parseIdentifier (fld r ''commandId'') (dot dollar ''commandId'')) (\<lambda>commandId.
     ebind (parseIdentifier (fld r ''turnId'') (dot dollar ''turnId'')) (\<lambda>turnId.
     Inr \<lparr>interruptCommandId = commandId, interruptTurnId = turnId\<rparr>))))"

definition encodeInterruptTurn :: "InterruptProviderTurnInput \<Rightarrow> jsval" where
  "encodeInterruptTurn c = objectOf
     [(''commandId'', Some (JString (interruptCommandId c))),
      (''turnId'', Some (JString (interruptTurnId c)))]"

interpretation parseInterruptProviderTurnInput:
  contract_command parseInterruptProviderTurnInput encodeInterruptTurn
  unfolding parseInterruptProviderTurnInput_def
  by (rule command_by_members)
    (auto simp: encodeInterruptTurn_def intro!: blame_intros dest!: reparse_dests)

record InterruptProviderChildInput =
  childCommandId :: jsstring
  childTargetExecutionId :: jsstring
  childTargetSessionId :: jsstring
  expectedNativeTurnId :: "jsstring option"

definition parseInterruptProviderChildInput :: "jsval \<Rightarrow> InterruptProviderChildInput res" where
  "parseInterruptProviderChildInput v =
     ebind (strictRecord v dollar
       [''commandId'', ''childExecutionId'', ''nativeSessionId'', ''expectedNativeTurnId'']
       [''expectedNativeTurnId'']) (\<lambda>r.
     ebind (parseIdentifier (fld r ''commandId'') (dot dollar ''commandId'')) (\<lambda>commandId.
     ebind (parseIdentifier (fld r ''childExecutionId'')
       (dot dollar ''childExecutionId'')) (\<lambda>childExecutionId.
     ebind (parseIdentifier (fld r ''nativeSessionId'')
       (dot dollar ''nativeSessionId'')) (\<lambda>nativeSessionId.
     ebind (optionally parseIdentifier (fld r ''expectedNativeTurnId'')
       (dot dollar ''expectedNativeTurnId'')) (\<lambda>expectedNativeTurnId.
     Inr \<lparr>childCommandId = commandId, childTargetExecutionId = childExecutionId,
          childTargetSessionId = nativeSessionId,
          expectedNativeTurnId = expectedNativeTurnId\<rparr>)))))"

definition encodeInterruptChild :: "InterruptProviderChildInput \<Rightarrow> jsval" where
  "encodeInterruptChild c = objectOf
     [(''commandId'', Some (JString (childCommandId c))),
      (''childExecutionId'', Some (JString (childTargetExecutionId c))),
      (''nativeSessionId'', Some (JString (childTargetSessionId c))),
      (''expectedNativeTurnId'', map_option JString (expectedNativeTurnId c))]"

interpretation parseInterruptProviderChildInput:
  contract_command parseInterruptProviderChildInput encodeInterruptChild
  by unfold_locales
    (auto simp: parseInterruptProviderChildInput_def encodeInterruptChild_def intro!: blame_intros
       dest!: reparse_dests)

subsection \<open>Sessions\<close>

record CompactProviderSessionInput =
  compactCommandId :: jsstring
  compactConversationId :: jsstring
  compactExecutionId :: jsstring

definition parseCompactProviderSessionInput :: "jsval \<Rightarrow> CompactProviderSessionInput res" where
  "parseCompactProviderSessionInput = sized (\<lambda>v.
     ebind (strictRecord v dollar
       [''commandId'', ''conversationId'', ''executionId''] []) (\<lambda>r.
     ebind (parseIdentifier (fld r ''commandId'') (dot dollar ''commandId'')) (\<lambda>commandId.
     ebind (parseIdentifier (fld r ''conversationId'')
       (dot dollar ''conversationId'')) (\<lambda>conversationId.
     ebind (parseIdentifier (fld r ''executionId'')
       (dot dollar ''executionId'')) (\<lambda>executionId.
     Inr \<lparr>compactCommandId = commandId, compactConversationId = conversationId,
          compactExecutionId = executionId\<rparr>)))))"

definition encodeCompact :: "CompactProviderSessionInput \<Rightarrow> jsval" where
  "encodeCompact c = objectOf
     [(''commandId'', Some (JString (compactCommandId c))),
      (''conversationId'', Some (JString (compactConversationId c))),
      (''executionId'', Some (JString (compactExecutionId c)))]"

interpretation parseCompactProviderSessionInput:
  contract_command parseCompactProviderSessionInput encodeCompact
  unfolding parseCompactProviderSessionInput_def
  by (rule command_by_members)
    (auto simp: encodeCompact_def intro!: blame_intros dest!: reparse_dests)

record ProviderSnapshotRequest =
  snapshotCommandId :: jsstring
  afterNativeSequence :: "nat option"

definition parseProviderSnapshotRequest :: "jsval \<Rightarrow> ProviderSnapshotRequest res" where
  "parseProviderSnapshotRequest = sized (\<lambda>v.
     ebind (strictRecord v dollar
       [''commandId'', ''afterNativeSequence''] [''afterNativeSequence'']) (\<lambda>r.
     ebind (parseIdentifier (fld r ''commandId'') (dot dollar ''commandId'')) (\<lambda>commandId.
     ebind (optionally nonnegativeInteger (fld r ''afterNativeSequence'')
       (dot dollar ''afterNativeSequence'')) (\<lambda>afterNativeSequence.
     Inr \<lparr>snapshotCommandId = commandId, afterNativeSequence = afterNativeSequence\<rparr>))))"

definition encodeSnapshotRequest :: "ProviderSnapshotRequest \<Rightarrow> jsval" where
  "encodeSnapshotRequest c = objectOf
     [(''commandId'', Some (JString (snapshotCommandId c))),
      (''afterNativeSequence'', map_option natVal (afterNativeSequence c))]"

interpretation parseProviderSnapshotRequest:
  contract_command parseProviderSnapshotRequest encodeSnapshotRequest
  unfolding parseProviderSnapshotRequest_def
  by (rule command_by_members)
    (auto simp: encodeSnapshotRequest_def intro!: blame_intros dest!: reparse_dests)

record NativeForkRequest =
  forkCommandId :: jsstring
  throughNativeTurnId :: "jsstring option"
  beforeNativeTurnId :: "jsstring option"
  forkBranchCursor :: "jsval option"
  destinationSessionId :: "jsstring option"

definition parseNativeForkRequest :: "jsval \<Rightarrow> NativeForkRequest res" where
  "parseNativeForkRequest = sized (\<lambda>v.
     ebind (strictRecord v dollar
       [''commandId'', ''throughNativeTurnId'', ''beforeNativeTurnId'', ''branchCursor'',
        ''destinationSessionId'']
       [''throughNativeTurnId'', ''beforeNativeTurnId'', ''branchCursor'',
        ''destinationSessionId'']) (\<lambda>r.
     if fld r ''throughNativeTurnId'' \<noteq> JUndefined \<and> fld r ''beforeNativeTurnId'' \<noteq> JUndefined
     then fail dollar
       (js ''fork accepts at most one of throughNativeTurnId or beforeNativeTurnId'') else
     ebind (parseIdentifier (fld r ''commandId'') (dot dollar ''commandId'')) (\<lambda>commandId.
     ebind (optionally parseIdentifier (fld r ''throughNativeTurnId'')
       (dot dollar ''throughNativeTurnId'')) (\<lambda>throughNativeTurnId.
     ebind (optionally parseIdentifier (fld r ''beforeNativeTurnId'')
       (dot dollar ''beforeNativeTurnId'')) (\<lambda>beforeNativeTurnId.
     ebind (optionally jsonRoot (fld r ''branchCursor'')
       (dot dollar ''branchCursor'')) (\<lambda>branchCursor.
     ebind (optionally parseIdentifier (fld r ''destinationSessionId'')
       (dot dollar ''destinationSessionId'')) (\<lambda>destinationSessionId.
     Inr \<lparr>forkCommandId = commandId, throughNativeTurnId = throughNativeTurnId,
          beforeNativeTurnId = beforeNativeTurnId, forkBranchCursor = branchCursor,
          destinationSessionId = destinationSessionId\<rparr>)))))))"

definition encodeFork :: "NativeForkRequest \<Rightarrow> jsval" where
  "encodeFork c = objectOf
     [(''commandId'', Some (JString (forkCommandId c))),
      (''throughNativeTurnId'', map_option JString (throughNativeTurnId c)),
      (''beforeNativeTurnId'', map_option JString (beforeNativeTurnId c)),
      (''branchCursor'', map_option id (forkBranchCursor c)),
      (''destinationSessionId'', map_option JString (destinationSessionId c))]"

lemma optionally_undefined [simp]:
  "optionally f JUndefined p = Inr None" "optionally f v p = Inr (Some x) \<Longrightarrow> v \<noteq> JUndefined"
  by (auto simp: optionally_def)

text \<open>A fork starts at one side of one turn at most.\<close>

lemma parseNativeForkRequest_one_side:
  "parseNativeForkRequest v = Inr c \<Longrightarrow>
     throughNativeTurnId c = None \<or> beforeNativeTurnId c = None"
  by (auto simp: parseNativeForkRequest_def sized_eq_Inr)

interpretation parseNativeForkRequest: contract_command parseNativeForkRequest encodeFork
proof
  show "blames dollar (parseNativeForkRequest v)" for v
    unfolding parseNativeForkRequest_def by (intro blame_intros) simp_all
  show "parseNativeForkRequest (encodeFork c) = Inr c"
    if "parseNativeForkRequest v = Inr c" "byte_length (encodeFork c) \<le> eventBytes" for v c
  proof -
    have side: "or_else (map_option JString (throughNativeTurnId c)) JUndefined \<noteq> JUndefined \<longrightarrow>
        or_else (map_option JString (beforeNativeTurnId c)) JUndefined = JUndefined"
      using parseNativeForkRequest_one_side [OF that(1)] by auto
    have "encodeFork c \<noteq> JUndefined"
      by (simp add: encodeFork_def)
    with that side show ?thesis
      by (auto simp: parseNativeForkRequest_def sized_eq_Inr encodeFork_def dest!: reparse_dests)
  qed
qed

record NativeRollbackRequest =
  rollbackCommandId :: jsstring
  rollbackNativeTurnId :: jsstring

definition parseNativeRollbackRequest :: "jsval \<Rightarrow> NativeRollbackRequest res" where
  "parseNativeRollbackRequest = sized (\<lambda>v.
     ebind (strictRecord v dollar
       [''commandId'', ''nativeTurnId''] []) (\<lambda>r.
     ebind (parseIdentifier (fld r ''commandId'') (dot dollar ''commandId'')) (\<lambda>commandId.
     ebind (parseIdentifier (fld r ''nativeTurnId'')
       (dot dollar ''nativeTurnId'')) (\<lambda>nativeTurnId.
     Inr \<lparr>rollbackCommandId = commandId, rollbackNativeTurnId = nativeTurnId\<rparr>))))"

definition encodeRollback :: "NativeRollbackRequest \<Rightarrow> jsval" where
  "encodeRollback c = objectOf
     [(''commandId'', Some (JString (rollbackCommandId c))),
      (''nativeTurnId'', Some (JString (rollbackNativeTurnId c)))]"

interpretation parseNativeRollbackRequest:
  contract_command parseNativeRollbackRequest encodeRollback
  unfolding parseNativeRollbackRequest_def
  by (rule command_by_members)
    (auto simp: encodeRollback_def intro!: blame_intros dest!: reparse_dests)

subsection \<open>Login\<close>

datatype LoginMode = LoginDeviceCode | LoginBrowser

fun loginModeName :: "LoginMode \<Rightarrow> string" where
  "loginModeName LoginDeviceCode = ''device-code''"
| "loginModeName LoginBrowser = ''browser''"

record ProviderLoginStartInput =
  loginCommandId :: jsstring
  loginProviderInstanceId :: jsstring
  loginMode :: LoginMode

definition parseProviderLoginStartInput :: "jsval \<Rightarrow> ProviderLoginStartInput res" where
  "parseProviderLoginStartInput = sized (\<lambda>v.
     ebind (strictRecord v dollar
       [''commandId'', ''providerInstanceId'', ''mode''] []) (\<lambda>r.
     ebind (parseIdentifier (fld r ''commandId'') (dot dollar ''commandId'')) (\<lambda>commandId.
     ebind (parseIdentifier (fld r ''providerInstanceId'')
       (dot dollar ''providerInstanceId'')) (\<lambda>providerInstanceId.
     ebind (oneOf loginModeName [LoginDeviceCode, LoginBrowser] (fld r ''mode'')
       (dot dollar ''mode'')) (\<lambda>mode.
     Inr \<lparr>loginCommandId = commandId, loginProviderInstanceId = providerInstanceId,
          loginMode = mode\<rparr>)))))"

definition encodeLoginStart :: "ProviderLoginStartInput \<Rightarrow> jsval" where
  "encodeLoginStart c = objectOf
     [(''commandId'', Some (JString (loginCommandId c))),
      (''providerInstanceId'', Some (JString (loginProviderInstanceId c))),
      (''mode'', Some (nameVal loginModeName (loginMode c)))]"

interpretation parseProviderLoginStartInput:
  contract_command parseProviderLoginStartInput encodeLoginStart
  unfolding parseProviderLoginStartInput_def
  by (rule command_by_members)
    (auto simp: encodeLoginStart_def intro!: blame_intros dest!: reparse_dests)

record ProviderLogoutInput =
  logoutCommandId :: jsstring
  logoutProviderInstanceId :: jsstring

definition parseProviderLogoutInput :: "jsval \<Rightarrow> ProviderLogoutInput res" where
  "parseProviderLogoutInput = sized (\<lambda>v.
     ebind (strictRecord v dollar
       [''commandId'', ''providerInstanceId''] []) (\<lambda>r.
     ebind (parseIdentifier (fld r ''commandId'') (dot dollar ''commandId'')) (\<lambda>commandId.
     ebind (parseIdentifier (fld r ''providerInstanceId'')
       (dot dollar ''providerInstanceId'')) (\<lambda>providerInstanceId.
     Inr \<lparr>logoutCommandId = commandId, logoutProviderInstanceId = providerInstanceId\<rparr>))))"

definition encodeLogout :: "ProviderLogoutInput \<Rightarrow> jsval" where
  "encodeLogout c = objectOf
     [(''commandId'', Some (JString (logoutCommandId c))),
      (''providerInstanceId'', Some (JString (logoutProviderInstanceId c)))]"

interpretation parseProviderLogoutInput: contract_command parseProviderLogoutInput encodeLogout
  unfolding parseProviderLogoutInput_def
  by (rule command_by_members)
    (auto simp: encodeLogout_def intro!: blame_intros dest!: reparse_dests)

subsection \<open>Discovery\<close>

record DiscoverProviderSessionsInput =
  discoverProviderInstanceId :: jsstring
  discoverCwd :: "jsstring option"
  discoverLimit :: "nat option"
  discoverCursor :: "jsstring option"

definition parseDiscoverProviderSessionsInput :: "jsval \<Rightarrow> DiscoverProviderSessionsInput res" where
  "parseDiscoverProviderSessionsInput = sized (\<lambda>v.
     ebind (strictRecord v dollar [''providerInstanceId'', ''cwd'', ''limit'', ''cursor'']
       [''cwd'', ''limit'', ''cursor'']) (\<lambda>r.
     ebind (optionally nonnegativeInteger (fld r ''limit'') (dot dollar ''limit'')) (\<lambda>limit.
     if (case limit of None \<Rightarrow> False | Some n \<Rightarrow> n < 1 \<or> 200 < n)
     then fail (dot dollar ''limit'') (js ''must be between 1 and 200'') else
     ebind (parseIdentifier (fld r ''providerInstanceId'')
       (dot dollar ''providerInstanceId'')) (\<lambda>i.
     ebind (optionally (boundedString (32 * 1024)) (fld r ''cwd'')
       (dot dollar ''cwd'')) (\<lambda>cwd.
     ebind (optionally (boundedString (16 * 1024)) (fld r ''cursor'')
       (dot dollar ''cursor'')) (\<lambda>cursor.
     Inr \<lparr>discoverProviderInstanceId = i, discoverCwd = cwd, discoverLimit = limit,
          discoverCursor = cursor\<rparr>))))))"

definition encodeDiscover :: "DiscoverProviderSessionsInput \<Rightarrow> jsval" where
  "encodeDiscover c = objectOf
     [(''providerInstanceId'', Some (JString (discoverProviderInstanceId c))),
      (''cwd'', map_option JString (discoverCwd c)),
      (''limit'', map_option natVal (discoverLimit c)),
      (''cursor'', map_option JString (discoverCursor c))]"

interpretation parseDiscoverProviderSessionsInput:
  contract_command parseDiscoverProviderSessionsInput encodeDiscover
  unfolding parseDiscoverProviderSessionsInput_def
  by (rule command_by_members)
    (auto simp: encodeDiscover_def intro!: blame_intros dest!: reparse_dests)

lemma parseDiscoverProviderSessionsInput_limit:
  "parseDiscoverProviderSessionsInput v = Inr c \<Longrightarrow> discoverLimit c = Some n \<Longrightarrow> 1 \<le> n \<and> n \<le> 200"
  by (auto simp: parseDiscoverProviderSessionsInput_def sized_eq_Inr)

end
