(* ===== verification/ContractSession.thy ===== *)
theory ContractSession
  imports ContractCommands
begin

text \<open>
  Opening a provider session: \<^verbatim>\<open>parseOpenProviderSessionInput\<close>, \<^verbatim>\<open>parseNativeTurnBinding\<close>,
  \<^verbatim>\<open>parseNativeChildCanonicalBlock\<close> and \<^verbatim>\<open>parseFederationSession\<close> of
  extensions/agent/shared/provider-runtime.ts.  The input restores the identities of turns and of
  native children; the reader checks that the children form a graph whose every chain of parents
  ends at the opened execution.

  \<^verbatim>\<open>new URL(endpoint)\<close> is platform code: the parameter \<open>url\<close> gives the protocol of an absolute
  URL, or \<open>None\<close> where the constructor throws.
\<close>

subsection \<open>Federation and turn bindings\<close>

record FederationSessionConfig =
  fedEndpoint :: jsstring
  fedAuthorizationHeader :: jsstring

definition httpEndpoint :: "(jsstring \<Rightarrow> jsstring option) \<Rightarrow> jsstring \<Rightarrow> jsstring \<Rightarrow> unit res" where
  "httpEndpoint url endpoint path =
     (case url endpoint of
        None \<Rightarrow> fail path (js ''must be an absolute HTTP URL'')
      | Some protocol \<Rightarrow>
          if protocol \<noteq> js ''http:'' \<and> protocol \<noteq> js ''https:''
          then fail path (js ''must use HTTP or HTTPS'')
          else Inr ())"

definition parseFederationSession ::
  "(jsstring \<Rightarrow> jsstring option) \<Rightarrow> jsval \<Rightarrow> jsstring \<Rightarrow> FederationSessionConfig res" where
  "parseFederationSession url v path =
     ebind (strictRecord v path [''endpoint'', ''authorizationHeader''] []) (\<lambda>r.
     ebind (boundedString (8 * 1024) (fld r ''endpoint'') (dot path ''endpoint'')) (\<lambda>endpoint.
     ebind (httpEndpoint url endpoint (dot path ''endpoint'')) (\<lambda>_.
     ebind (boundedString (16 * 1024) (fld r ''authorizationHeader'')
       (dot path ''authorizationHeader'')) (\<lambda>header.
     if \<not> starts_with (js ''Bearer '') header \<or> utf16_length header \<le> 7
     then fail (dot path ''authorizationHeader'') (js ''must be a bearer credential'')
     else Inr \<lparr>fedEndpoint = endpoint, fedAuthorizationHeader = header\<rparr>))))"

definition encodeFederationSession :: "FederationSessionConfig \<Rightarrow> jsval" where
  "encodeFederationSession f = objectOf
     [(''endpoint'', Some (JString (fedEndpoint f))),
      (''authorizationHeader'', Some (JString (fedAuthorizationHeader f)))]"

lemma httpEndpoint_iff [simp]:
  "httpEndpoint url s p = Inr u \<longleftrightarrow> url s \<in> {Some (js ''http:''), Some (js ''https:'')}"
  by (auto simp: httpEndpoint_def split: option.splits)

lemma blames_httpEndpoint [blame_intros]: "prefix q p \<Longrightarrow> blames q (httpEndpoint url s p)"
  by (auto simp: httpEndpoint_def split: option.split intro!: blame_intros)

interpretation parseFederationSession:
  contract_codec "parseFederationSession url" encodeFederationSession
  by unfold_locales
    (auto simp: parseFederationSession_def encodeFederationSession_def intro!: blame_intros
       dest!: reparse_dests)

record NativeTurnBinding =
  bindTurnId :: jsstring
  bindNativeTurnId :: jsstring
  bindNextBlockOrdinal :: "nat option"
  bindBranchCursor :: "jsval option"

definition turnBindingKeys :: "string list" where
  "turnBindingKeys = [''turnId'', ''nativeTurnId'', ''nextBlockOrdinal'', ''branchCursor'']"

text \<open>
  The returned object; the two identities are read first.
\<close>

definition turnBindingOf ::
  "jsrecord \<Rightarrow> jsstring \<Rightarrow> jsstring \<Rightarrow> jsstring \<Rightarrow> NativeTurnBinding res" where
  "turnBindingOf r path turn native =
     ebind (optionally nonnegativeInteger (fld r ''nextBlockOrdinal'')
       (dot path ''nextBlockOrdinal'')) (\<lambda>ordinal.
     ebind (optionally jsonRoot (fld r ''branchCursor'') (dot path ''branchCursor'')) (\<lambda>cursor.
     Inr \<lparr>bindTurnId = turn, bindNativeTurnId = native,
          bindNextBlockOrdinal = ordinal, bindBranchCursor = cursor\<rparr>))"

definition parseNativeTurnBinding :: "jsval \<Rightarrow> jsstring \<Rightarrow> NativeTurnBinding res" where
  "parseNativeTurnBinding v path =
     ebind (strictRecord v path turnBindingKeys [''nextBlockOrdinal'', ''branchCursor'']) (\<lambda>r.
     ebind (parseIdentifier (fld r ''turnId'') (dot path ''turnId'')) (\<lambda>turnId.
     ebind (parseIdentifier (fld r ''nativeTurnId'') (dot path ''nativeTurnId'')) (\<lambda>nativeTurnId.
     turnBindingOf r path turnId nativeTurnId)))"

definition encodeNativeTurnBinding :: "NativeTurnBinding \<Rightarrow> jsval" where
  "encodeNativeTurnBinding b = objectOf
     [(''turnId'', Some (JString (bindTurnId b))),
      (''nativeTurnId'', Some (JString (bindNativeTurnId b))),
      (''nextBlockOrdinal'', map_option natVal (bindNextBlockOrdinal b)),
      (''branchCursor'', map_option id (bindBranchCursor b))]"

interpretation parseNativeTurnBinding: contract_codec parseNativeTurnBinding encodeNativeTurnBinding
  by unfold_locales
    (auto simp: parseNativeTurnBinding_def turnBindingOf_def turnBindingKeys_def
       encodeNativeTurnBinding_def intro!: blame_intros dest!: reparse_dests)

text \<open>
  The session's own bindings: the identities seen so far are checked before the optional members
  of the entry are read.
\<close>

fun sessionTurnBindings ::
  "nat \<Rightarrow> jsstring list \<Rightarrow> jsstring list \<Rightarrow> jsval list \<Rightarrow> NativeTurnBinding list res" where
  "sessionTurnBindings i seenTurnIds seenNativeTurnIds [] = Inr []"
| "sessionTurnBindings i seenTurnIds seenNativeTurnIds (v # vs) =
     (let path = idx (dot dollar ''nativeTurnBindings'') i in
      ebind (strictRecord v path turnBindingKeys [''nextBlockOrdinal'', ''branchCursor'']) (\<lambda>r.
      ebind (parseIdentifier (fld r ''turnId'') (dot path ''turnId'')) (\<lambda>turnId.
      ebind (parseIdentifier (fld r ''nativeTurnId'') (dot path ''nativeTurnId'')) (\<lambda>nativeTurnId.
      if turnId \<in> set seenTurnIds \<or> nativeTurnId \<in> set seenNativeTurnIds
      then fail path (js ''must not duplicate either turn identity'') else
      ebind (turnBindingOf r path turnId nativeTurnId) (\<lambda>b.
      ebind (sessionTurnBindings (Suc i) (turnId # seenTurnIds) (nativeTurnId # seenNativeTurnIds) vs)
        (\<lambda>bs. Inr (b # bs)))))))"

lemma turnBindingOf_ids:
  "turnBindingOf r p t n = Inr b \<Longrightarrow> bindTurnId b = t \<and> bindNativeTurnId b = n"
  by (auto simp: turnBindingOf_def)

lemma sessionTurnBindings_distinct:
  "sessionTurnBindings i ts ns vs = Inr bs \<Longrightarrow>
     distinct (map bindTurnId bs) \<and> set (map bindTurnId bs) \<inter> set ts = {} \<and>
     distinct (map bindNativeTurnId bs) \<and> set (map bindNativeTurnId bs) \<inter> set ns = {} \<and>
     length bs = length vs"
proof (induction vs arbitrary: i ts ns bs)
  case (Cons v vs)
  from Cons.prems obtain t n b bs' where t: "t \<notin> set ts" "n \<notin> set ns"
    and b: "bindTurnId b = t" "bindNativeTurnId b = n"
    and rest: "sessionTurnBindings (Suc i) (t # ts) (n # ns) vs = Inr bs'" and bs: "bs = b # bs'"
    by (auto simp: Let_def split: if_splits dest: turnBindingOf_ids)
  from Cons.IH [OF rest] t show ?case
    by (auto simp: b bs)
qed simp

lemma blames_turnBindingOf [blame_intros]:
  "prefix q p \<Longrightarrow> blames q (turnBindingOf r p t n)"
  unfolding turnBindingOf_def by (intro blame_intros) simp_all

lemma blames_sessionTurnBindings [blame_intros]: "blames dollar (sessionTurnBindings i ts ns vs)"
  by (induction i ts ns vs rule: sessionTurnBindings.induct) (auto simp: Let_def intro!: blame_intros)

subsection \<open>Native children\<close>

record CanonicalBlock =
  canonicalStructure :: TurnStructure
  canonicalRevision :: nat
  canonicalSnapshot :: TurnBlockSnapshot

definition parseNativeChildCanonicalBlock :: "jsval \<Rightarrow> jsstring \<Rightarrow> CanonicalBlock res" where
  "parseNativeChildCanonicalBlock v path =
     ebind (strictRecord v path [''structure'', ''revision'', ''block''] []) (\<lambda>r.
     ebind (parseTurnStructure (fld r ''structure'') (dot path ''structure'')) (\<lambda>structure.
     ebind (nonnegativeInteger (fld r ''revision'') (dot path ''revision'')) (\<lambda>revision.
     ebind (parseTurnBlockSnapshot currentVersion (fld r ''block'') (dot path ''block'')) (\<lambda>block.
     Inr \<lparr>canonicalStructure = structure, canonicalRevision = revision,
          canonicalSnapshot = block\<rparr>))))"

record NativeChildBinding =
  childThreadId :: jsstring
  childBindExecutionId :: jsstring
  childParentExecutionId :: jsstring
  childParentThreadId :: jsstring
  ownerTurnId :: jsstring
  ownerNativeTurnId :: jsstring
  activeNativeTurnId :: "jsstring option"
  childTurnBindings :: "NativeTurnBinding list option"
  terminalNativeTurnIds :: "jsstring list option"
  childCanonicalBlock :: "CanonicalBlock option"
  childBindOutcome :: "ProviderTurnOutcome option"

text \<open>The members after \<^verbatim>\<open>nativeThreadId\<close>, which is read and compared first.\<close>

definition childBindingOf :: "jsrecord \<Rightarrow> jsstring \<Rightarrow> jsstring \<Rightarrow> NativeChildBinding res" where
  "childBindingOf r path thread =
     ebind (parseIdentifier (fld r ''executionId'') (dot path ''executionId'')) (\<lambda>e.
     ebind (parseIdentifier (fld r ''parentExecutionId'') (dot path ''parentExecutionId'')) (\<lambda>pe.
     ebind (parseIdentifier (fld r ''nativeParentThreadId'') (dot path ''nativeParentThreadId'')) (\<lambda>pt.
     ebind (parseIdentifier (fld r ''ownerTurnId'') (dot path ''ownerTurnId'')) (\<lambda>ot.
     ebind (parseIdentifier (fld r ''ownerNativeTurnId'') (dot path ''ownerNativeTurnId'')) (\<lambda>ont.
     ebind (optionally parseIdentifier (fld r ''activeNativeTurnId'')
       (dot path ''activeNativeTurnId'')) (\<lambda>active.
     ebind (optionally (\<lambda>v p. ebind (array v p) (\<lambda>vs. elements parseNativeTurnBinding vs p))
       (fld r ''nativeTurnBindings'') (dot path ''nativeTurnBindings'')) (\<lambda>bindings.
     ebind (optionally (\<lambda>v p. ebind (array v p) (\<lambda>vs. elements parseIdentifier vs p))
       (fld r ''terminalNativeTurnIds'') (dot path ''terminalNativeTurnIds'')) (\<lambda>terminal.
     ebind (optionally parseNativeChildCanonicalBlock (fld r ''canonicalBlock'')
       (dot path ''canonicalBlock'')) (\<lambda>canonical.
     ebind (optionally turnOutcome (fld r ''outcome'') (dot path ''outcome'')) (\<lambda>outcome.
     Inr \<lparr>childThreadId = thread, childBindExecutionId = e, childParentExecutionId = pe,
          childParentThreadId = pt, ownerTurnId = ot, ownerNativeTurnId = ont,
          activeNativeTurnId = active, childTurnBindings = bindings,
          terminalNativeTurnIds = terminal, childCanonicalBlock = canonical,
          childBindOutcome = outcome\<rparr>))))))))))"

fun sessionChildBindings ::
  "nat \<Rightarrow> jsstring list \<Rightarrow> jsval list \<Rightarrow> NativeChildBinding list res" where
  "sessionChildBindings i seenChildThreads [] = Inr []"
| "sessionChildBindings i seenChildThreads (v # vs) =
     (let path = idx (dot dollar ''nativeChildBindings'') i in
      ebind (strictRecord v path
        [''nativeThreadId'', ''executionId'', ''parentExecutionId'', ''nativeParentThreadId'',
         ''ownerTurnId'', ''ownerNativeTurnId'', ''activeNativeTurnId'', ''outcome'',
         ''nativeTurnBindings'', ''terminalNativeTurnIds'', ''canonicalBlock'']
        [''activeNativeTurnId'', ''outcome'', ''nativeTurnBindings'', ''terminalNativeTurnIds'',
         ''canonicalBlock'']) (\<lambda>r.
      ebind (parseIdentifier (fld r ''nativeThreadId'') (dot path ''nativeThreadId'')) (\<lambda>thread.
      if thread \<in> set seenChildThreads
      then fail path (js ''must not duplicate native child thread identity'') else
      ebind (childBindingOf r path thread) (\<lambda>b.
      ebind (sessionChildBindings (Suc i) (thread # seenChildThreads) vs) (\<lambda>bs. Inr (b # bs))))))"

definition childError :: "string \<Rightarrow> 'a res" where
  "childError message = fail (dot dollar ''nativeChildBindings'') (js message)"

text \<open>The first loop over the children: what each binding says of itself.\<close>

definition childTurns :: "NativeChildBinding \<Rightarrow> NativeTurnBinding list" where
  "childTurns b = or_else (childTurnBindings b) []"

fun checkChildren :: "jsstring \<Rightarrow> jsstring list \<Rightarrow> NativeChildBinding list \<Rightarrow> unit res" where
  "checkChildren self seen [] = Inr ()"
| "checkChildren self seen (b # bs) =
     (if childBindExecutionId b = self \<or> childBindExecutionId b \<in> set seen
      then childError ''must contain distinct non-self child executions''
      else if \<not> distinct (or_else (terminalNativeTurnIds b) [])
      then childError ''terminal native turn identities must be unique''
      else if \<not> distinct (map bindTurnId (childTurns b)) \<or>
              \<not> distinct (map bindNativeTurnId (childTurns b))
      then childError ''child turn bindings must have unique identities''
      else if activeNativeTurnId b \<noteq> None \<and>
              activeNativeTurnId b \<notin> set (map (Some \<circ> bindNativeTurnId) (childTurns b))
      then childError ''active child turn must have a durable binding''
      else if activeNativeTurnId b \<noteq> None \<and>
              activeNativeTurnId b \<in> set (map Some (or_else (terminalNativeTurnIds b) []))
      then childError ''active child turn must not be terminal''
      else checkChildren self (childBindExecutionId b # seen) bs)"

text \<open>
  \<^verbatim>\<open>while (parent !== executionId)\<close>: the walk up the recorded parents.  Every step marks an
  execution that is recorded and was not visited, so there are at most as many steps as children.
\<close>

definition parentOf :: "NativeChildBinding list \<Rightarrow> jsstring \<Rightarrow> jsstring option" where
  "parentOf bs = map_of (map (\<lambda>b. (childBindExecutionId b, childParentExecutionId b)) bs)"

lemma dom_parentOf: "dom (parentOf bs) = childBindExecutionId ` set bs"
  by (auto simp: parentOf_def dom_map_of_conv_image_fst image_comp)

function walkParents ::
  "NativeChildBinding list \<Rightarrow> jsstring \<Rightarrow> jsstring list \<Rightarrow> jsstring \<Rightarrow> unit res" where
  "walkParents bs self visited parent =
     (if parent = self then Inr ()
      else if parent \<in> set visited then childError ''must not contain cycles''
      else case parentOf bs parent of
        None \<Rightarrow> childError ''must have reachable parents''
      | Some ancestor \<Rightarrow> walkParents bs self (parent # visited) ancestor)"
  by pat_completeness auto

termination
proof (relation "measure (\<lambda>(bs, self, visited, parent). card (dom (parentOf bs) - set visited))")
  fix bs :: "NativeChildBinding list" and self visited parent ancestor
  assume "parent \<notin> set visited" "parentOf bs parent = Some ancestor"
  then have "dom (parentOf bs) - set (parent # visited) \<subset> dom (parentOf bs) - set visited"
    by auto
  then show "((bs, self, parent # visited, ancestor), bs, self, visited, parent) \<in>
      measure (\<lambda>(bs, self, visited, parent). card (dom (parentOf bs) - set visited))"
    by (simp add: dom_parentOf psubset_card_mono)
qed simp

declare walkParents.simps [simp del]

text \<open>The second loop: the parent graph.\<close>

definition childByExecution :: "NativeChildBinding list \<Rightarrow> jsstring \<Rightarrow> NativeChildBinding option" where
  "childByExecution bs = map_of (map (\<lambda>b. (childBindExecutionId b, b)) bs)"

definition canonical_describes :: "NativeChildBinding \<Rightarrow> TurnBlockSnapshot \<Rightarrow> bool" where
  "canonical_describes b s =
     (blockKind s = NativeChildKind \<and>
      (case blockPayload s of
         NativeChildBlock c \<Rightarrow>
           childExecutionId (payloadChild c) = childBindExecutionId b \<and>
           childOwnership (payloadChild c) = NativeOwned \<and>
           childNativeSessionId (payloadChild c) = Some (childThreadId b)
       | _ \<Rightarrow> False))"

definition checkParents ::
  "jsstring \<Rightarrow> jsstring option \<Rightarrow> NativeTurnBinding list \<Rightarrow> NativeChildBinding list \<Rightarrow>
   NativeChildBinding \<Rightarrow> unit res" where
  "checkParents self sessionId turnBindings bs b =
     (let parent = childParentExecutionId b;
          expectedThread =
            (if parent = self then sessionId
             else map_option childThreadId (childByExecution bs parent));
          ownerTurns =
            (if parent = self then turnBindings
             else (case childByExecution bs parent of None \<Rightarrow> [] | Some p \<Rightarrow> childTurns p))
      in
      if expectedThread \<noteq> Some (childParentThreadId b)
      then childError ''must form a verified native parent graph''
      else if \<not> list_ex (\<lambda>t. bindTurnId t = ownerTurnId b \<and> bindNativeTurnId t = ownerNativeTurnId b)
                ownerTurns
      then childError ''owner turn must belong to the recorded parent execution''
      else if (case childCanonicalBlock b of
                 None \<Rightarrow> False | Some c \<Rightarrow> \<not> canonical_describes b (canonicalSnapshot c))
      then childError ''canonical block must describe the bound native child''
      else walkParents bs self [childBindExecutionId b] parent)"

fun checkGraph ::
  "jsstring \<Rightarrow> jsstring option \<Rightarrow> NativeTurnBinding list \<Rightarrow> NativeChildBinding list \<Rightarrow>
   NativeChildBinding list \<Rightarrow> unit res" where
  "checkGraph self sessionId turnBindings bs [] = Inr ()"
| "checkGraph self sessionId turnBindings bs (b # rest) =
     ebind (checkParents self sessionId turnBindings bs b)
       (\<lambda>_. checkGraph self sessionId turnBindings bs rest)"

lemma blames_childError [blame_intros]: "blames dollar (childError m)"
  unfolding childError_def by (intro blame_intros) simp

lemma childError_not_Inr [simp]: "childError m \<noteq> Inr x"
  by (simp add: childError_def)

interpretation parseNativeChildCanonicalBlock: contract_reader parseNativeChildCanonicalBlock
  by unfold_locales (unfold parseNativeChildCanonicalBlock_def, intro blame_intros; simp)

lemma blames_array_of [blame_intros]:
  assumes "\<And>v p q. prefix q p \<Longrightarrow> blames q (elements parse v p)" "prefix q p"
  shows "blames q (optionally (\<lambda>v p. ebind (array v p) (\<lambda>vs. elements parse vs p)) v p)"
  unfolding optionally_def by (intro blame_intros assms)

lemma blames_childBindingOf [blame_intros]: "prefix q p \<Longrightarrow> blames q (childBindingOf r p t)"
  unfolding childBindingOf_def by (intro blame_intros) simp_all

lemma blames_sessionChildBindings [blame_intros]: "blames dollar (sessionChildBindings i ts vs)"
  by (induction i ts vs rule: sessionChildBindings.induct) (auto simp: Let_def intro!: blame_intros)

lemma blames_checkChildren [blame_intros]: "blames dollar (checkChildren self seen bs)"
  by (induction self seen bs rule: checkChildren.induct) (auto intro!: blame_intros)

lemma blames_walkParents [blame_intros]: "blames dollar (walkParents bs self visited parent)"
proof (induction bs self visited parent rule: walkParents.induct)
  case (1 bs self visited parent)
  then show ?case
    by (subst walkParents.simps) (auto split: option.split intro!: blame_intros)
qed

lemma blames_checkParents [blame_intros]: "blames dollar (checkParents self i ts bs b)"
  unfolding checkParents_def Let_def by (intro blame_intros)

lemma blames_checkGraph [blame_intros]: "blames dollar (checkGraph self i ts bs rest)"
  by (induction self i ts bs rest rule: checkGraph.induct) (auto intro!: blame_intros)

subsection \<open>The walk decides whether the opened execution is reached\<close>

inductive reaches :: "NativeChildBinding list \<Rightarrow> jsstring \<Rightarrow> jsstring \<Rightarrow> bool"
  for bs :: "NativeChildBinding list" and self :: jsstring where
  reaches_self: "reaches bs self self"
| reaches_parent: "parentOf bs e = Some p \<Longrightarrow> reaches bs self p \<Longrightarrow> reaches bs self e"

inductive_cases reachesE: "reaches bs self e"

fun depth :: "NativeChildBinding list \<Rightarrow> jsstring \<Rightarrow> nat \<Rightarrow> jsstring \<Rightarrow> bool" where
  "depth bs self 0 e = (e = self)"
| "depth bs self (Suc n) e =
     (e \<noteq> self \<and> (case parentOf bs e of None \<Rightarrow> False | Some p \<Rightarrow> depth bs self n p))"

lemma depth_unique: "depth bs self n e \<Longrightarrow> depth bs self m e \<Longrightarrow> m = n"
proof (induction n arbitrary: e m)
  case 0
  then show ?case by (cases m) simp_all
next
  case (Suc n)
  then show ?case by (cases m) (auto split: option.splits)
qed

lemma reaches_depth: "reaches bs self e \<Longrightarrow> \<exists>n. depth bs self n e"
proof (induction rule: reaches.induct)
  case reaches_self
  show ?case by (rule exI [of _ 0]) simp
next
  case (reaches_parent e p)
  then obtain n where "depth bs self n p" by blast
  with reaches_parent.hyps show ?case
    by (cases "e = self") (auto intro: exI [of _ 0] exI [of _ "Suc n"])
qed

lemma walkParents_sound: "walkParents bs self visited p = Inr u \<Longrightarrow> reaches bs self p"
proof (induction bs self visited p rule: walkParents.induct)
  case (1 bs self visited p)
  from "1.prems" have "p = self \<or> (p \<notin> set visited \<and> (\<exists>a. parentOf bs p = Some a \<and>
      walkParents bs self (p # visited) a = Inr u))"
    by (subst (asm) walkParents.simps) (auto split: if_splits option.splits)
  with "1.IH" show ?case
    by (cases "p = self") (auto intro: reaches.intros)
qed

lemma walkParents_complete:
  "depth bs self n p \<Longrightarrow> \<forall>v\<in>set visited. \<exists>m>n. depth bs self m v \<Longrightarrow>
   walkParents bs self visited p = Inr ()"
proof (induction n arbitrary: p visited)
  case 0
  then show ?case by (simp add: walkParents.simps)
next
  case (Suc n)
  then obtain a where a: "p \<noteq> self" "parentOf bs p = Some a" "depth bs self n a"
    by (auto split: option.splits)
  have "p \<notin> set visited"
    using Suc.prems depth_unique by blast
  moreover have "\<forall>v\<in>set visited. \<exists>m>n. depth bs self m v"
    using Suc.prems(2) Suc_lessD by blast
  then have "\<forall>v\<in>set (p # visited). \<exists>m>n. depth bs self m v"
    using Suc.prems(1) by (metis lessI set_ConsD)
  ultimately show ?case
    using Suc.IH [OF a(3)] a by (subst walkParents.simps) simp
qed

lemma walkParents_iff:
  assumes "e \<noteq> self" "parentOf bs e = Some p"
  shows "walkParents bs self [e] p = Inr () \<longleftrightarrow> reaches bs self e"
proof
  show "walkParents bs self [e] p = Inr () \<Longrightarrow> reaches bs self e"
    using assms by (auto dest: walkParents_sound intro: reaches_parent)
  assume "reaches bs self e"
  then have "reaches bs self p"
    using assms by (auto elim: reachesE)
  then obtain n where n: "depth bs self n p"
    using reaches_depth by blast
  then have "depth bs self (Suc n) e"
    using assms by simp
  with n show "walkParents bs self [e] p = Inr ()"
    by (intro walkParents_complete) auto
qed

subsection \<open>What the two loops establish\<close>

definition child_ok :: "jsstring \<Rightarrow> NativeChildBinding \<Rightarrow> bool" where
  "child_ok self b =
     (childBindExecutionId b \<noteq> self \<and>
      distinct (or_else (terminalNativeTurnIds b) []) \<and>
      distinct (map bindTurnId (childTurns b)) \<and> distinct (map bindNativeTurnId (childTurns b)) \<and>
      (\<forall>t. activeNativeTurnId b = Some t \<longrightarrow>
         t \<in> set (map bindNativeTurnId (childTurns b)) \<and>
         t \<notin> set (or_else (terminalNativeTurnIds b) [])))"

lemma checkChildren_iff:
  "checkChildren self seen bs = Inr () \<longleftrightarrow>
     list_all (child_ok self) bs \<and> distinct (map childBindExecutionId bs) \<and>
     set (map childBindExecutionId bs) \<inter> set seen = {}"
  by (induction self seen bs rule: checkChildren.induct) (auto simp: child_ok_def)

lemma childBindingOf_thread: "childBindingOf r p t = Inr b \<Longrightarrow> childThreadId b = t"
  by (auto simp: childBindingOf_def)

lemma sessionChildBindings_distinct:
  "sessionChildBindings i ts vs = Inr bs \<Longrightarrow>
     distinct (map childThreadId bs) \<and> set (map childThreadId bs) \<inter> set ts = {}"
proof (induction vs arbitrary: i ts bs)
  case (Cons v vs)
  then obtain t b bs' where t: "t \<notin> set ts" "childThreadId b = t"
    and rest: "sessionChildBindings (Suc i) (t # ts) vs = Inr bs'" and bs: "bs = b # bs'"
    by (auto simp: Let_def split: if_splits dest: childBindingOf_thread)
  from Cons.IH [OF rest] t show ?case
    by (auto simp: bs)
qed simp

lemma checkGraph_iff:
  "checkGraph self i ts bs rest = Inr () \<longleftrightarrow>
     list_all (\<lambda>b. checkParents self i ts bs b = Inr ()) rest"
  by (induction self i ts bs rest rule: checkGraph.induct) auto

lemma parentOf_member:
  "distinct (map childBindExecutionId bs) \<Longrightarrow> b \<in> set bs \<Longrightarrow>
     parentOf bs (childBindExecutionId b) = Some (childParentExecutionId b)"
  by (auto simp: parentOf_def comp_def intro!: map_of_is_SomeI)

lemma childByExecution_iff:
  "distinct (map childBindExecutionId bs) \<Longrightarrow>
     childByExecution bs e = Some p \<longleftrightarrow> p \<in> set bs \<and> childBindExecutionId p = e"
  by (auto simp: childByExecution_def comp_def dest: map_of_SomeD intro!: map_of_is_SomeI)

text \<open>
  A child's parent is the opened execution, whose session and turns it names, or another child,
  whose thread and turns it names; and the opened execution is above it.
\<close>

definition edge_ok ::
  "jsstring \<Rightarrow> jsstring option \<Rightarrow> NativeTurnBinding list \<Rightarrow> NativeChildBinding list \<Rightarrow>
   NativeChildBinding \<Rightarrow> bool" where
  "edge_ok self sessionId ts bs b =
     ((if childParentExecutionId b = self
       then sessionId = Some (childParentThreadId b) \<and>
         (\<exists>t\<in>set ts. bindTurnId t = ownerTurnId b \<and> bindNativeTurnId t = ownerNativeTurnId b)
       else \<exists>p\<in>set bs. childBindExecutionId p = childParentExecutionId b \<and>
         childThreadId p = childParentThreadId b \<and>
         (\<exists>t\<in>set (childTurns p). bindTurnId t = ownerTurnId b \<and> bindNativeTurnId t = ownerNativeTurnId b)) \<and>
      (\<forall>c. childCanonicalBlock b = Some c \<longrightarrow> canonical_describes b (canonicalSnapshot c)) \<and>
      reaches bs self (childBindExecutionId b))"

lemma checkParents_iff:
  assumes "distinct (map childBindExecutionId bs)" "b \<in> set bs" "childBindExecutionId b \<noteq> self"
  shows "checkParents self i ts bs b = Inr () \<longleftrightarrow> edge_ok self i ts bs b"
proof -
  have walk: "walkParents bs self [childBindExecutionId b] (childParentExecutionId b) = Inr () \<longleftrightarrow>
      reaches bs self (childBindExecutionId b)"
    using assms walkParents_iff parentOf_member by blast
  have parent: "childByExecution bs e = Some p \<longleftrightarrow> p \<in> set bs \<and> childBindExecutionId p = e" for e p
    by (rule childByExecution_iff [OF assms(1)])
  show ?thesis
  proof (cases "childParentExecutionId b = self")
    case True
    then show ?thesis
      using walk [unfolded True]
      by (simp add: checkParents_def edge_ok_def Let_def list_ex_iff split: option.split)
  next
    case False
    show ?thesis
    proof (cases "childByExecution bs (childParentExecutionId b)")
      case None
      then have "\<nexists>p. p \<in> set bs \<and> childBindExecutionId p = childParentExecutionId b"
        using parent by (metis option.distinct(1))
      with False None show ?thesis
        by (auto simp: checkParents_def edge_ok_def Let_def)
    next
      case (Some p)
      then have "\<And>p'. p' \<in> set bs \<and> childBindExecutionId p' = childParentExecutionId b \<longleftrightarrow> p' = p"
        using parent by (metis option.inject)
      then have "(\<exists>p'\<in>set bs. childBindExecutionId p' = childParentExecutionId b \<and> P p') \<longleftrightarrow> P p" for P
        by metis
      with False Some show ?thesis
        by (simp add: checkParents_def edge_ok_def Let_def walk list_ex_iff split: option.split)
    qed
  qed
qed

text \<open>Together: exactly the well-formed child graphs pass.\<close>

lemma child_graph_iff:
  "checkChildren self [] bs = Inr () \<and> checkGraph self i ts bs bs = Inr () \<longleftrightarrow>
     list_all (child_ok self) bs \<and> distinct (map childBindExecutionId bs) \<and>
     list_all (edge_ok self i ts bs) bs"
  by (auto simp: checkChildren_iff checkGraph_iff list_all_iff child_ok_def checkParents_iff)

subsection \<open>The input\<close>

datatype OpenMode = CreateSession | ResumeSession | AttachSession

fun openModeName :: "OpenMode \<Rightarrow> string" where
  "openModeName CreateSession = ''create''"
| "openModeName ResumeSession = ''resume''"
| "openModeName AttachSession = ''attach''"

record OpenProviderSessionInput =
  openCommandId :: jsstring
  openProviderInstanceId :: jsstring
  openConversationId :: jsstring
  openExecutionId :: jsstring
  openMode :: OpenMode
  openNativeSession :: "NativeSessionRef option"
  openCwd :: jsstring
  openModel :: jsstring
  openEffort :: "jsstring option"
  openServiceTier :: "jsstring option"
  openAccess :: ProviderAccess
  openDeveloperInstructions :: "jsstring list"
  openFederation :: "FederationSessionConfig option"
  openTurnBindings :: "NativeTurnBinding list"
  openChildBindings :: "NativeChildBinding list"
  openInheritedTurnIds :: "jsstring list"
  openActiveTurn :: "NativeTurnBinding option"

text \<open>An absent array is the empty one; \<open>limit\<close> is \<open>None\<close> where the source sets none.\<close>

definition optionalArray :: "jsval \<Rightarrow> jsstring \<Rightarrow> jsval list res" where
  "optionalArray v path = (if v = JUndefined then Inr [] else array v path)"

definition limitEntries :: "nat \<Rightarrow> 'a list \<Rightarrow> jsstring \<Rightarrow> unit res" where
  "limitEntries n xs path =
     (if n < length xs then fail path (js ''contains too many entries'') else Inr ())"

definition checkOpenMode :: "OpenMode \<Rightarrow> NativeSessionRef option \<Rightarrow> unit res" where
  "checkOpenMode mode session =
     (if mode \<noteq> CreateSession \<and> session = None
      then fail (dot dollar ''nativeSession'') (js (openModeName mode) @ js '' requires a native session'')
      else if mode = CreateSession \<and> session \<noteq> None
      then fail (dot dollar ''nativeSession'') (js ''create cannot include a native session'')
      else Inr ())"

definition checkInstance :: "NativeSessionRef option \<Rightarrow> jsstring \<Rightarrow> unit res" where
  "checkInstance session inst =
     (if session \<noteq> None \<and> map_option refProviderInstanceId session \<noteq> Some inst
      then fail (dot (dot dollar ''nativeSession'') ''providerInstanceId'')
        (js ''must match the requested provider instance'')
      else Inr ())"

definition checkRestore :: "OpenMode \<Rightarrow> NativeChildBinding list \<Rightarrow> unit res" where
  "checkRestore mode children =
     (if mode = CreateSession \<and> children \<noteq> []
      then childError ''create cannot restore child bindings''
      else Inr ())"

definition checkInherited :: "jsstring list \<Rightarrow> NativeTurnBinding list \<Rightarrow> unit res" where
  "checkInherited inherited bindings =
     (if \<not> distinct inherited
      then fail (dot dollar ''inheritedNativeTurnIds'') (js ''must not contain duplicates'')
      else if set inherited \<inter> set (map bindNativeTurnId bindings) \<noteq> {}
      then fail (dot dollar ''inheritedNativeTurnIds'')
        (js ''must not overlap native turn bindings owned by this execution'')
      else Inr ())"

definition checkActive :: "OpenMode \<Rightarrow> NativeTurnBinding option \<Rightarrow> NativeTurnBinding list \<Rightarrow> unit res" where
  "checkActive mode active bindings =
     (case active of
        None \<Rightarrow> Inr ()
      | Some a \<Rightarrow>
          if mode = CreateSession
          then fail (dot dollar ''activeTurnBinding'') (js ''create cannot recover an active turn'')
          else if \<not> list_ex (\<lambda>b. bindTurnId b = bindTurnId a \<and> bindNativeTurnId b = bindNativeTurnId a)
                    bindings
          then fail (dot dollar ''activeTurnBinding'')
            (js ''must match a durable native turn binding when bindings are supplied'')
          else Inr ())"

definition parseOpenProviderSessionInput ::
  "(jsstring \<Rightarrow> jsstring option) \<Rightarrow> jsval \<Rightarrow> OpenProviderSessionInput res" where
  "parseOpenProviderSessionInput url = sized (\<lambda>v.
     ebind (strictRecord v dollar
       [''commandId'', ''providerInstanceId'', ''conversationId'', ''executionId'', ''mode'',
        ''nativeSession'', ''cwd'', ''model'', ''effort'', ''serviceTier'', ''access'',
        ''developerInstructions'', ''federation'', ''nativeTurnBindings'',
        ''inheritedNativeTurnIds'', ''activeTurnBinding'', ''nativeChildBindings'']
       [''nativeSession'', ''effort'', ''serviceTier'', ''federation'', ''nativeTurnBindings'',
        ''inheritedNativeTurnIds'', ''activeTurnBinding'', ''nativeChildBindings'']) (\<lambda>r.
     ebind (oneOf openModeName [CreateSession, ResumeSession, AttachSession]
       (fld r ''mode'') (dot dollar ''mode'')) (\<lambda>mode.
     ebind (optionally parseNativeSessionRef (fld r ''nativeSession'')
       (dot dollar ''nativeSession'')) (\<lambda>session.
     ebind (checkOpenMode mode session) (\<lambda>_.
     ebind (parseIdentifier (fld r ''providerInstanceId'') (dot dollar ''providerInstanceId'')) (\<lambda>inst.
     ebind (parseIdentifier (fld r ''executionId'') (dot dollar ''executionId'')) (\<lambda>self.
     ebind (checkInstance session inst) (\<lambda>_.
     ebind (array (fld r ''developerInstructions'') (dot dollar ''developerInstructions'')) (\<lambda>instructions.
     ebind (limitEntries 16 instructions (dot dollar ''developerInstructions'')) (\<lambda>_.
     ebind (optionally (parseFederationSession url) (fld r ''federation'')
       (dot dollar ''federation'')) (\<lambda>federation.
     ebind (optionalArray (fld r ''nativeTurnBindings'') (dot dollar ''nativeTurnBindings'')) (\<lambda>tvs.
     ebind (limitEntries snapshotEvents tvs (dot dollar ''nativeTurnBindings'')) (\<lambda>_.
     ebind (sessionTurnBindings 0 [] [] tvs) (\<lambda>bindings.
     ebind (optionally parseNativeTurnBinding (fld r ''activeTurnBinding'')
       (dot dollar ''activeTurnBinding'')) (\<lambda>active.
     ebind (optionalArray (fld r ''nativeChildBindings'') (dot dollar ''nativeChildBindings'')) (\<lambda>cvs.
     ebind (sessionChildBindings 0 [] cvs) (\<lambda>children.
     ebind (checkRestore mode children) (\<lambda>_.
     ebind (checkChildren self [] children) (\<lambda>_.
     ebind (checkGraph self (map_option refSessionId session) bindings children children) (\<lambda>_.
     ebind (optionalArray (fld r ''inheritedNativeTurnIds'') (dot dollar ''inheritedNativeTurnIds'')) (\<lambda>ivs.
     ebind (limitEntries snapshotEvents ivs (dot dollar ''inheritedNativeTurnIds'')) (\<lambda>_.
     ebind (elements parseIdentifier ivs (dot dollar ''inheritedNativeTurnIds'')) (\<lambda>inherited.
     ebind (checkInherited inherited bindings) (\<lambda>_.
     ebind (checkActive mode active bindings) (\<lambda>_.
     ebind (parseIdentifier (fld r ''commandId'') (dot dollar ''commandId'')) (\<lambda>command.
     ebind (parseIdentifier (fld r ''conversationId'') (dot dollar ''conversationId'')) (\<lambda>conversation.
     ebind (boundedString (32 * 1024) (fld r ''cwd'') (dot dollar ''cwd'')) (\<lambda>cwd.
     ebind (boundedString stringChars (fld r ''model'') (dot dollar ''model'')) (\<lambda>model.
     ebind (optionally (boundedString stringChars) (fld r ''effort'') (dot dollar ''effort'')) (\<lambda>effort.
     ebind (optionally (boundedString stringChars) (fld r ''serviceTier'')
       (dot dollar ''serviceTier'')) (\<lambda>tier.
     ebind (providerAccess (fld r ''access'') (dot dollar ''access'')) (\<lambda>access.
     ebind (elements (boundedString (32 * 1024)) instructions
       (dot dollar ''developerInstructions'')) (\<lambda>instrs.
     Inr \<lparr>openCommandId = command, openProviderInstanceId = inst, openConversationId = conversation,
          openExecutionId = self, openMode = mode, openNativeSession = session, openCwd = cwd,
          openModel = model, openEffort = effort, openServiceTier = tier, openAccess = access,
          openDeveloperInstructions = instrs, openFederation = federation,
          openTurnBindings = bindings, openChildBindings = children,
          openInheritedTurnIds = inherited,
          openActiveTurn = active\<rparr>)))))))))))))))))))))))))))))))))"

text \<open>What every accepted input satisfies.\<close>

definition open_session_ok :: "OpenProviderSessionInput \<Rightarrow> bool" where
  "open_session_ok c =
     ((openMode c = CreateSession \<longleftrightarrow> openNativeSession c = None) \<and>
      (openMode c = CreateSession \<longrightarrow> openChildBindings c = [] \<and> openActiveTurn c = None) \<and>
      (\<forall>s. openNativeSession c = Some s \<longrightarrow> refProviderInstanceId s = openProviderInstanceId c) \<and>
      distinct (map bindTurnId (openTurnBindings c)) \<and>
      distinct (map bindNativeTurnId (openTurnBindings c)) \<and>
      distinct (openInheritedTurnIds c) \<and>
      set (openInheritedTurnIds c) \<inter> set (map bindNativeTurnId (openTurnBindings c)) = {} \<and>
      (\<forall>a. openActiveTurn c = Some a \<longrightarrow>
         (bindTurnId a, bindNativeTurnId a) \<in>
           set (map (\<lambda>b. (bindTurnId b, bindNativeTurnId b)) (openTurnBindings c))) \<and>
      distinct (map childThreadId (openChildBindings c)) \<and>
      distinct (map childBindExecutionId (openChildBindings c)) \<and>
      list_all (child_ok (openExecutionId c)) (openChildBindings c) \<and>
      list_all (edge_ok (openExecutionId c) (map_option refSessionId (openNativeSession c))
        (openTurnBindings c) (openChildBindings c)) (openChildBindings c))"

lemma checks_iff:
  "limitEntries n xs p = Inr u \<longleftrightarrow> length xs \<le> n"
  "checkOpenMode mode session = Inr u \<longleftrightarrow> (mode = CreateSession \<longleftrightarrow> session = None)"
  "checkInstance session inst = Inr u \<longleftrightarrow>
     (\<forall>s. session = Some s \<longrightarrow> refProviderInstanceId s = inst)"
  "checkRestore mode children = Inr u \<longleftrightarrow> (mode = CreateSession \<longrightarrow> children = [])"
  "checkInherited inherited bindings = Inr u \<longleftrightarrow>
     distinct inherited \<and> set inherited \<inter> set (map bindNativeTurnId bindings) = {}"
  "checkActive mode active bindings = Inr u \<longleftrightarrow>
     (\<forall>a. active = Some a \<longrightarrow> mode \<noteq> CreateSession \<and>
        (bindTurnId a, bindNativeTurnId a) \<in>
          set (map (\<lambda>b. (bindTurnId b, bindNativeTurnId b)) bindings))"
  by (auto simp: limitEntries_def checkOpenMode_def checkInstance_def checkRestore_def
      checkInherited_def checkActive_def list_ex_iff
      image_iff split: option.split) metis+

lemma blames_open_checks [blame_intros]:
  "prefix q p \<Longrightarrow> blames q (limitEntries n xs p)"
  "blames dollar (checkOpenMode mode session)"
  "blames dollar (checkInstance session inst)" "blames dollar (checkRestore mode children)"
  "blames dollar (checkInherited inherited bindings)"
  "blames dollar (checkActive mode active bindings)"
  "prefix q p \<Longrightarrow> blames q (optionalArray v p)"
  by (auto simp: limitEntries_def checkOpenMode_def checkInstance_def checkRestore_def
      checkInherited_def checkActive_def
      optionalArray_def split: option.split intro!: blame_intros)

lemma blames_openSession: "blames dollar (parseOpenProviderSessionInput url v)"
  unfolding parseOpenProviderSessionInput_def by (intro blame_intros) simp_all

text \<open>The parts of an accepted input, with the checks they passed.\<close>

lemma parseOpenProviderSessionInput_reads:
  assumes "parseOpenProviderSessionInput url v = Inr c"
  shows "\<exists>i vs. sessionTurnBindings i [] [] vs = Inr (openTurnBindings c)"
    and "\<exists>i vs. sessionChildBindings i [] vs = Inr (openChildBindings c)"
    and "\<exists>u. checkOpenMode (openMode c) (openNativeSession c) = Inr u"
    and "\<exists>u. checkInstance (openNativeSession c) (openProviderInstanceId c) = Inr u"
    and "\<exists>u. checkRestore (openMode c) (openChildBindings c) = Inr u"
    and "\<exists>u. checkChildren (openExecutionId c) [] (openChildBindings c) = Inr u"
    and "\<exists>u. checkGraph (openExecutionId c) (map_option refSessionId (openNativeSession c))
      (openTurnBindings c) (openChildBindings c) (openChildBindings c) = Inr u"
    and "\<exists>u. checkInherited (openInheritedTurnIds c) (openTurnBindings c) = Inr u"
    and "\<exists>u. checkActive (openMode c) (openActiveTurn c) (openTurnBindings c) = Inr u"
  using assms unfolding parseOpenProviderSessionInput_def sized_eq_Inr ebind_eq_Inr
  by - (elim exE conjE; drule sum.inject(2) [THEN iffD1]; hypsubst;
      simp only: OpenProviderSessionInput.simps; blast)+

lemma parseOpenProviderSessionInput_ok:
  assumes "parseOpenProviderSessionInput url v = Inr c"
  shows "open_session_ok c"
proof -
  note reads = parseOpenProviderSessionInput_reads [OF assms]
  from reads(1) have "distinct (map bindTurnId (openTurnBindings c))"
    "distinct (map bindNativeTurnId (openTurnBindings c))"
    by (auto dest: sessionTurnBindings_distinct)
  moreover from reads(2) have "distinct (map childThreadId (openChildBindings c))"
    by (auto dest: sessionChildBindings_distinct)
  moreover have "checkChildren (openExecutionId c) [] (openChildBindings c) = Inr () \<and>
      checkGraph (openExecutionId c) (map_option refSessionId (openNativeSession c))
        (openTurnBindings c) (openChildBindings c) (openChildBindings c) = Inr ()"
    using reads(6,7) by simp
  note this [unfolded child_graph_iff]
  ultimately show ?thesis
    using reads(3-5,8,9)
    by (cases "openActiveTurn c") (simp_all add: open_session_ok_def checks_iff)
qed

end
