(* ===== verification/ContractCapabilities.thy ===== *)
theory ContractCapabilities
  imports ContractCommands
begin

text \<open>
  What a provider adapter declares it can do: \<^verbatim>\<open>parseProviderCapabilities\<close> and
  \<^verbatim>\<open>parseContextBranching\<close> of extensions/agent/shared/provider-runtime.ts.  The groups of a
  capability record are read in two rounds, as in the source: first every group's keys and the
  literals, then the members in the order of the returned object.
\<close>

subsection \<open>Enumerations and groups\<close>

datatype ProviderAuthKind = NativeSubscription | ApiKey | ExternalAuth

fun authKindName :: "ProviderAuthKind \<Rightarrow> string" where
  "authKindName NativeSubscription = ''native-subscription''"
| "authKindName ApiKey = ''api-key''"
| "authKindName ExternalAuth = ''external''"

datatype LoginSupport = NoLogin | DeviceCodeLogin | BrowserLogin

fun loginSupportName :: "LoginSupport \<Rightarrow> string" where
  "loginSupportName NoLogin = ''none''"
| "loginSupportName DeviceCodeLogin = ''device-code''"
| "loginSupportName BrowserLogin = ''browser''"

datatype BranchStrategy = NativeBranch | VisibleReplay | NoBranch

fun branchStrategyName :: "BranchStrategy \<Rightarrow> string" where
  "branchStrategyName NativeBranch = ''native''"
| "branchStrategyName VisibleReplay = ''visible-replay''"
| "branchStrategyName NoBranch = ''none''"

datatype ActiveInput = NativeSteer | StreamInput

fun activeInputName :: "ActiveInput \<Rightarrow> string" where
  "activeInputName NativeSteer = ''native-steer''"
| "activeInputName StreamInput = ''stream-input''"

datatype ChildTranscript = NoTranscript | SummaryTranscript | FullTranscript

fun childTranscriptName :: "ChildTranscript \<Rightarrow> string" where
  "childTranscriptName NoTranscript = ''none''"
| "childTranscriptName SummaryTranscript = ''summary''"
| "childTranscriptName FullTranscript = ''full''"

datatype ContextUsageSupport = NoContextUsage | DerivedContextUsage | ProviderContextUsage

fun contextUsageName :: "ContextUsageSupport \<Rightarrow> string" where
  "contextUsageName NoContextUsage = ''none''"
| "contextUsageName DerivedContextUsage = ''derived''"
| "contextUsageName ProviderContextUsage = ''provider''"

datatype PlanUsageSupport = NoPlanUsage | PushPlanUsage | ReadAndPushPlanUsage

fun planUsageName :: "PlanUsageSupport \<Rightarrow> string" where
  "planUsageName NoPlanUsage = ''none''"
| "planUsageName PushPlanUsage = ''push''"
| "planUsageName ReadAndPushPlanUsage = ''read-and-push''"

text \<open>
  \<^verbatim>\<open>boundary\<close> and \<^verbatim>\<open>workspace\<close> have one value each, which \<^verbatim>\<open>oneOf\<close> checks.
\<close>

record ContextBranching =
  branchStrategy :: BranchStrategy
  sameProviderInstanceOnly :: bool
  whileBackgroundChildrenRun :: bool

definition parseContextBranching :: "jsval \<Rightarrow> jsstring \<Rightarrow> ContextBranching res" where
  "parseContextBranching v path =
     ebind (strictRecord v path
       [''strategy'', ''boundary'', ''sameProviderInstanceOnly'', ''workspace'',
        ''whileBackgroundChildrenRun''] []) (\<lambda>r.
     ebind (oneOf branchStrategyName [NativeBranch, VisibleReplay, NoBranch]
       (fld r ''strategy'') (dot path ''strategy'')) (\<lambda>strategy.
     ebind (oneOf (\<lambda>_. ''turn'') [()] (fld r ''boundary'') (dot path ''boundary'')) (\<lambda>_.
     ebind (parseBool (fld r ''sameProviderInstanceOnly'')
       (dot path ''sameProviderInstanceOnly'')) (\<lambda>same.
     ebind (oneOf (\<lambda>_. ''shared-current'') [()] (fld r ''workspace'') (dot path ''workspace'')) (\<lambda>_.
     ebind (parseBool (fld r ''whileBackgroundChildrenRun'')
       (dot path ''whileBackgroundChildrenRun'')) (\<lambda>while.
     Inr \<lparr>branchStrategy = strategy, sameProviderInstanceOnly = same,
          whileBackgroundChildrenRun = while\<rparr>))))))"

definition encodeContextBranching :: "ContextBranching \<Rightarrow> jsval" where
  "encodeContextBranching c = objectOf
     [(''strategy'', Some (nameVal branchStrategyName (branchStrategy c))),
      (''boundary'', Some (JString (js ''turn''))),
      (''sameProviderInstanceOnly'', Some (JBool (sameProviderInstanceOnly c))),
      (''workspace'', Some (JString (js ''shared-current''))),
      (''whileBackgroundChildrenRun'', Some (JBool (whileBackgroundChildrenRun c)))]"

lemma oneOf_single [simp]: "oneOf (\<lambda>_. s) [()] (JString (js s)) p = Inr ()"
  by (simp add: oneOf_def)

interpretation parseContextBranching: contract_codec parseContextBranching encodeContextBranching
  by unfold_locales
    (auto simp: parseContextBranching_def encodeContextBranching_def intro!: blame_intros
       dest!: reparse_dests)

text \<open>The members of each group, once its keys are checked.\<close>

record AuthenticationCapabilities =
  capLogin :: LoginSupport
  capLogout :: bool

definition authenticationOf :: "jsrecord \<Rightarrow> jsstring \<Rightarrow> AuthenticationCapabilities res" where
  "authenticationOf r path =
     ebind (oneOf loginSupportName [NoLogin, DeviceCodeLogin, BrowserLogin] (fld r ''login'')
       (dot path ''login'')) (\<lambda>capLogin'.
     ebind (parseBool (fld r ''logout'') (dot path ''logout'')) (\<lambda>capLogout'.
     Inr \<lparr>capLogin = capLogin', capLogout = capLogout'\<rparr>))"

definition encodeAuthentication :: "AuthenticationCapabilities \<Rightarrow> jsval" where
  "encodeAuthentication c = objectOf
     [(''login'', Some (nameVal loginSupportName (capLogin c))),
      (''logout'', Some (JBool (capLogout c)))]"

record SessionCapabilities =
  capResume :: bool
  capDiscoverHistory :: bool
  capReadSnapshot :: bool
  capForkNative :: bool
  capRollbackNative :: bool
  capContextBranching :: "ContextBranching option"

definition sessionOf :: "jsrecord \<Rightarrow> jsstring \<Rightarrow> SessionCapabilities res" where
  "sessionOf r path =
     ebind (parseBool (fld r ''resume'') (dot path ''resume'')) (\<lambda>capResume'.
     ebind (parseBool (fld r ''discoverHistory'')
       (dot path ''discoverHistory'')) (\<lambda>capDiscoverHistory'.
     ebind (parseBool (fld r ''readSnapshot'') (dot path ''readSnapshot'')) (\<lambda>capReadSnapshot'.
     ebind (parseBool (fld r ''forkNative'') (dot path ''forkNative'')) (\<lambda>capForkNative'.
     ebind (parseBool (fld r ''rollbackNative'')
       (dot path ''rollbackNative'')) (\<lambda>capRollbackNative'.
     ebind (optionally parseContextBranching (fld r ''contextBranching'')
       (dot path ''contextBranching'')) (\<lambda>capContextBranching'.
     Inr \<lparr>capResume = capResume', capDiscoverHistory = capDiscoverHistory',
          capReadSnapshot = capReadSnapshot', capForkNative = capForkNative',
          capRollbackNative = capRollbackNative', capContextBranching = capContextBranching'\<rparr>))))))"

definition encodeSession :: "SessionCapabilities \<Rightarrow> jsval" where
  "encodeSession c = objectOf
     [(''create'', Some (JBool True)),
      (''resume'', Some (JBool (capResume c))),
      (''discoverHistory'', Some (JBool (capDiscoverHistory c))),
      (''readSnapshot'', Some (JBool (capReadSnapshot c))),
      (''forkNative'', Some (JBool (capForkNative c))),
      (''rollbackNative'', Some (JBool (capRollbackNative c))),
      (''contextBranching'', map_option encodeContextBranching (capContextBranching c))]"

record TurnCapabilities =
  capInterrupt :: bool
  capSteer :: bool
  capActiveInput :: "ActiveInput option"
  capQueue :: bool
  capChangeModel :: bool
  capChangeEffort :: bool

definition turnsOf :: "jsrecord \<Rightarrow> jsstring \<Rightarrow> TurnCapabilities res" where
  "turnsOf r path =
     ebind (parseBool (fld r ''interrupt'') (dot path ''interrupt'')) (\<lambda>capInterrupt'.
     ebind (parseBool (fld r ''steer'') (dot path ''steer'')) (\<lambda>capSteer'.
     ebind (optionally (oneOf activeInputName [NativeSteer, StreamInput]) (fld r ''activeInput'')
       (dot path ''activeInput'')) (\<lambda>capActiveInput'.
     ebind (parseBool (fld r ''queue'') (dot path ''queue'')) (\<lambda>capQueue'.
     ebind (parseBool (fld r ''changeModelOnExistingSession'')
       (dot path ''changeModelOnExistingSession'')) (\<lambda>capChangeModel'.
     ebind (parseBool (fld r ''changeEffortOnExistingSession'')
       (dot path ''changeEffortOnExistingSession'')) (\<lambda>capChangeEffort'.
     Inr \<lparr>capInterrupt = capInterrupt', capSteer = capSteer',
          capActiveInput = capActiveInput', capQueue = capQueue',
          capChangeModel = capChangeModel', capChangeEffort = capChangeEffort'\<rparr>))))))"

definition encodeTurns :: "TurnCapabilities \<Rightarrow> jsval" where
  "encodeTurns c = objectOf
     [(''interrupt'', Some (JBool (capInterrupt c))),
      (''steer'', Some (JBool (capSteer c))),
      (''activeInput'', map_option (nameVal activeInputName) (capActiveInput c)),
      (''queue'', Some (JBool (capQueue c))),
      (''changeModelOnExistingSession'', Some (JBool (capChangeModel c))),
      (''changeEffortOnExistingSession'', Some (JBool (capChangeEffort c)))]"

record ContentCapabilities =
  capImages :: bool
  capFileReferences :: bool
  capReasoning :: bool
  capDiffs :: bool
  capWebActivity :: bool

definition contentOf :: "jsrecord \<Rightarrow> jsstring \<Rightarrow> ContentCapabilities res" where
  "contentOf r path =
     ebind (parseBool (fld r ''images'') (dot path ''images'')) (\<lambda>capImages'.
     ebind (parseBool (fld r ''fileReferences'')
       (dot path ''fileReferences'')) (\<lambda>capFileReferences'.
     ebind (parseBool (fld r ''reasoning'') (dot path ''reasoning'')) (\<lambda>capReasoning'.
     ebind (parseBool (fld r ''diffs'') (dot path ''diffs'')) (\<lambda>capDiffs'.
     ebind (parseBool (fld r ''webActivity'') (dot path ''webActivity'')) (\<lambda>capWebActivity'.
     Inr \<lparr>capImages = capImages', capFileReferences = capFileReferences',
          capReasoning = capReasoning', capDiffs = capDiffs',
          capWebActivity = capWebActivity'\<rparr>)))))"

definition encodeContentCapabilities :: "ContentCapabilities \<Rightarrow> jsval" where
  "encodeContentCapabilities c = objectOf
     [(''images'', Some (JBool (capImages c))),
      (''fileReferences'', Some (JBool (capFileReferences c))),
      (''reasoning'', Some (JBool (capReasoning c))),
      (''diffs'', Some (JBool (capDiffs c))),
      (''webActivity'', Some (JBool (capWebActivity c)))]"

record CollaborationCapabilities =
  capNativeSubagents :: bool
  capChildTranscript :: ChildTranscript
  capChildSteer :: bool
  capChildInterrupt :: bool

definition collaborationOf :: "jsrecord \<Rightarrow> jsstring \<Rightarrow> CollaborationCapabilities res" where
  "collaborationOf r path =
     ebind (parseBool (fld r ''nativeSubagents'')
       (dot path ''nativeSubagents'')) (\<lambda>capNativeSubagents'.
     ebind (oneOf childTranscriptName [NoTranscript, SummaryTranscript, FullTranscript] (fld r ''childTranscript'')
       (dot path ''childTranscript'')) (\<lambda>capChildTranscript'.
     ebind (parseBool (fld r ''childSteer'') (dot path ''childSteer'')) (\<lambda>capChildSteer'.
     ebind (parseBool (fld r ''childInterrupt'')
       (dot path ''childInterrupt'')) (\<lambda>capChildInterrupt'.
     Inr \<lparr>capNativeSubagents = capNativeSubagents',
          capChildTranscript = capChildTranscript', capChildSteer = capChildSteer',
          capChildInterrupt = capChildInterrupt'\<rparr>))))"

definition encodeCollaboration :: "CollaborationCapabilities \<Rightarrow> jsval" where
  "encodeCollaboration c = objectOf
     [(''nativeSubagents'', Some (JBool (capNativeSubagents c))),
      (''childTranscript'', Some (nameVal childTranscriptName (capChildTranscript c))),
      (''childSteer'', Some (JBool (capChildSteer c))),
      (''childInterrupt'', Some (JBool (capChildInterrupt c)))]"

record UsageCapabilities =
  capTurnUsage :: bool
  capCumulativeUsage :: bool
  capContextUsage :: ContextUsageSupport
  capPlanUsage :: PlanUsageSupport
  capEstimatedCost :: bool

definition usageOf :: "jsrecord \<Rightarrow> jsstring \<Rightarrow> UsageCapabilities res" where
  "usageOf r path =
     ebind (parseBool (fld r ''turn'') (dot path ''turn'')) (\<lambda>capTurnUsage'.
     ebind (parseBool (fld r ''cumulative'') (dot path ''cumulative'')) (\<lambda>capCumulativeUsage'.
     ebind (oneOf contextUsageName [NoContextUsage, DerivedContextUsage, ProviderContextUsage] (fld r ''context'')
       (dot path ''context'')) (\<lambda>capContextUsage'.
     ebind (oneOf planUsageName [NoPlanUsage, PushPlanUsage, ReadAndPushPlanUsage] (fld r ''plan'')
       (dot path ''plan'')) (\<lambda>capPlanUsage'.
     ebind (parseBool (fld r ''estimatedCost'')
       (dot path ''estimatedCost'')) (\<lambda>capEstimatedCost'.
     Inr \<lparr>capTurnUsage = capTurnUsage', capCumulativeUsage = capCumulativeUsage',
          capContextUsage = capContextUsage', capPlanUsage = capPlanUsage',
          capEstimatedCost = capEstimatedCost'\<rparr>)))))"

definition encodeUsageCapabilities :: "UsageCapabilities \<Rightarrow> jsval" where
  "encodeUsageCapabilities c = objectOf
     [(''turn'', Some (JBool (capTurnUsage c))),
      (''cumulative'', Some (JBool (capCumulativeUsage c))),
      (''context'', Some (nameVal contextUsageName (capContextUsage c))),
      (''plan'', Some (nameVal planUsageName (capPlanUsage c))),
      (''estimatedCost'', Some (JBool (capEstimatedCost c)))]"

record CompactionCapabilities =
  capAutomaticNative :: bool
  capManualNative :: bool
  capActiveParent :: "unit option"

definition compactionOf :: "jsrecord \<Rightarrow> jsstring \<Rightarrow> CompactionCapabilities res" where
  "compactionOf r path =
     ebind (parseBool (fld r ''automaticNative'')
       (dot path ''automaticNative'')) (\<lambda>capAutomaticNative'.
     ebind (parseBool (fld r ''manualNative'') (dot path ''manualNative'')) (\<lambda>capManualNative'.
     ebind (optionally (oneOf (\<lambda>_. ''background-native-agent'') [()]) (fld r ''activeParent'')
       (dot path ''activeParent'')) (\<lambda>capActiveParent'.
     Inr \<lparr>capAutomaticNative = capAutomaticNative', capManualNative = capManualNative',
          capActiveParent = capActiveParent'\<rparr>)))"

definition encodeCompaction :: "CompactionCapabilities \<Rightarrow> jsval" where
  "encodeCompaction c = objectOf
     [(''automaticNative'', Some (JBool (capAutomaticNative c))),
      (''manualNative'', Some (JBool (capManualNative c))),
      (''activeParent'', map_option (nameVal (\<lambda>_. ''background-native-agent'')) (capActiveParent c))]"

text \<open>The presets: one to three, distinct, workspace-write among them.\<close>

definition accessPresetsOf :: "jsval \<Rightarrow> jsstring \<Rightarrow> ProviderAccess list res" where
  "accessPresetsOf v path =
     ebind (array v path) (\<lambda>presets.
     if presets = [] \<or> 3 < length presets
     then fail path (js ''must contain 1-3 access presets'') else
     ebind (elements providerAccess presets path) (\<lambda>parsed.
     if \<not> distinct parsed then fail path (js ''must not contain duplicates'')
     else if WorkspaceWrite \<notin> set parsed then fail path (js ''must include workspace-write'')
     else Inr parsed))"

definition encodePresets :: "ProviderAccess list \<Rightarrow> jsval" where
  "encodePresets ps = JArray (map (nameVal providerAccessName) ps)"

lemmas capability_groups =
  authenticationOf_def sessionOf_def turnsOf_def contentOf_def collaborationOf_def usageOf_def
  compactionOf_def

lemmas capability_encodings =
  encodeAuthentication_def encodeSession_def encodeTurns_def encodeContentCapabilities_def
  encodeCollaboration_def encodeUsageCapabilities_def encodeCompaction_def

lemma oneOf_unit_reads [simp]: "oneOf (\<lambda>_. s) [()] (nameVal (\<lambda>_. s) x) p = Inr ()"
  by (simp add: oneOf_def nameVal_def)

interpretation accessPresetsOf: contract_codec accessPresetsOf encodePresets
  by unfold_locales
    (auto simp: accessPresetsOf_def encodePresets_def intro!: blame_intros dest!: reparse_dests)

lemma blames_groups [blame_intros]:
  "prefix q p \<Longrightarrow> blames q (authenticationOf r p)" "prefix q p \<Longrightarrow> blames q (sessionOf r p)"
  "prefix q p \<Longrightarrow> blames q (turnsOf r p)" "prefix q p \<Longrightarrow> blames q (contentOf r p)"
  "prefix q p \<Longrightarrow> blames q (collaborationOf r p)" "prefix q p \<Longrightarrow> blames q (usageOf r p)"
  "prefix q p \<Longrightarrow> blames q (compactionOf r p)"
  unfolding capability_groups by (intro blame_intros; simp)+

lemma accessPresetsOf_ok:
  "accessPresetsOf v p = Inr ps \<Longrightarrow>
     distinct ps \<and> WorkspaceWrite \<in> set ps \<and> 1 \<le> length ps \<and> length ps \<le> 3"
  by (auto simp: accessPresetsOf_def Suc_le_eq elements_def dest: traverse_length split: if_splits)


subsection \<open>The capability record\<close>

record ProviderCapabilities =
  capProvider :: ProviderKind
  capProviderVersion :: jsstring
  capAdapterVersion :: jsstring
  capAuth :: ProviderAuthKind
  capAuthentication :: AuthenticationCapabilities
  capSession :: SessionCapabilities
  capTurns :: TurnCapabilities
  capContent :: ContentCapabilities
  capCollaboration :: CollaborationCapabilities
  capPresets :: "ProviderAccess list"
  capUsage :: UsageCapabilities
  capCompaction :: CompactionCapabilities

definition parseProviderCapabilities :: "jsval \<Rightarrow> ProviderCapabilities res" where
  "parseProviderCapabilities = sized (\<lambda>v.
     ebind (strictRecord v dollar
       [''protocolVersion'', ''provider'', ''providerVersion'', ''adapterVersion'', ''auth'',
        ''authentication'', ''session'', ''turns'', ''content'', ''collaboration'', ''interaction'',
        ''access'', ''usage'', ''compaction''] []) (\<lambda>r.
     ebind (providerRuntimeContractVersion (fld r ''protocolVersion'')
       (dot dollar ''protocolVersion'')) (\<lambda>_.
     ebind (providerKind (fld r ''provider'') (dot dollar ''provider'')) (\<lambda>provider.
     ebind (strictRecord (fld r ''session'') (dot dollar ''session'')
       [''create'', ''resume'', ''discoverHistory'', ''readSnapshot'', ''forkNative'',
        ''rollbackNative'', ''contextBranching''] [''contextBranching'']) (\<lambda>session.
     ebind (strictRecord (fld r ''authentication'') (dot dollar ''authentication'')
       [''login'', ''logout''] []) (\<lambda>authentication.
     ebind (exactBool True (fld session ''create'') (dot (dot dollar ''session'') ''create'')) (\<lambda>_.
     ebind (strictRecord (fld r ''turns'') (dot dollar ''turns'')
       [''interrupt'', ''steer'', ''queue'', ''changeModelOnExistingSession'',
        ''changeEffortOnExistingSession''] []) (\<lambda>turns.
     ebind (strictRecord (fld r ''content'') (dot dollar ''content'')
       [''images'', ''fileReferences'', ''reasoning'', ''diffs'', ''webActivity''] []) (\<lambda>content.
     ebind (strictRecord (fld r ''collaboration'') (dot dollar ''collaboration'')
       [''nativeSubagents'', ''childTranscript'', ''childSteer'', ''childInterrupt''] []) (\<lambda>collab.
     ebind (strictRecord (fld r ''interaction'') (dot dollar ''interaction'')
       [''blockingApprovals'', ''structuredUserInput''] []) (\<lambda>interaction.
     ebind (strictRecord (fld r ''access'') (dot dollar ''access'')
       [''presets'', ''defaultPreset''] []) (\<lambda>access.
     ebind (accessPresetsOf (fld access ''presets'') (dot (dot dollar ''access'') ''presets'')) (\<lambda>presets.
     ebind (exactString ''workspace-write'' (fld access ''defaultPreset'')
       (dot (dot dollar ''access'') ''defaultPreset'')) (\<lambda>_.
     ebind (strictRecord (fld r ''usage'') (dot dollar ''usage'')
       [''turn'', ''cumulative'', ''context'', ''plan'', ''estimatedCost''] []) (\<lambda>usage.
     ebind (strictRecord (fld r ''compaction'') (dot dollar ''compaction'')
       [''automaticNative'', ''manualNative'', ''activeParent''] [''activeParent'']) (\<lambda>compaction.
     ebind (exactBool False (fld interaction ''blockingApprovals'')
       (dot (dot dollar ''interaction'') ''blockingApprovals'')) (\<lambda>_.
     ebind (exactBool False (fld interaction ''structuredUserInput'')
       (dot (dot dollar ''interaction'') ''structuredUserInput'')) (\<lambda>_.
     ebind (boundedString stringChars (fld r ''providerVersion'')
       (dot dollar ''providerVersion'')) (\<lambda>providerVersion.
     ebind (boundedString stringChars (fld r ''adapterVersion'')
       (dot dollar ''adapterVersion'')) (\<lambda>adapterVersion.
     ebind (oneOf authKindName [NativeSubscription, ApiKey, ExternalAuth]
       (fld r ''auth'') (dot dollar ''auth'')) (\<lambda>auth.
     ebind (authenticationOf authentication (dot dollar ''authentication'')) (\<lambda>authn.
     ebind (sessionOf session (dot dollar ''session'')) (\<lambda>sess.
     ebind (turnsOf turns (dot dollar ''turns'')) (\<lambda>trns.
     ebind (contentOf content (dot dollar ''content'')) (\<lambda>cont.
     ebind (collaborationOf collab (dot dollar ''collaboration'')) (\<lambda>col.
     ebind (usageOf usage (dot dollar ''usage'')) (\<lambda>use.
     ebind (compactionOf compaction (dot dollar ''compaction'')) (\<lambda>comp.
     Inr \<lparr>capProvider = provider, capProviderVersion = providerVersion,
          capAdapterVersion = adapterVersion, capAuth = auth, capAuthentication = authn,
          capSession = sess, capTurns = trns, capContent = cont, capCollaboration = col,
          capPresets = presets, capUsage = use,
          capCompaction = comp\<rparr>))))))))))))))))))))))))))))"

definition encodeCapabilities :: "ProviderCapabilities \<Rightarrow> jsval" where
  "encodeCapabilities c = objectOf
     [(''protocolVersion'', Some (natVal currentVersion)),
      (''provider'', Some (nameVal providerKindName (capProvider c))),
      (''providerVersion'', Some (JString (capProviderVersion c))),
      (''adapterVersion'', Some (JString (capAdapterVersion c))),
      (''auth'', Some (nameVal authKindName (capAuth c))),
      (''authentication'', Some (encodeAuthentication (capAuthentication c))),
      (''session'', Some (encodeSession (capSession c))),
      (''turns'', Some (encodeTurns (capTurns c))),
      (''content'', Some (encodeContentCapabilities (capContent c))),
      (''collaboration'', Some (encodeCollaboration (capCollaboration c))),
      (''interaction'', Some (objectOf
        [(''blockingApprovals'', Some (JBool False)), (''structuredUserInput'', Some (JBool False))])),
      (''access'', Some (objectOf
        [(''presets'', Some (encodePresets (capPresets c))),
         (''defaultPreset'', Some (JString (js ''workspace-write'')))])),
      (''usage'', Some (encodeUsageCapabilities (capUsage c))),
      (''compaction'', Some (encodeCompaction (capCompaction c)))]"

text \<open>A key that the allowed list lacks is absent from every accepted record.\<close>

lemma fld_not_allowed: "keysIn r ks \<Longrightarrow> k \<notin> set ks \<Longrightarrow> fld r k = JUndefined"
  using fld_has [of r k] unfolding keysIn_def has_def by (meson js_image_iff subsetD)

lemma turnsOf_activeInput:
  assumes "keysIn r ks" "''activeInput'' \<notin> set ks" "turnsOf r p = Inr t"
  shows "capActiveInput t = None"
  using assms(3) fld_not_allowed [OF assms(1,2)] by (auto simp: turnsOf_def)

lemma parseProviderCapabilities_parts:
  assumes "parseProviderCapabilities v = Inr c"
  shows "capActiveInput (capTurns c) = None"
    and "distinct (capPresets c)" "WorkspaceWrite \<in> set (capPresets c)" "length (capPresets c) \<le> 3"
proof -
  from assms have *: "\<exists>u p q r. strictRecord u p
      [''interrupt'', ''steer'', ''queue'', ''changeModelOnExistingSession'',
       ''changeEffortOnExistingSession''] [] = Inr r \<and> turnsOf r q = Inr (capTurns c)"
    and presets: "\<exists>v p. accessPresetsOf v p = Inr (capPresets c)"
    unfolding parseProviderCapabilities_def sized_eq_Inr ebind_eq_Inr
    by - (elim exE conjE; drule sum.inject(2) [THEN iffD1]; hypsubst; simp only: ProviderCapabilities.simps; blast)+
  then show "capActiveInput (capTurns c) = None"
    by (auto simp: strictRecord_iff intro: turnsOf_activeInput)
  from presets accessPresetsOf_ok show "distinct (capPresets c)"
    "WorkspaceWrite \<in> set (capPresets c)" "length (capPresets c) \<le> 3"
    by blast+
qed

lemma blames_parseProviderCapabilities: "blames dollar (parseProviderCapabilities v)"
  unfolding parseProviderCapabilities_def by (intro blame_intros) simp_all

text \<open>Each group, read from the record its encoding writes.\<close>

definition membersOf :: "jsval \<Rightarrow> jsrecord" where
  "membersOf v = (case v of JObject r \<Rightarrow> r | _ \<Rightarrow> [])"

lemma membersOf_objectOf [simp]: "membersOf (objectOf fs) = members fs"
  by (simp add: membersOf_def objectOf_def)

lemma reparse_groups:
  "authenticationOf r p = Inr x0 \<Longrightarrow> \<forall>q. authenticationOf (membersOf (encodeAuthentication x0)) q = Inr x0"
  "sessionOf r p = Inr x1 \<Longrightarrow> \<forall>q. sessionOf (membersOf (encodeSession x1)) q = Inr x1"
  "turnsOf r p = Inr x2 \<Longrightarrow> \<forall>q. turnsOf (membersOf (encodeTurns x2)) q = Inr x2"
  "contentOf r p = Inr x3 \<Longrightarrow> \<forall>q. contentOf (membersOf (encodeContentCapabilities x3)) q = Inr x3"
  "collaborationOf r p = Inr x4 \<Longrightarrow> \<forall>q. collaborationOf (membersOf (encodeCollaboration x4)) q = Inr x4"
  "usageOf r p = Inr x5 \<Longrightarrow> \<forall>q. usageOf (membersOf (encodeUsageCapabilities x5)) q = Inr x5"
  "compactionOf r p = Inr x6 \<Longrightarrow> \<forall>q. compactionOf (membersOf (encodeCompaction x6)) q = Inr x6"
  by (auto simp: capability_groups capability_encodings dest!: reparse_dests)

lemma parseProviderCapabilities_reads:
  assumes "parseProviderCapabilities v = Inr c"
  shows "\<exists>u p. providerKind u p = Inr (capProvider c)"
    and "\<exists>u p. boundedString stringChars u p = Inr (capProviderVersion c)"
    and "\<exists>u p. boundedString stringChars u p = Inr (capAdapterVersion c)"
    and "\<exists>u p. oneOf authKindName [NativeSubscription, ApiKey, ExternalAuth] u p = Inr (capAuth c)"
    and "\<exists>u p. accessPresetsOf u p = Inr (capPresets c)"
    and "\<exists>r p. authenticationOf r p = Inr (capAuthentication c)"
    and "\<exists>r p. sessionOf r p = Inr (capSession c)"
    and "\<exists>r p. turnsOf r p = Inr (capTurns c)"
    and "\<exists>r p. contentOf r p = Inr (capContent c)"
    and "\<exists>r p. collaborationOf r p = Inr (capCollaboration c)"
    and "\<exists>r p. usageOf r p = Inr (capUsage c)"
    and "\<exists>r p. compactionOf r p = Inr (capCompaction c)"
  using assms unfolding parseProviderCapabilities_def sized_eq_Inr ebind_eq_Inr
  by - (elim exE conjE; drule sum.inject(2) [THEN iffD1]; hypsubst;
      simp only: ProviderCapabilities.simps; blast)+

lemma capability_records [simp]:
  "strictRecord (encodeAuthentication x0) q
      [''login'', ''logout''] [] = Inr r0 \<longleftrightarrow> r0 = membersOf (encodeAuthentication x0)"
  "strictRecord (encodeSession x1) q
      [''create'', ''resume'', ''discoverHistory'', ''readSnapshot'', ''forkNative'',
       ''rollbackNative'', ''contextBranching''] [''contextBranching''] = Inr r1 \<longleftrightarrow> r1 = membersOf (encodeSession x1)"
  "strictRecord (encodeContentCapabilities x2) q
      [''images'', ''fileReferences'', ''reasoning'', ''diffs'', ''webActivity''] [] = Inr r2 \<longleftrightarrow> r2 = membersOf (encodeContentCapabilities x2)"
  "strictRecord (encodeCollaboration x3) q
      [''nativeSubagents'', ''childTranscript'', ''childSteer'', ''childInterrupt''] [] = Inr r3 \<longleftrightarrow> r3 = membersOf (encodeCollaboration x3)"
  "strictRecord (encodeUsageCapabilities x4) q
      [''turn'', ''cumulative'', ''context'', ''plan'', ''estimatedCost''] [] = Inr r4 \<longleftrightarrow> r4 = membersOf (encodeUsageCapabilities x4)"
  "strictRecord (encodeCompaction x5) q
      [''automaticNative'', ''manualNative'', ''activeParent''] [''activeParent''] = Inr r5 \<longleftrightarrow> r5 = membersOf (encodeCompaction x5)"
  by (auto simp: capability_encodings)

lemma turns_record:
  "capActiveInput x = None \<Longrightarrow> strictRecord (encodeTurns x) q
      [''interrupt'', ''steer'', ''queue'', ''changeModelOnExistingSession'',
       ''changeEffortOnExistingSession''] [] = Inr r \<longleftrightarrow> r = membersOf (encodeTurns x)"
  by (auto simp: encodeTurns_def)

lemma session_create [simp]: "fld (membersOf (encodeSession x)) ''create'' = JBool True"
  by (simp add: encodeSession_def)

interpretation parseProviderCapabilities: contract_command parseProviderCapabilities encodeCapabilities
proof
  show "blames dollar (parseProviderCapabilities v)" for v
    by (rule blames_parseProviderCapabilities)
  show "parseProviderCapabilities (encodeCapabilities c) = Inr c"
    if c: "parseProviderCapabilities v = Inr c" and size: "byte_length (encodeCapabilities c) \<le> eventBytes"
    for v c
  proof -
    have "encodeCapabilities c \<noteq> JUndefined"
      by (simp add: encodeCapabilities_def)
    with parseProviderCapabilities_reads [OF c] parseProviderCapabilities_parts(1) [OF c] size
    show ?thesis
      by (auto simp: parseProviderCapabilities_def sized_eq_Inr encodeCapabilities_def turns_record
        providerRuntimeContractVersion_eq_Inr currentVersion_def dest!: reparse_groups reparse_dests)
  qed
qed

text \<open>
  A capability record that states \<^verbatim>\<open>turns.activeInput\<close> is refused: the strict record of \<^verbatim>\<open>turns\<close>
  does not list the key that the group is then read with.
\<close>

lemma turns_record_refused:
  "capActiveInput x = Some a \<Longrightarrow> strictRecord (encodeTurns x) q
      [''interrupt'', ''steer'', ''queue'', ''changeModelOnExistingSession'',
       ''changeEffortOnExistingSession''] [] \<noteq> Inr r"
  by (auto simp: encodeTurns_def)

lemma parseProviderCapabilities_activeInput:
  assumes "capActiveInput (capTurns c) = Some a"
  shows "parseProviderCapabilities (encodeCapabilities c) \<noteq> Inr d"
  using turns_record_refused [OF assms]
  unfolding parseProviderCapabilities_def sized_eq_Inr ebind_eq_Inr encodeCapabilities_def by auto

end
