(* ===== verification/ContractSamples.thy ===== *)
theory ContractSamples
  imports ContractSession ContractCapabilities
begin

text \<open>
  Concrete inputs of the provider contract, with the proof that its parsers accept them: a
  \<^verbatim>\<open>turn.status\<close> envelope, a snapshot that holds it, a fork request, a discovery request and a
  session to be created.  The properties are instantiated at them.
\<close>

lemma js_simps: "js [] = []" "js (c # s) = of_char c # js s"
  by (simp_all add: js_def)

lemma number_text_nat: "n \<le> 9007199254740991 \<Longrightarrow> number_text (of_nat n) = decimal n"
  by (simp add: number_text_def is_safe_integer_def of_nat_le_safe)

lemma number_text_samples: "number_text 6 = decimal 6" "number_text 7 = decimal 7"
  using number_text_nat [of 6] number_text_nat [of 7] by simp_all

lemmas sample_size =
  byte_length_def objectOf_def members.simps natVal_def nameVal_def number_text_samples

lemmas sample_text =
  json_quote_def js_simps quote_char_def decimal.simps utf8_length_def

lemma sample_identifiers:
  "parseIdentifier (JString (js ''e1'')) p = Inr (js ''e1'')"
  "parseIdentifier (JString (js ''p'')) p = Inr (js ''p'')"
  "parseIdentifier (JString (js ''c'')) p = Inr (js ''c'')"
  "parseIdentifier (JString (js ''x'')) p = Inr (js ''x'')"
  "parseIdentifier (JString (js ''t'')) p = Inr (js ''t'')"
  "parseIdentifier (JString (js ''s'')) p = Inr (js ''s'')"
  "boundedString stringChars (JString (js ''k'')) p = Inr (js ''k'')"
  by (simp_all add: identifier_eq_Inr boundedString_eq_Inr identifier_chars_def alnum_def js_simps
      stringChars_def)

subsection \<open>An envelope\<close>

definition sampleNative :: NativeReference where
  "sampleNative =
     \<lparr>nativeSessionId = Some (js ''s''), nativeTurnId = None, nativeMessageId = None,
      nativeItemId = None, nativeToolCallId = None, nativePosition = None, nativeSubject = None,
      nativeTimeline = None, nativeKind = js ''k''\<rparr>"

definition sampleScope :: ProviderEventScope where
  "sampleScope = TurnScope (js ''p'') (js ''c'') (js ''x'') (js ''t'')"

definition sampleEnvelope :: ProviderEventEnvelope where
  "sampleEnvelope =
     \<lparr>eventId = js ''e1'', envProvider = Codex, envScope = sampleScope, envNative = sampleNative,
      observedAt = 7, envEvent = TurnStatusEvent StatusIdle, rawArtifactRef = None\<rparr>"

lemma sampleEnvelope_bytes: "byte_length (encodeEnvelope sampleEnvelope) \<le> 262144"
  by (simp add: sample_size encodeEnvelope_def sampleEnvelope_def sampleScope_def sampleNative_def
      encodeScope_def encodeEvent_def nativeMembers_def currentVersion_def) (simp add: sample_text)

lemma providerEventEnvelopeByteLimit_ge: "262144 \<le> providerEventEnvelopeByteLimit v"
  by (simp add: providerEventEnvelopeByteLimit_def eventBytes_def finalEventBytes_def
      split: option.split)

lemma sampleEnvelope_size:
  "byte_length (encodeEnvelope sampleEnvelope) \<le>
     providerEventEnvelopeByteLimit (encodeEnvelope sampleEnvelope)"
  using sampleEnvelope_bytes providerEventEnvelopeByteLimit_ge le_trans by blast

lemma sample_names:
  "oneOf turnStatusName [StatusRunning, StatusRecovering, StatusIdle]
     (nameVal turnStatusName StatusIdle) p = Inr StatusIdle"
  "providerKind (nameVal providerKindName Codex) p = Inr Codex"
  "nonnegativeInteger (natVal 7) p = Inr 7"
  "providerRuntimeContractVersion (natVal currentVersion) p = Inr currentVersion"
  by (simp_all add: oneOf_eq_Inr providerKind_def nonnegativeInteger_eq_Inr
      providerRuntimeContractVersion_eq_Inr currentVersion_def)

lemma sampleEnvelope_parts:
  "parseProviderEvent ver (encodeEvent (TurnStatusEvent StatusIdle)) p =
     Inr (TurnStatusEvent StatusIdle)"
  "parseProviderEventScope (encodeScope sampleScope) p = Inr sampleScope"
  "nativeFields (members (nativeMembers sampleNative)) p = Inr sampleNative"
  "assertEventScope (TurnStatusEvent StatusIdle) sampleScope = Inr ()"
  by (simp_all add: encodeEvent_def parseProviderEvent_branch sample_names encodeScope_def
      sampleScope_def parseProviderEventScope_def sample_identifiers nativeFields_def
      nativeMembers_def sampleNative_def optionally_def assertEventScope_iff event_fits_scope_def)

lemma sampleEnvelope_accepted:
  "parseProviderEventEnvelope (encodeEnvelope sampleEnvelope) = Inr sampleEnvelope"
proof -
  let ?v = "encodeEnvelope sampleEnvelope"
  have size: "assertEncodedSize ?v (providerEventEnvelopeByteLimit ?v) dollar = Inr ()"
    using sampleEnvelope_size by (simp add: assertEncodedSize_iff encodeEnvelope_def)
  have "nativeSessionId sampleNative \<noteq> None"
    by (simp add: sampleNative_def)
  then show ?thesis
    unfolding parseProviderEventEnvelope_def Let_def size
    by (simp add: encodeEnvelope_def sampleEnvelope_def sample_identifiers sampleEnvelope_parts
        sample_names)
qed

subsection \<open>A snapshot\<close>

definition sampleSession :: NativeSessionRef where
  "sampleSession =
     \<lparr>refProvider = Codex, refProviderInstanceId = js ''p'', refSessionId = js ''s'', refResumeCursor = None\<rparr>"

definition sampleSnapshotValue :: jsval where
  "sampleSnapshotValue = objectOf
     [(''contractVersion'', Some (natVal currentVersion)),
      (''nativeSession'', Some (encodeSessionRef sampleSession)),
      (''state'', Some (nameVal snapshotStateName SnapshotIdle)),
      (''events'', Some (JArray [encodeEnvelope sampleEnvelope]))]"

definition sampleSnapshot :: ProviderSnapshot where
  "sampleSnapshot =
     \<lparr>snapNativeSession = sampleSession, snapState = SnapshotIdle, snapAuthority = None, snapCoverage = None,
      snapHistoryRevision = None, snapEvents = [sampleEnvelope], snapNextNativeSequence = None\<rparr>"

lemma sampleSnapshot_bytes: "byte_length sampleSnapshotValue \<le> 262144"
  by (simp add: sample_size sampleSnapshotValue_def encodeSessionRef_def sampleSession_def encodeEnvelope_def
      sampleEnvelope_def sampleScope_def sampleNative_def encodeScope_def encodeEvent_def nativeMembers_def
      currentVersion_def) (simp add: sample_text)

lemma sampleSnapshotValue_object: "sampleSnapshotValue \<noteq> JUndefined"
  by (simp add: sampleSnapshotValue_def objectOf_def)

lemma sampleSnapshot_accepted: "parseProviderSnapshot sampleSnapshotValue = Inr sampleSnapshot"
proof -
  have size: "assertEncodedSize sampleSnapshotValue snapshotBytes (js ''$'') = Inr ()"
    using sampleSnapshot_bytes sampleSnapshotValue_object
    by (simp add: assertEncodedSize_iff snapshotBytes_def)
  have session: "parseNativeSessionRef (encodeSessionRef sampleSession) p = Inr sampleSession" for p
    by (simp add: parseNativeSessionRef_def encodeSessionRef_def sampleSession_def sample_identifiers
        sample_names)
  have state: "oneOf snapshotStateName [SnapshotRunning, SnapshotIdle, SnapshotLost]
      (nameVal snapshotStateName SnapshotIdle) p = Inr SnapshotIdle" for p
    by (simp add: oneOf_eq_Inr)
  have events: "elements parseProviderEventEnvelopeAt [encodeEnvelope sampleEnvelope] p = Inr [sampleEnvelope]" for p
    by (simp add: elements_def parseProviderEventEnvelopeAt_Inr sampleEnvelope_accepted)
  have fields: "strictRecord sampleSnapshotValue (js ''$'')
      [''contractVersion'', ''nativeSession'', ''state'', ''authority'', ''coverage'', ''events'',
       ''historyRevision'', ''nextNativeSequence'']
      [''authority'', ''coverage'', ''historyRevision'', ''nextNativeSequence''] =
    Inr (members
      [(''contractVersion'', Some (natVal currentVersion)),
       (''nativeSession'', Some (encodeSessionRef sampleSession)),
       (''state'', Some (nameVal snapshotStateName SnapshotIdle)),
       (''events'', Some (JArray [encodeEnvelope sampleEnvelope]))])"
    by (simp add: sampleSnapshotValue_def)
  show ?thesis
    unfolding parseProviderSnapshot_def Let_def size fields
    by (simp add: sample_names optionally_def sampleSnapshot_def snapshotEvents_def session state events)
qed

subsection \<open>A session to be resumed\<close>

definition sampleBinding :: NativeTurnBinding where
  "sampleBinding =
     \<lparr>bindTurnId = js ''t'', bindNativeTurnId = js ''k'', bindNextBlockOrdinal = None, bindBranchCursor = None\<rparr>"

definition sampleOpenValue :: jsval where
  "sampleOpenValue = objectOf
     [(''commandId'', Some (JString (js ''e1''))), (''providerInstanceId'', Some (JString (js ''p''))),
      (''conversationId'', Some (JString (js ''c''))), (''executionId'', Some (JString (js ''x''))),
      (''mode'', Some (nameVal openModeName ResumeSession)),
      (''nativeSession'', Some (encodeSessionRef sampleSession)), (''cwd'', Some (JString (js ''k''))),
      (''model'', Some (JString (js ''k''))), (''access'', Some (nameVal providerAccessName ReadOnly)),
      (''developerInstructions'', Some (JArray [])),
      (''nativeTurnBindings'', Some (JArray [encodeNativeTurnBinding sampleBinding]))]"

definition sampleOpen :: OpenProviderSessionInput where
  "sampleOpen =
     \<lparr>openCommandId = js ''e1'', openProviderInstanceId = js ''p'', openConversationId = js ''c'',
      openExecutionId = js ''x'', openMode = ResumeSession, openNativeSession = Some sampleSession,
      openCwd = js ''k'', openModel = js ''k'', openEffort = None, openServiceTier = None,
      openAccess = ReadOnly, openDeveloperInstructions = [], openFederation = None,
      openTurnBindings = [sampleBinding], openChildBindings = [], openInheritedTurnIds = [],
      openActiveTurn = None\<rparr>"

lemma sampleOpen_bytes: "byte_length sampleOpenValue \<le> eventBytes"
  by (simp add: eventBytes_def sample_size sampleOpenValue_def encodeSessionRef_def sampleSession_def
      encodeNativeTurnBinding_def sampleBinding_def) (simp add: sample_text)

lemma sampleOpenValue_object: "sampleOpenValue \<noteq> JUndefined"
  by (simp add: sampleOpenValue_def objectOf_def)

lemma encodeSessionRef_object: "(encodeSessionRef s = JUndefined) = False"
  by (simp add: encodeSessionRef_def objectOf_def)

lemma optionally_absent: "optionally parse JUndefined p = Inr None"
  by (simp add: optionally_def)

lemma sample_more_identifiers:
  "parseIdentifier (JString (js ''k'')) p = Inr (js ''k'')"
  "boundedString 32768 (JString (js ''k'')) p = Inr (js ''k'')"
  "oneOf openModeName [CreateSession, ResumeSession, AttachSession] (nameVal openModeName ResumeSession) p =
     Inr ResumeSession"
  "providerAccess (nameVal providerAccessName ReadOnly) p = Inr ReadOnly"
  by (simp_all add: identifier_eq_Inr boundedString_eq_Inr identifier_chars_def alnum_def js_simps
      oneOf_eq_Inr providerAccess_def)

lemma sampleOpen_accepted: "parseOpenProviderSessionInput url sampleOpenValue = Inr sampleOpen"
proof -
  have session: "parseNativeSessionRef (encodeSessionRef sampleSession) p = Inr sampleSession" for p
    by (simp add: parseNativeSessionRef_def encodeSessionRef_def sampleSession_def sample_identifiers
        sample_names)
  have optionally_session: "optionally parseNativeSessionRef (encodeSessionRef sampleSession) p =
      Inr (Some sampleSession)" for p
    by (simp only: optionally_def session encodeSessionRef_object if_False ebind_simps)
  let ?entry = "members [(''turnId'', Some (JString (js ''t''))), (''nativeTurnId'', Some (JString (js ''k''))),
      (''nextBlockOrdinal'', None), (''branchCursor'', None)]"
  have entry: "strictRecord (encodeNativeTurnBinding sampleBinding) p turnBindingKeys
      [''nextBlockOrdinal'', ''branchCursor''] = Inr ?entry" for p
    by (simp add: encodeNativeTurnBinding_def sampleBinding_def turnBindingKeys_def)
  have "turnBindingOf ?entry p (js ''t'') (js ''k'') = Inr sampleBinding" for p
    by (simp add: turnBindingOf_def optionally_absent sampleBinding_def)
  then have bindings: "sessionTurnBindings 0 [] [] [encodeNativeTurnBinding sampleBinding] = Inr [sampleBinding]"
    by (simp add: Let_def entry sample_identifiers sample_more_identifiers)
  have checks: "checkOpenMode ResumeSession (Some sampleSession) = Inr ()"
    "checkInstance (Some sampleSession) (js ''p'') = Inr ()" "checkRestore ResumeSession [] = Inr ()"
    "checkChildren self [] [] = Inr ()" "checkGraph self session ts bs [] = Inr ()"
    "checkInherited [] bindings = Inr ()" "checkActive mode None bindings = Inr ()"
    for self session ts bs bindings mode
    by (simp_all add: checks_iff sampleSession_def)
  have size: "assertEncodedSize sampleOpenValue eventBytes dollar = Inr ()"
    using sampleOpen_bytes sampleOpenValue_object by (simp add: assertEncodedSize_iff)
  let ?fields = "members
     [(''commandId'', Some (JString (js ''e1''))), (''providerInstanceId'', Some (JString (js ''p''))),
      (''conversationId'', Some (JString (js ''c''))), (''executionId'', Some (JString (js ''x''))),
      (''mode'', Some (nameVal openModeName ResumeSession)),
      (''nativeSession'', Some (encodeSessionRef sampleSession)), (''cwd'', Some (JString (js ''k''))),
      (''model'', Some (JString (js ''k''))), (''access'', Some (nameVal providerAccessName ReadOnly)),
      (''developerInstructions'', Some (JArray [])),
      (''nativeTurnBindings'', Some (JArray [encodeNativeTurnBinding sampleBinding]))]"
  have fields: "strictRecord sampleOpenValue dollar
      [''commandId'', ''providerInstanceId'', ''conversationId'', ''executionId'', ''mode'',
       ''nativeSession'', ''cwd'', ''model'', ''effort'', ''serviceTier'', ''access'',
       ''developerInstructions'', ''federation'', ''nativeTurnBindings'',
       ''inheritedNativeTurnIds'', ''activeTurnBinding'', ''nativeChildBindings'']
      [''nativeSession'', ''effort'', ''serviceTier'', ''federation'', ''nativeTurnBindings'',
       ''inheritedNativeTurnIds'', ''activeTurnBinding'', ''nativeChildBindings''] = Inr ?fields"
    by (simp add: sampleOpenValue_def)
  show ?thesis
    unfolding parseOpenProviderSessionInput_def sized_def size fields
    by (simp add: sample_identifiers sample_more_identifiers optionally_absent optionalArray_def
        optionally_session bindings checks limitEntries_def elements_def sampleOpen_def
        snapshotEvents_def del: sessionTurnBindings.simps)
qed

end
