(* ===== verification/DeliverySamples.thy ===== *)
theory DeliverySamples
  imports DeliveryRestart ContractSamples
begin

text \<open>
  Concrete deliveries with the proof of what the operations do: a Codex Compact from its
  preparation to its admission, and a Codex root turn of unknown outcome that is abandoned or
  declined.  The properties of the owner are instantiated at their stores.
\<close>

definition sampleOwner :: Owner where
  "sampleOwner = \<lparr>ownerId = js ''w'', localeLe = (\<lambda>a b. a \<le> b), sha256Hex = (\<lambda>t. replicate 64 48),
     appendEvents = (\<lambda>es T. Inr T)\<rparr>"

definition sampleTables :: Tables where
  "sampleTables =
     \<lparr>providerInstances = [(js ''p'', Codex)],
      conversations = [(js ''c'', \<lparr>convProviderInstanceId = js ''p'', convRootExecutionId = js ''x'',
        convActiveTurnId = None\<rparr>)],
      executions = [(js ''x'', \<lparr>execConversationId = js ''c'', execProviderInstanceId = js ''p''\<rparr>)],
      nativeSessions = [(js ''x'', \<lparr>sessionNativeSessionId = js ''s'', sessionProviderInstanceId = js ''p''\<rparr>)],
      commandReceipts = [(js ''d'', \<lparr>receiptKind = js ''conversation.compact'',
        receiptState = js ''dispatching''\<rparr>)],
      queuedMessages = [], turns = [],
      compactionOperations = [(js ''o'', \<lparr>compactionCommandId = Some (js ''d''),
        compactionConversationId = js ''c'', compactionRowTrigger = js ''manual'',
        compactionState = js ''running'', compactionSubjectKey = None\<rparr>)]\<rparr>"

definition emptyStore :: Store where
  "emptyStore = \<lparr>attempts = [], staging = [], tables = sampleTables\<rparr>"

definition samplePrepare :: PrepareDeliveryAttempt where
  "samplePrepare =
     \<lparr>prepAttemptId = Some (js ''a''), prepCommandId = js ''d'', prepKind = ManualCompact,
      prepProvider = Codex, prepProviderInstanceId = js ''p'', prepConversationId = js ''c'',
      prepExecutionId = js ''x'', prepIntendedTurnId = None, prepClientMessageId = None,
      prepNativeClientMessageId = None, prepCompactOperationId = Some (js ''o''),
      prepRecoveryPayload = JObject [(js ''operationId'', JString (js ''o''))],
      prepNativeSessionId = js ''s'', prepProcessGeneration = Some (js ''g''),
      prepOwnerInstanceId = js ''w'', prepNow = 5\<rparr>"

text \<open>The row and the attempt it decodes to, by state, crossing and last update.\<close>

definition sampleRow :: AttemptRow where
  "sampleRow = preparedRow samplePrepare [] (replicate 64 48)"

definition sampleAttempt :: FrozenDeliveryAttempt where
  "sampleAttempt =
     \<lparr>attemptId = js ''a'', attemptCommandId = js ''d'', attemptKind = ManualCompact,
      attemptProvider = Codex, attemptProviderInstanceId = js ''p'',
      attemptConversationId = js ''c'', attemptExecutionId = js ''x'',
      intendedTurnId = None, clientMessageId = None, nativeClientMessageId = None,
      compactOperationId = Some (js ''o''), recoveryPayloadHash = replicate 64 48,
      recoveryPayload = JObject [(js ''operationId'', JString (js ''o''))],
      attemptNativeSessionId = js ''s'', processGeneration = Some (js ''g''), attemptNativeTurnId = None,
      nativeOperationId = None, ownerInstanceId = js ''w'', attemptState = Preparing,
      crossedAt = None, acceptanceEvidence = None, transcriptGap = False\<rparr>"

definition preparedStore :: Store where
  "preparedStore = emptyStore\<lparr>attempts := [sampleRow]\<rparr>"

definition sampleJson :: jsstring where
  "sampleJson = js ''{'' @ json_quote (js ''operationId'') @ js '':'' @ json_quote (js ''o'') @ js ''}''"

lemma sample_payload:
  "canonicalJson (localeLe sampleOwner) (JObject [(js ''operationId'', JString (js ''o''))]) = Inr sampleJson"
  by (simp add: canonicalJson.simps sort_keys_def sampleOwner_def sampleJson_def)

lemma sampleJson_size [simp]: "utf8_length sampleJson = 19" "sampleJson \<noteq> []"
  by (simp_all add: sampleJson_def json_quote_def js_simps quote_char_def utf8_length_def)

lemma sample_hash [simp]: "sha256Hex sampleOwner t = replicate 64 48" "ownerId sampleOwner = js ''w''"
  by (simp_all add: sampleOwner_def)

lemma sample_sha256 [simp]: "is_sha256 (replicate 64 48)"
  by (simp add: is_sha256_def list_all_iff)

lemma sample_hash_size [simp]: "utf8_length (replicate 64 48) = 64" "replicate 64 (48 :: nat) \<noteq> []"
  by (simp_all add: utf8_length_def sum_list_replicate)

lemma sample_ids [simp]:
  "is_identifier (js ''a'')" "is_identifier (js ''d'')" "is_identifier (js ''p'')"
  "is_identifier (js ''c'')" "is_identifier (js ''x'')" "is_identifier (js ''o'')"
  "is_identifier (js ''s'')" "is_identifier (js ''g'')" "is_identifier (js ''w'')"
  by (simp_all add: is_identifier_def identifier_chars_def alnum_def js_simps)

lemma rowIdentifier_ok [simp]: "is_identifier t \<Longrightarrow> rowIdentifier t name = Inr t"
  by (simp add: rowIdentifier_def)

lemma nullableIdentifier_ok [simp]:
  "nullableIdentifier None name = Inr None"
  "is_identifier t \<Longrightarrow> nullableIdentifier (Some t) name = Inr (Some t)"
  by (simp_all add: nullableIdentifier_def)

lemma sample_row_checks: "attemptChecks sampleOwner sampleRow"
  by (simp add: attemptChecks_def sampleRow_def preparedRow_def samplePrepare_def sample_payload
      withinBytes_def stampOk_def)

lemma sample_payload_read:
  "requireRecord (JObject [(js ''operationId'', JString (js ''o''))]) name =
     Inr [(js ''operationId'', JString (js ''o''))]"
  "fld [(js ''operationId'', JString (js ''o''))] ''operationId'' = JString (js ''o'')"
  "fld [(js ''operationId'', JString (js ''o''))] ''nativeInputUuid'' = JUndefined"
  "fld [(js ''operationId'', JString (js ''o''))] ''activeParent'' = JUndefined"
  "keysIn [(js ''operationId'', JString (js ''o''))] [''operationId'', ''nativeInputUuid'', ''activeParent'']"
  by (simp_all add: requireRecord_def fld_def keysIn_def js_simps asObject_def)

lemma sample_decode:
  "decodeVerified sampleOwner (sampleRow\<lparr>rowState := st, rowCrossedAt := c, rowUpdatedAt := u\<rparr>) =
     Inr (sampleAttempt\<lparr>attemptState := st, crossedAt := c\<rparr>)"
  by (simp add: decodeVerified_def sampleRow_def preparedRow_def samplePrepare_def sample_payload
      decodeAttempt_def validateDecodedRootPayload_def sample_payload_read optVal_def nullish_def
      validateActiveCompactPayload_def sampleAttempt_def guard_def)

lemma sample_decode_prepared: "decodeVerified sampleOwner sampleRow = Inr sampleAttempt"
  using sample_decode [where st = Preparing and c = None and u = 5]
  by (simp add: sampleRow_def preparedRow_def samplePrepare_def sampleAttempt_def)

lemma sample_scope: "validateScope sampleOwner sampleTables samplePrepare = Inr ()"
  by (simp add: validateScope_def validatePrepareIdentifiers_def scopeMatches_def samplePrepare_def
      sampleTables_def validateCompactScope_def sample_payload_read validateActiveCompactPayload_def
      optVal_def nullish_def guard_def)

text \<open>Running an operation.\<close>

lemma obind_run: "m s = (Inr x, t) \<Longrightarrow> obind m f s = f x t"
  by (simp add: obind_def)

lemma run_simps:
  "require_that c msg s = (if c then (Inr (), s) else (refuse msg, s))"
  "lift m s = (m, s)" "reads h s = (Inr (h s), s)" "ret x s = (Inr x, s)"
  by (simp_all add: require_that_def lift_def guard_def reads_def ret_def)

lemma update_one:
  "attempts s = [r] \<Longrightarrow> sel r \<Longrightarrow> attemptChecks ow (upd r) \<Longrightarrow>
     updateAttempts ow sel upd s = (Inr 1, s\<lparr>attempts := [upd r]\<rparr>)"
  by (simp add: updateAttempts_def)

lemmas runs = run_simps obind_run

lemma sample_prepare:
  "prepare_attempt sampleOwner [] samplePrepare emptyStore = (Inr sampleAttempt, preparedStore)"
proof -
  have insert: "insertAttempt sampleOwner sampleRow emptyStore = (Inr (), preparedStore)"
    using sample_row_checks
    by (simp add: insertAttempt_def emptyStore_def preparedStore_def attemptReferences_def sampleTables_def
        sampleRow_def preparedRow_def samplePrepare_def)
  have ids: "validatePrepareIdentifiers samplePrepare = Inr ()"
    by (simp add: validatePrepareIdentifiers_def samplePrepare_def)
  have fields: "prepOwnerInstanceId samplePrepare = js ''w''" "prepCommandId samplePrepare = js ''d''"
    "prepRecoveryPayload samplePrepare = JObject [(js ''operationId'', JString (js ''o''))]"
    "preparedRow samplePrepare [] (replicate 64 48) = sampleRow" "tables emptyStore = sampleTables"
    by (simp_all add: samplePrepare_def sampleRow_def emptyStore_def)
  have before: "byCommand sampleOwner (js ''d'') emptyStore = (Inr None, emptyStore)"
    by (simp add: byCommand_def emptyStore_def)
  have after: "byCommand sampleOwner (js ''d'') preparedStore = (Inr (Some sampleAttempt), preparedStore)"
    using sample_decode_prepared
    by (simp add: byCommand_def preparedStore_def) (simp add: sampleRow_def preparedRow_def samplePrepare_def)
  show ?thesis
    by (simp add: prepare_attempt_def Let_def runs fields sample_payload ids before sample_scope insert after)
qed


subsection \<open>From the crossing to the admission\<close>

definition crossedRow :: AttemptRow where
  "crossedRow = sampleRow\<lparr>rowState := Dispatching, rowCrossedAt := Some 6, rowUpdatedAt := 6\<rparr>"

definition crossedAttempt :: FrozenDeliveryAttempt where
  "crossedAttempt = sampleAttempt\<lparr>attemptState := Dispatching, crossedAt := Some 6\<rparr>"

definition crossedStore :: Store where
  "crossedStore = emptyStore\<lparr>attempts := [crossedRow]\<rparr>"

lemma sample_row_fields:
  "rowAttemptId sampleRow = js ''a''" "rowCommandId sampleRow = js ''d''" "rowState sampleRow = Preparing"
  "rowKind sampleRow = ManualCompact" "rowProvider sampleRow = Codex" "rowNativeSessionId sampleRow = js ''s''"
  "rowOwnerInstanceId sampleRow = js ''w''" "rowCreatedAt sampleRow = 5" "rowUpdatedAt sampleRow = 5"
  "rowCrossedAt sampleRow = None" "rowProcessGeneration sampleRow = Some (js ''g'')"
  "rowEvidence sampleRow = None" "rowRejection sampleRow = None" "rowRecovery sampleRow = None"
  "rowAcceptedAt sampleRow = None" "rowRejectedAt sampleRow = None" "rowUnknownAt sampleRow = None"
  "rowNativeTurnId sampleRow = None" "rowNativeOperationId sampleRow = None"
  "rowTranscriptGap sampleRow = False"
  by (simp_all add: sampleRow_def preparedRow_def samplePrepare_def)

lemma sample_cross:
  "markPossiblySent sampleOwner (js ''a'') False (js ''s'') (Some (js ''g'')) 6 preparedStore =
     (Inr True, crossedStore)"
proof -
  have row: "attemptRow preparedStore (js ''a'') = Some sampleRow"
    by (simp add: attemptRow_def preparedStore_def sample_row_fields)
  then have get: "require_attempt sampleOwner (js ''a'') preparedStore = (Inr sampleAttempt, preparedStore)"
    by (simp add: require_attempt_def get_attempt_def runs sample_decode_prepared)
  have time: "transitionTime (js ''a'') 6 preparedStore = (Inr 6, preparedStore)"
    by (simp add: transitionTime_def reads_def row sample_row_fields)
  have "attemptChecks sampleOwner crossedRow"
    using sample_row_checks
    by (simp add: attemptChecks_def crossedRow_def stampOk_def sample_row_fields)
  moreover have "sampleRow\<lparr>rowState := Dispatching, rowCrossedAt := Some 6, rowNativeSessionId := js ''s'',
      rowProcessGeneration := Some (js ''g''), rowUpdatedAt := 6\<rparr> = crossedRow"
    by (simp add: crossedRow_def sampleRow_def preparedRow_def samplePrepare_def)
  moreover have "attempts preparedStore = [sampleRow]" "crossedStore = preparedStore\<lparr>attempts := [crossedRow]\<rparr>"
    by (simp_all add: preparedStore_def crossedStore_def)
  ultimately show ?thesis
    by (simp add: markPossiblySent_def runs get time update_one sampleAttempt_def hasId_def sample_row_fields)
qed

lemma crossed_row: "attemptRow crossedStore (js ''a'') = Some crossedRow"
  by (simp add: attemptRow_def crossedStore_def crossedRow_def sample_row_fields)

lemma crossed_get: "require_attempt sampleOwner (js ''a'') crossedStore = (Inr crossedAttempt, crossedStore)"
  using sample_decode [where st = Dispatching and c = "Some 6" and u = 6] crossed_row
  by (simp add: require_attempt_def get_attempt_def runs crossedRow_def crossedAttempt_def)

definition sampleStage :: StageRow where
  "sampleStage = \<lparr>stageAttemptId = js ''a'', stageOrdinal = 0, stageObservationId = js ''e1'',
     stageEnvelopeJson = encodeEnvelope sampleEnvelope,
     stageByteLength = byte_length (encodeEnvelope sampleEnvelope), stageObservedAt = 7\<rparr>"

definition observedStore :: Store where
  "observedStore = crossedStore\<lparr>staging := [sampleStage]\<rparr>"

lemma sample_observe:
  "observe sampleOwner (js ''a'') sampleEnvelope 7 crossedStore = (Inr Staged, observedStore)"
proof -
  have child: "declaredChild (js ''a'') crossedAttempt (scopeExecution (envScope sampleEnvelope)) crossedStore =
      (Inr None, crossedStore)"
    by (simp add: declaredChild_def sampleEnvelope_def sampleScope_def crossedAttempt_def sampleAttempt_def runs)
  have scope: "validateEnvelopeScope crossedAttempt sampleEnvelope None = Inr ()"
    by (simp add: validateEnvelopeScope_iff observation_belongs_def sampleEnvelope_def sampleScope_def
        sampleNative_def crossedAttempt_def sampleAttempt_def)
  have none: "staging crossedStore = []" and one: "js ''a'' \<in> rowAttemptId ` set (attempts crossedStore)"
    by (simp_all add: crossedStore_def emptyStore_def crossedRow_def sample_row_fields)
  have "stageChecks sampleStage"
    using sampleEnvelope_bytes by (simp add: stageChecks_def sampleStage_def)
  with one none have "insertStage sampleStage crossedStore = (Inr (), observedStore)"
    by (simp add: insertStage_def observedStore_def) (simp add: sampleStage_def)
  moreover have "sampleStage = \<lparr>stageAttemptId = js ''a'', stageOrdinal = 0,
      stageObservationId = eventId sampleEnvelope, stageEnvelopeJson = encodeEnvelope sampleEnvelope,
      stageByteLength = byte_length (encodeEnvelope sampleEnvelope), stageObservedAt = observedAt sampleEnvelope\<rparr>"
    by (simp add: sampleStage_def) (simp add: sampleEnvelope_def)
  ultimately show ?thesis
    using sampleEnvelope_bytes none
    by (simp add: observe_def Let_def runs crossed_get child scope transaction_def maxStageRowBytes_def
        maxStageBytes_def)
qed

definition sampleEvidence :: ProviderAcceptanceEvidence where
  "sampleEvidence = CodexCompactResponse (js ''s'') 6 (js ''g'')"

definition provedRow :: AttemptRow where
  "provedRow = crossedRow\<lparr>rowEvidence := Some (encodeEvidence sampleEvidence), rowUpdatedAt := 8\<rparr>"

definition provedStore :: Store where
  "provedStore = observedStore\<lparr>attempts := [provedRow]\<rparr>"

lemma sampleEvidence_bytes: "byte_length (encodeEvidence sampleEvidence) \<le> 65536"
  by (simp add: sampleEvidence_def sample_size) (simp add: sample_text)

lemma sample_proves: "validateRootEvidence crossedAttempt (encodeEvidence sampleEvidence) = Inr sampleEvidence"
  unfolding validateRootEvidence_iff
  by (simp add: sampleEvidence_def crossedAttempt_def sampleAttempt_def is_safe_integer_def)

lemma observed_row: "attemptRow observedStore (js ''a'') = Some crossedRow"
  using crossed_row by (simp add: observedStore_def attemptRow_def)

lemma observed_get: "require_attempt sampleOwner (js ''a'') observedStore = (Inr crossedAttempt, observedStore)"
  using sample_decode [where st = Dispatching and c = "Some 6" and u = 6] observed_row
  by (simp add: require_attempt_def get_attempt_def runs crossedRow_def crossedAttempt_def)

lemma sample_prove:
  "recordAcceptance sampleOwner (js ''a'') sampleEvidence None None 8 observedStore = (Inr (), provedStore)"
proof -
  have time: "transitionTime (js ''a'') 8 observedStore = (Inr 8, observedStore)"
    by (simp add: transitionTime_def reads_def observed_row crossedRow_def sample_row_fields)
  have "attemptChecks sampleOwner provedRow"
    using sample_row_checks sampleEvidence_bytes
    by (simp add: attemptChecks_def provedRow_def crossedRow_def stampOk_def sample_row_fields withinBytes_def)
  moreover have "crossedRow\<lparr>rowEvidence := Some (encodeEvidence sampleEvidence),
      rowNativeTurnId := rowNativeTurnId crossedRow, rowNativeOperationId := rowNativeOperationId crossedRow,
      rowUpdatedAt := 8\<rparr> = provedRow"
    by (simp add: provedRow_def crossedRow_def sampleRow_def preparedRow_def)
  moreover have "attempts observedStore = [crossedRow]" "provedStore = observedStore\<lparr>attempts := [provedRow]\<rparr>"
    "acceptanceEvidence crossedAttempt = None" "transcriptGap crossedAttempt = False"
    "rowState crossedRow = Dispatching" "hasId (js ''a'') crossedRow"
    by (simp_all add: observedStore_def crossedStore_def provedStore_def crossedAttempt_def sampleAttempt_def
        crossedRow_def hasId_def sample_row_fields)
  ultimately show ?thesis
    using sampleEvidence_bytes sample_proves
    by (simp add: recordAcceptance_def Let_def runs transaction_def observed_get time update_one)
qed

definition admittedRow :: AttemptRow where
  "admittedRow = provedRow\<lparr>rowState := Accepted, rowAcceptedAt := Some 9, rowUpdatedAt := 9\<rparr>"

definition admittedStore :: Store where
  "admittedStore = emptyStore\<lparr>attempts := [admittedRow]\<rparr>"

definition sampleAdmission ::
  "FrozenDeliveryAttempt \<Rightarrow> StagedProviderEnvelope list \<Rightarrow> Tables \<Rightarrow> jsstring + (unit \<times> Tables)" where
  "sampleAdmission a prepared T = Inr ((), T)"

lemma decodeAttempt_evidence:
  assumes "byte_length (encodeEvidence e) \<le> 65536" "rowEvidence r = None"
  shows "decodeAttempt (r\<lparr>rowEvidence := Some (encodeEvidence e), rowUpdatedAt := u\<rparr>) = decodeAttempt r"
proof -
  have "requireRecord (encodeEvidence e) ''acceptance evidence'' = Inr (evidenceMembers e)"
    by (simp add: encodeEvidence_members requireRecord_def asObject_def)
  with assms have first: "ebind (guard (byte_length (encodeEvidence e) \<le> 65536)
      ''acceptance_evidence_json must be a non-empty bounded string.'') (\<lambda>_.
      ebind (requireRecord (encodeEvidence e) ''acceptance evidence'') (\<lambda>_. Inr ())) = Inr ()"
    by (simp add: guard_def)
  show ?thesis
  proof (cases r)
    case (fields i c k p pi co ex t cm nc co' h pl n g nt no ow st cr ac re un ev rj rc gap ca ua)
    with assms(2) have "ev = None" by simp
    then show ?thesis
      unfolding fields decodeAttempt_def
      by (simp only: AttemptRow.simps option.case first)
  qed
qed

lemma decodeVerified_evidence:
  assumes "decodeVerified ow r = Inr a" "rowEvidence r = None"
    "byte_length (encodeEvidence e) \<le> 65536" "validateRootEvidence a (encodeEvidence e) = Inr e"
  shows "decodeVerified ow (r\<lparr>rowEvidence := Some (encodeEvidence e), rowUpdatedAt := u\<rparr>) =
    Inr (a\<lparr>acceptanceEvidence := Some e\<rparr>)"
proof -
  from assms(1,2) obtain json where json: "canonicalJson (localeLe ow) (rowPayload r) = Inr json"
    and checks: "json \<noteq> [] \<and> utf8_length json \<le> 67108864"
      "rowPayloadHash r \<noteq> [] \<and> utf8_length (rowPayloadHash r) \<le> 64" "sha256Hex ow json = rowPayloadHash r"
    and row: "decodeAttempt r = Inr a" "validateDecodedRootPayload a = Inr ()"
    unfolding decodeVerified_def ebind_eq_Inr guard_eq_Inr by auto
  show ?thesis
    using json checks row(2) assms(4) decodeAttempt_evidence [OF assms(3,2), of u] row(1)
    by (simp add: decodeVerified_def guard_def)
qed

lemma proved_get:
  "require_attempt sampleOwner (js ''a'') provedStore =
     (Inr (crossedAttempt\<lparr>acceptanceEvidence := Some sampleEvidence\<rparr>), provedStore)"
proof -
  have row: "attemptRow provedStore (js ''a'') = Some provedRow"
    by (simp add: attemptRow_def provedStore_def provedRow_def crossedRow_def sample_row_fields)
  have "decodeVerified sampleOwner crossedRow = Inr crossedAttempt" "rowEvidence crossedRow = None"
    using sample_decode [where st = Dispatching and c = "Some 6" and u = 6]
    by (simp_all add: crossedRow_def crossedAttempt_def sample_row_fields)
  from decodeVerified_evidence [OF this sampleEvidence_bytes sample_proves] row show ?thesis
    by (simp add: require_attempt_def get_attempt_def runs provedRow_def)
qed

lemma sample_admit:
  "admit_attempt sampleOwner (js ''a'') sampleAdmission [] [js ''e1''] 9 provedStore =
     (Inr (Some ()), admittedStore)"
proof -
  have row: "attemptRow provedStore (js ''a'') = Some provedRow"
    by (simp add: attemptRow_def provedStore_def provedRow_def crossedRow_def sample_row_fields)
  have time: "transitionTime (js ''a'') 9 provedStore = (Inr 9, provedStore)"
    by (simp add: transitionTime_def reads_def row provedRow_def crossedRow_def sample_row_fields)
  have work: "on_tables (sampleAdmission x []) provedStore = (Inr (), provedStore)" for x
    by (simp add: on_tables_def sampleAdmission_def)
  let ?s = "provedStore\<lparr>attempts := [admittedRow]\<rparr>"
  have "attemptChecks sampleOwner admittedRow"
    using sample_row_checks sampleEvidence_bytes
    by (simp add: attemptChecks_def admittedRow_def provedRow_def crossedRow_def stampOk_def sample_row_fields
        withinBytes_def)
  moreover have "provedRow\<lparr>rowState := Accepted, rowAcceptedAt := Some 9, rowUnknownAt := None,
      rowUpdatedAt := 9\<rparr> = admittedRow"
    by (simp add: admittedRow_def provedRow_def crossedRow_def sampleRow_def preparedRow_def)
  moreover have "attempts provedStore = [provedRow]" "rowState provedRow = Dispatching"
    "hasId (js ''a'') provedRow" "attemptState crossedAttempt = Dispatching"
    by (simp_all add: provedStore_def provedRow_def crossedRow_def hasId_def sample_row_fields
        crossedAttempt_def sampleAttempt_def)
  moreover have "deleteStagedPrefix (js ''a'') [js ''e1''] ?s = (Inr (), admittedStore)"
    by (simp add: deleteStagedPrefix_def deleteStage_def obind_def reads_def stageRows_def ret_def
        provedStore_def observedStore_def crossedStore_def admittedStore_def emptyStore_def sampleStage_def)
  ultimately show ?thesis
    by (simp add: admit_attempt_def runs transaction_def proved_get time work update_one)
qed

text \<open>The stores of the sample delivery are reached by the owner's steps.\<close>

lemma empty_valid: "valid sampleOwner emptyStore"
  by (simp add: valid_def emptyStore_def stage_of_def stage_ok_def)

lemma sample_steps:
  "delivery_step sampleOwner emptyStore preparedStore"
  "delivery_step sampleOwner preparedStore crossedStore"
  "delivery_step sampleOwner crossedStore observedStore"
  "delivery_step sampleOwner observedStore provedStore"
  "delivery_step sampleOwner provedStore admittedStore"
  by (rule delivery_step.intros, rule sample_prepare sample_cross sample_observe sample_prove sample_admit)+

lemma sample_runs:
  "(delivery_step sampleOwner)\<^sup>*\<^sup>* emptyStore admittedStore"
  "(delivery_step sampleOwner)\<^sup>*\<^sup>* crossedStore admittedStore"
  "(delivery_step sampleOwner)\<^sup>*\<^sup>* admittedStore (admittedStore\<lparr>tables := T\<rparr>)"
  using sample_steps delivery_step.journal [of sampleOwner admittedStore T]
  by (meson converse_rtranclp_into_rtranclp rtranclp.rtrancl_refl)+

lemma sample_valid:
  "valid sampleOwner preparedStore" "valid sampleOwner crossedStore" "valid sampleOwner observedStore"
  "valid sampleOwner provedStore" "valid sampleOwner admittedStore"
  using empty_valid sample_steps step_grows by blast+

subsection \<open>A root turn of unknown outcome\<close>

definition samplePayload :: jsrecord where
  "samplePayload =
     [(js ''turnId'', JString (js ''t'')), (js ''clientMessageId'', JString (js ''m'')),
      (js ''nativeClientMessageId'', JString (js ''n'')), (js ''content'', JArray []),
      (js ''model'', JString (js ''q'')), (js ''access'', JString (js ''read-only''))]"

definition lostRow :: AttemptRow where
  "lostRow =
     \<lparr>rowAttemptId = js ''b'', rowCommandId = js ''d'', rowKind = RootTurn, rowProvider = Codex,
      rowProviderInstanceId = js ''p'', rowConversationId = js ''c'', rowExecutionId = js ''x'',
      rowIntendedTurnId = Some (js ''t''), rowClientMessageId = Some (js ''m''),
      rowNativeClientMessageId = Some (js ''n''), rowCompactOperationId = None,
      rowPayloadHash = replicate 64 48, rowPayload = JObject samplePayload,
      rowNativeSessionId = js ''s'', rowProcessGeneration = Some (js ''g''), rowNativeTurnId = None,
      rowNativeOperationId = None, rowOwnerInstanceId = js ''w'', rowState = Unknown,
      rowCrossedAt = Some 5, rowAcceptedAt = None, rowRejectedAt = None, rowUnknownAt = Some 6,
      rowEvidence = None, rowRejection = None, rowRecovery = None, rowTranscriptGap = False,
      rowCreatedAt = 5, rowUpdatedAt = 6\<rparr>"

definition lostStore :: Store where
  "lostStore = emptyStore\<lparr>attempts := [lostRow]\<rparr>"

lemma lost_ids [simp]:
  "is_identifier (js ''b'')" "is_identifier (js ''t'')" "is_identifier (js ''m'')" "is_identifier (js ''n'')"
  by (simp_all add: is_identifier_def identifier_chars_def alnum_def js_simps)

lemma lost_json:
  "\<exists>json. canonicalJson (localeLe sampleOwner) (JObject samplePayload) = Inr json \<and> json \<noteq> [] \<and>
     utf8_length json \<le> 67108864"
  by (simp add: canonicalJson.simps sort_keys_def sampleOwner_def samplePayload_def js_simps
      json_quote_def quote_char_def utf8_length_def)

definition lostAttempt :: FrozenDeliveryAttempt where
  "lostAttempt =
     \<lparr>attemptId = js ''b'', attemptCommandId = js ''d'', attemptKind = RootTurn,
      attemptProvider = Codex, attemptProviderInstanceId = js ''p'',
      attemptConversationId = js ''c'', attemptExecutionId = js ''x'',
      intendedTurnId = Some (js ''t''), clientMessageId = Some (js ''m''),
      nativeClientMessageId = Some (js ''n''), compactOperationId = None,
      recoveryPayloadHash = replicate 64 48, recoveryPayload = JObject samplePayload,
      attemptNativeSessionId = js ''s'', processGeneration = Some (js ''g''), attemptNativeTurnId = None,
      nativeOperationId = None, ownerInstanceId = js ''w'', attemptState = Unknown,
      crossedAt = Some 5, acceptanceEvidence = None, transcriptGap = False\<rparr>"

lemma lost_payload:
  "requireRecord (JObject samplePayload) name = Inr samplePayload"
  "keysIn samplePayload (payloadKeys RootTurn)"
  "fld samplePayload ''turnId'' = JString (js ''t'')"
  "fld samplePayload ''clientMessageId'' = JString (js ''m'')"
  "fld samplePayload ''nativeClientMessageId'' = JString (js ''n'')"
  "fld samplePayload ''content'' = JArray []" "fld samplePayload ''model'' = JString (js ''q'')"
  "fld samplePayload ''access'' = JString (js ''read-only'')" "fld samplePayload ''effort'' = JUndefined"
  "fld samplePayload ''serviceTier'' = JUndefined" "fld samplePayload ''origin'' = JUndefined"
  "fld samplePayload ''trigger'' = JUndefined"
  by (simp_all add: requireRecord_def fld_def keysIn_def js_simps asObject_def samplePayload_def
      payloadKeys_def)

lemma lost_decode: "decodeVerified sampleOwner lostRow = Inr lostAttempt"
proof -
  from lost_json obtain json where "canonicalJson (localeLe sampleOwner) (JObject samplePayload) = Inr json"
    "json \<noteq> []" "utf8_length json \<le> 67108864" by blast
  moreover have "decodeAttempt lostRow = Inr lostAttempt"
    by (simp add: decodeAttempt_def lostRow_def lostAttempt_def guard_def)
  moreover have "validateDecodedRootPayload lostAttempt = Inr ()"
    by (simp add: validateDecodedRootPayload_def lostAttempt_def lost_payload optVal_def guard_def isString_def
        Let_def js_simps)
  moreover have "rowPayload lostRow = JObject samplePayload" "rowPayloadHash lostRow = replicate 64 48"
    "rowEvidence lostRow = None"
    by (simp_all add: lostRow_def)
  ultimately show ?thesis
    by (simp add: decodeVerified_def guard_def)
qed

lemma lost_checks: "attemptChecks sampleOwner lostRow"
proof -
  from lost_json obtain json where "canonicalJson (localeLe sampleOwner) (JObject samplePayload) = Inr json"
    "utf8_length json \<le> 67108864" by blast
  then show ?thesis
    by (simp add: attemptChecks_def lostRow_def withinBytes_def stampOk_def)
qed

lemma lost_valid: "valid sampleOwner lostStore"
proof -
  have "rowNativeTurnId lostRow = None" "rowNativeOperationId lostRow = None"
    by (simp_all add: lostRow_def)
  with lost_checks show ?thesis
    by (simp add: valid_def lostStore_def emptyStore_def row_ok_def stage_of_def stage_ok_def)
qed

lemma lost_store:
  "attempts lostStore = [lostRow]" "stageRows lostStore i = []" "tables lostStore = sampleTables"
  "attemptRow lostStore (js ''b'') = Some lostRow"
  by (simp_all add: lostStore_def emptyStore_def stageRows_def attemptRow_def) (simp add: lostRow_def)

lemma lost_get: "require_attempt sampleOwner (js ''b'') lostStore = (Inr lostAttempt, lostStore)"
  by (simp add: require_attempt_def get_attempt_def runs lost_store lost_decode)

lemma lost_staged: "staged (js ''b'') lostStore = (Inr [], lostStore)"
  by (simp add: staged_def lost_store)

lemma lost_time: "transitionTime (js ''b'') 9 lostStore = (Inr 9, lostStore)"
  by (simp add: transitionTime_def reads_def lost_store) (simp add: lostRow_def)

definition abandonedRow :: AttemptRow where
  "abandonedRow = lostRow\<lparr>rowState := Abandoned,
     rowRecovery := Some (recoveryDetail None (resolutionDetail (js ''k'') 9)), rowUpdatedAt := 9\<rparr>"

lemma sample_abandon:
  "abandon sampleOwner (js ''b'') (js ''k'') 9 lostStore =
     (Inr lostAttempt, lostStore\<lparr>attempts := [abandonedRow]\<rparr>)"
proof -
  have stored: "storedRecovery (js ''b'') lostStore = (Inr None, lostStore)"
    by (simp add: storedRecovery_def reads_def lost_store) (simp add: lostRow_def)
  have "rowState lostRow = Unknown" "hasId (js ''b'') lostRow" "rowEvidence lostRow = None"
    "rowCreatedAt lostRow = 5" "rowUpdatedAt lostRow = 6"
    by (simp_all add: lostRow_def hasId_def)
  moreover from this lost_checks have "attemptChecks sampleOwner abandonedRow"
    using step_abandon [of sampleOwner lostRow 9 "recoveryDetail None (resolutionDetail (js ''k'') 9)"]
      lost_valid recoveryDetail_size by (simp add: valid_def lost_store row_ok_def abandonedRow_def)
  moreover have "attemptState lostAttempt = Unknown" "acceptanceEvidence lostAttempt = None"
    "transcriptGap lostAttempt = False" "attemptKind lostAttempt = RootTurn"
    by (simp_all add: lostAttempt_def)
  ultimately show ?thesis
    by (simp add: abandon_def Let_def runs transaction_def lost_get lost_staged lost_time stored
        update_one lost_store abandonedRow_def)
qed

text \<open>The rejection Codex answers while a compaction runs.\<close>

definition sampleRejection :: ProviderRejectionEvidence where
  "sampleRejection =
     \<lparr>rejectionThreadId = js ''s'', rejectionSource = LegacyRecordedResponse, rejectionRequestId = None\<rparr>"

definition sampleError :: ProviderDeliveryError where
  "sampleError = \<lparr>deliveryCode = js ''codex_active_compaction'',
     deliveryMessage = CODEX_ACTIVE_COMPACT_REJECTION, deliveryRetryable = None\<rparr>"

definition declinedRow :: AttemptRow where
  "declinedRow = lostRow\<lparr>rowState := Rejected, rowRejectedAt := Some 9, rowUnknownAt := None,
     rowRejection := Some (rejectionJson sampleError sampleRejection), rowUpdatedAt := 9\<rparr>"

lemma sample_decline:
  "rejectProviderResponse sampleOwner (js ''b'') sampleRejection sampleError 9 lostStore =
     (Inr True, lostStore\<lparr>attempts := [declinedRow]\<rparr>)"
proof -
  have applies: "rejectionApplies lostAttempt sampleRejection sampleError"
    by (simp add: rejectionApplies_def lostAttempt_def sampleRejection_def sampleError_def
        isCodexActiveCompactRejection_def)
  have work: "on_tables (\<lambda>T. ebind (appendEvents sampleOwner [] T) (\<lambda>T'. Inr ((), T'))) lostStore =
      (Inr (), lostStore)"
    by (simp add: on_tables_def sampleOwner_def)
  have gone: "deleteStagedPrefix i [] s = (Inr (), s)" for i s
    by (simp add: deleteStagedPrefix_def ret_def)
  have "byte_length (rejectionJson sampleError sampleRejection) \<le> 65536"
    using legacy_rejection_fits [of "js ''s''" CODEX_ACTIVE_COMPACT_REJECTION]
    by (simp add: sampleError_def sampleRejection_def isCodexActiveCompactRejection_def js_simps)
  then have "attemptChecks sampleOwner declinedRow"
    using step_decline [of sampleOwner lostRow 9 "rejectionJson sampleError sampleRejection"]
      lost_valid rejectionJson_kind [of sampleError sampleRejection]
    by (simp add: valid_def lost_store row_ok_def declinedRow_def) (simp add: lostRow_def)
  moreover have "rowState lostRow = Unknown" "hasId (js ''b'') lostRow"
    by (simp_all add: lostRow_def hasId_def)
  ultimately show ?thesis
    by (simp add: rejectProviderResponse_def rejectionJson_def [symmetric] runs transaction_def lost_get
        lost_staged lost_time applies work gone update_one lost_store declinedRow_def)
qed

end
