(* ===== verification/JournalCommands.thy ===== *)
theory JournalCommands
  imports DeliveryJson StoreOps
begin

text \<open>
  The part of the native journal (extensions/agent/server/src/native-runtime/native-journal.ts)
  that federated work rests on: the command receipts, which make a command with a stable identity
  take effect once, and the executions.  The tables are those of schema.ts.

  \<^item> A receipt is claimed with the hash of the canonical text of its request, moves to
    \<^verbatim>\<open>dispatching\<close>, and is settled once; a second claim finds it.
  \<^item> A promise of \<^verbatim>\<open>runAsyncCommand\<close> is the number the caller finds it by.
\<close>

subsection \<open>Tables\<close>

datatype ReceiptState =
  ReceiptReceived | ReceiptDispatching | ReceiptAccepted | ReceiptRejected | ReceiptRecoveryFailed

record CommandReceipt =
  crCommandId :: jsstring
  crKind :: jsstring
  crRequestHash :: jsstring
  crState :: ReceiptState
  crResult :: "jsval option"
  crErrorMessage :: "jsstring option"

record CommandReceiptRow = CommandReceipt +
  crCreatedAt :: nat
  crUpdatedAt :: nat

datatype ExecutionOwnership = RootExecution | NativeExecution | FederatedExecution

datatype FederationScheduling = Background | Foreground

record JournalExecution =
  exId :: jsstring
  exConversationId :: jsstring
  exStrandId :: "jsstring option"
  exParentId :: "jsstring option"
  exRootTurnId :: "jsstring option"
  exOwnership :: ExecutionOwnership
  exProvider :: ProviderKind
  exProviderInstanceId :: jsstring
  exModel :: "jsstring option"
  exEffort :: "jsstring option"
  exServiceTier :: "jsstring option"
  exCheckoutKey :: "jsstring option"
  exAccess :: "ProviderAccess option"
  exScheduling :: "FederationScheduling option"
  exDepth :: nat
  exTitle :: "jsstring option"
  exState :: ProviderExecutionState
  exOutcome :: "ProviderTurnOutcome option"
  exSummary :: "jsstring option"
  exLifecycleError :: "jsstring option"
  exTranscriptAvailable :: bool
  exCreatedAt :: nat
  exCompletedAt :: "nat option"
  exUpdatedAt :: nat

datatype ReservationState = Held | UnknownHeld | Released

datatype ReleaseReason = PreDispatchFailure | NativeTerminal

text \<open>\<^verbatim>\<open>terminal_evidence_json\<close> holds the value its text denotes.\<close>

record Reservation =
  rvExecutionId :: jsstring
  rvCheckoutKey :: "jsstring option"
  rvCommandId :: "jsstring option"
  rvExpectedTurnId :: "jsstring option"
  rvAccess :: ProviderAccess
  rvScheduling :: FederationScheduling
  rvState :: ReservationState
  rvTerminalEvidence :: "jsval option"
  rvReleaseReason :: "ReleaseReason option"
  rvCreatedAt :: nat
  rvUpdatedAt :: nat
  rvReleasedAt :: "nat option"

text \<open>The columns of a turn that are read here.\<close>

record JournalTurnRow =
  jtTurnId :: jsstring
  jtExecutionId :: jsstring
  jtCommandId :: jsstring
  jtNativeTurnId :: "jsstring option"

record InFlightCommand =
  flightKind :: jsstring
  flightRequestHash :: jsstring
  flightPromise :: nat

text \<open>
  The journal: its tables, of a conversation only \<^verbatim>\<open>cwd\<close> and of a head only its strand, and the
  commands in flight.
\<close>

record Journal =
  jReceipts :: "CommandReceiptRow list"
  jExecutions :: "JournalExecution list"
  jReservations :: "Reservation list"
  jTurns :: "JournalTurnRow list"
  jConversations :: "(jsstring \<times> jsstring) list"
  jHeads :: "(jsstring \<times> jsstring) list"
  jProviderInstances :: "jsstring list"
  jNativeSessions :: "(jsstring \<times> NativeSessionRef) list"
  jChildHandles :: "(jsstring \<times> jsstring) list"
  jInFlight :: "(jsstring \<times> InFlightCommand) list"

text \<open>The platform: SHA-256 in hex, \<^verbatim>\<open>localeCompare\<close>, and the text of a failed constraint.\<close>

record Platform =
  platformSha256 :: "jsstring \<Rightarrow> jsstring"
  platformLe :: "jsstring \<Rightarrow> jsstring \<Rightarrow> bool"
  constraintText :: jsstring

datatype JournalError =
    JournalRefused jsstring
  | UnserializableInput jsstring
  | ConstraintViolation
  | ReceiptConflict jsstring
  | CommandInProgress jsstring
  | CommandSettled CommandReceipt

type_synonym 'a jop = "(Journal, JournalError, 'a) store_op"

definition fails_with :: "jsstring \<Rightarrow> 'a jop" where
  "fails_with message = throw (JournalRefused message)"

text \<open>\<^verbatim>\<open>messageOf(error)\<close>.\<close>

fun messageOf :: "Platform \<Rightarrow> JournalError \<Rightarrow> jsstring" where
  "messageOf P (JournalRefused m) = m"
| "messageOf P (UnserializableInput m) = m"
| "messageOf P ConstraintViolation = constraintText P"
| "messageOf P (ReceiptConflict c) = js ''Command '' @ c @ js '' was reused with different input.''"
| "messageOf P (CommandInProgress c) = js ''Command '' @ c @ js '' is already in progress.''"
| "messageOf P (CommandSettled r) =
     js ''Command '' @ crCommandId r @ js '' settled while checkout resolution was in progress.''"

subsection \<open>The hash of a request\<close>

fun commandText :: "(jsstring \<Rightarrow> jsstring \<Rightarrow> bool) \<Rightarrow> jsval \<Rightarrow> JournalError + jsstring"
  and commandElements ::
    "(jsstring \<Rightarrow> jsstring \<Rightarrow> bool) \<Rightarrow> jsval list \<Rightarrow> (jsstring \<times> (JournalError + jsstring)) list"
  and commandMembers ::
    "(jsstring \<Rightarrow> jsstring \<Rightarrow> bool) \<Rightarrow> jsrecord \<Rightarrow> (jsstring \<times> (JournalError + jsstring)) list"
  where
  "commandText le JUndefined = Inl (UnserializableInput (js ''Command input must be JSON serializable.''))"
| "commandText le JNonFinite = Inl (UnserializableInput (js ''Command input must contain finite numbers.''))"
| "commandText le JNull = Inr (js ''null'')"
| "commandText le (JBool b) = Inr (if b then js ''true'' else js ''false'')"
| "commandText le (JNumber q) = Inr (number_text q)"
| "commandText le (JString t) = Inr (json_quote t)"
| "commandText le (JArray xs) =
     ebind (all_or_first (commandElements le xs))
       (\<lambda>ts. Inr (js ''['' @ join_with (js '','') (map snd ts) @ js '']''))"
| "commandText le (JObject r) =
     ebind (all_or_first (sort_keys le (commandMembers le r)))
       (\<lambda>ts. Inr (js ''{'' @ join_with (js '','') (map (\<lambda>(k, t). json_quote k @ js '':'' @ t) ts) @ js ''}''))"
| "commandText le (JInstance r) =
     ebind (all_or_first (sort_keys le (commandMembers le r)))
       (\<lambda>ts. Inr (js ''{'' @ join_with (js '','') (map (\<lambda>(k, t). json_quote k @ js '':'' @ t) ts) @ js ''}''))"
| "commandElements le [] = []"
| "commandElements le (x # xs) = ([], commandText le x) # commandElements le xs"
| "commandMembers le [] = []"
| "commandMembers le ((k, v) # r) = (k, commandText le v) # commandMembers le r"

definition hashJson :: "Platform \<Rightarrow> jsval \<Rightarrow> JournalError + jsstring" where
  "hashJson P v = ebind (commandText (platformLe P) v) (\<lambda>t. Inr (platformSha256 P t))"

subsection \<open>Receipts\<close>

definition receiptRow :: "CommandReceiptRow \<Rightarrow> CommandReceipt" where
  "receiptRow r = CommandReceipt.truncate r"

definition receiptChecks :: "CommandReceiptRow \<Rightarrow> bool" where
  "receiptChecks r = (is_sha256 (crRequestHash r) \<and> crCreatedAt r \<le> crUpdatedAt r)"

definition receiptRowOf :: "Journal \<Rightarrow> jsstring \<Rightarrow> CommandReceiptRow option" where
  "receiptRowOf s c = find (\<lambda>r. crCommandId r = c) (jReceipts s)"

definition commandReceipt :: "Journal \<Rightarrow> jsstring \<Rightarrow> CommandReceipt option" where
  "commandReceipt s c = map_option receiptRow (receiptRowOf s c)"

definition insertReceipt :: "CommandReceiptRow \<Rightarrow> unit jop" where
  "insertReceipt r s =
     (if receiptChecks r \<and> crCommandId r \<notin> crCommandId ` set (jReceipts s)
      then (Inr (), s\<lparr>jReceipts := jReceipts s @ [r]\<rparr>) else (Inl ConstraintViolation, s))"

definition updateReceipts ::
  "(CommandReceiptRow \<Rightarrow> bool) \<Rightarrow> (CommandReceiptRow \<Rightarrow> CommandReceiptRow) \<Rightarrow> unit jop" where
  "updateReceipts sel upd s =
     (if list_all (\<lambda>r. sel r \<longrightarrow> receiptChecks (upd r)) (jReceipts s)
      then (Inr (), s\<lparr>jReceipts := map (\<lambda>r. if sel r then upd r else r) (jReceipts s)\<rparr>)
      else (Inl ConstraintViolation, s))"

definition receivedReceipt :: "jsstring \<Rightarrow> jsstring \<Rightarrow> jsstring \<Rightarrow> nat \<Rightarrow> CommandReceiptRow" where
  "receivedReceipt c kind h now =
     \<lparr>crCommandId = c, crKind = kind, crRequestHash = h, crState = ReceiptReceived, crResult = None,
      crErrorMessage = None, crCreatedAt = now, crUpdatedAt = now\<rparr>"

text \<open>The claim says whether it created the receipt.\<close>

definition claimCommand :: "Platform \<Rightarrow> jsstring \<Rightarrow> jsstring \<Rightarrow> jsval \<Rightarrow> nat \<Rightarrow> (bool \<times> CommandReceipt) jop" where
  "claimCommand P c kind request now =
     obind (lift (hashJson P request)) (\<lambda>h.
     obind (reads (\<lambda>s. map_of (jInFlight s) c)) (\<lambda>inFlight.
     if (case inFlight of None \<Rightarrow> False | Some f \<Rightarrow> flightKind f \<noteq> kind \<or> flightRequestHash f \<noteq> h)
     then throw (ReceiptConflict c) else
     obind (reads (\<lambda>s. commandReceipt s c)) (\<lambda>existing.
     case existing of
       Some r \<Rightarrow> if crKind r \<noteq> kind \<or> crRequestHash r \<noteq> h then throw (ReceiptConflict c) else ret (False, r)
     | None \<Rightarrow>
         obind (insertReceipt (receivedReceipt c kind h now)) (\<lambda>_.
         ret (True, receiptRow (receivedReceipt c kind h now))))))"

definition inspectCommand :: "Platform \<Rightarrow> jsstring \<Rightarrow> jsstring \<Rightarrow> jsval \<Rightarrow> CommandReceipt option jop" where
  "inspectCommand P c kind request =
     obind (lift (hashJson P request)) (\<lambda>h.
     obind (reads (\<lambda>s. commandReceipt s c)) (\<lambda>receipt.
     if (case receipt of None \<Rightarrow> False | Some r \<Rightarrow> crKind r \<noteq> kind \<or> crRequestHash r \<noteq> h)
     then throw (ReceiptConflict c) else ret receipt))"

definition openReceipt :: "jsstring \<Rightarrow> CommandReceiptRow \<Rightarrow> bool" where
  "openReceipt c r = (crCommandId r = c \<and> crState r \<in> {ReceiptReceived, ReceiptDispatching})"

definition markCommandDispatching :: "jsstring \<Rightarrow> nat \<Rightarrow> unit jop" where
  "markCommandDispatching c now =
     updateReceipts (\<lambda>r. crCommandId r = c \<and> crState r = ReceiptReceived)
       (\<lambda>r. r\<lparr>crState := ReceiptDispatching, crUpdatedAt := now\<rparr>)"

text \<open>A result whose JSON text is undefined cannot be bound to the statement.\<close>

definition acceptCommand :: "jsstring \<Rightarrow> jsval \<Rightarrow> nat \<Rightarrow> unit jop" where
  "acceptCommand c result now =
     (if json_text result = None then throw (UnserializableInput (js ''Provided value cannot be bound''))
      else updateReceipts (openReceipt c)
        (\<lambda>r. r\<lparr>crState := ReceiptAccepted, crResult := Some result, crErrorMessage := None, crUpdatedAt := now\<rparr>))"

definition rejectCommand :: "jsstring \<Rightarrow> jsstring \<Rightarrow> nat \<Rightarrow> unit jop" where
  "rejectCommand c message now =
     updateReceipts (openReceipt c)
       (\<lambda>r. r\<lparr>crState := ReceiptRejected, crErrorMessage := Some message, crUpdatedAt := now\<rparr>)"

definition failCommandRecovery :: "jsstring \<Rightarrow> jsstring \<Rightarrow> nat \<Rightarrow> unit jop" where
  "failCommandRecovery c message now =
     updateReceipts (openReceipt c)
       (\<lambda>r. r\<lparr>crState := ReceiptRecoveryFailed, crErrorMessage := Some message, crUpdatedAt := now\<rparr>)"

subsection \<open>Commands in flight\<close>

datatype AsyncCommand = JoinInFlight nat | OwnInFlight nat

text \<open>
  \<^verbatim>\<open>runAsyncCommand\<close> up to the call of its body: a command in flight with the same input is
  joined, with other input it is refused, and otherwise the caller's fresh promise is entered and
  the body runs.  \<open>settleAsyncCommand\<close> is the cleanup when that promise settles.
\<close>

definition runAsyncCommand :: "Platform \<Rightarrow> jsstring \<Rightarrow> jsstring \<Rightarrow> jsval \<Rightarrow> nat \<Rightarrow> AsyncCommand jop" where
  "runAsyncCommand P c kind request fresh =
     obind (lift (hashJson P request)) (\<lambda>h.
     obind (reads (\<lambda>s. map_of (jInFlight s) c)) (\<lambda>existing.
     case existing of
       Some f \<Rightarrow> if flightKind f \<noteq> kind \<or> flightRequestHash f \<noteq> h then throw (ReceiptConflict c)
         else ret (JoinInFlight (flightPromise f))
     | None \<Rightarrow> (\<lambda>s. (Inr (OwnInFlight fresh),
         s\<lparr>jInFlight := (c, \<lparr>flightKind = kind, flightRequestHash = h, flightPromise = fresh\<rparr>) # jInFlight s\<rparr>))))"

definition settleAsyncCommand :: "jsstring \<Rightarrow> nat \<Rightarrow> unit jop" where
  "settleAsyncCommand c promise s =
     (Inr (), if map_option flightPromise (map_of (jInFlight s) c) = Some promise
        then s\<lparr>jInFlight := filter (\<lambda>(k, f). k \<noteq> c) (jInFlight s)\<rparr> else s)"

end
