(* ===== verification/CheckoutStore.thy ===== *)
theory CheckoutStore
  imports JournalCommands
begin

text \<open>
  The statements of native-journal.ts on \<^verbatim>\<open>federation_checkout_reservations\<close> and on the executions
  that hold them.  A federated execution that works in a checkout holds a reservation; of those that
  may write, a checkout has one at a time, and of background readers four.  A query without an
  order answers in the order of the table.
\<close>

subsection \<open>The constraints of the tables\<close>

definition reservationChecks :: "Reservation \<Rightarrow> bool" where
  "reservationChecks r =
     (rvCreatedAt r \<le> rvUpdatedAt r \<and>
      (case rvReleasedAt r of None \<Rightarrow> True | Some t \<Rightarrow> rvCreatedAt r \<le> t) \<and>
      (rvCommandId r = None \<longleftrightarrow> rvExpectedTurnId r = None) \<and>
      (rvState r \<noteq> Held \<or> rvCheckoutKey r \<noteq> None \<and> rvCommandId r \<noteq> None \<and> rvExpectedTurnId r \<noteq> None) \<and>
      (rvState r = Released \<longleftrightarrow> rvReleasedAt r \<noteq> None) \<and>
      (rvState r = Released \<longleftrightarrow> rvReleaseReason r \<noteq> None))"

definition reservationReferences :: "Journal \<Rightarrow> Reservation \<Rightarrow> bool" where
  "reservationReferences s r =
     (rvExecutionId r \<in> exId ` set (jExecutions s) \<and>
      (case rvCommandId r of None \<Rightarrow> True | Some c \<Rightarrow> c \<in> crCommandId ` set (jReceipts s)))"

definition commandTaken :: "Journal \<Rightarrow> Reservation \<Rightarrow> bool" where
  "commandTaken s r =
     (rvCommandId r \<noteq> None \<and>
      rvCommandId r \<in> rvCommandId ` {q \<in> set (jReservations s). rvExecutionId q \<noteq> rvExecutionId r})"

definition reservation :: "Journal \<Rightarrow> jsstring \<Rightarrow> Reservation option" where
  "reservation s x = find (\<lambda>r. rvExecutionId r = x) (jReservations s)"

text \<open>\<^verbatim>\<open>UPDATE\<close> of the selected rows; none of the statements below changes a command or an execution.\<close>

definition updateReservations :: "(Reservation \<Rightarrow> bool) \<Rightarrow> (Reservation \<Rightarrow> Reservation) \<Rightarrow> nat jop" where
  "updateReservations sel upd s =
     (if list_all (\<lambda>r. sel r \<longrightarrow> reservationChecks (upd r)) (jReservations s)
      then (Inr (length (filter sel (jReservations s))),
            s\<lparr>jReservations := map (\<lambda>r. if sel r then upd r else r) (jReservations s)\<rparr>)
      else (Inl ConstraintViolation, s))"

definition insertReservation :: "Reservation \<Rightarrow> unit jop" where
  "insertReservation r s =
     (if reservationChecks r \<and> reservationReferences s r \<and> \<not> commandTaken s r
      then (Inr (), s\<lparr>jReservations := jReservations s @ [r]\<rparr>) else (Inl ConstraintViolation, s))"

subsection \<open>Statements of the journal\<close>

definition active :: "Reservation \<Rightarrow> bool" where
  "active r = (rvState r = Held \<or> rvState r = UnknownHeld)"

definition isWriter :: "ProviderAccess \<Rightarrow> bool" where
  "isWriter a = (a = WorkspaceWrite \<or> a = FullAccess)"

record CheckoutRequest =
  rqExecutionId :: jsstring
  rqCheckoutKey :: jsstring
  rqCommandId :: jsstring
  rqExpectedTurnId :: jsstring
  rqAccess :: ProviderAccess
  rqScheduling :: FederationScheduling
  rqNow :: nat

definition writerActive :: jsstring where
  "writerActive = js ''A federated workspace writer is already active for this checkout.''"

definition readersExceeded :: jsstring where
  "readersExceeded = js ''Background federated reader limit exceeded for this checkout.''"

definition heldReservation :: "CheckoutRequest \<Rightarrow> Reservation" where
  "heldReservation q =
     \<lparr>rvExecutionId = rqExecutionId q, rvCheckoutKey = Some (rqCheckoutKey q),
      rvCommandId = Some (rqCommandId q), rvExpectedTurnId = Some (rqExpectedTurnId q),
      rvAccess = rqAccess q, rvScheduling = rqScheduling q, rvState = Held, rvTerminalEvidence = None,
      rvReleaseReason = None, rvCreatedAt = rqNow q, rvUpdatedAt = rqNow q, rvReleasedAt = None\<rparr>"

text \<open>
  \<^verbatim>\<open>INSERT ... ON CONFLICT(execution_id) DO UPDATE ... WHERE state='released'\<close>: a released
  reservation of the execution is taken up again and keeps its creation time.
\<close>

definition upsertHeld :: "CheckoutRequest \<Rightarrow> unit jop" where
  "upsertHeld q =
     obind (reads (\<lambda>s. reservation s (rqExecutionId q))) (\<lambda>existing.
     case existing of
       None \<Rightarrow> insertReservation (heldReservation q)
     | Some r \<Rightarrow>
         if rvState r \<noteq> Released then ret ()
         else
           obind (reads (\<lambda>s. commandTaken s (heldReservation q) \<or>
             \<not> reservationReferences s (heldReservation q))) (\<lambda>bad.
           if bad then throw ConstraintViolation
           else obind (updateReservations (\<lambda>p. rvExecutionId p = rqExecutionId q)
             (\<lambda>p. (heldReservation q)\<lparr>rvCreatedAt := rvCreatedAt p,
                rvUpdatedAt := max (rvUpdatedAt p) (rqNow q)\<rparr>)) (\<lambda>_. ret ())))"

definition reserveFederatedCheckout :: "CheckoutRequest \<Rightarrow> unit jop" where
  "reserveFederatedCheckout q =
     obind (reads (\<lambda>s. filter active (jReservations s))) (\<lambda>held.
     let writer = isWriter (rqAccess q) in
     if list_ex (\<lambda>r. rvCheckoutKey r = None) held \<and> (writer \<or> rqScheduling q = Background)
     then fails_with (if \<not> writer then readersExceeded else writerActive)
     else if writer \<and> list_ex (\<lambda>r. rvCheckoutKey r = Some (rqCheckoutKey q) \<and> isWriter (rvAccess r)) held
     then fails_with writerActive
     else if \<not> writer \<and> rqScheduling q = Background \<and>
         4 \<le> length (filter (\<lambda>r. rvCheckoutKey r = Some (rqCheckoutKey q) \<and> rvAccess r = ReadOnly \<and>
            rvScheduling r = Background) held)
     then fails_with readersExceeded
     else
       obind (upsertHeld q) (\<lambda>_.
       obind (reads (\<lambda>s. reservation s (rqExecutionId q))) (\<lambda>row.
       if (case row of None \<Rightarrow> None | Some r \<Rightarrow> rvCommandId r) \<noteq> Some (rqCommandId q)
       then fails_with (js ''Federated execution already owns checkout capacity.'')
       else ret ())))"

definition ownedBy :: "jsstring \<Rightarrow> jsstring \<Rightarrow> jsstring \<Rightarrow> Reservation \<Rightarrow> bool" where
  "ownedBy x c t r = (rvExecutionId r = x \<and> rvCommandId r = Some c \<and> rvExpectedTurnId r = Some t)"

definition releaseFederatedCheckout ::
  "jsstring \<Rightarrow> jsstring \<Rightarrow> jsstring \<Rightarrow> ReleaseReason \<Rightarrow> jsval option \<Rightarrow> nat \<Rightarrow> bool jop" where
  "releaseFederatedCheckout x c t reason evidence now =
     obind (updateReservations (\<lambda>r. ownedBy x c t r \<and> active r)
       (\<lambda>r. r\<lparr>rvState := Released, rvTerminalEvidence := evidence, rvReleaseReason := Some reason,
          rvReleasedAt := Some (max (rvCreatedAt r) (max (rvUpdatedAt r) now)),
          rvUpdatedAt := max (rvUpdatedAt r) now\<rparr>))
     (\<lambda>changes. ret (changes = 1))"

definition recordFederatedTerminalEvidence ::
  "jsstring \<Rightarrow> jsstring \<Rightarrow> jsstring \<Rightarrow> jsval \<Rightarrow> nat \<Rightarrow> bool jop" where
  "recordFederatedTerminalEvidence x c t evidence now =
     obind (updateReservations (\<lambda>r. ownedBy x c t r \<and> active r)
       (\<lambda>r. r\<lparr>rvTerminalEvidence := Some evidence, rvUpdatedAt := max (rvUpdatedAt r) now\<rparr>))
     (\<lambda>changes. ret (changes = 1))"

definition markFederatedCheckoutUnknown :: "jsstring \<Rightarrow> jsstring \<Rightarrow> jsstring \<Rightarrow> nat \<Rightarrow> bool jop" where
  "markFederatedCheckoutUnknown x c t now =
     obind (updateReservations (\<lambda>r. ownedBy x c t r \<and> rvState r = Held)
       (\<lambda>r. r\<lparr>rvState := UnknownHeld, rvUpdatedAt := max (rvUpdatedAt r) now\<rparr>))
     (\<lambda>changes. ret (changes = 1))"

subsection \<open>Executions\<close>

definition journalExecution :: "Journal \<Rightarrow> jsstring \<Rightarrow> JournalExecution option" where
  "journalExecution s x = find (\<lambda>e. exId e = x) (jExecutions s)"

definition journalTurn :: "Journal \<Rightarrow> jsstring \<Rightarrow> JournalTurnRow option" where
  "journalTurn s t = find (\<lambda>r. jtTurnId r = t) (jTurns s)"

definition executionChecks :: "JournalExecution \<Rightarrow> bool" where
  "executionChecks e = (exDepth e \<le> 2 \<and> exCreatedAt e \<le> exUpdatedAt e)"

definition executionReferences :: "Journal \<Rightarrow> JournalExecution \<Rightarrow> bool" where
  "executionReferences s e =
     (exConversationId e \<in> fst ` set (jConversations s) \<and>
      (case exParentId e of None \<Rightarrow> True | Some p \<Rightarrow> p = exId e \<or> p \<in> exId ` set (jExecutions s)) \<and>
      exProviderInstanceId e \<in> set (jProviderInstances s))"

definition insertExecution :: "JournalExecution \<Rightarrow> unit jop" where
  "insertExecution e s =
     (if executionChecks e \<and> executionReferences s e \<and> exId e \<notin> exId ` set (jExecutions s)
      then (Inr (), s\<lparr>jExecutions := jExecutions s @ [e]\<rparr>) else (Inl ConstraintViolation, s))"

record FederatedExecutionInput =
  feExecutionId :: jsstring
  feConversationId :: jsstring
  feParentExecutionId :: jsstring
  feRootTurnId :: jsstring
  feProvider :: ProviderKind
  feProviderInstanceId :: jsstring
  feModel :: jsstring
  feEffort :: "jsstring option"
  feServiceTier :: "jsstring option"
  feCheckoutKey :: "jsstring option"
  feAccess :: ProviderAccess
  feScheduling :: FederationScheduling
  feDepth :: nat
  feTitle :: jsstring
  feNow :: nat

definition createFederatedExecution :: "FederatedExecutionInput \<Rightarrow> unit jop" where
  "createFederatedExecution i =
     obind (reads (\<lambda>s. map_of (jHeads s) (feConversationId i))) (\<lambda>strand.
     insertExecution
       \<lparr>exId = feExecutionId i, exConversationId = feConversationId i, exStrandId = strand,
        exParentId = Some (feParentExecutionId i), exRootTurnId = Some (feRootTurnId i),
        exOwnership = FederatedExecution, exProvider = feProvider i,
        exProviderInstanceId = feProviderInstanceId i, exModel = Some (feModel i),
        exEffort = feEffort i, exServiceTier = feServiceTier i, exCheckoutKey = feCheckoutKey i,
        exAccess = Some (feAccess i), exScheduling = Some (feScheduling i), exDepth = feDepth i,
        exTitle = Some (feTitle i), exState = ExecRecovering, exOutcome = None, exSummary = None,
        exLifecycleError = None, exTranscriptAvailable = True, exCreatedAt = feNow i,
        exCompletedAt = None, exUpdatedAt = feNow i\<rparr>)"

end
