(* ===== verification/CheckoutOwner.thy ===== *)
theory CheckoutOwner
  imports CheckoutStore
begin

text \<open>
  The owner of checkouts for federated executions
  (extensions/agent/server/src/native-runtime/federation-checkout-owner.ts).  A reservation is taken
  with the claim of its command, is of unknown fate once a dispatch fails or the server restarts, and
  is released when nothing was dispatched, or on the provider's own terminal event once no native
  descendant can still write.

  \<^item> \<open>validateAndCreate\<close> of \<open>claimAndReserve\<close> is an operation of the caller, and the checkout
    resolver's answer is an argument of \<open>resolveNew\<close>.
\<close>

subsection \<open>Native descendants\<close>

datatype DescendantState = DescendantsClear | DescendantsActive | DescendantsInvalid

text \<open>
  The recursive query: rows are taken from the table as their parent leaves the queue.
\<close>

function reachRows :: "JournalExecution list \<Rightarrow> jsstring list \<Rightarrow> JournalExecution list" where
  "reachRows table [] = []"
| "reachRows table (x # queue) =
     (let found = filter (\<lambda>e. exParentId e = Some x) table in
      found @ reachRows (filter (\<lambda>e. exParentId e \<noteq> Some x) table) (queue @ map exId found))"
  by pat_completeness auto

termination
proof (relation "measure (\<lambda>(table, queue). length table + length queue)")
  fix table :: "JournalExecution list" and x :: jsstring and queue found
  assume "found = filter (\<lambda>e. exParentId e = Some x) table"
  then show "((filter (\<lambda>e. exParentId e \<noteq> Some x) table, queue @ map exId found), table, x # queue) \<in>
      measure (\<lambda>(table, queue). length table + length queue)"
    using sum_length_filter_compl [of "\<lambda>e. exParentId e = Some x" table] by simp
qed simp

record WalkFrame =
  frId :: jsstring
  frDepth :: nat
  frAccess :: "ProviderAccess option"
  frPath :: "jsstring list"

definition childrenOf :: "JournalExecution list \<Rightarrow> jsstring \<Rightarrow> JournalExecution list" where
  "childrenOf rows x = filter (\<lambda>e. exParentId e = Some x) rows"

definition mayStillWrite :: "JournalExecution \<Rightarrow> ProviderAccess \<Rightarrow> bool" where
  "mayStillWrite e a =
     (exOwnership e = NativeExecution \<and>
      (exState e = ExecRunning \<or> exState e = ExecRecovering \<or> exOutcome e = Some TurnRecoveryFailed) \<and>
      isWriter a)"

definition inheritAccess :: "ProviderAccess option \<Rightarrow> JournalExecution \<Rightarrow> ProviderAccess option" where
  "inheritAccess a e = (case exAccess e of None \<Rightarrow> a | Some b \<Rightarrow> Some b)"

fun scanChildren ::
  "jsstring \<Rightarrow> WalkFrame \<Rightarrow> JournalExecution list \<Rightarrow> DescendantState + WalkFrame list" where
  "scanChildren conv cur [] = Inr []"
| "scanChildren conv cur (e # es) =
     (if exId e \<in> set (frPath cur) \<or> exConversationId e \<noteq> conv then Inl DescendantsInvalid
      else case inheritAccess (frAccess cur) e of
        None \<Rightarrow> Inl DescendantsInvalid
      | Some a \<Rightarrow>
          if mayStillWrite e a then Inl DescendantsActive
          else ebind (scanChildren conv cur es) (\<lambda>fs.
            Inr (\<lparr>frId = exId e, frDepth = Suc (frDepth cur), frAccess = Some a,
                  frPath = frPath cur @ [exId e]\<rparr> # fs)))"

lemma scanChildren_length: "scanChildren conv cur es = Inr fs \<Longrightarrow> length fs = length es"
  by (induction es arbitrary: fs) (auto split: if_splits option.splits)

lemma scanChildren_depth: "scanChildren conv cur es = Inr fs \<Longrightarrow> f \<in> set fs \<Longrightarrow> frDepth f = Suc (frDepth cur)"
  by (induction es arbitrary: fs) (auto split: if_splits option.splits)

definition walkWeight :: "JournalExecution list \<Rightarrow> WalkFrame list \<Rightarrow> nat" where
  "walkWeight rows stack = (\<Sum>f\<leftarrow>stack. Suc (length rows) ^ (65 - frDepth f))"

lemma walkWeight_children:
  assumes "scanChildren conv cur (childrenOf rows x) = Inr fs" "frDepth cur < 64 \<or> childrenOf rows x = []"
  shows "walkWeight rows (rev fs) < Suc (length rows) ^ (65 - frDepth cur)"
proof (cases "fs = []")
  case False
  with assms have d: "frDepth cur < 64" by (auto dest: scanChildren_length)
  then obtain k where k: "65 - frDepth cur = Suc k" "65 - Suc (frDepth cur) = k"
    by (intro that [of "64 - frDepth cur"]) auto
  have few: "length fs \<le> length rows"
    using scanChildren_length [OF assms(1)] by (simp add: childrenOf_def)
  have "walkWeight rows (rev fs) = length fs * Suc (length rows) ^ k"
  proof -
    have "map (\<lambda>f. Suc (length rows) ^ (65 - frDepth f)) (rev fs) = map (\<lambda>_. Suc (length rows) ^ k) (rev fs)"
      using scanChildren_depth [OF assms(1)] k(2) by (intro map_cong) auto
    then show ?thesis
      by (simp only: walkWeight_def sum_list_triv) simp
  qed
  moreover from few have "length fs * Suc (length rows) ^ k < Suc (length rows) * Suc (length rows) ^ k"
    by (intro mult_strict_right_mono) simp_all
  ultimately show ?thesis
    using k(1) by simp
qed (simp add: walkWeight_def)

text \<open>The loop over the stack, whose top is the head.\<close>

function walkStack :: "JournalExecution list \<Rightarrow> jsstring \<Rightarrow> WalkFrame list \<Rightarrow> DescendantState" where
  "walkStack rows conv [] = DescendantsClear"
| "walkStack rows conv (cur # stack) =
     (if 64 \<le> frDepth cur \<and> childrenOf rows (frId cur) \<noteq> [] then DescendantsInvalid
      else case scanChildren conv cur (childrenOf rows (frId cur)) of
        Inl st \<Rightarrow> st
      | Inr fs \<Rightarrow> walkStack rows conv (rev fs @ stack))"
  by pat_completeness auto

termination
proof (relation "measure (\<lambda>(rows, conv, stack). walkWeight rows stack)")
  fix rows conv cur stack fs
  assume "\<not> (64 \<le> frDepth cur \<and> childrenOf rows (frId cur) \<noteq> [])"
    "scanChildren conv cur (childrenOf rows (frId cur)) = Inr fs"
  with walkWeight_children [of conv cur rows "frId cur" fs]
  show "((rows, conv, rev fs @ stack), rows, conv, cur # stack) \<in>
      measure (\<lambda>(rows, conv, stack). walkWeight rows stack)"
    by (auto simp: walkWeight_def)
qed simp

declare reachRows.simps [simp del] walkStack.simps [simp del]

definition nativeDescendantState :: "Journal \<Rightarrow> jsstring \<Rightarrow> DescendantState" where
  "nativeDescendantState s x =
     (case journalExecution s x of
        None \<Rightarrow> DescendantsInvalid
      | Some origin \<Rightarrow>
          let reachable = take 258 (map exId (reachRows (jExecutions s) [x])) in
          if 256 < length reachable \<or> x \<in> set reachable then DescendantsInvalid
          else if reachable = [] then DescendantsClear
          else walkStack (filter (\<lambda>e. exId e \<in> set reachable) (jExecutions s)) (exConversationId origin)
            [\<lparr>frId = x, frDepth = 0, frAccess = exAccess origin, frPath = [x]\<rparr>])"

subsection \<open>Capturing the owners at startup\<close>

record CapturedOwner =
  coExecutionId :: jsstring
  coCwd :: jsstring
  coExecutionCheckoutKey :: "jsstring option"
  coCheckoutKey :: "jsstring option"
  coCommandId :: "jsstring option"
  coExpectedTurnId :: "jsstring option"
  coState :: ReservationState
  coUpdatedAt :: nat

text \<open>The executions that held capacity, or whose native work may go on.\<close>

definition startupOwners :: "Journal \<Rightarrow> (JournalExecution \<times> jsstring) list" where
  "startupOwners s =
     map (\<lambda>e. (e, or_else (map_of (jConversations s) (exConversationId e)) []))
       (filter (\<lambda>e. exOwnership e = FederatedExecution \<and>
           map_of (jConversations s) (exConversationId e) \<noteq> None \<and>
           ((case reservation s (exId e) of None \<Rightarrow> False | Some r \<Rightarrow> active r) \<or>
            exState e = ExecRunning \<or> exState e = ExecRecovering \<or>
            nativeDescendantState s (exId e) \<noteq> DescendantsClear))
         (jExecutions s))"

definition startupReservation :: "JournalExecution \<Rightarrow> nat \<Rightarrow> Reservation" where
  "startupReservation e now =
     \<lparr>rvExecutionId = exId e, rvCheckoutKey = exCheckoutKey e, rvCommandId = None, rvExpectedTurnId = None,
      rvAccess = or_else (exAccess e) ReadOnly, rvScheduling = or_else (exScheduling e) Background,
      rvState = UnknownHeld, rvTerminalEvidence = None, rvReleaseReason = None, rvCreatedAt = now,
      rvUpdatedAt = now, rvReleasedAt = None\<rparr>"

text \<open>\<^verbatim>\<open>INSERT OR IGNORE\<close>: a row that conflicts or fails a check is left out.\<close>

definition insertOrIgnore :: "Reservation \<Rightarrow> unit jop" where
  "insertOrIgnore r s =
     (if reservation s (rvExecutionId r) \<noteq> None \<or> \<not> reservationChecks r \<or> commandTaken s r then (Inr (), s)
      else insertReservation r s)"

definition captureOwner :: "nat \<Rightarrow> JournalExecution \<times> jsstring \<Rightarrow> CapturedOwner option jop" where
  "captureOwner now = (\<lambda>(e, cwd).
     obind (insertOrIgnore (startupReservation e now)) (\<lambda>_.
     obind (updateReservations (\<lambda>r. rvExecutionId r = exId e \<and> rvState r = Released)
       (\<lambda>r. r\<lparr>rvState := UnknownHeld, rvReleaseReason := None, rvReleasedAt := None,
          rvUpdatedAt := max (rvUpdatedAt r) now\<rparr>)) (\<lambda>_.
     obind (reads (\<lambda>s. reservation s (exId e))) (\<lambda>captured.
     ret (map_option (\<lambda>r. \<lparr>coExecutionId = exId e, coCwd = cwd, coExecutionCheckoutKey = exCheckoutKey e,
         coCheckoutKey = rvCheckoutKey r, coCommandId = rvCommandId r, coExpectedTurnId = rvExpectedTurnId r,
         coState = rvState r, coUpdatedAt = rvUpdatedAt r\<rparr>) captured)))))"

fun captureOwners :: "nat \<Rightarrow> (JournalExecution \<times> jsstring) list \<Rightarrow> CapturedOwner option list jop" where
  "captureOwners now [] = ret []"
| "captureOwners now (c # cs) =
     obind (captureOwner now c) (\<lambda>x. obind (captureOwners now cs) (\<lambda>xs. ret (x # xs)))"

definition captureStartupOwners :: "nat \<Rightarrow> CapturedOwner option list jop" where
  "captureStartupOwners now =
     transaction (obind (reads startupOwners) (\<lambda>selected. captureOwners now selected))"

definition scopeExecution_checkout :: "CapturedOwner \<Rightarrow> jsstring \<Rightarrow> nat \<Rightarrow> unit jop" where
  "scopeExecution_checkout c key now s =
     (Inr (), s\<lparr>jExecutions := map (\<lambda>e. if exId e = coExecutionId c \<and> exCheckoutKey e = None
        then e\<lparr>exCheckoutKey := Some key, exUpdatedAt := max (exUpdatedAt e) now\<rparr> else e) (jExecutions s)\<rparr>)"

definition scopeCapturedStartupOwner :: "CapturedOwner \<Rightarrow> jsstring \<Rightarrow> nat \<Rightarrow> bool jop" where
  "scopeCapturedStartupOwner c key now =
     (if coCheckoutKey c \<noteq> None \<or> coCommandId c \<noteq> None \<or> coExpectedTurnId c \<noteq> None \<or> coState c \<noteq> UnknownHeld
      then ret False
      else transaction (
        obind (updateReservations (\<lambda>r. rvExecutionId r = coExecutionId c \<and> rvState r = UnknownHeld \<and>
            rvCheckoutKey r = None \<and> rvCommandId r = None \<and> rvExpectedTurnId r = None \<and>
            rvUpdatedAt r = coUpdatedAt c)
          (\<lambda>r. r\<lparr>rvCheckoutKey := Some key, rvUpdatedAt := max (rvUpdatedAt r) now\<rparr>)) (\<lambda>changed.
        if changed \<noteq> 1 then ret False
        else if coExecutionCheckoutKey c = None
          then obind (scopeExecution_checkout c key now) (\<lambda>_. ret True)
        else ret True)))"

subsection \<open>Claiming and reserving\<close>

record ResolvedCheckout =
  checkoutKey :: jsstring
  launchCwd :: jsstring

datatype CheckoutResolution = ResolvedTo ResolvedCheckout | Indeterminate jsstring

definition settledReceipt :: "ReceiptState \<Rightarrow> bool" where
  "settledReceipt st = (st \<in> {ReceiptAccepted, ReceiptRejected, ReceiptRecoveryFailed})"

definition unresolvedCheckout :: "jsstring \<Rightarrow> jsstring" where
  "unresolvedCheckout reason = js ''Workspace checkout could not be resolved: '' @ reason"

definition resolveNew ::
  "Platform \<Rightarrow> jsstring \<Rightarrow> jsstring \<Rightarrow> jsval \<Rightarrow> CheckoutResolution \<Rightarrow> nat \<Rightarrow> ResolvedCheckout jop" where
  "resolveNew P c kind request resolution now =
     (case resolution of
        ResolvedTo v \<Rightarrow> ret v
      | Indeterminate reason \<Rightarrow>
          obind (transaction (
            obind (claimCommand P c kind request now) (\<lambda>(created, receipt).
            obind (if created then rejectCommand c (unresolvedCheckout reason) now else ret ()) (\<lambda>_.
            ret (created, receipt))))) (\<lambda>(created, receipt).
          if \<not> created
          then throw (if settledReceipt (crState receipt) then CommandSettled receipt else CommandInProgress c)
          else fails_with (unresolvedCheckout reason)))"

datatype 'v Admission = Admitted 'v | ReplayReceipt CommandReceipt

definition claimAndReserve ::
  "Platform \<Rightarrow> jsstring \<Rightarrow> jsval \<Rightarrow> CheckoutRequest \<Rightarrow> 'v jop \<Rightarrow> 'v Admission jop" where
  "claimAndReserve P kind request q validateAndCreate =
     obind (transaction (
       obind (claimCommand P (rqCommandId q) kind request (rqNow q)) (\<lambda>(created, receipt).
       if \<not> created then ret (Inr (ReplayReceipt receipt))
       else
         catching
           (transaction (
             obind validateAndCreate (\<lambda>value.
             obind (reserveFederatedCheckout q) (\<lambda>_. ret (Inr (Admitted value))))))
           (\<lambda>error. obind (rejectCommand (rqCommandId q) (messageOf P error) (rqNow q)) (\<lambda>_.
             ret (Inl error)))))) (\<lambda>outcome.
     case outcome of Inl error \<Rightarrow> throw error | Inr admission \<Rightarrow> ret admission)"

definition beforeDispatchFailure ::
  "jsstring \<Rightarrow> jsstring \<Rightarrow> jsstring \<Rightarrow> jsstring \<Rightarrow> nat \<Rightarrow> bool jop" where
  "beforeDispatchFailure x c t message now =
     transaction (
       obind (releaseFederatedCheckout x c t PreDispatchFailure None now) (\<lambda>released.
       obind (if released then rejectCommand c message now else ret ()) (\<lambda>_. ret released)))"

definition dispatchUnknown :: "jsstring \<Rightarrow> jsstring \<Rightarrow> jsstring \<Rightarrow> nat \<Rightarrow> bool jop" where
  "dispatchUnknown x c t now = markFederatedCheckoutUnknown x c t now"

definition settledOrUnresolved :: "Platform \<Rightarrow> jsstring \<Rightarrow> jsstring \<Rightarrow> jsval \<Rightarrow> CommandReceipt option jop" where
  "settledOrUnresolved P c kind request = inspectCommand P c kind request"

end
