(* ===== verification/CheckoutTerminal.thy ===== *)
theory CheckoutTerminal
  imports CheckoutOwner DeliveryEvidence
begin

text \<open>
  The end of a federated turn, in
  extensions/agent/server/src/native-runtime/federation-checkout-owner.ts: \<^verbatim>\<open>terminal\<close> releases the
  reservation of an execution on its provider's own terminal event, keeps the event as evidence
  while native descendants can still write, and looks at the ancestors again when a descendant
  ends.
\<close>

datatype TerminalSource = LiveProvider | AuthoritativeSnapshot

fun terminalSourceName :: "TerminalSource \<Rightarrow> string" where
  "terminalSourceName LiveProvider = ''live-provider''"
| "terminalSourceName AuthoritativeSnapshot = ''authoritative-snapshot''"

subsection \<open>The ancestors\<close>

text \<open>
  The loop over the parents, of at most 64 rounds: the ancestors met, the execution it stops at and
  the executions it has left; \<open>None\<close> is the return inside the loop.
\<close>

fun climb ::
  "Journal \<Rightarrow> nat \<Rightarrow> JournalExecution \<Rightarrow> jsstring list \<Rightarrow> JournalExecution list \<Rightarrow>
     (JournalExecution list \<times> JournalExecution \<times> jsstring list) option" where
  "climb s 0 cur seen ancestors = Some (ancestors, cur, seen)"
| "climb s (Suc n) cur seen ancestors =
     (case truthy (exParentId cur) of
        None \<Rightarrow> Some (ancestors, cur, seen)
      | Some p \<Rightarrow>
          if exId cur \<in> set seen then None
          else case journalExecution s p of
            None \<Rightarrow> None
          | Some parent \<Rightarrow>
              if exConversationId parent \<noteq> exConversationId cur then None
              else climb s n parent (exId cur # seen) (ancestors @ [parent]))"

definition releaseAncestor :: "nat \<Rightarrow> JournalExecution \<Rightarrow> unit jop" where
  "releaseAncestor now parent =
     obind (reads (\<lambda>s. reservation s (exId parent))) (\<lambda>row.
     obind (reads (\<lambda>s. nativeDescendantState s (exId parent))) (\<lambda>descendants.
     case row of
       None \<Rightarrow> ret ()
     | Some r \<Rightarrow>
         (case (rvTerminalEvidence r, truthy (rvCommandId r), truthy (rvExpectedTurnId r)) of
            (Some evidence, Some c, Some t) \<Rightarrow>
              if active r \<and> descendants = DescendantsClear
              then obind (releaseFederatedCheckout (exId parent) c t NativeTerminal (Some evidence) now) (\<lambda>_. ret ())
              else ret ()
          | _ \<Rightarrow> ret ())))"

definition reevaluateAncestors :: "jsstring \<Rightarrow> nat \<Rightarrow> unit jop" where
  "reevaluateAncestors x now =
     obind (reads (\<lambda>s. case journalExecution s x of None \<Rightarrow> None | Some e \<Rightarrow> climb s 64 e [] [])) (\<lambda>climbed.
     case climbed of
       None \<Rightarrow> ret ()
     | Some (ancestors, cur, seen) \<Rightarrow>
         if truthy (exParentId cur) \<noteq> None \<or> exId cur \<in> set seen then ret ()
         else for_each (releaseAncestor now) ancestors)"

subsection \<open>Terminal events\<close>

text \<open>
  Whether an execution is bound to the native session of an event: a native execution by its child
  handle, any other by its session of the scope's provider instance.
\<close>

definition boundTo :: "Journal \<Rightarrow> JournalExecution option \<Rightarrow> jsstring \<Rightarrow> jsstring \<Rightarrow> jsstring option \<Rightarrow> bool" where
  "boundTo s execution x inst native =
     (if (case execution of None \<Rightarrow> False | Some e \<Rightarrow> exOwnership e = NativeExecution)
      then map_of (jChildHandles s) x = native
      else (case map_of (jNativeSessions s) x of
              None \<Rightarrow> False
            | Some r \<Rightarrow> refProviderInstanceId r = inst \<and> Some (refSessionId r) = native))"

text \<open>The child execution whose end the event reports.\<close>

definition endedChild :: "ProviderEvent \<Rightarrow> jsstring option" where
  "endedChild event =
     (case event of
        ExecutionCompleted child outcome \<Rightarrow> if outcome \<noteq> TurnRecoveryFailed then Some child else None
      | TurnBlockCompleted st n h b \<Rightarrow>
          (case blockPayload b of
             NativeChildBlock c \<Rightarrow>
               if payloadOutcome c \<in> {Some TurnCompleted, Some TurnFailed, Some TurnInterrupted} \<and>
                  payloadExecutionState c \<notin> {ExecRunning, ExecRecovering}
               then Some (childExecutionId (payloadChild c)) else None
           | _ \<Rightarrow> None)
      | _ \<Rightarrow> None)"

text \<open>Whether the event's scope owns the child: \<open>x\<close> and \<open>t\<close> are the scope's execution and turn.\<close>

definition ownsChild ::
  "Journal \<Rightarrow> ProviderEventEnvelope \<Rightarrow> jsstring \<Rightarrow> jsstring \<Rightarrow> jsstring \<Rightarrow> jsstring \<Rightarrow> JournalExecution \<Rightarrow> bool" where
  "ownsChild s e inst conv x t child =
     (exOwnership child = NativeExecution \<and> exConversationId child = conv \<and> exParentId child = Some x \<and>
      exRootTurnId child = Some t \<and>
      (case journalTurn s t of
         None \<Rightarrow> False
       | Some turn \<Rightarrow> jtExecutionId turn = x \<and> jtNativeTurnId turn = nativeTurnId (envNative e)) \<and>
      (case journalExecution s x of
         None \<Rightarrow> False
       | Some parent \<Rightarrow> exProvider parent = envProvider e \<and> exProviderInstanceId parent = inst) \<and>
      boundTo s (journalExecution s x) x inst (nativeSessionId (envNative e)))"

definition childTerminal ::
  "ProviderEventEnvelope \<Rightarrow> jsstring \<Rightarrow> jsstring \<Rightarrow> jsstring \<Rightarrow> jsstring \<Rightarrow> nat \<Rightarrow> unit jop" where
  "childTerminal e inst conv x t now =
     (case truthy (endedChild (envEvent e)) of
        None \<Rightarrow> ret ()
      | Some childId \<Rightarrow>
          obind (reads (\<lambda>s. case journalExecution s childId of
              None \<Rightarrow> None
            | Some child \<Rightarrow> if ownsChild s e inst conv x t child then Some (exId child) else None)) (\<lambda>owned.
          case owned of None \<Rightarrow> ret () | Some child \<Rightarrow> reevaluateAncestors child now))"

definition terminalEvidence ::
  "TerminalSource \<Rightarrow> ProviderEventEnvelope \<Rightarrow> jsstring \<Rightarrow> jsstring \<Rightarrow> ProviderTurnOutcome \<Rightarrow> jsval" where
  "terminalEvidence source e x t outcome = objectOf
     [(''source'', Some (nameVal terminalSourceName source)), (''eventId'', Some (JString (eventId e))),
      (''executionId'', Some (JString x)), (''turnId'', Some (JString t)),
      (''nativeSessionId'', map_option JString (nativeSessionId (envNative e))),
      (''nativeTurnId'', map_option JString (nativeTurnId (envNative e))),
      (''outcome'', Some (nameVal turnOutcomeName outcome)), (''observedAt'', Some (natVal (observedAt e)))]"

text \<open>The turn the event ends, when the event is the execution's own.\<close>

definition endedTurn ::
  "Journal \<Rightarrow> ProviderEventEnvelope \<Rightarrow> jsstring \<Rightarrow> jsstring \<Rightarrow> jsstring \<Rightarrow> JournalTurnRow option" where
  "endedTurn s e inst x t =
     (case journalTurn s t of
        None \<Rightarrow> None
      | Some turn \<Rightarrow>
          if jtExecutionId turn \<noteq> x \<or> truthy (jtNativeTurnId turn) = None \<or>
             jtNativeTurnId turn \<noteq> nativeTurnId (envNative e) then None
          else (case journalExecution s x of
                  None \<Rightarrow> None
                | Some execution \<Rightarrow>
                    if exProvider execution = envProvider e \<and> exProviderInstanceId execution = inst \<and>
                       boundTo s (Some execution) x inst (nativeSessionId (envNative e))
                    then Some turn else None))"

definition turnTerminal ::
  "TerminalSource \<Rightarrow> ProviderEventEnvelope \<Rightarrow> jsstring \<Rightarrow> jsstring \<Rightarrow> jsstring \<Rightarrow> ProviderTurnOutcome \<Rightarrow> nat \<Rightarrow>
     bool jop" where
  "turnTerminal source e inst x t outcome now =
     obind (reads (\<lambda>s. endedTurn s e inst x t)) (\<lambda>ended.
     case ended of
       None \<Rightarrow> ret False
     | Some turn \<Rightarrow>
         let evidence = terminalEvidence source e x (jtTurnId turn) outcome in
         obind (reads (\<lambda>s. nativeDescendantState s x)) (\<lambda>descendants.
         if descendants \<noteq> DescendantsClear
         then recordFederatedTerminalEvidence x (jtCommandId turn) (jtTurnId turn) evidence now
         else
           obind (releaseFederatedCheckout x (jtCommandId turn) (jtTurnId turn) NativeTerminal (Some evidence) now)
             (\<lambda>released. obind (reevaluateAncestors x now) (\<lambda>_. ret released))))"

definition terminal_event :: "ProviderEventEnvelope \<Rightarrow> TerminalSource \<Rightarrow> nat \<Rightarrow> bool jop" where
  "terminal_event e source now =
     (case envScope e of
        TurnScope inst conv x t \<Rightarrow>
          (case envEvent e of
             TurnCompletedEvent outcome err \<Rightarrow>
               if outcome = TurnRecoveryFailed then ret False
               else turnTerminal source e inst x t outcome now
           | _ \<Rightarrow> obind (childTerminal e inst conv x t now) (\<lambda>_. ret False))
      | _ \<Rightarrow> ret False)"

end
