(* ===== verification/CheckoutSafety.thy ===== *)
theory CheckoutSafety
  imports CheckoutTerminal
begin

text \<open>
  What the checkout owner keeps.  A journal is well formed when its reservations belong to distinct
  executions, meet the checks of the table, and name commands with a receipt; it is within capacity
  when a checkout has at most one reservation that may write and four of background readers.  Every
  operation keeps the first, every one but the capture of a restart the second, and a receipt that
  is settled stays as it is.
\<close>

subsection \<open>The invariants\<close>

definition writes :: "jsstring \<Rightarrow> Reservation \<Rightarrow> bool" where
  "writes k r = (active r \<and> isWriter (rvAccess r) \<and> rvCheckoutKey r = Some k)"

definition readsInBackground :: "jsstring \<Rightarrow> Reservation \<Rightarrow> bool" where
  "readsInBackground k r =
     (active r \<and> rvAccess r = ReadOnly \<and> rvScheduling r = Background \<and> rvCheckoutKey r = Some k)"

definition capacity_ok :: "Journal \<Rightarrow> bool" where
  "capacity_ok s =
     (\<forall>k. length (filter (writes k) (jReservations s)) \<le> 1 \<and>
          length (filter (readsInBackground k) (jReservations s)) \<le> 4)"

definition receipt_kept :: "CommandReceiptRow \<Rightarrow> CommandReceiptRow \<Rightarrow> bool" where
  "receipt_kept r q =
     (crCommandId q = crCommandId r \<and> crKind q = crKind r \<and> crRequestHash q = crRequestHash r \<and>
      (settledReceipt (crState r) \<longrightarrow> q = r))"

definition receipts_kept :: "Journal \<Rightarrow> Journal \<Rightarrow> bool" where
  "receipts_kept s t =
     (\<forall>c r. receiptRowOf s c = Some r \<longrightarrow> (\<exists>q. receiptRowOf t c = Some q \<and> receipt_kept r q))"

definition reservations_ok :: "Journal \<Rightarrow> bool" where
  "reservations_ok s =
     (distinct (map rvExecutionId (jReservations s)) \<and>
      (\<forall>r\<in>set (jReservations s). reservationChecks r \<and>
         (\<forall>c. rvCommandId r = Some c \<longrightarrow> receiptRowOf s c \<noteq> None)))"

subsection \<open>Receipts\<close>

lemma receipts_kept_refl [simp]: "receipts_kept s s"
  by (auto simp: receipts_kept_def receipt_kept_def)

lemma receipt_kept_trans: "receipt_kept r q \<Longrightarrow> receipt_kept q p \<Longrightarrow> receipt_kept r p"
  by (auto simp: receipt_kept_def)

lemma receipts_kept_trans:
  assumes "receipts_kept s t" "receipts_kept t u"
  shows "receipts_kept s u"
  unfolding receipts_kept_def
proof (intro allI impI)
  fix c r
  assume "receiptRowOf s c = Some r"
  with assms(1) obtain q where q: "receiptRowOf t c = Some q" "receipt_kept r q"
    unfolding receipts_kept_def by blast
  with assms(2) obtain p where "receiptRowOf u c = Some p" "receipt_kept q p"
    unfolding receipts_kept_def by blast
  with q(2) show "\<exists>p. receiptRowOf u c = Some p \<and> receipt_kept r p"
    using receipt_kept_trans by blast
qed

lemma receipts_kept_same: "jReceipts t = jReceipts s \<Longrightarrow> receipts_kept s t"
  by (auto simp: receipts_kept_def receipt_kept_def receiptRowOf_def)

lemma find_map_update:
  assumes "\<And>r. sel r \<Longrightarrow> f (upd r) = f r"
  shows "find (\<lambda>r. f r = c) (map (\<lambda>r. if sel r then upd r else r) xs) =
    map_option (\<lambda>r. if sel r then upd r else r) (find (\<lambda>r. f r = c) xs)"
  using assms by (induction xs) auto

lemma receipts_kept_insert: "receipts_kept s (snd (insertReceipt r s))"
  by (auto simp: insertReceipt_def receipts_kept_def receipt_kept_def receiptRowOf_def find_append)

lemma receipts_kept_update:
  assumes "\<And>r. sel r \<Longrightarrow> \<not> settledReceipt (crState r) \<and> receipt_kept r (upd r)"
  shows "receipts_kept s (snd (updateReceipts sel upd s))"
proof -
  have "receipt_kept r (if sel r then upd r else r)" for r
    using assms by (auto simp: receipt_kept_def)
  moreover have "f (upd r) = f r" if "sel r" "f = crCommandId" for f r
    using assms [OF that(1)] that(2) by (simp add: receipt_kept_def)
  ultimately have "receipts_kept s
      (s\<lparr>jReceipts := map (\<lambda>r. if sel r then upd r else r) (jReceipts s)\<rparr>)"
    by (simp add: receipts_kept_def receiptRowOf_def find_map_update)
  then show ?thesis
    by (simp add: updateReceipts_def)
qed

subsection \<open>Relations between the store before and after\<close>

definition advances :: "(Journal \<Rightarrow> Journal \<Rightarrow> bool) \<Rightarrow> 'a jop \<Rightarrow> bool" where
  "advances R m = (\<forall>s. R s (snd (m s)))"

named_theorems advances_intros

locale journal_preorder =
  fixes R :: "Journal \<Rightarrow> Journal \<Rightarrow> bool"
  assumes same: "R s s"
    and chain: "R s t \<Longrightarrow> R t u \<Longrightarrow> R s u"
begin

lemma advances_basic:
  "advances R (ret x)" "advances R (throw e)" "advances R (lift m)" "advances R (reads h)"
  "advances R (fails_with t)"
  by (simp_all add: advances_def ret_def throw_def lift_def reads_def fails_with_def same)

lemma advances_obind: "advances R m \<Longrightarrow> (\<And>x. advances R (f x)) \<Longrightarrow> advances R (obind m f)"
  unfolding advances_def obind_def by (auto split: prod.split sum.split) (metis chain snd_conv)+

lemma advances_catching: "advances R m \<Longrightarrow> (\<And>x. advances R (f x)) \<Longrightarrow> advances R (catching m f)"
  unfolding advances_def catching_def by (auto split: prod.split sum.split) (metis chain snd_conv)+

lemma advances_transaction: "advances R m \<Longrightarrow> advances R (transaction m)"
  unfolding advances_def transaction_def using same by (auto split: prod.split sum.split) (metis snd_conv)

lemma advances_branch:
  "(c \<Longrightarrow> advances R m) \<Longrightarrow> (\<not> c \<Longrightarrow> advances R n) \<Longrightarrow> advances R (if c then m else n)"
  "advances R n' \<Longrightarrow> (\<And>x. ox = Some x \<Longrightarrow> advances R (g x)) \<Longrightarrow>
     advances R (case ox of None \<Rightarrow> n' | Some x \<Rightarrow> g x)"
  "(\<And>e. advances R (h e)) \<Longrightarrow> (\<And>x. advances R (h' x)) \<Longrightarrow>
     advances R (case m' of Inl e \<Rightarrow> h e | Inr x \<Rightarrow> h' x)"
  "(\<And>x y. p = (x, y) \<Longrightarrow> advances R (k x y)) \<Longrightarrow> advances R (case p of (x, y) \<Rightarrow> k x y)"
  by (auto split: option.split sum.split prod.split)

lemma advances_for_each: "(\<And>x. advances R (f x)) \<Longrightarrow> advances R (for_each f xs)"
  by (induction xs) (auto intro: advances_basic advances_obind)

lemmas advances_rules =
  advances_basic advances_obind advances_catching advances_transaction advances_branch advances_for_each

end

interpretation receipts: journal_preorder receipts_kept
  by unfold_locales (auto intro: receipts_kept_trans)

subsection \<open>Statements\<close>

definition sound :: "Journal \<Rightarrow> Journal \<Rightarrow> bool" where
  "sound s t = (receipts_kept s t \<and> (reservations_ok s \<longrightarrow> reservations_ok t))"

definition sustains :: "Journal \<Rightarrow> Journal \<Rightarrow> bool" where
  "sustains s t = (sound s t \<and> (reservations_ok s \<and> capacity_ok s \<longrightarrow> capacity_ok t))"

interpretation sound: journal_preorder sound
  by unfold_locales (auto simp: sound_def intro: receipts_kept_trans)

interpretation sustains: journal_preorder sustains
  by unfold_locales (auto simp: sustains_def sound_def intro: receipts_kept_trans)

lemma advances_sound: "advances sustains m \<Longrightarrow> advances sound m"
  by (simp add: advances_def sustains_def)

lemma receipts_kept_present: "receipts_kept s t \<Longrightarrow> receiptRowOf s c \<noteq> None \<Longrightarrow> receiptRowOf t c \<noteq> None"
  by (auto simp: receipts_kept_def)

lemma sustains_same_reservations:
  assumes "receipts_kept s t" "jReservations t = jReservations s"
  shows "sustains s t"
  using assms receipts_kept_present [OF assms(1)]
  unfolding sustains_def sound_def reservations_ok_def capacity_ok_def by simp

lemma sustains_update:
  assumes "\<And>r. sel r \<Longrightarrow> rvExecutionId (upd r) = rvExecutionId r \<and> rvCommandId (upd r) = rvCommandId r"
  shows "advances sound (updateReservations sel upd)"
    and "(\<And>r k. sel r \<Longrightarrow> writes k (upd r) \<Longrightarrow> writes k r) \<Longrightarrow>
         (\<And>r k. sel r \<Longrightarrow> readsInBackground k (upd r) \<Longrightarrow> readsInBackground k r) \<Longrightarrow>
         advances sustains (updateReservations sel upd)"
proof -
  let ?f = "\<lambda>r. if sel r then upd r else r"
  have keys: "rvExecutionId \<circ> ?f = rvExecutionId"
    using assms by auto
  have result: "sound s (snd (updateReservations sel upd s))" for s
  proof (cases "list_all (\<lambda>r. sel r \<longrightarrow> reservationChecks (upd r)) (jReservations s)")
    case True
    let ?t = "s\<lparr>jReservations := map ?f (jReservations s)\<rparr>"
    have "receipts_kept s ?t" by (intro receipts_kept_same) simp
    moreover have "reservations_ok ?t" if "reservations_ok s"
      using that True assms
      unfolding reservations_ok_def receiptRowOf_def by (auto simp: list_all_iff keys)
    ultimately show ?thesis
      using True by (simp add: sound_def updateReservations_def)
  qed (auto simp: updateReservations_def sound.same)
  then show "advances sound (updateReservations sel upd)"
    by (simp add: advances_def)
  assume fewer: "\<And>r k. sel r \<Longrightarrow> writes k (upd r) \<Longrightarrow> writes k r"
    "\<And>r k. sel r \<Longrightarrow> readsInBackground k (upd r) \<Longrightarrow> readsInBackground k r"
  have count: "length (filter P (map ?f xs)) \<le> length (filter P xs)"
    if "\<And>r. sel r \<Longrightarrow> P (upd r) \<Longrightarrow> P r" for P :: "Reservation \<Rightarrow> bool" and xs
    using that by (induction xs) auto
  have "capacity_ok s \<Longrightarrow> capacity_ok (s\<lparr>jReservations := map ?f (jReservations s)\<rparr>)" for s
    unfolding capacity_ok_def
    using count [of "writes k" "jReservations s" for k] count [of "readsInBackground k" "jReservations s" for k] fewer
    by simp (meson le_trans)
  then have "capacity_ok s \<Longrightarrow> capacity_ok (snd (updateReservations sel upd s))" for s
    by (simp add: updateReservations_def)
  with result show "advances sustains (updateReservations sel upd)"
    by (simp add: advances_def sustains_def)
qed

lemma sustains_receipts [advances_intros]:
  "advances sustains (insertReceipt r)"
  "advances sustains (markCommandDispatching c now)" "advances sustains (acceptCommand c v now)"
  "advances sustains (rejectCommand c m now)" "advances sustains (failCommandRecovery c m now)"
proof -
  have statement: "advances sustains m" if "\<And>s. jReservations (snd (m s)) = jReservations s"
    "\<And>s. receipts_kept s (snd (m s))" for m :: "'a jop"
    using that unfolding advances_def by (blast intro: sustains_same_reservations)
  show "advances sustains (insertReceipt r)" for r
    by (rule statement) (simp_all add: receipts_kept_insert, simp add: insertReceipt_def)
  have update: "advances sustains (updateReceipts sel upd)"
    if "\<And>r. sel r \<Longrightarrow> \<not> settledReceipt (crState r) \<and> receipt_kept r (upd r)" for sel upd
    by (rule statement) (simp add: updateReceipts_def, rule receipts_kept_update [OF that])
  show "advances sustains (markCommandDispatching c now)" "advances sustains (rejectCommand c m now)"
    "advances sustains (failCommandRecovery c m now)"
    unfolding markCommandDispatching_def rejectCommand_def failCommandRecovery_def
    by (intro update; auto simp: settledReceipt_def receipt_kept_def openReceipt_def)+
  show "advances sustains (acceptCommand c v now)"
    unfolding acceptCommand_def
    by (intro sustains.advances_rules update; auto simp: settledReceipt_def receipt_kept_def openReceipt_def)
qed

subsection \<open>Reserving\<close>

definition room :: "CheckoutRequest \<Rightarrow> Journal \<Rightarrow> bool" where
  "room q s =
     ((isWriter (rqAccess q) \<longrightarrow>
        filter (writes (rqCheckoutKey q)) (jReservations s) = []) \<and>
      (rqAccess q = ReadOnly \<and> rqScheduling q = Background \<longrightarrow>
        length (filter (readsInBackground (rqCheckoutKey q)) (jReservations s)) < 4) \<and>
      (isWriter (rqAccess q) \<or> rqScheduling q = Background \<longrightarrow>
        (\<forall>r\<in>set (jReservations s). active r \<longrightarrow> rvCheckoutKey r \<noteq> None)))"

lemma writer_access [simp]: "isWriter a \<longleftrightarrow> a \<noteq> ReadOnly"
  by (cases a) (simp_all add: isWriter_def)

text \<open>The store after \<^verbatim>\<open>INSERT ... ON CONFLICT\<close>, when it changes.\<close>

definition renewed :: "CheckoutRequest \<Rightarrow> Reservation \<Rightarrow> Reservation" where
  "renewed q p = (heldReservation q)\<lparr>rvCreatedAt := rvCreatedAt p, rvUpdatedAt := max (rvUpdatedAt p) (rqNow q)\<rparr>"

definition upserted :: "CheckoutRequest \<Rightarrow> Journal \<Rightarrow> Journal" where
  "upserted q s =
     (if reservation s (rqExecutionId q) = None
      then s\<lparr>jReservations := jReservations s @ [heldReservation q]\<rparr>
      else s\<lparr>jReservations := map (\<lambda>p. if rvExecutionId p = rqExecutionId q then renewed q p else p)
         (jReservations s)\<rparr>)"

lemma held_fields [simp]:
  "rvExecutionId (heldReservation q) = rqExecutionId q" "rvCommandId (heldReservation q) = Some (rqCommandId q)"
  "rvExpectedTurnId (heldReservation q) = Some (rqExpectedTurnId q)"
  "rvState (heldReservation q) = Held" "rvCheckoutKey (heldReservation q) = Some (rqCheckoutKey q)"
  "rvAccess (heldReservation q) = rqAccess q" "rvScheduling (heldReservation q) = rqScheduling q"
  "rvReleasedAt (heldReservation q) = None" "rvReleaseReason (heldReservation q) = None"
  "rvCreatedAt (heldReservation q) = rqNow q" "rvUpdatedAt (heldReservation q) = rqNow q"
  by (simp_all add: heldReservation_def)

lemma upsertHeld_cases:
  assumes "upsertHeld q s = (r, t)"
  shows "t = s \<and> (r = Inr () \<longrightarrow> (\<exists>p. reservation s (rqExecutionId q) = Some p \<and> rvState p \<noteq> Released)) \<or>
    r = Inr () \<and> t = upserted q s \<and> reservationReferences s (heldReservation q) \<and>
    (\<forall>p. reservation s (rqExecutionId q) = Some p \<longrightarrow> rvState p = Released) \<and>
    (\<forall>p\<in>set (jReservations s). rvExecutionId p = rqExecutionId q \<longrightarrow> reservationChecks (renewed q p))"
proof (cases "reservation s (rqExecutionId q)")
  case None
  then have "rvExecutionId p \<noteq> rqExecutionId q" if "p \<in> set (jReservations s)" for p
    using that by (auto simp: reservation_def find_None_iff)
  with assms None show ?thesis
    by (auto simp: upsertHeld_def obind_def reads_def insertReservation_def upserted_def split: if_splits)
next
  case (Some p)
  with assms show ?thesis
    by (auto simp: upsertHeld_def obind_def reads_def ret_def throw_def updateReservations_def upserted_def
        renewed_def [symmetric] list_all_iff split: if_splits)
qed

lemma reserve_cases:
  assumes "reserveFederatedCheckout q s = (r, t)"
  shows "(\<exists>e. r = Inl e) \<and> t = s \<or>
    room q s \<and> (\<exists>u. upsertHeld q s = (u, t) \<and>
      (r = Inr () \<longrightarrow> u = Inr () \<and> map_option rvCommandId (reservation t (rqExecutionId q)) = Some (Some (rqCommandId q))))"
proof -
  let ?held = "filter active (jReservations s)"
  let ?unscoped = "list_ex (\<lambda>r. rvCheckoutKey r = None) ?held \<and> (isWriter (rqAccess q) \<or> rqScheduling q = Background)"
  let ?writer = "isWriter (rqAccess q) \<and>
        list_ex (\<lambda>r. rvCheckoutKey r = Some (rqCheckoutKey q) \<and> isWriter (rvAccess r)) ?held"
  let ?readers = "\<not> isWriter (rqAccess q) \<and> rqScheduling q = Background \<and>
        4 \<le> length (filter (\<lambda>r. rvCheckoutKey r = Some (rqCheckoutKey q) \<and> rvAccess r = ReadOnly \<and>
            rvScheduling r = Background) ?held)"
  show ?thesis
  proof (cases "?unscoped \<or> ?writer \<or> ?readers")
    case True
    with assms show ?thesis
      by (auto simp: reserveFederatedCheckout_def obind_def reads_def fails_with_def throw_def Let_def split: if_splits)
  next
    case False
    have "filter (readsInBackground k) (jReservations s) = filter (\<lambda>r. rvCheckoutKey r = Some k \<and>
        rvAccess r = ReadOnly \<and> rvScheduling r = Background) ?held" for k
      by (auto simp: readsInBackground_def conj_ac intro: filter_cong)
    with False have "room q s"
      unfolding room_def by (auto simp: list_ex_iff filter_empty_conv writes_def not_le)
    moreover from False have "reserveFederatedCheckout q s = obind (upsertHeld q) (\<lambda>_.
       obind (reads (\<lambda>s. reservation s (rqExecutionId q))) (\<lambda>row.
       if (case row of None \<Rightarrow> None | Some r \<Rightarrow> rvCommandId r) \<noteq> Some (rqCommandId q)
       then fails_with (js ''Federated execution already owns checkout capacity.'')
       else ret ())) s"
      by (simp only: reserveFederatedCheckout_def obind_def reads_def Let_def prod.case sum.case if_False de_Morgan_disj)
    ultimately show ?thesis
      using assms by (auto simp: obind_def reads_def fails_with_def throw_def ret_def
          split: prod.splits sum.splits option.splits if_splits)
  qed
qed

lemma count_replaced:
  assumes "distinct (map f xs)" "\<And>p. p \<in> set xs \<Longrightarrow> f p = x \<Longrightarrow> P (g p) \<Longrightarrow> b"
  shows "length (filter P (map (\<lambda>p. if f p = x then g p else p) xs)) \<le> length (filter P xs) + of_bool b"
  using assms
proof (induction xs)
  case (Cons p xs)
  show ?case
  proof (cases "f p = x")
    case True
    with Cons.prems(1) have "map (\<lambda>p. if f p = x then g p else p) xs = xs"
      by (intro map_idI) (auto simp: rev_image_eqI)
    with True Cons.prems(2) [of p] show ?thesis by auto
  next
    case False
    have "length (filter P (map (\<lambda>p. if f p = x then g p else p) xs)) \<le> length (filter P xs) + of_bool b"
      using Cons.prems by (intro Cons.IH) auto
    with False show ?thesis by auto
  qed
qed simp

lemma upserted_ok:
  assumes "reservations_ok s" "reservationReferences s (heldReservation q)"
    and "\<forall>p\<in>set (jReservations s). rvExecutionId p = rqExecutionId q \<longrightarrow> reservationChecks (renewed q p)"
  shows "reservations_ok (upserted q s)"
proof -
  have command: "receiptRowOf s (rqCommandId q) \<noteq> None"
    using assms(2) by (auto simp: reservationReferences_def receiptRowOf_def find_None_iff)
  have held: "reservationChecks (heldReservation q)"
    by (simp add: reservationChecks_def)
  have keys: "rvExecutionId \<circ> (\<lambda>p. if rvExecutionId p = rqExecutionId q then renewed q p else p) = rvExecutionId"
    by (auto simp: renewed_def)
  have new: "rqExecutionId q \<notin> rvExecutionId ` set (jReservations s)" if "reservation s (rqExecutionId q) = None"
    using that by (auto simp: reservation_def find_None_iff)
  have receipts: "receiptRowOf (upserted q s) c = receiptRowOf s c" for c
    by (simp add: upserted_def receiptRowOf_def)
  show ?thesis
    using assms(1,3) command held new
    unfolding reservations_ok_def receipts
    by (auto simp: upserted_def keys renewed_def)
qed

lemma upserted_capacity:
  assumes "reservations_ok s" "capacity_ok s" "room q s"
  shows "capacity_ok (upserted q s)"
proof -
  have distinct: "distinct (map rvExecutionId (jReservations s))"
    using assms(1) by (simp add: reservations_ok_def)
  have w: "writes k (renewed q p) = writes k (heldReservation q)"
    "readsInBackground k (renewed q p) = readsInBackground k (heldReservation q)" for k p
    by (simp_all add: writes_def readsInBackground_def active_def renewed_def)
  have count: "length (filter P (jReservations (upserted q s))) \<le>
      length (filter P (jReservations s)) + of_bool (P (heldReservation q))"
    if "\<And>p. P (renewed q p) = P (heldReservation q)" for P
    using count_replaced [OF distinct, where x = "rqExecutionId q" and P = P and g = "renewed q"] that
    by (auto simp: upserted_def)
  show ?thesis
    unfolding capacity_ok_def
  proof (intro allI conjI)
    fix k
    have "length (filter (writes k) (jReservations s)) + of_bool (writes k (heldReservation q)) \<le> 1"
      using assms(2,3) unfolding capacity_ok_def room_def
      by (cases "writes k (heldReservation q)") (auto simp: writes_def)
    moreover have "length (filter (writes k) (jReservations (upserted q s))) \<le>
        length (filter (writes k) (jReservations s)) + of_bool (writes k (heldReservation q))"
      by (rule count) (rule w)
    ultimately show "length (filter (writes k) (jReservations (upserted q s))) \<le> 1"
      by linarith
    have "length (filter (readsInBackground k) (jReservations s)) + of_bool (readsInBackground k (heldReservation q)) \<le> 4"
      using assms(2,3) unfolding capacity_ok_def room_def
      by (cases "readsInBackground k (heldReservation q)") (auto simp: readsInBackground_def)
    moreover have "length (filter (readsInBackground k) (jReservations (upserted q s))) \<le>
        length (filter (readsInBackground k) (jReservations s)) + of_bool (readsInBackground k (heldReservation q))"
      by (rule count) (rule w)
    ultimately show "length (filter (readsInBackground k) (jReservations (upserted q s))) \<le> 4"
      by linarith
  qed
qed

lemma sustains_reserve [advances_intros]: "advances sustains (reserveFederatedCheckout q)"
  unfolding advances_def
proof
  fix s
  obtain r t where op: "reserveFederatedCheckout q s = (r, t)" by fastforce
  from reserve_cases [OF op] consider "t = s" | u where "room q s" "upsertHeld q s = (u, t)" by blast
  then have "sustains s t"
  proof cases
    case 2
    from upsertHeld_cases [OF 2(2)] consider "t = s"
      | "t = upserted q s" "reservationReferences s (heldReservation q)"
        "\<forall>p\<in>set (jReservations s). rvExecutionId p = rqExecutionId q \<longrightarrow> reservationChecks (renewed q p)"
      by blast
    then show ?thesis
    proof cases
      case 2
      have "receipts_kept s (upserted q s)"
        by (intro receipts_kept_same) (simp add: upserted_def)
      with 2 show ?thesis
        using upserted_ok [of s q] upserted_capacity [of s q] \<open>room q s\<close> by (simp add: sustains_def sound_def)
    qed (simp add: sustains.same)
  qed (simp add: sustains.same)
  with op show "sustains s (snd (reserveFederatedCheckout q s))" by simp
qed

subsection \<open>Operations\<close>

lemma sustains_unoccupied:
  assumes "\<And>r. sel r \<Longrightarrow> rvExecutionId (upd r) = rvExecutionId r \<and> rvCommandId (upd r) = rvCommandId r \<and>
      rvAccess (upd r) = rvAccess r \<and> rvScheduling (upd r) = rvScheduling r \<and>
      rvCheckoutKey (upd r) = rvCheckoutKey r \<and> (active (upd r) \<longrightarrow> active r)"
  shows "advances sustains (updateReservations sel upd)"
  using assms by (intro sustains_update(2)) (auto simp: writes_def readsInBackground_def)

lemma sustains_statements [advances_intros]:
  "advances sustains (releaseFederatedCheckout x c t reason v now)"
  "advances sustains (recordFederatedTerminalEvidence x c t w now)"
  "advances sustains (markFederatedCheckoutUnknown x c t now)"
  unfolding releaseFederatedCheckout_def recordFederatedTerminalEvidence_def markFederatedCheckoutUnknown_def
  by (intro sustains.advances_rules sustains_unoccupied; simp add: active_def)+

definition creates_only :: "'v jop \<Rightarrow> bool" where
  "creates_only m =
     (\<forall>s. jReservations (snd (m s)) = jReservations s \<and> receipts_kept s (snd (m s)))"

lemma sustains_create: "creates_only m \<Longrightarrow> advances sustains m"
  unfolding creates_only_def advances_def by (blast intro: sustains_same_reservations)

lemma sustains_commands [advances_intros]:
  "advances sustains (claimCommand P c kind request now)"
  "advances sustains (settledOrUnresolved P c kind request)"
  "advances sustains (resolveNew P c kind request resolution now)"
  "advances sustains (beforeDispatchFailure x c t message now)"
  "advances sustains (dispatchUnknown x c t now)"
proof -
  show claim: "advances sustains (claimCommand P c kind request now)"
    unfolding claimCommand_def by (intro sustains.advances_rules advances_intros)
  show "advances sustains (settledOrUnresolved P c kind request)"
    unfolding settledOrUnresolved_def inspectCommand_def by (intro sustains.advances_rules)
  show "advances sustains (resolveNew P c kind request resolution now)"
    unfolding resolveNew_def
    by (cases resolution) (simp_all, (intro sustains.advances_rules advances_intros claim)+)
  show "advances sustains (beforeDispatchFailure x c t message now)"
    unfolding beforeDispatchFailure_def by (intro sustains.advances_rules advances_intros)
  show "advances sustains (dispatchUnknown x c t now)"
    unfolding dispatchUnknown_def by (intro advances_intros)
qed

lemma sustains_claimAndReserve:
  assumes "creates_only create"
  shows "advances sustains (claimAndReserve P kind request q create)"
  unfolding claimAndReserve_def
  by (intro sustains.advances_rules advances_intros sustains_create [OF assms])

lemma sustains_terminal [advances_intros]:
  "advances sustains (releaseAncestor now parent)"
  "advances sustains (reevaluateAncestors x now)"
  "advances sustains (terminal_event e source now)"
proof -
  show one: "advances sustains (releaseAncestor now parent)" for parent
    unfolding releaseAncestor_def
    by (intro sustains.advances_rules) (auto split: option.split intro!: sustains.advances_rules advances_intros)
  show all: "advances sustains (reevaluateAncestors x now)" for x
    unfolding reevaluateAncestors_def by (intro sustains.advances_rules one)
  have child: "advances sustains (childTerminal e inst conv x t now)" for inst conv x t
    unfolding childTerminal_def by (intro sustains.advances_rules all)
  have turn: "advances sustains (turnTerminal source e inst x t out now)" for inst x t out
    unfolding turnTerminal_def Let_def by (intro sustains.advances_rules advances_intros all)
  show "advances sustains (terminal_event e source now)"
    unfolding terminal_event_def
    by (cases "envScope e"; cases "envEvent e") (auto intro!: sustains.advances_rules turn child)
qed

subsection \<open>A restart\<close>

lemma sound_insertOrIgnore:
  assumes "rvCommandId r = None"
  shows "advances sound (insertOrIgnore r)"
  unfolding advances_def
proof
  fix s
  let ?t = "snd (insertOrIgnore r s)"
  have "?t = s \<or> ?t = s\<lparr>jReservations := jReservations s @ [r]\<rparr> \<and> reservationChecks r \<and>
      reservation s (rvExecutionId r) = None"
    by (auto simp: insertOrIgnore_def insertReservation_def)
  then consider "?t = s" | "?t = s\<lparr>jReservations := jReservations s @ [r]\<rparr>" "reservationChecks r"
      "reservation s (rvExecutionId r) = None"
    by argo
  then show "sound s ?t"
  proof cases
    case 2
    then have "rvExecutionId r \<notin> rvExecutionId ` set (jReservations s)"
      by (auto simp: reservation_def find_None_iff)
    then have "reservations_ok s \<Longrightarrow> reservations_ok ?t"
      using 2(2) assms by (auto simp: 2(1) reservations_ok_def receiptRowOf_def)
    moreover have "receipts_kept s ?t" by (intro receipts_kept_same) (simp add: 2(1))
    ultimately show ?thesis by (simp add: sound_def)
  qed (simp add: sound.same)
qed

lemma sound_startup:
  "advances sound (captureStartupOwners now)"
  "advances sound (scopeCapturedStartupOwner c key now)"
proof -
  have one: "advances sound (captureOwner now x)" for x
    unfolding captureOwner_def
    by (intro sound.advances_rules sound_insertOrIgnore sustains_update(1)) (simp_all add: startupReservation_def)
  have all: "advances sound (captureOwners now xs)" for xs
    by (induction xs) (auto intro!: sound.advances_rules one)
  show "advances sound (captureStartupOwners now)"
    unfolding captureStartupOwners_def by (intro sound.advances_rules all)
  have "advances sustains (scopeExecution_checkout c key now)"
    unfolding advances_def scopeExecution_checkout_def by (auto intro!: sustains_same_reservations receipts_kept_same)
  then have "advances sound (scopeExecution_checkout c key now)"
    by (rule advances_sound)
  then show "advances sound (scopeCapturedStartupOwner c key now)"
    unfolding scopeCapturedStartupOwner_def
    by (intro sound.advances_rules sustains_update(1)) simp_all
qed

subsection \<open>The steps of the owner\<close>

text \<open>
  What the running server does: the owner's operations, the statements on receipts, and any other
  work of the journal, which leaves the reservations alone and settles a receipt once.
\<close>

inductive checkout_step :: "Platform \<Rightarrow> Journal \<Rightarrow> Journal \<Rightarrow> bool" for P where
  reserved: "claimAndReserve P kind request q (create :: unit jop) s = (r, t) \<Longrightarrow> creates_only create \<Longrightarrow> checkout_step P s t"
| resolved: "resolveNew P c kind request resolution now s = (r, t) \<Longrightarrow> checkout_step P s t"
| failed: "beforeDispatchFailure x c i message now s = (r, t) \<Longrightarrow> checkout_step P s t"
| unknown: "dispatchUnknown x c i now s = (r, t) \<Longrightarrow> checkout_step P s t"
| ended: "terminal_event e source now s = (r, t) \<Longrightarrow> checkout_step P s t"
| claimed: "claimCommand P c kind request now s = (r, t) \<Longrightarrow> checkout_step P s t"
| dispatched: "markCommandDispatching c now s = (r, t) \<Longrightarrow> checkout_step P s t"
| accepted: "acceptCommand c v now s = (r, t) \<Longrightarrow> checkout_step P s t"
| rejected: "rejectCommand c m now s = (r, t) \<Longrightarrow> checkout_step P s t"
| abandoned: "failCommandRecovery c m now s = (r, t) \<Longrightarrow> checkout_step P s t"
| journal_work: "jReservations t = jReservations s \<Longrightarrow> receipts_kept s t \<Longrightarrow> checkout_step P s t"

text \<open>What a server that starts does first.\<close>

inductive restart_step :: "Journal \<Rightarrow> Journal \<Rightarrow> bool" where
  captured: "captureStartupOwners now s = (r, t) \<Longrightarrow> restart_step s t"
| scoped: "scopeCapturedStartupOwner c key now s = (r, t) \<Longrightarrow> restart_step s t"

lemma advancesD: "advances R m \<Longrightarrow> m s = (r, t) \<Longrightarrow> R s t"
  unfolding advances_def by (metis snd_conv)

lemma step_sustains: "checkout_step P s t \<Longrightarrow> sustains s t"
proof (induction rule: checkout_step.induct)
  case (reserved kind request q create s r t)
  then show ?case using sustains_claimAndReserve advancesD by blast
qed (blast intro: advancesD sustains_same_reservations advances_intros)+

lemma restart_sound: "restart_step s t \<Longrightarrow> sound s t"
  by (induction rule: restart_step.induct) (blast intro: advancesD sound_startup)+

lemma steps_sustain: "(checkout_step P)\<^sup>*\<^sup>* s t \<Longrightarrow> sustains s t"
  by (induction rule: rtranclp_induct) (auto intro: sustains.same sustains.chain step_sustains)

lemma history_sound: "(\<lambda>s t. checkout_step P s t \<or> restart_step s t)\<^sup>*\<^sup>* s t \<Longrightarrow> sound s t"
proof (induction rule: rtranclp_induct)
  case (step t u)
  then have "sound t u"
    using step_sustains restart_sound by (auto simp: sustains_def)
  with step show ?case by (blast intro: sound.chain)
qed (rule sound.same)

end
