(* ===== verification/CheckoutLaws.thy ===== *)
theory CheckoutLaws
  imports CheckoutSafety
begin

text \<open>
  What the checkout owner's answers mean.  The walk over the native descendants is checked against
  the relation of descent in the table of executions: it calls an execution clear only when no
  native descendant, at any depth, may still write, and active only when one may.  From this, a
  terminal event releases a reservation only when nothing below it can write any more.
\<close>

subsection \<open>Descent\<close>

text \<open>
  \<open>descends table x a e b\<close>: \<open>e\<close> is below the execution \<open>x\<close> with access \<open>a\<close>, and has access \<open>b\<close>,
  its own or the nearest one above it.
\<close>

inductive descends ::
  "JournalExecution list \<Rightarrow> jsstring \<Rightarrow> ProviderAccess option \<Rightarrow> JournalExecution \<Rightarrow> ProviderAccess option \<Rightarrow> bool"
  for table where
  child: "e \<in> set table \<Longrightarrow> exParentId e = Some x \<Longrightarrow> descends table x a e (inheritAccess a e)"
| below: "e \<in> set table \<Longrightarrow> exParentId e = Some x \<Longrightarrow> descends table (exId e) (inheritAccess a e) d b \<Longrightarrow>
    descends table x a d b"

inductive_cases descends_cases: "descends table x a e b"

lemma reachRows_closed:
  "e \<in> set table \<Longrightarrow> exParentId e = Some y \<Longrightarrow>
     y \<in> set queue \<or> y \<in> exId ` set (reachRows table queue) \<Longrightarrow> e \<in> set (reachRows table queue)"
proof (induction table queue rule: reachRows.induct)
  case (2 table x queue)
  then show ?case
    by (cases "y = x") (auto simp: Let_def reachRows.simps)
qed (simp add: reachRows.simps)

lemma reachRows_table: "set (reachRows table queue) \<subseteq> set table"
  by (induction table queue rule: reachRows.induct) (auto simp: Let_def reachRows.simps)

lemma descends_restricted:
  assumes "descends table y a e b" "y = x \<or> y \<in> exId ` set (reachRows table [x])"
    and "\<And>d. d \<in> set (reachRows table [x]) \<Longrightarrow> d \<in> set rows"
  shows "descends rows y a e b"
  using assms(1,2)
proof (induction rule: descends.induct)
  case (child e y a)
  then have "e \<in> set (reachRows table [x])"
    by (intro reachRows_closed [of e table y]) auto
  with assms(3) child show ?case by (blast intro: descends.child)
next
  case (below e y a d b)
  then have "e \<in> set (reachRows table [x])"
    by (intro reachRows_closed [of e table y]) auto
  with assms(3) below show ?case by (blast intro: descends.below)
qed

lemma descends_mono: "descends rows x a e b \<Longrightarrow> set rows \<subseteq> set table \<Longrightarrow> descends table x a e b"
  by (induction rule: descends.induct) (auto intro: descends.intros)

subsection \<open>The walk\<close>

lemma scan_accepts:
  "scanChildren conv cur es = Inr fs \<Longrightarrow> e \<in> set es \<Longrightarrow>
     exConversationId e = conv \<and>
     (\<exists>a. inheritAccess (frAccess cur) e = Some a \<and> \<not> mayStillWrite e a \<and>
        (\<exists>f\<in>set fs. frId f = exId e \<and> frAccess f = Some a))"
  by (induction es arbitrary: fs) (auto split: if_splits option.splits)

lemma scan_not_clear: "scanChildren conv cur es \<noteq> Inl DescendantsClear"
  by (induction es) (auto simp: ebind_eq_Inl split: option.splits)

lemma scan_active:
  "scanChildren conv cur es = Inl DescendantsActive \<Longrightarrow>
     \<exists>e\<in>set es. \<exists>a. inheritAccess (frAccess cur) e = Some a \<and> mayStillWrite e a"
  by (induction es) (auto simp: ebind_eq_Inl split: if_splits option.splits)

lemma scan_frames:
  "scanChildren conv cur es = Inr fs \<Longrightarrow> f \<in> set fs \<Longrightarrow>
     \<exists>e\<in>set es. frId f = exId e \<and> frAccess f = inheritAccess (frAccess cur) e"
  by (induction es arbitrary: fs) (auto split: if_splits option.splits)

lemma walk_clear:
  "walkStack rows conv stack = DescendantsClear \<Longrightarrow> f \<in> set stack \<Longrightarrow> descends rows (frId f) (frAccess f) e b \<Longrightarrow>
     exConversationId e = conv \<and> (\<exists>a. b = Some a \<and> \<not> mayStillWrite e a)"
proof (induction rows conv stack arbitrary: f e b rule: walkStack.induct)
  case (2 rows conv cur stack)
  then obtain fs where scan: "scanChildren conv cur (childrenOf rows (frId cur)) = Inr fs"
    and rest: "walkStack rows conv (rev fs @ stack) = DescendantsClear"
    and depth: "\<not> (64 \<le> frDepth cur \<and> childrenOf rows (frId cur) \<noteq> [])"
    using scan_not_clear by (auto simp: walkStack.simps split: if_splits sum.splits)
  note IH = "2.IH" [OF depth scan rest]
  show ?case
  proof (cases "f = cur")
    case True
    with "2.prems"(3) show ?thesis
    proof (cases rule: descends.cases)
      case child
      then show ?thesis
        using scan_accepts [OF scan, of e] True by (auto simp: childrenOf_def)
    next
      case (below c)
      then obtain g where "g \<in> set fs" "frId g = exId c" "frAccess g = inheritAccess (frAccess f) c"
        using scan_accepts [OF scan, of c] True by (auto simp: childrenOf_def)
      with below(3) show ?thesis
        by (intro IH [of g]) auto
    qed
  next
    case False
    with "2.prems" show ?thesis by (intro IH [of f]) auto
  qed
qed simp

lemma walk_active:
  "walkStack rows conv stack = DescendantsActive \<Longrightarrow>
     \<exists>f\<in>set stack. \<exists>e a. descends rows (frId f) (frAccess f) e (Some a) \<and> mayStillWrite e a"
proof (induction rows conv stack rule: walkStack.induct)
  case (2 rows conv cur stack)
  from "2.prems" have depth: "\<not> (64 \<le> frDepth cur \<and> childrenOf rows (frId cur) \<noteq> [])"
    by (auto simp: walkStack.simps split: if_splits)
  show ?case
  proof (cases "scanChildren conv cur (childrenOf rows (frId cur))")
    case (Inl st)
    with "2.prems" depth have "st = DescendantsActive" by (simp add: walkStack.simps)
    from scan_active [OF Inl [unfolded this]] obtain e a where "e \<in> set (childrenOf rows (frId cur))"
      "inheritAccess (frAccess cur) e = Some a" "mayStillWrite e a" by blast
    then show ?thesis
      using descends.child [of e rows "frId cur" "frAccess cur"] by (auto simp: childrenOf_def)
  next
    case (Inr fs)
    with "2.prems" depth have "walkStack rows conv (rev fs @ stack) = DescendantsActive"
      by (simp add: walkStack.simps)
    from "2.IH" [OF depth Inr this] obtain f e a where f: "f \<in> set fs \<or> f \<in> set stack"
      and d: "descends rows (frId f) (frAccess f) e (Some a)" "mayStillWrite e a"
      by auto
    show ?thesis
    proof (cases "f \<in> set stack")
      case False
      with f scan_frames [OF Inr] obtain c where "c \<in> set (childrenOf rows (frId cur))" "frId f = exId c"
        "frAccess f = inheritAccess (frAccess cur) c" by blast
      with d show ?thesis
        using descends.below [of c rows "frId cur" "frAccess cur" e "Some a"] by (auto simp: childrenOf_def)
    qed (use d in auto)
  qed
qed (simp add: walkStack.simps)

subsection \<open>What the state of the descendants says\<close>

lemma descendants_clear:
  assumes "nativeDescendantState s x = DescendantsClear" "journalExecution s x = Some origin"
    and "descends (jExecutions s) x (exAccess origin) e b"
  shows "exConversationId e = exConversationId origin \<and> (\<exists>a. b = Some a \<and> \<not> mayStillWrite e a)"
proof -
  let ?reach = "reachRows (jExecutions s) [x]"
  let ?ids = "take 258 (map exId ?reach)"
  let ?rows = "filter (\<lambda>e. exId e \<in> set ?ids) (jExecutions s)"
  have few: "length ?ids \<le> 256"
    using assms(1,2) by (auto simp: nativeDescendantState_def Let_def split: if_splits)
  then have all: "?ids = map exId ?reach" by simp
  have "d \<in> set ?rows" if "d \<in> set ?reach" for d
    using that reachRows_table [of "jExecutions s" "[x]"] unfolding all by auto
  then have d: "descends ?rows x (exAccess origin) e b"
    by (intro descends_restricted [OF assms(3)]) auto
  show ?thesis
  proof (cases "?ids = []")
    case True
    with d have False by (cases rule: descends.cases) auto
    then show ?thesis ..
  next
    case False
    with assms(1,2) have "walkStack ?rows (exConversationId origin)
        [\<lparr>frId = x, frDepth = 0, frAccess = exAccess origin, frPath = [x]\<rparr>] = DescendantsClear"
      by (auto simp: nativeDescendantState_def Let_def split: if_splits)
    from walk_clear [OF this, of "\<lparr>frId = x, frDepth = 0, frAccess = exAccess origin, frPath = [x]\<rparr>" e b] d
    show ?thesis by simp
  qed
qed

lemma descendants_active:
  assumes "nativeDescendantState s x = DescendantsActive"
  shows "\<exists>origin e a. journalExecution s x = Some origin \<and>
    descends (jExecutions s) x (exAccess origin) e (Some a) \<and> mayStillWrite e a"
proof -
  from assms obtain origin rows where o: "journalExecution s x = Some origin"
    "rows = filter (\<lambda>e. exId e \<in> set (take 258 (map exId (reachRows (jExecutions s) [x])))) (jExecutions s)"
    "walkStack rows (exConversationId origin)
       [\<lparr>frId = x, frDepth = 0, frAccess = exAccess origin, frPath = [x]\<rparr>] = DescendantsActive"
    unfolding nativeDescendantState_def Let_def by (simp split: option.splits if_splits)
  then have "set rows \<subseteq> set (jExecutions s)" by auto
  from walk_active [OF o(3)] obtain e a where "descends rows x (exAccess origin) e (Some a)" "mayStillWrite e a"
    by auto
  with o(1) descends_mono [OF _ \<open>set rows \<subseteq> _\<close>] show ?thesis by blast
qed

subsection \<open>When a reservation is released\<close>

text \<open>
  Of one operation on terminal events: an active reservation it ends was that of an execution whose
  descendants are clear, and keeps the terminal event as evidence; a released one stays as it is.
\<close>

definition ended_by :: "Journal \<Rightarrow> jsstring \<Rightarrow> Reservation \<Rightarrow> Reservation \<Rightarrow> bool" where
  "ended_by s x r q =
     ((\<not> active r \<longrightarrow> q = r) \<and>
      (active r \<and> \<not> active q \<longrightarrow>
         nativeDescendantState s x = DescendantsClear \<and> rvReleaseReason q = Some NativeTerminal \<and>
         rvTerminalEvidence q \<noteq> None))"

definition ends_clear :: "Journal \<Rightarrow> Journal \<Rightarrow> bool" where
  "ends_clear s t =
     (jExecutions t = jExecutions s \<and>
      (\<forall>x r. reservation s x = Some r \<longrightarrow> (\<exists>q. reservation t x = Some q \<and> ended_by s x r q)))"

lemma descendants_same:
  assumes "jExecutions t = jExecutions s"
  shows "nativeDescendantState t x = nativeDescendantState s x"
  unfolding nativeDescendantState_def journalExecution_def assms ..

lemma ended_by_trans:
  "ended_by s x r q \<Longrightarrow> ended_by t x q p \<Longrightarrow> jExecutions t = jExecutions s \<Longrightarrow> ended_by s x r p"
  using descendants_same [of t s x] by (auto simp: ended_by_def)

interpretation ends: journal_preorder ends_clear
proof
  fix s t u
  assume "ends_clear s t" "ends_clear t u"
  then show "ends_clear s u"
    unfolding ends_clear_def by (metis ended_by_trans)
qed (simp add: ends_clear_def ended_by_def)

lemma ends_update:
  assumes "\<And>r. sel r \<Longrightarrow> rvExecutionId (upd r) = rvExecutionId r \<and> active r \<and>
      ended_by s (rvExecutionId r) r (upd r)"
  shows "ends_clear s (snd (updateReservations sel upd s))"
proof -
  let ?f = "\<lambda>r. if sel r then upd r else r"
  have "\<exists>q. find (\<lambda>r. rvExecutionId r = x) (map ?f xs) = Some q \<and> ended_by s x r q"
    if "find (\<lambda>r. rvExecutionId r = x) xs = Some r" for x r xs
  proof -
    have "find (\<lambda>r. rvExecutionId r = x) (map ?f xs) = Some (?f r)"
      using that assms by (subst find_map_update) auto
    moreover have "rvExecutionId r = x"
      using that by (auto simp: find_Some_iff)
    then have "ended_by s x r (?f r)"
      using assms [of r] by (auto simp: ended_by_def)
    ultimately show ?thesis by blast
  qed
  then have "ends_clear s (s\<lparr>jReservations := map ?f (jReservations s)\<rparr>)"
    by (simp add: ends_clear_def reservation_def)
  then show ?thesis
    by (auto simp: updateReservations_def ends.same)
qed

lemma ends_obind_at:
  assumes "ends_clear s (snd (m s))" "\<And>x. advances ends_clear (f x)"
  shows "ends_clear s (snd (obind m f s))"
  using assms unfolding obind_def advances_def
  by (auto split: prod.split sum.split) (metis ends.chain snd_conv)+

lemma ends_release:
  assumes "nativeDescendantState s x = DescendantsClear"
  shows "ends_clear s (snd (releaseFederatedCheckout x c t NativeTerminal (Some v) now s))"
  unfolding releaseFederatedCheckout_def
  by (intro ends_obind_at ends_update ends.advances_rules)
    (use assms in \<open>auto simp: ended_by_def ownedBy_def active_def\<close>)

lemma ends_record: "advances ends_clear (recordFederatedTerminalEvidence x c t v now)"
  unfolding recordFederatedTerminalEvidence_def advances_def
  by (intro allI ends_obind_at ends_update ends.advances_rules) (auto simp: ended_by_def active_def)

lemma ends_ancestors: "advances ends_clear (reevaluateAncestors x now)"
proof -
  have "advances ends_clear (releaseAncestor now parent)" for parent
    unfolding advances_def
  proof
    fix s
    show "ends_clear s (snd (releaseAncestor now parent s))"
      using ends_release
      by (auto simp: releaseAncestor_def obind_def [of "reads _"] reads_def ret_def ends.same
          split: option.split intro!: ends_obind_at ends.advances_rules)
  qed
  then show ?thesis
    unfolding reevaluateAncestors_def by (intro ends.advances_rules)
qed

lemma terminal_ends_clear: "ends_clear s (snd (terminal_event e source now s))"
proof -
  have turn: "ends_clear s (snd (turnTerminal source e inst x t out now s))" for inst x t out
  proof (cases "endedTurn s e inst x t")
    case (Some turn)
    then show ?thesis
      using ends_record ends_ancestors ends_release
      by (auto simp: turnTerminal_def obind_def [of "reads _"] reads_def Let_def advances_def
          intro!: ends_obind_at ends.advances_rules)
  qed (simp add: turnTerminal_def obind_def reads_def ret_def ends.same)
  have child: "advances ends_clear (childTerminal e inst conv x t now)" for inst conv x t
    unfolding childTerminal_def by (intro ends.advances_rules ends_ancestors)
  have "advances ends_clear (obind (childTerminal e inst conv x t now) (\<lambda>_. ret False))" for inst conv x t
    by (intro ends.advances_rules child)
  with turn show ?thesis
    unfolding terminal_event_def
    by (cases "envScope e"; cases "envEvent e") (auto simp: advances_def ret_def ends.same)
qed

end
