(* ===== verification/CheckoutAdmission.thy ===== *)
theory CheckoutAdmission
  imports CheckoutLaws
begin

text \<open>
  How a federated command is admitted: what \<^verbatim>\<open>claimCommand\<close> and \<^verbatim>\<open>claimAndReserve\<close> answer on every
  branch and what they leave, what a receipt says later, and which capacity a restart takes back.
\<close>

subsection \<open>Claims\<close>

lemma claimCommand_cases:
  assumes "claimCommand P c kind request now s = (r, t)"
  shows "(\<exists>e. r = Inl e) \<and> t = s \<or>
    (\<exists>p. r = Inr (False, p) \<and> t = s \<and> commandReceipt s c = Some p \<and> crKind p = kind \<and>
       hashJson P request = Inr (crRequestHash p)) \<or>
    (\<exists>h. hashJson P request = Inr h \<and> commandReceipt s c = None \<and>
       r = Inr (True, receiptRow (receivedReceipt c kind h now)) \<and>
       t = s\<lparr>jReceipts := jReceipts s @ [receivedReceipt c kind h now]\<rparr> \<and>
       receiptChecks (receivedReceipt c kind h now))"
proof (cases "hashJson P request")
  case (Inl e)
  with assms show ?thesis by (auto simp: claimCommand_def obind_def lift_def)
next
  case (Inr h)
  with assms show ?thesis
    by (cases "commandReceipt s c")
       (auto simp: claimCommand_def obind_def lift_def reads_def throw_def ret_def insertReceipt_def
         split: if_splits)
qed

lemma receiptRow_simps [simp]:
  "crCommandId (receiptRow r) = crCommandId r" "crKind (receiptRow r) = crKind r"
  "crRequestHash (receiptRow r) = crRequestHash r" "crState (receiptRow r) = crState r"
  by (simp_all add: receiptRow_def CommandReceipt.defs)

lemma claimed_receipt:
  assumes "claimCommand P c kind request now s = (Inr (b, p), t)"
  shows "\<exists>r. receiptRowOf t c = Some r \<and> receiptRow r = p \<and> crKind r = kind \<and>
    hashJson P request = Inr (crRequestHash r)"
  using claimCommand_cases [OF assms]
  by (auto simp: commandReceipt_def receiptRowOf_def find_append receivedReceipt_def)

text \<open>What is found later under the command's identity.\<close>

lemma receipt_replayed:
  assumes "claimCommand P c kind request now s = (Inr (b, p), t)" "receipts_kept t u"
  shows "\<exists>q. inspectCommand P c kind request u = (Inr (Some q), u) \<and>
      (settledReceipt (crState p) \<longrightarrow> q = p)"
    and "hashJson P request' = Inr h \<Longrightarrow> kind' \<noteq> kind \<or> hashJson P request' \<noteq> hashJson P request \<Longrightarrow>
      inspectCommand P c kind' request' u = (Inl (ReceiptConflict c), u)"
proof -
  from claimed_receipt [OF assms(1)] obtain r where r: "receiptRowOf t c = Some r" "receiptRow r = p"
    "crKind r = kind" "hashJson P request = Inr (crRequestHash r)" by blast
  with assms(2) obtain q where q: "receiptRowOf u c = Some q" "receipt_kept r q"
    unfolding receipts_kept_def by blast
  then have "commandReceipt u c = Some (receiptRow q)" "crKind q = kind"
    "hashJson P request = Inr (crRequestHash q)" "settledReceipt (crState p) \<longrightarrow> receiptRow q = p"
    using r by (auto simp: commandReceipt_def receipt_kept_def)
  then show "\<exists>q. inspectCommand P c kind request u = (Inr (Some q), u) \<and> (settledReceipt (crState p) \<longrightarrow> q = p)"
    and "hashJson P request' = Inr h \<Longrightarrow> kind' \<noteq> kind \<or> hashJson P request' \<noteq> hashJson P request \<Longrightarrow>
      inspectCommand P c kind' request' u = (Inl (ReceiptConflict c), u)"
    by (auto simp: inspectCommand_def obind_def lift_def reads_def ret_def throw_def)
qed

subsection \<open>Admission\<close>

text \<open>A reservation in force for the request, next to which nobody else may write.\<close>

definition granted :: "CheckoutRequest \<Rightarrow> Journal \<Rightarrow> bool" where
  "granted q t =
     (\<exists>r. reservation t (rqExecutionId q) = Some r \<and> rvState r = Held \<and>
        rvCheckoutKey r = Some (rqCheckoutKey q) \<and> rvCommandId r = Some (rqCommandId q) \<and>
        rvExpectedTurnId r = Some (rqExpectedTurnId q) \<and> rvAccess r = rqAccess q \<and>
        (isWriter (rqAccess q) \<longrightarrow>
           (\<forall>p\<in>set (jReservations t). active p \<and> rvExecutionId p \<noteq> rqExecutionId q \<longrightarrow>
              rvCheckoutKey p \<noteq> None \<and> \<not> (isWriter (rvAccess p) \<and> rvCheckoutKey p = Some (rqCheckoutKey q)))))"

lemma upserted_granted:
  assumes "room q s" "\<forall>p. reservation s (rqExecutionId q) = Some p \<longrightarrow> rvState p = Released"
  shows "granted q (upserted q s)"
proof -
  have "reservation (upserted q s) (rqExecutionId q) =
      Some (case reservation s (rqExecutionId q) of None \<Rightarrow> heldReservation q | Some p \<Rightarrow> renewed q p)"
  proof (cases "reservation s (rqExecutionId q)")
    case (Some p)
    then have "rvExecutionId p = rqExecutionId q"
      by (auto simp: reservation_def find_Some_iff)
    with Some show ?thesis
      by (auto simp: upserted_def reservation_def find_map_update renewed_def)
  qed (simp add: upserted_def reservation_def find_append)
  moreover have "p \<in> set (jReservations s)"
    if "p \<in> set (jReservations (upserted q s))" "rvExecutionId p \<noteq> rqExecutionId q" for p
    using that by (auto simp: upserted_def renewed_def split: if_splits)
  ultimately show ?thesis
    using assms(1) unfolding granted_def room_def
    by (auto simp: renewed_def filter_empty_conv writes_def split: option.split)
qed

lemma reserve_granted:
  assumes "reserveFederatedCheckout q s = (Inr u, t)"
    and "\<And>p. reservation s (rqExecutionId q) = Some p \<Longrightarrow> rvCommandId p \<noteq> Some (rqCommandId q)"
  shows "granted q t \<and> jReceipts t = jReceipts s"
proof -
  from reserve_cases [OF assms(1)] have room: "room q s" and op: "upsertHeld q s = (Inr (), t)"
    and row: "map_option rvCommandId (reservation t (rqExecutionId q)) = Some (Some (rqCommandId q))"
    by auto
  from upsertHeld_cases [OF op] assms(2) row
  have "t = upserted q s" "\<forall>p. reservation s (rqExecutionId q) = Some p \<longrightarrow> rvState p = Released"
    by auto
  with upserted_granted [OF room] show ?thesis by (simp add: upserted_def)
qed

definition rejectedReceipt :: "CommandReceiptRow \<Rightarrow> jsstring \<Rightarrow> CommandReceiptRow" where
  "rejectedReceipt r message = r\<lparr>crState := ReceiptRejected, crErrorMessage := Some message\<rparr>"

lemma reject_received:
  assumes "commandReceipt s c = None" "receiptChecks (receivedReceipt c kind h now)"
  shows "rejectCommand c m now (s\<lparr>jReceipts := jReceipts s @ [receivedReceipt c kind h now]\<rparr>) =
    (Inr (), s\<lparr>jReceipts := jReceipts s @ [rejectedReceipt (receivedReceipt c kind h now) m]\<rparr>)"
proof -
  have others: "\<not> openReceipt c r" if "r \<in> set (jReceipts s)" for r
    using assms(1) that by (auto simp: commandReceipt_def receiptRowOf_def find_None_iff openReceipt_def)
  then have "map (\<lambda>r. if openReceipt c r then f r else r) (jReceipts s) = jReceipts s" for f
    by (intro map_idI) auto
  with others assms(2) show ?thesis
    by (auto simp: rejectCommand_def updateReceipts_def list_all_iff receiptChecks_def openReceipt_def
        receivedReceipt_def rejectedReceipt_def)
qed

lemma claimAndReserve_outcome:
  assumes "claimAndReserve P kind request q create s = (r, t)"
  shows "(\<exists>e. r = Inl e) \<and> t = s \<or>
    (\<exists>p. r = Inr (ReplayReceipt p) \<and> t = s \<and> commandReceipt s (rqCommandId q) = Some p) \<or>
    (\<exists>row. commandReceipt s (rqCommandId q) = None \<and> crCommandId row = rqCommandId q \<and>
       crState row = ReceiptReceived \<and>
       ((\<exists>e. r = Inl e \<and> t = s\<lparr>jReceipts := jReceipts s @ [rejectedReceipt row (messageOf P e)]\<rparr>) \<or>
        (\<exists>v u. r = Inr (Admitted v) \<and>
           create (s\<lparr>jReceipts := jReceipts s @ [row]\<rparr>) = (Inr v, u) \<and>
           reserveFederatedCheckout q u = (Inr (), t))))"
proof -
  obtain rc s1 where claim: "claimCommand P (rqCommandId q) kind request (rqNow q) s = (rc, s1)" by fastforce
  from claimCommand_cases [OF claim] consider
    (fault) e where "rc = Inl e" "s1 = s"
    | (replay) p where "rc = Inr (False, p)" "s1 = s" "commandReceipt s (rqCommandId q) = Some p"
    | (fresh) h where "commandReceipt s (rqCommandId q) = None"
      "rc = Inr (True, receiptRow (receivedReceipt (rqCommandId q) kind h (rqNow q)))"
      "s1 = s\<lparr>jReceipts := jReceipts s @ [receivedReceipt (rqCommandId q) kind h (rqNow q)]\<rparr>"
      "receiptChecks (receivedReceipt (rqCommandId q) kind h (rqNow q))"
    by blast
  then show ?thesis
  proof cases
    case fault
    with assms claim show ?thesis
      by (auto simp: claimAndReserve_def obind_def transaction_def)
  next
    case replay
    with assms claim show ?thesis
      by (simp add: claimAndReserve_def obind_def transaction_def ret_def)
  next
    case fresh
    let ?row = "receivedReceipt (rqCommandId q) kind h (rqNow q)"
    have row: "crCommandId ?row = rqCommandId q" "crState ?row = ReceiptReceived"
      by (simp_all add: receivedReceipt_def)
    note reject = reject_received [OF fresh(1,4), folded fresh(3)]
    obtain rv s2 where create: "create s1 = (rv, s2)" by fastforce
    obtain ru s3 where reserve: "reserveFederatedCheckout q s2 = (ru, s3)" by fastforce
    consider (rejected) e where "r = Inl e"
        "t = s\<lparr>jReceipts := jReceipts s @ [rejectedReceipt ?row (messageOf P e)]\<rparr>"
      | (admitted) v where "r = Inr (Admitted v)" "rv = Inr v" "ru = Inr ()" "t = s3"
      using assms claim fresh(2) create reserve reject
      by (cases rv; cases ru) (auto simp: claimAndReserve_def obind_def transaction_def catching_def ret_def throw_def)
    then show ?thesis
      using row fresh(1,3) create reserve by cases blast+
  qed
qed

text \<open>What an admitted command leaves.\<close>

lemma admitted_granted:
  assumes "claimAndReserve P kind request q create s = (Inr (Admitted v), t)" "reservations_ok s" "creates_only create"
  shows "granted q t \<and> (\<exists>r. receiptRowOf t (rqCommandId q) = Some r)"
proof -
  from claimAndReserve_outcome [OF assms(1)]
  have "\<exists>row u. commandReceipt s (rqCommandId q) = None \<and> crCommandId row = rqCommandId q \<and>
      create (s\<lparr>jReceipts := jReceipts s @ [row]\<rparr>) = (Inr v, u) \<and> reserveFederatedCheckout q u = (Inr (), t)"
    by (elim disjE exE conjE) (simp, simp, simp, blast)
  then obtain row u where
    none: "commandReceipt s (rqCommandId q) = None" and row: "crCommandId row = rqCommandId q"
    and create: "create (s\<lparr>jReceipts := jReceipts s @ [row]\<rparr>) = (Inr v, u)"
    and reserve: "reserveFederatedCheckout q u = (Inr (), t)"
    by blast
  have u: "jReservations u = jReservations s" "receipts_kept (s\<lparr>jReceipts := jReceipts s @ [row]\<rparr>) u"
    using assms(3) [unfolded creates_only_def, rule_format, of "s\<lparr>jReceipts := jReceipts s @ [row]\<rparr>"] create
    by simp_all
  have unclaimed: "rvCommandId p \<noteq> Some (rqCommandId q)" if "reservation u x = Some p" for p x
  proof -
    from that u(1) have "p \<in> set (jReservations s)"
      by (auto simp: reservation_def find_Some_iff)
    with assms(2) none show ?thesis
      unfolding reservations_ok_def commandReceipt_def by auto
  qed
  have "granted q t \<and> jReceipts t = jReceipts u"
    by (rule reserve_granted [OF reserve unclaimed])
  then have "granted q t" and receipts: "jReceipts t = jReceipts u" by simp_all
  moreover have "receiptRowOf (s\<lparr>jReceipts := jReceipts s @ [row]\<rparr>) (rqCommandId q) = Some row"
    using none row by (auto simp: receiptRowOf_def commandReceipt_def find_append)
  with u(2) have "\<exists>r. receiptRowOf u (rqCommandId q) = Some r"
    by (auto simp: receipts_kept_def)
  ultimately show ?thesis by (simp add: receiptRowOf_def)
qed

subsection \<open>What a restart takes back\<close>

definition occupied :: "Journal \<Rightarrow> jsstring \<Rightarrow> bool" where
  "occupied s x = (\<exists>r. reservation s x = Some r \<and> active r)"

definition occupies :: "Journal \<Rightarrow> Journal \<Rightarrow> bool" where
  "occupies s t = (\<forall>x. occupied s x \<longrightarrow> occupied t x)"

interpretation occupies: journal_preorder occupies
  by unfold_locales (auto simp: occupies_def)

lemma occupied_update:
  assumes "\<And>r. sel r \<Longrightarrow> rvExecutionId (upd r) = rvExecutionId r \<and> active (upd r)"
  shows "occupies s (snd (updateReservations sel upd s))"
    and "updateReservations sel upd s = (Inr n, t) \<Longrightarrow> reservation s x = Some r \<Longrightarrow> active r \<or> sel r \<Longrightarrow>
      occupied t x"
proof -
  let ?t = "s\<lparr>jReservations := map (\<lambda>r. if sel r then upd r else r) (jReservations s)\<rparr>"
  have row: "reservation ?t x = map_option (\<lambda>r. if sel r then upd r else r) (reservation s x)" for x
    unfolding reservation_def using assms by simp (subst find_map_update; simp)
  have step: "occupied ?t x" if "reservation s x = Some r" "active r \<or> sel r" for x r
    using that row [of x] assms [of r] by (cases "sel r") (simp_all add: occupied_def)
  then have "occupies s ?t"
    unfolding occupies_def occupied_def by blast
  then show "occupies s (snd (updateReservations sel upd s))"
    by (simp add: updateReservations_def occupies.same)
  assume "updateReservations sel upd s = (Inr n, t)" "reservation s x = Some r" "active r \<or> sel r"
  with step show "occupied t x"
    by (auto simp: updateReservations_def split: if_splits)
qed

lemma occupies_insertOrIgnore: "occupies s (snd (insertOrIgnore r s))"
  by (auto simp: insertOrIgnore_def insertReservation_def occupies_def occupied_def reservation_def find_append)

lemma insertOrIgnore_present:
  assumes "insertOrIgnore r s = (Inr u, t)" "reservationChecks r" "rvCommandId r = None"
  shows "reservation t (rvExecutionId r) \<noteq> None"
  using assms by (auto simp: insertOrIgnore_def insertReservation_def commandTaken_def reservation_def find_append
      split: if_splits)

lemma occupies_captureOwner: "occupies s (snd (captureOwner now c s))"
  and captureOwner_occupied: "captureOwner now (e, cwd) s = (Inr x, t) \<Longrightarrow> occupied t (exId e)"
proof -
  let ?upd = "updateReservations (\<lambda>r. rvExecutionId r = exId (fst c) \<and> rvState r = Released)
       (\<lambda>r. r\<lparr>rvState := UnknownHeld, rvReleaseReason := None, rvReleasedAt := None,
          rvUpdatedAt := max (rvUpdatedAt r) now\<rparr>)"
  have "advances occupies (insertOrIgnore r)" "advances occupies ?upd" for r
    unfolding advances_def by (auto intro!: occupies_insertOrIgnore occupied_update(1) simp: active_def)
  then have "advances occupies (captureOwner now c)"
    unfolding captureOwner_def by (intro occupies.advances_rules) (auto simp: split_beta)
  then show "occupies s (snd (captureOwner now c s))"
    by (simp add: advances_def)
  assume op: "captureOwner now (e, cwd) s = (Inr x, t)"
  let ?row = "startupReservation e now"
  obtain u n where ins: "insertOrIgnore ?row s = (Inr (), u)"
    and upd: "updateReservations (\<lambda>r. rvExecutionId r = exId e \<and> rvState r = Released)
       (\<lambda>r. r\<lparr>rvState := UnknownHeld, rvReleaseReason := None, rvReleasedAt := None,
          rvUpdatedAt := max (rvUpdatedAt r) now\<rparr>) u = (Inr n, t)"
    using op by (auto simp: captureOwner_def obind_def reads_def ret_def split: prod.splits sum.splits)
  have "reservation u (exId e) \<noteq> None"
    using insertOrIgnore_present [OF ins] by (simp add: startupReservation_def reservationChecks_def)
  then obtain r where r: "reservation u (exId e) = Some r" by blast
  then have "rvExecutionId r = exId e" by (auto simp: reservation_def find_Some_iff)
  then have "active r \<or> rvExecutionId r = exId e \<and> rvState r = Released"
    by (cases "rvState r") (simp_all add: active_def)
  with occupied_update(2) [OF _ upd r] show "occupied t (exId e)"
    by (simp add: active_def)
qed

lemma captureOwners_occupied:
  "captureOwners now cs s = (Inr xs, t) \<Longrightarrow> (e, cwd) \<in> set cs \<Longrightarrow> occupied t (exId e)"
proof (induction cs arbitrary: s xs)
  case (Cons c cs)
  from Cons.prems(1) obtain x u ys where one: "captureOwner now c s = (Inr x, u)"
    and rest: "captureOwners now cs u = (Inr ys, t)"
    by (auto simp: obind_def ret_def split: prod.splits sum.splits)
  have "advances occupies (captureOwner now c)" for c
    by (simp add: advances_def occupies_captureOwner)
  then have "advances occupies (captureOwners now cs)" for cs
    by (induction cs) (auto intro!: occupies.advances_rules)
  from advancesD [OF this rest] have "occupies u t" .
  with Cons rest one captureOwner_occupied [of now e cwd s x u] show ?case
    by (auto simp: occupies_def)
qed simp

lemma captureStartupOwners_occupied:
  assumes "captureStartupOwners now s = (Inr cs, t)" "(e, cwd) \<in> set (startupOwners s)"
  shows "occupied t (exId e)"
  using assms captureOwners_occupied [of now "startupOwners s" s cs t e cwd]
  by (auto simp: captureStartupOwners_def transaction_def obind_def reads_def split: prod.splits sum.splits)

end
