(* ===== verification/CheckoutSamples.thy ===== *)
theory CheckoutSamples
  imports CheckoutAdmission
begin

text \<open>
  A federated command in full: the journal of a server with one root execution, the admission of a
  command that may write, its end on the provider's terminal event, a command that is refused, and a
  restart.  The properties are instantiated here.
\<close>

lemma code_points: "js [] = []" "js (c # s) = of_char c # js s"
  by (simp_all add: js_def)

definition checkoutPlatform :: Platform where
  "checkoutPlatform = \<lparr>platformSha256 = \<lambda>t. replicate 64 48, platformLe = \<lambda>a b. True,
     constraintText = js ''constraint failed''\<rparr>"

definition rootExecution :: JournalExecution where
  "rootExecution =
     \<lparr>exId = js ''r'', exConversationId = js ''c'', exStrandId = None, exParentId = None,
      exRootTurnId = None, exOwnership = RootExecution, exProvider = Codex,
      exProviderInstanceId = js ''p'', exModel = None, exEffort = None, exServiceTier = None,
      exCheckoutKey = None, exAccess = Some WorkspaceWrite, exScheduling = None, exDepth = 0,
      exTitle = None, exState = ExecRunning, exOutcome = None, exSummary = None,
      exLifecycleError = None, exTranscriptAvailable = True, exCreatedAt = 1, exCompletedAt = None,
      exUpdatedAt = 1\<rparr>"

definition startJournal :: Journal where
  "startJournal =
     \<lparr>jReceipts = [], jExecutions = [rootExecution], jReservations = [],
      jTurns = [\<lparr>jtTurnId = js ''t'', jtExecutionId = js ''x'', jtCommandId = js ''k'',
        jtNativeTurnId = Some (js ''n'')\<rparr>],
      jConversations = [(js ''c'', js ''w'')], jHeads = [], jProviderInstances = [js ''p'', js ''q''],
      jNativeSessions = [(js ''x'', \<lparr>refProvider = ClaudeCode, refProviderInstanceId = js ''q'',
        refSessionId = js ''s'', refResumeCursor = None\<rparr>)],
      jChildHandles = [], jInFlight = []\<rparr>"

definition sampleCheckout :: CheckoutRequest where
  "sampleCheckout =
     \<lparr>rqExecutionId = js ''x'', rqCheckoutKey = js ''git'', rqCommandId = js ''k'',
      rqExpectedTurnId = js ''t'', rqAccess = WorkspaceWrite, rqScheduling = Foreground, rqNow = 5\<rparr>"

definition sampleCreate :: "unit jop" where
  "sampleCreate =
     obind (createFederatedExecution
       \<lparr>feExecutionId = js ''x'', feConversationId = js ''c'', feParentExecutionId = js ''r'',
        feRootTurnId = js ''t'', feProvider = ClaudeCode, feProviderInstanceId = js ''q'',
        feModel = js ''m'', feEffort = None, feServiceTier = None, feCheckoutKey = Some (js ''git''),
        feAccess = WorkspaceWrite, feScheduling = Foreground, feDepth = 1, feTitle = js ''a'',
        feNow = 5\<rparr>) (\<lambda>_. markCommandDispatching (js ''k'') 5)"

lemma creates_federated: "creates_only (createFederatedExecution i)"
  unfolding creates_only_def createFederatedExecution_def insertExecution_def obind_def reads_def
  by (auto intro!: receipts_kept_same)

lemma creates_obind: "creates_only m \<Longrightarrow> (\<And>x. creates_only (f x)) \<Longrightarrow> creates_only (obind m f)"
  unfolding creates_only_def obind_def
  by (auto split: prod.split sum.split) (metis receipts_kept_trans snd_conv)+

lemma creates_dispatching: "creates_only (markCommandDispatching c now)"
proof -
  have "receipts_kept s (snd (markCommandDispatching c now s))" for s
    unfolding markCommandDispatching_def
    by (rule receipts_kept_update) (auto simp: settledReceipt_def receipt_kept_def)
  then show ?thesis
    by (simp add: creates_only_def markCommandDispatching_def updateReceipts_def)
qed

lemma sampleCreate_only: "creates_only sampleCreate"
  unfolding sampleCreate_def by (intro creates_obind creates_federated creates_dispatching)

definition workingExecution :: JournalExecution where
  "workingExecution =
     \<lparr>exId = js ''x'', exConversationId = js ''c'', exStrandId = None, exParentId = Some (js ''r''),
      exRootTurnId = Some (js ''t''), exOwnership = FederatedExecution, exProvider = ClaudeCode,
      exProviderInstanceId = js ''q'', exModel = Some (js ''m''), exEffort = None, exServiceTier = None,
      exCheckoutKey = Some (js ''git''), exAccess = Some WorkspaceWrite, exScheduling = Some Foreground,
      exDepth = 1, exTitle = Some (js ''a''), exState = ExecRecovering, exOutcome = None, exSummary = None,
      exLifecycleError = None, exTranscriptAvailable = True, exCreatedAt = 5, exCompletedAt = None,
      exUpdatedAt = 5\<rparr>"

definition workingReceipt :: CommandReceiptRow where
  "workingReceipt =
     \<lparr>crCommandId = js ''k'', crKind = js ''spawn'', crRequestHash = replicate 64 48,
      crState = ReceiptDispatching, crResult = None, crErrorMessage = None, crCreatedAt = 5, crUpdatedAt = 5\<rparr>"

definition workingJournal :: Journal where
  "workingJournal = startJournal\<lparr>jReceipts := [workingReceipt],
     jExecutions := [rootExecution, workingExecution],
     jReservations := [heldReservation sampleCheckout]\<rparr>"

lemma zero_hash [simp]: "is_sha256 (replicate 64 48)"
  by (simp add: is_sha256_def list_all_iff)

lemma checkout_hash: "hashJson checkoutPlatform (JObject []) = Inr (replicate 64 48)"
  by (simp add: hashJson_def checkoutPlatform_def sort_keys_def)

lemma sample_admitted:
  "claimAndReserve checkoutPlatform (js ''spawn'') (JObject []) sampleCheckout sampleCreate startJournal =
     (Inr (Admitted ()), workingJournal)"
proof -
  let ?s1 = "startJournal\<lparr>jReceipts := [receivedReceipt (js ''k'') (js ''spawn'') (replicate 64 48) 5]\<rparr>"
  have claim: "claimCommand checkoutPlatform (js ''k'') (js ''spawn'') (JObject []) 5 startJournal =
      (Inr (True, receiptRow (receivedReceipt (js ''k'') (js ''spawn'') (replicate 64 48) 5)), ?s1)"
    by (simp add: claimCommand_def obind_def lift_def checkout_hash reads_def ret_def startJournal_def
        commandReceipt_def receiptRowOf_def insertReceipt_def receiptChecks_def receivedReceipt_def)
  have create: "sampleCreate ?s1 = (Inr (), workingJournal\<lparr>jReservations := []\<rparr>)"
    by (simp add: sampleCreate_def obind_def createFederatedExecution_def reads_def startJournal_def
        insertExecution_def executionChecks_def executionReferences_def rootExecution_def
        markCommandDispatching_def updateReceipts_def receivedReceipt_def receiptChecks_def
        workingJournal_def workingExecution_def workingReceipt_def)
  have reserve: "reserveFederatedCheckout sampleCheckout (workingJournal\<lparr>jReservations := []\<rparr>) =
      (Inr (), workingJournal)"
    by (simp add: reserveFederatedCheckout_def obind_def reads_def Let_def upsertHeld_def reservation_def
        insertReservation_def reservationChecks_def reservationReferences_def commandTaken_def ret_def
        workingJournal_def workingExecution_def workingReceipt_def sampleCheckout_def heldReservation_def
        startJournal_def)
  show ?thesis
    using claim create reserve
    by (simp add: claimAndReserve_def obind_def transaction_def catching_def ret_def sampleCheckout_def
        cong: CheckoutRequest.fold_congs)
qed

lemma startJournal_ok: "reservations_ok startJournal" "capacity_ok startJournal"
  by (simp_all add: startJournal_def reservations_ok_def capacity_ok_def)

lemma sample_claimed:
  "checkout_step checkoutPlatform startJournal workingJournal"
  by (rule checkout_step.reserved [OF sample_admitted sampleCreate_only])

subsection \<open>A terminal event\<close>

definition terminalEnvelope :: ProviderEventEnvelope where
  "terminalEnvelope =
     \<lparr>eventId = js ''e'', envProvider = ClaudeCode,
      envScope = TurnScope (js ''q'') (js ''c'') (js ''x'') (js ''t''),
      envNative = \<lparr>nativeSessionId = Some (js ''s''), nativeTurnId = Some (js ''n''), nativeMessageId = None,
        nativeItemId = None, nativeToolCallId = None, nativePosition = None, nativeSubject = None,
        nativeTimeline = None, nativeKind = js ''turn''\<rparr>,
      observedAt = 8, envEvent = TurnCompletedEvent TurnCompleted None, rawArtifactRef = None\<rparr>"

definition endedReservation :: Reservation where
  "endedReservation = (heldReservation sampleCheckout)\<lparr>rvState := Released,
     rvTerminalEvidence := Some (terminalEvidence LiveProvider terminalEnvelope (js ''x'') (js ''t'') TurnCompleted),
     rvReleaseReason := Some NativeTerminal, rvReleasedAt := Some 9, rvUpdatedAt := 9\<rparr>"

lemma ended_fields: "rvExecutionId endedReservation = js ''x''"
  by (simp add: endedReservation_def sampleCheckout_def)

lemma working_executions: "jExecutions workingJournal = [rootExecution, workingExecution]"
  by (simp add: workingJournal_def)

lemma working_reservation: "jReservations workingJournal = [heldReservation sampleCheckout]"
  by (simp add: workingJournal_def)

lemma execution_fields [simp]:
  "exId rootExecution = js ''r''" "exId workingExecution = js ''x''" "exParentId rootExecution = None"
  "exParentId workingExecution = Some (js ''r'')" "exConversationId rootExecution = js ''c''"
  "exConversationId workingExecution = js ''c''"
  by (simp_all add: rootExecution_def workingExecution_def)

lemma working_descendants: "nativeDescendantState workingJournal (js ''x'') = DescendantsClear"
  by (simp add: nativeDescendantState_def journalExecution_def working_executions reachRows.simps)

lemma sample_ended:
  "terminal_event terminalEnvelope LiveProvider 9 workingJournal =
     (Inr True, workingJournal\<lparr>jReservations := [endedReservation]\<rparr>)"
proof -
  have turn: "endedTurn workingJournal terminalEnvelope (js ''q'') (js ''x'') (js ''t'') =
      Some \<lparr>jtTurnId = js ''t'', jtExecutionId = js ''x'', jtCommandId = js ''k'', jtNativeTurnId = Some (js ''n'')\<rparr>"
    by (simp add: endedTurn_def journalTurn_def workingJournal_def startJournal_def terminalEnvelope_def truthy_def
        journalExecution_def boundTo_def workingExecution_def rootExecution_def)
  have release: "releaseFederatedCheckout (js ''x'') (js ''k'') (js ''t'') NativeTerminal
      (Some (terminalEvidence LiveProvider terminalEnvelope (js ''x'') (js ''t'') TurnCompleted)) 9 workingJournal =
      (Inr True, workingJournal\<lparr>jReservations := [endedReservation]\<rparr>)"
    by (simp add: releaseFederatedCheckout_def obind_def updateReservations_def working_reservation ownedBy_def
        active_def ret_def endedReservation_def sampleCheckout_def reservationChecks_def heldReservation_def)
  have climb: "climb s 64 workingExecution [] [] = Some ([rootExecution], rootExecution, [js ''x''])"
    if "jExecutions s = [rootExecution, workingExecution]" for s
    using that by (simp add: eval_nat_numeral truthy_def journalExecution_def)
  have ancestors: "reevaluateAncestors (js ''x'') 9 s = (Inr (), s)"
    if "jExecutions s = [rootExecution, workingExecution]" "jReservations s = [endedReservation]" for s
    using that by (simp add: reevaluateAncestors_def obind_def reads_def climb journalExecution_def truthy_def
        releaseAncestor_def reservation_def endedReservation_def ret_def sampleCheckout_def)
  show ?thesis
    using turn release ancestors working_descendants
    by (simp add: terminal_event_def turnTerminal_def Let_def obind_def reads_def ret_def working_executions)
      (simp add: terminalEnvelope_def turnTerminal_def Let_def obind_def reads_def ret_def working_executions)
qed

subsection \<open>A second writer\<close>

definition secondCheckout :: CheckoutRequest where
  "secondCheckout = sampleCheckout\<lparr>rqExecutionId := js ''y'', rqCommandId := js ''l'', rqNow := 6\<rparr>"

lemma sample_refused:
  "\<exists>t. claimAndReserve checkoutPlatform (js ''spawn'') (JObject []) secondCheckout (ret ()) workingJournal =
     (Inl (JournalRefused writerActive), t)"
proof -
  have "reserveFederatedCheckout secondCheckout s = (Inl (JournalRefused writerActive), s)"
    if "jReservations s = [heldReservation sampleCheckout]" for s
    using that by (simp add: reserveFederatedCheckout_def obind_def reads_def active_def secondCheckout_def
        sampleCheckout_def Let_def fails_with_def throw_def isWriter_def)
  then show ?thesis
    by (simp add: claimAndReserve_def obind_def transaction_def catching_def ret_def claimCommand_def lift_def
        checkout_hash reads_def workingJournal_def startJournal_def commandReceipt_def receiptRowOf_def
        insertReceipt_def receiptChecks_def receivedReceipt_def rejectCommand_def updateReceipts_def openReceipt_def
        workingReceipt_def throw_def secondCheckout_def sampleCheckout_def)
qed

subsection \<open>A restart\<close>

lemma sample_captured:
  "\<exists>cs t. captureStartupOwners 9 workingJournal = (Inr cs, t)"
  "(workingExecution, js ''w'') \<in> set (startupOwners workingJournal)"
proof -
  show owner: "(workingExecution, js ''w'') \<in> set (startupOwners workingJournal)"
    by (simp add: startupOwners_def working_executions workingJournal_def startJournal_def workingExecution_def)
  show "\<exists>cs t. captureStartupOwners 9 workingJournal = (Inr cs, t)"
    by (simp add: captureStartupOwners_def transaction_def obind_def reads_def startupOwners_def working_executions
        captureOwner_def insertOrIgnore_def reservation_def working_reservation updateReservations_def
        startupReservation_def ret_def rootExecution_def workingExecution_def workingJournal_def startJournal_def
        sampleCheckout_def)
qed

end
