(* ===== verification/SessionOwnership.thy ===== *)
theory SessionOwnership
  imports StoreOps DeliveryJson ContractDisplays "HOL-Library.AList"
begin

text \<open>
  The process-local control leases of native sessions (native-session-ownership.ts).

  \<^item> A JavaScript \<^verbatim>\<open>Map\<close> is the list of its entries in insertion order: \<^verbatim>\<open>set\<close> is
    \<open>AList.update\<close>, which replaces in place or appends, and \<^verbatim>\<open>delete\<close> is \<open>AList.delete\<close>.
  \<^item> A \<^verbatim>\<open>Symbol\<close> is a number never drawn before.  The flag \<^verbatim>\<open>released\<close> in the closure of a lease
    is the membership of its token in \<open>releasedTokens\<close>.
  \<^item> The lemmas follow one session from \<open>acquire\<close> to its holder's own \<open>release\<close>, whatever all
    others do in between.
\<close>

subsection \<open>Leases\<close>

record NativeSessionOwnership =
  ownershipProvider :: ProviderKind
  ownershipInstanceId :: jsstring
  ownershipSessionId :: jsstring
  ownershipExecutionId :: jsstring
  acquiredAt :: int

record LeaseEntry =
  entryToken :: nat
  entryOwnership :: NativeSessionOwnership

record NativeSessionLease =
  leaseKey :: jsstring
  leaseToken :: nat
  ownership :: NativeSessionOwnership

record OwnershipRegistry =
  leases :: "(jsstring \<times> LeaseEntry) list"
  issuedTokens :: nat
  releasedTokens :: "nat list"

definition emptyRegistry :: OwnershipRegistry where
  "emptyRegistry = \<lparr>leases = [], issuedTokens = 0, releasedTokens = []\<rparr>"

definition ownershipKey :: "NativeSessionOwnership \<Rightarrow> jsstring" where
  "ownershipKey input =
     js (providerKindName (ownershipProvider input)) @ [0] @ ownershipInstanceId input @ [0]
       @ ownershipSessionId input"

definition providerLabel :: "ProviderKind \<Rightarrow> jsstring" where
  "providerLabel provider =
     (if provider = ClaudeCode then js ''Claude Code''
      else if provider = Codex then js ''Codex''
      else js (providerKindName provider))"

definition controlledMessage :: "NativeSessionOwnership \<Rightarrow> NativeSessionOwnership \<Rightarrow> jsstring" where
  "controlledMessage input holder =
     providerLabel (ownershipProvider input) @ js '' session '' @ json_quote (ownershipSessionId input)
       @ js '' is already controlled by execution '' @ json_quote (ownershipExecutionId holder) @ js ''.''"

text \<open>The input lacks \<^verbatim>\<open>acquiredAt\<close>, which is read from the clock.\<close>

definition acquire ::
  "NativeSessionOwnership \<Rightarrow> int \<Rightarrow> (OwnershipRegistry, jsstring, NativeSessionLease) store_op" where
  "acquire input now R =
     (let key = ownershipKey input in
      case map_of (leases R) key of
        Some existing \<Rightarrow> throw (controlledMessage input (entryOwnership existing)) R
      | None \<Rightarrow>
          let token = issuedTokens R; owned = input\<lparr>acquiredAt := now\<rparr> in
          ret \<lparr>leaseKey = key, leaseToken = token, ownership = owned\<rparr>
            (R\<lparr>leases := AList.update key \<lparr>entryToken = token, entryOwnership = owned\<rparr> (leases R),
               issuedTokens := Suc token\<rparr>))"

definition release :: "NativeSessionLease \<Rightarrow> OwnershipRegistry \<Rightarrow> OwnershipRegistry" where
  "release lease R =
     (if leaseToken lease \<in> set (releasedTokens R) then R
      else
        let R' = R\<lparr>releasedTokens := leaseToken lease # releasedTokens R\<rparr> in
        if map_option entryToken (map_of (leases R') (leaseKey lease)) = Some (leaseToken lease)
        then R'\<lparr>leases := AList.delete (leaseKey lease) (leases R')\<rparr>
        else R')"

text \<open>The order in which \<^verbatim>\<open>localeCompare\<close> puts two executions is a parameter.\<close>

definition ownership_le :: "(jsstring \<Rightarrow> jsstring \<Rightarrow> bool) \<Rightarrow> int \<times> jsstring \<Rightarrow> int \<times> jsstring \<Rightarrow> bool" where
  "ownership_le localeLe a b = (fst a < fst b \<or> fst a = fst b \<and> localeLe (snd a) (snd b))"

definition snapshot ::
  "(jsstring \<Rightarrow> jsstring \<Rightarrow> bool) \<Rightarrow> OwnershipRegistry \<Rightarrow> NativeSessionOwnership list" where
  "snapshot localeLe R =
     map snd (sort_keys (ownership_le localeLe)
       (map (\<lambda>owned. ((acquiredAt owned, ownershipExecutionId owned), owned))
         (map (entryOwnership \<circ> snd) (leases R))))"

subsection \<open>Who may control a session\<close>

definition holds :: "OwnershipRegistry \<Rightarrow> NativeSessionLease \<Rightarrow> bool" where
  "holds R lease =
     (map_of (leases R) (leaseKey lease) =
        Some \<lparr>entryToken = leaseToken lease, entryOwnership = ownership lease\<rparr> \<and>
      leaseToken lease \<notin> set (releasedTokens R) \<and> leaseToken lease < issuedTokens R)"

text \<open>
  What may happen to the registry: anyone acquires any session, and a lease that was handed out is
  released.  With \<open>kept = Some token\<close>, the lease of that token is not.
\<close>

inductive ownership_step :: "nat option \<Rightarrow> OwnershipRegistry \<Rightarrow> OwnershipRegistry \<Rightarrow> bool" for kept where
  acquired: "acquire input now R = (r, R') \<Longrightarrow> ownership_step kept R R'"
| released: "kept \<noteq> Some (leaseToken lease) \<Longrightarrow> leaseToken lease < issuedTokens R \<Longrightarrow>
    ownership_step kept R (release lease R)"

text \<open>Entries carry issued tokens that nobody has released; a session has one entry.\<close>

definition registry_ok :: "OwnershipRegistry \<Rightarrow> bool" where
  "registry_ok R =
     (distinct (map fst (leases R)) \<and>
      (\<forall>(key, entry) \<in> set (leases R). entryToken entry < issuedTokens R \<and>
         key = ownershipKey (entryOwnership entry)) \<and>
      (\<forall>token \<in> set (releasedTokens R). token < issuedTokens R))"

lemma empty_registry_ok: "registry_ok emptyRegistry"
  by (simp add: registry_ok_def emptyRegistry_def)

lemma ownershipKey_acquiredAt [simp]: "ownershipKey (input\<lparr>acquiredAt := now\<rparr>) = ownershipKey input"
  by (simp add: ownershipKey_def)

lemma acquire_cases:
  assumes "acquire input now R = (r, R')"
  obtains existing where "map_of (leases R) (ownershipKey input) = Some existing" "R' = R"
      "r = Inl (controlledMessage input (entryOwnership existing))"
  | lease where "map_of (leases R) (ownershipKey input) = None" "r = Inr lease"
      "leaseKey lease = ownershipKey input" "leaseToken lease = issuedTokens R"
      "ownership lease = input\<lparr>acquiredAt := now\<rparr>"
      "R' = R\<lparr>leases := AList.update (ownershipKey input)
         \<lparr>entryToken = issuedTokens R, entryOwnership = input\<lparr>acquiredAt := now\<rparr>\<rparr> (leases R),
         issuedTokens := Suc (issuedTokens R)\<rparr>"
  using assms
  by (cases "map_of (leases R) (ownershipKey input)") (auto simp: acquire_def Let_def throw_def ret_def intro: that)

lemma acquire_ok:
  assumes "registry_ok R" "acquire input now R = (r, R')"
  shows "registry_ok R'"
  using assms(2)
proof (cases rule: acquire_cases)
  case 2
  have "x \<in> set (AList.update k v xs) \<Longrightarrow> x = (k, v) \<or> x \<in> set xs" for x k and v :: LeaseEntry and xs
    by (induction xs) (auto split: if_splits)
  with 2 assms(1) show ?thesis
    unfolding registry_ok_def by (fastforce simp: distinct_update)
qed (use assms(1) in simp)

lemma release_ok: "registry_ok R \<Longrightarrow> leaseToken lease < issuedTokens R \<Longrightarrow> registry_ok (release lease R)"
  unfolding registry_ok_def release_def Let_def
  by (auto simp: AList.delete_eq distinct_map_filter)

lemma acquire_holds:
  assumes "registry_ok R" "acquire input now R = (Inr lease, R')"
  shows "holds R' lease"
  using assms(2)
  by (cases rule: acquire_cases) (use assms(1) in \<open>auto simp: holds_def registry_ok_def update_conv'\<close>)

lemma steps_registry_ok: "(ownership_step kept)\<^sup>*\<^sup>* R R' \<Longrightarrow> registry_ok R \<Longrightarrow> registry_ok R'"
  by (induction rule: rtranclp_induct) (auto elim!: ownership_step.cases intro: acquire_ok release_ok)

lemma others_keep_holder:
  assumes "ownership_step (Some (leaseToken lease)) R R'" "holds R lease"
  shows "holds R' lease"
  using assms
proof (cases rule: ownership_step.cases)
  case (acquired input now r)
  from acquired show ?thesis
    by (cases rule: acquire_cases) (use assms(2) in \<open>auto simp: holds_def update_conv'\<close>)
next
  case (released other)
  with assms(2) show ?thesis
    by (auto simp: holds_def release_def Let_def delete_conv')
qed

lemma others_keep_holding:
  "(ownership_step (Some (leaseToken lease)))\<^sup>*\<^sup>* R R' \<Longrightarrow> holds R lease \<Longrightarrow> holds R' lease"
  by (induction rule: rtranclp_induct) (auto intro: others_keep_holder)

lemma held_refuses:
  assumes "holds R lease" "ownershipKey input = leaseKey lease"
  shows "acquire input now R = (Inl (controlledMessage input (ownership lease)), R)"
  using assms by (simp add: acquire_def holds_def throw_def)

lemma release_frees:
  assumes "holds R lease" "ownershipKey input = leaseKey lease"
  shows "\<exists>next R'. acquire input now (release lease R) = (Inr next, R')"
  using assms by (simp add: acquire_def holds_def release_def Let_def delete_conv' ret_def)

text \<open>A lease given back is dead: releasing it again, or late, changes nothing.\<close>

lemma released_twice: "release lease (release lease R) = release lease R"
  by (auto simp: release_def Let_def)

text \<open>The snapshot lists every lease once, in the order they were acquired.\<close>

lemma ownership_le_total:
  assumes order: "total_order_on_keys localeLe (snd ` K)"
  shows "total_order_on_keys (ownership_le localeLe) K"
  unfolding total_order_on_keys_def
proof (intro conjI ballI impI)
  fix a b assume "a \<in> K" "b \<in> K"
  then have K: "snd a \<in> snd ` K" "snd b \<in> snd ` K" by simp_all
  show "ownership_le localeLe a b \<or> ownership_le localeLe b a"
    using total_order_onD(1) [OF order K] by (auto simp: ownership_le_def)
  assume "ownership_le localeLe a b \<and> ownership_le localeLe b a"
  then show "a = b"
    using total_order_onD(2) [OF order K] by (auto simp: ownership_le_def prod_eq_iff)
next
  fix a b c assume "a \<in> K" "b \<in> K" "c \<in> K"
  then have K: "snd a \<in> snd ` K" "snd b \<in> snd ` K" "snd c \<in> snd ` K" by simp_all
  assume "ownership_le localeLe a b \<and> ownership_le localeLe b c"
  then show "ownership_le localeLe a c"
    using total_order_onD(3) [OF order K] by (auto simp: ownership_le_def)
qed

lemma snapshot_mset: "mset (snapshot localeLe R) = mset (map (entryOwnership \<circ> snd) (leases R))"
  unfolding snapshot_def mset_map [of snd] mset_sort_keys by (simp add: multiset.map_comp comp_def)

lemma snapshot_sorted:
  assumes "total_order_on_keys localeLe (set (map (ownershipExecutionId \<circ> entryOwnership \<circ> snd) (leases R)))"
  shows "sorted_wrt (\<lambda>a b. acquiredAt a \<le> acquiredAt b) (snapshot localeLe R)"
proof -
  let ?keyed = "map (\<lambda>owned. ((acquiredAt owned, ownershipExecutionId owned), owned))
    (map (entryOwnership \<circ> snd) (leases R))"
  have "total_order_on_keys (ownership_le localeLe) (fst ` set ?keyed)"
    using assms by (intro ownership_le_total) (simp add: image_image)
  then have "sorted_wrt (\<lambda>a b. ownership_le localeLe (fst a) (fst b)) (sort_keys (ownership_le localeLe) ?keyed)"
    by (intro sorted_sort_keys [where K = "fst ` set ?keyed"]) simp_all
  moreover have "\<And>x. x \<in> set (sort_keys (ownership_le localeLe) ?keyed) \<Longrightarrow> fst (fst x) = acquiredAt (snd x)"
    using mset_eq_setD [OF mset_sort_keys, of "ownership_le localeLe" ?keyed] by auto
  ultimately have "sorted_wrt (\<lambda>a b. acquiredAt (snd a) \<le> acquiredAt (snd b))
      (sort_keys (ownership_le localeLe) ?keyed)"
    by (elim sorted_wrt_mono_rel [rotated]) (simp add: ownership_le_def, linarith)
  then show ?thesis
    by (simp add: snapshot_def sorted_wrt_map)
qed

end
