(* ===== verification/FederationCredentials.thy ===== *)
theory FederationCredentials
  imports StoreOps ContractEnvelope "HOL-Library.AList"
begin

text \<open>
  The bearer credentials of federated sessions (credential-registry.ts).

  \<^item> A credential record is shared by the registry and by the closures of the credential handed out,
    so records live in a heap and both refer to them by index; \<open>minted\<close> is the list of credentials
    handed out, which no operation reads.
  \<^item> \<open>records\<close> is the \<^verbatim>\<open>Map\<close> from token hashes to records, in insertion order.
  \<^item> Parameters: the SHA-256 of \<open>node:crypto\<close> as hexadecimal text, the random token of \<open>issue\<close>, and
    the readings of the clock.  Two hexadecimal texts of the same hash function are equal exactly when
    \<^verbatim>\<open>timingSafeEqual\<close> finds their bytes equal.
\<close>

subsection \<open>Scopes\<close>

text \<open>\<^verbatim>\<open>FEDERATION_TOOLS\<close> of constants.ts, in its order.\<close>

datatype FederationToolName =
  ListAgents | SpawnAgent | SendMessage | WaitAgent | InterruptAgent | CloseAgent

record FederationModel =
  fedModelId :: jsstring
  fedModelName :: jsstring
  fedSupportedEffort :: "jsstring list"
  fedIsDefault :: bool

record FederationTargetCatalogEntry =
  targetInstanceId :: jsstring
  targetProvider :: ProviderKind
  targetLabel :: jsstring
  targetModels :: "FederationModel list"

record FederationCredentialScope =
  scopeGeneration :: jsstring
  scopeConversationId :: jsstring
  scopeExecutionId :: jsstring
  scopeProvider :: ProviderKind
  scopeProviderInstanceId :: jsstring
  scopeAccess :: ProviderAccess
  scopeDepth :: nat
  scopeTools :: "FederationToolName list"
  scopeTargetCatalog :: "FederationTargetCatalogEntry list"
  scopeNativeSessionId :: "jsstring option"

record CredentialRecord =
  credentialScope :: FederationCredentialScope
  revoked :: bool
  lastSeenAt :: int

record FederationCredential =
  credentialToken :: jsstring
  credentialHash :: jsstring
  credentialRef :: nat

record CredentialRegistry =
  records :: "(jsstring \<times> nat) list"
  heap :: "CredentialRecord list"
  minted :: "FederationCredential list"

definition noCredentials :: CredentialRegistry where
  "noCredentials = \<lparr>records = [], heap = [], minted = []\<rparr>"

definition put_record :: "nat \<Rightarrow> (CredentialRecord \<Rightarrow> CredentialRecord) \<Rightarrow> CredentialRegistry \<Rightarrow> CredentialRegistry"
  where
  "put_record i f R = R\<lparr>heap := (heap R)[i := f (heap R ! i)]\<rparr>"

subsection \<open>Targets\<close>

record TargetRequest =
  requestedInstanceId :: jsstring
  requestedModel :: "jsstring option"
  requestedEffort :: "jsstring option"

record ResolvedFederationTarget =
  resolvedInstanceId :: jsstring
  resolvedModel :: jsstring
  resolvedEffort :: "jsstring option"

definition chosenModel :: "FederationTargetCatalogEntry \<Rightarrow> jsstring option \<Rightarrow> FederationModel option" where
  "chosenModel target requested =
     (case truthy requested of
        Some model \<Rightarrow> find (\<lambda>m. fedModelId m = model) (targetModels target)
      | None \<Rightarrow>
          (case find fedIsDefault (targetModels target) of
             Some m \<Rightarrow> Some m
           | None \<Rightarrow> (case targetModels target of [] \<Rightarrow> None | m # ms \<Rightarrow> Some m)))"

definition resolveFederationTarget ::
  "FederationCredentialScope \<Rightarrow> TargetRequest \<Rightarrow> jsstring + ResolvedFederationTarget" where
  "resolveFederationTarget scope requested =
     (case find (\<lambda>t. targetInstanceId t = requestedInstanceId requested) (scopeTargetCatalog scope) of
        None \<Rightarrow> Inl (js ''Federation target '' @ requestedInstanceId requested
          @ js '' is outside this credential scope.'')
      | Some target \<Rightarrow>
          (case (truthy (requestedModel requested), chosenModel target (requestedModel requested)) of
             (Some model, None) \<Rightarrow>
               Inl (js ''Federation model '' @ model @ js '' is outside this credential scope.'')
           | (None, None) \<Rightarrow>
               Inl (js ''Federation target '' @ requestedInstanceId requested
                 @ js '' has no model in this credential scope.'')
           | (_, Some model) \<Rightarrow>
               (case truthy (requestedEffort requested) of
                  Some effort \<Rightarrow>
                    if effort \<notin> set (fedSupportedEffort model)
                    then Inl (js ''Effort '' @ effort
                      @ js '' is outside the credential scope for federation model '' @ fedModelId model @ js ''.'')
                    else Inr \<lparr>resolvedInstanceId = targetInstanceId target, resolvedModel = fedModelId model,
                      resolvedEffort = Some effort\<rparr>
                | None \<Rightarrow> Inr \<lparr>resolvedInstanceId = targetInstanceId target, resolvedModel = fedModelId model,
                    resolvedEffort = None\<rparr>)))"

lemma chosenModel_member:
  assumes "chosenModel target requested = Some model"
  shows "model \<in> set (targetModels target)" "truthy requested = Some m \<Longrightarrow> fedModelId model = m"
  using assms
  by (auto simp: chosenModel_def find_Some_iff split: option.splits list.splits)

text \<open>A target that is resolved comes from the catalog, and so do its model and effort.\<close>

lemma target_in_catalog:
  assumes "resolveFederationTarget scope request = Inr target"
  shows "\<exists>entry \<in> set (scopeTargetCatalog scope). \<exists>model \<in> set (targetModels entry).
    targetInstanceId entry = requestedInstanceId request \<and>
    resolvedInstanceId target = requestedInstanceId request \<and> resolvedModel target = fedModelId model \<and>
    (\<forall>m. truthy (requestedModel request) = Some m \<longrightarrow> resolvedModel target = m) \<and>
    resolvedEffort target = truthy (requestedEffort request) \<and>
    (\<forall>e. resolvedEffort target = Some e \<longrightarrow> e \<in> set (fedSupportedEffort model))"
proof -
  obtain entry where entry: "find (\<lambda>t. targetInstanceId t = requestedInstanceId request) (scopeTargetCatalog scope) =
      Some entry"
    using assms by (auto simp: resolveFederationTarget_def split: option.splits)
  obtain model where model: "chosenModel entry (requestedModel request) = Some model"
    using assms entry by (auto simp: resolveFederationTarget_def split: option.splits)
  have "resolvedInstanceId target = targetInstanceId entry" "resolvedModel target = fedModelId model"
    "resolvedEffort target = truthy (requestedEffort request)"
    "\<forall>e. resolvedEffort target = Some e \<longrightarrow> e \<in> set (fedSupportedEffort model)"
    using assms by (auto simp: resolveFederationTarget_def entry model split: option.splits if_splits)
  moreover have "entry \<in> set (scopeTargetCatalog scope)" "targetInstanceId entry = requestedInstanceId request"
    using entry by (auto simp: find_Some_iff)
  ultimately show ?thesis
    using chosenModel_member [OF model] by auto
qed

subsection \<open>The registry\<close>

definition maxIdleMs :: int where
  "maxIdleMs = 24 * 60 * 60 * 1000"

text \<open>\<^verbatim>\<open>scope\<close> has no native session; \<^verbatim>\<open>structuredClone\<close> is the value itself.\<close>

definition issue ::
  "(jsstring \<Rightarrow> jsstring) \<Rightarrow> jsstring \<Rightarrow> int \<Rightarrow> FederationCredentialScope \<Rightarrow> CredentialRegistry \<Rightarrow>
   FederationCredential \<times> CredentialRegistry" where
  "issue hashToken token now scope R =
     (let credential = \<lparr>credentialToken = token, credentialHash = hashToken token, credentialRef = length (heap R)\<rparr> in
      (credential,
       R\<lparr>records := AList.update (hashToken token) (length (heap R)) (records R),
         heap := heap R @ [\<lparr>credentialScope = scope\<lparr>scopeNativeSessionId := None\<rparr>, revoked = False, lastSeenAt = now\<rparr>],
         minted := minted R @ [credential]\<rparr>))"

definition bindNativeSession ::
  "FederationCredential \<Rightarrow> NativeSessionRef \<Rightarrow> int \<Rightarrow> (CredentialRegistry, jsstring, unit) store_op" where
  "bindNativeSession credential session now R =
     (let r = heap R ! credentialRef credential in
      if revoked r then throw (js ''Federation credential is revoked.'') R
      else if refProvider session \<noteq> scopeProvider (credentialScope r) \<or>
        refProviderInstanceId session \<noteq> scopeProviderInstanceId (credentialScope r)
      then throw (js ''Federation credential cannot bind a different provider session.'') R
      else ret () (put_record (credentialRef credential)
        (\<lambda>r. r\<lparr>credentialScope := (credentialScope r)\<lparr>scopeNativeSessionId := Some (refSessionId session)\<rparr>,
           lastSeenAt := now\<rparr>) R))"

definition touch :: "FederationCredential \<Rightarrow> int \<Rightarrow> CredentialRegistry \<Rightarrow> CredentialRegistry" where
  "touch credential now R =
     (if revoked (heap R ! credentialRef credential) then R
      else put_record (credentialRef credential) (\<lambda>r. r\<lparr>lastSeenAt := now\<rparr>) R)"

definition revoke :: "FederationCredential \<Rightarrow> CredentialRegistry \<Rightarrow> CredentialRegistry" where
  "revoke credential R =
     (put_record (credentialRef credential) (\<lambda>r. r\<lparr>revoked := True\<rparr>) R)
       \<lparr>records := AList.delete (credentialHash credential) (records R)\<rparr>"

text \<open>The loop over the keys, which never stops early.\<close>

fun recordKeyOf :: "jsstring \<Rightarrow> jsstring option \<Rightarrow> jsstring list \<Rightarrow> jsstring option" where
  "recordKeyOf tokenHash recordKey [] = recordKey"
| "recordKeyOf tokenHash recordKey (candidate # keys) =
     recordKeyOf tokenHash (if candidate = tokenHash then Some candidate else recordKey) keys"

definition invalidCredential :: jsstring where
  "invalidCredential = js ''Federation credential is invalid or expired.''"

definition resolve ::
  "(jsstring \<Rightarrow> jsstring) \<Rightarrow> jsstring \<Rightarrow> jsstring \<Rightarrow> int \<Rightarrow> int \<Rightarrow>
   (CredentialRegistry, jsstring, FederationCredentialScope) store_op" where
  "resolve hashToken token currentGeneration now now' R =
     (case truthy (recordKeyOf (hashToken token) None (map fst (records R))) of
        None \<Rightarrow> throw invalidCredential R
      | Some key \<Rightarrow>
          (case map_of (records R) key of
             None \<Rightarrow> throw invalidCredential R
           | Some i \<Rightarrow>
               let r = heap R ! i in
               if revoked r \<or> scopeGeneration (credentialScope r) \<noteq> currentGeneration \<or>
                 maxIdleMs < now - lastSeenAt r
               then throw invalidCredential
                 ((put_record i (\<lambda>r. r\<lparr>revoked := True\<rparr>) R)\<lparr>records := AList.delete key (records R)\<rparr>)
               else if truthy (scopeNativeSessionId (credentialScope r)) = None
               then throw (js ''Federation credential is not bound to a native session.'') R
               else ret (credentialScope r) (put_record i (\<lambda>r. r\<lparr>lastSeenAt := now'\<rparr>) R)))"

definition revokeAll :: "CredentialRegistry \<Rightarrow> CredentialRegistry" where
  "revokeAll R =
     R\<lparr>heap := fold (\<lambda>i h. h[i := (h ! i)\<lparr>revoked := True\<rparr>]) (map snd (records R)) (heap R), records := []\<rparr>"

subsection \<open>What may happen to a credential\<close>

text \<open>
  \<open>fresh\<close> is what \<^verbatim>\<open>randomBytes(32)\<close> and SHA-256 give: no token is drawn whose hash an earlier one has.
\<close>

inductive credential_step :: "(jsstring \<Rightarrow> jsstring) \<Rightarrow> CredentialRegistry \<Rightarrow> CredentialRegistry \<Rightarrow> bool"
  for hashToken where
  issued: "hashToken token \<notin> credentialHash ` set (minted R) \<Longrightarrow> issue hashToken token now scope R = (c, R') \<Longrightarrow>
    credential_step hashToken R R'"
| bound: "c \<in> set (minted R) \<Longrightarrow> bindNativeSession c session now R = (r, R') \<Longrightarrow> credential_step hashToken R R'"
| touched: "c \<in> set (minted R) \<Longrightarrow> credential_step hashToken R (touch c now R)"
| revoked: "c \<in> set (minted R) \<Longrightarrow> credential_step hashToken R (revoke c R)"
| resolved: "resolve hashToken token generation now now' R = (x, R') \<Longrightarrow> credential_step hashToken R R'"
| all_revoked: "credential_step hashToken R (revokeAll R)"

definition credentials_ok :: "(jsstring \<Rightarrow> jsstring) \<Rightarrow> CredentialRegistry \<Rightarrow> bool" where
  "credentials_ok hashToken R =
     (distinct (map fst (records R)) \<and> length (minted R) = length (heap R) \<and>
      distinct (map credentialHash (minted R)) \<and>
      (\<forall>i < length (heap R). credentialRef (minted R ! i) = i \<and>
         credentialHash (minted R ! i) = hashToken (credentialToken (minted R ! i))) \<and>
      (\<forall>(h, i) \<in> set (records R). i < length (heap R) \<and> credentialHash (minted R ! i) = h \<and>
         \<not> CredentialRecord.revoked (heap R ! i)) \<and>
      (\<forall>i < length (heap R). \<not> CredentialRecord.revoked (heap R ! i) \<longrightarrow>
         (credentialHash (minted R ! i), i) \<in> set (records R)))"

definition credentials_age :: "CredentialRegistry \<Rightarrow> CredentialRegistry \<Rightarrow> bool" where
  "credentials_age R R' =
     (prefix (minted R) (minted R') \<and> length (heap R) \<le> length (heap R') \<and>
      (\<forall>i < length (heap R).
         (CredentialRecord.revoked (heap R ! i) \<longrightarrow> CredentialRecord.revoked (heap R' ! i)) \<and>
         (credentialScope (heap R' ! i))\<lparr>scopeNativeSessionId := None\<rparr> =
         (credentialScope (heap R ! i))\<lparr>scopeNativeSessionId := None\<rparr>))"

lemma no_credentials_ok: "credentials_ok hashToken noCredentials"
  by (simp add: credentials_ok_def noCredentials_def)

lemma recordKeyOf_iff: "recordKeyOf h k keys = (if h \<in> set keys then Some h else k)"
  by (induction keys arbitrary: k) auto

lemma put_record_simps [simp]:
  "records (put_record i f R) = records R" "minted (put_record i f R) = minted R"
  "length (heap (put_record i f R)) = length (heap R)"
  "j < length (heap R) \<Longrightarrow> heap (put_record i f R) ! j = (if j = i then f (heap R ! i) else heap R ! j)"
  by (simp_all add: put_record_def)

lemma nth_update: "j < length xs \<Longrightarrow> xs[i := x] ! j = (if i = j then x else xs ! j)"
  by (cases "i = j") simp_all

lemma revoke_all_heap:
  "length (fold (\<lambda>i h. h[i := (h ! i)\<lparr>CredentialRecord.revoked := True\<rparr>]) is h) = length h"
  "j < length h \<Longrightarrow> fold (\<lambda>i h. h[i := (h ! i)\<lparr>CredentialRecord.revoked := True\<rparr>]) is h ! j =
     (if j \<in> set is then (h ! j)\<lparr>CredentialRecord.revoked := True\<rparr> else h ! j)"
  by (induction "is" arbitrary: h) (auto simp: nth_update)

lemma credentials_age_refl: "credentials_age R R"
  by (simp add: credentials_age_def)

lemma credentials_age_trans: "credentials_age R S \<Longrightarrow> credentials_age S T \<Longrightarrow> credentials_age R T"
  unfolding credentials_age_def by (metis order_less_le_trans order_trans prefix_order.trans)

lemma resolve_cases:
  assumes "credentials_ok hashToken R" "resolve hashToken token generation now now' R = (x, R')"
  obtains "x = Inl invalidCredential" "R' = R"
      "truthy (Some (hashToken token)) = None \<or> map_of (records R) (hashToken token) = None"
  | i where "map_of (records R) (hashToken token) = Some i" "x = Inl invalidCredential"
      "R' = (put_record i (\<lambda>r. r\<lparr>revoked := True\<rparr>) R)\<lparr>records := AList.delete (hashToken token) (records R)\<rparr>"
  | i where "map_of (records R) (hashToken token) = Some i" "R' = R"
      "x = Inl (js ''Federation credential is not bound to a native session.'')"
  | i where "map_of (records R) (hashToken token) = Some i" "x = Inr (credentialScope (heap R ! i))"
      "R' = put_record i (\<lambda>r. r\<lparr>lastSeenAt := now'\<rparr>) R" "\<not> CredentialRecord.revoked (heap R ! i)"
      "scopeGeneration (credentialScope (heap R ! i)) = generation" "now - lastSeenAt (heap R ! i) \<le> maxIdleMs"
      "truthy (scopeNativeSessionId (credentialScope (heap R ! i))) \<noteq> None"
proof -
  have key: "truthy (recordKeyOf (hashToken token) None (map fst (records R))) = Some key \<Longrightarrow>
      key = hashToken token \<and> key \<in> fst ` set (records R)" for key
    by (auto simp: recordKeyOf_iff truthy_def split: if_splits)
  show thesis
  proof (cases "truthy (recordKeyOf (hashToken token) None (map fst (records R)))")
    case None
    then have "truthy (Some (hashToken token)) = None \<or> map_of (records R) (hashToken token) = None"
      by (auto simp: recordKeyOf_iff truthy_def map_of_eq_None_iff split: if_splits)
    with None assms(2) that(1) show ?thesis
      by (simp add: resolve_def throw_def)
  next
    case (Some k)
    with key have k: "k = hashToken token" "k \<in> fst ` set (records R)" by auto
    then obtain i where i: "map_of (records R) (hashToken token) = Some i"
      by (cases "map_of (records R) k") (auto simp: map_of_eq_None_iff)
    show ?thesis
      using assms(2) Some k(1) i that(2) [OF i] that(3) [OF i] that(4) [OF i]
      by (auto simp: resolve_def Let_def throw_def ret_def split: if_splits)
  qed
qed

subsection \<open>Credentials only grow older\<close>

lemma credentials_age_put:
  assumes "\<And>r. (CredentialRecord.revoked r \<longrightarrow> CredentialRecord.revoked (f r)) \<and>
    (credentialScope (f r))\<lparr>scopeNativeSessionId := None\<rparr> = (credentialScope r)\<lparr>scopeNativeSessionId := None\<rparr>"
  shows "credentials_age R (put_record i f R)" "credentials_age R ((put_record i f R)\<lparr>records := x\<rparr>)"
  using assms by (auto simp: credentials_age_def)

lemma credentials_ok_put:
  assumes "credentials_ok hashToken R" "\<And>r. CredentialRecord.revoked (f r) = CredentialRecord.revoked r"
  shows "credentials_ok hashToken (put_record i f R)"
  using assms unfolding credentials_ok_def by (auto split: if_splits)

lemma credentials_okD:
  assumes "credentials_ok hashToken R" "map_of (records R) h = Some i"
  shows "i < length (heap R)" "credentialHash (minted R ! i) = h" "\<not> CredentialRecord.revoked (heap R ! i)"
  using assms by (auto simp: credentials_ok_def dest!: map_of_SomeD)

lemma live_recorded:
  assumes "credentials_ok hashToken R" "i < length (heap R)" "\<not> CredentialRecord.revoked (heap R ! i)"
  shows "(credentialHash (minted R ! i), i) \<in> set (records R)" "i \<in> snd ` set (records R)"
proof -
  show "(credentialHash (minted R ! i), i) \<in> set (records R)"
    using assms unfolding credentials_ok_def by blast
  then show "i \<in> snd ` set (records R)"
    by (rule rev_image_eqI) simp
qed

lemma credentials_ok_minted:
  assumes "credentials_ok hashToken R" "c \<in> set (minted R)"
  shows "credentialRef c < length (heap R)" "minted R ! credentialRef c = c"
    "credentialHash c = hashToken (credentialToken c)"
  using assms by (auto simp: credentials_ok_def in_set_conv_nth)

text \<open>Dropping the one entry a record can have, when the record is revoked.\<close>

lemma credentials_ok_drop:
  assumes ok: "credentials_ok hashToken R" and i: "i < length (heap R)" "credentialHash (minted R ! i) = h"
  shows "credentials_ok hashToken
    ((put_record i (\<lambda>r. r\<lparr>revoked := True\<rparr>) R)\<lparr>records := AList.delete h (records R)\<rparr>)"
proof -
  have kept: "b < length (heap R) \<and> credentialHash (minted R ! b) = a \<and> \<not> CredentialRecord.revoked (heap R ! b) \<and> b \<noteq> i"
    if "(a, b) \<in> set (records R)" "h \<noteq> a" for a b
    using that ok i by (auto simp: credentials_ok_def)
  have other: "credentialHash (minted R ! j) \<noteq> h" if "j < length (heap R)" "j \<noteq> i" for j
    using that ok i nth_eq_iff_index_eq [of "map credentialHash (minted R)" i j] by (auto simp: credentials_ok_def)
  have "(credentialHash (minted R ! j), j) \<in> set (AList.delete h (records R))"
    if "j < length (heap R)" "j \<noteq> i" "\<not> CredentialRecord.revoked (heap R ! j)" for j
    using live_recorded(1) [OF ok that(1,3)] other [OF that(1,2)] by (simp add: AList.delete_eq)
  moreover have "distinct (map fst (AList.delete h (records R)))"
    using ok by (simp add: credentials_ok_def AList.delete_eq distinct_map_filter)
  moreover have "\<And>a b. (a, b) \<in> set (AList.delete h (records R)) \<Longrightarrow> b < length (heap R) \<and>
      credentialHash (minted R ! b) = a \<and> \<not> CredentialRecord.revoked (heap R ! b) \<and> b \<noteq> i"
    using kept by (auto simp: AList.delete_eq)
  moreover have "length (minted R) = length (heap R)" "distinct (map credentialHash (minted R))"
    "\<And>j. j < length (heap R) \<Longrightarrow> credentialRef (minted R ! j) = j \<and>
      credentialHash (minted R ! j) = hashToken (credentialToken (minted R ! j))"
    using ok unfolding credentials_ok_def by blast+
  ultimately show ?thesis
    unfolding credentials_ok_def by (simp add: case_prod_beta) fastforce
qed

lemma update_new: "k \<notin> fst ` set xs \<Longrightarrow> AList.update k v xs = xs @ [(k, v)]"
  by (induction xs) auto

lemma issue_ok:
  assumes ok: "credentials_ok hashToken R" and fresh: "hashToken token \<notin> credentialHash ` set (minted R)"
    and issue: "issue hashToken token now scope R = (c, R')"
  shows "credentials_ok hashToken R'"
proof -
  have len: "length (minted R) = length (heap R)"
    and recs: "\<And>h i. (h, i) \<in> set (records R) \<Longrightarrow> i < length (heap R) \<and> credentialHash (minted R ! i) = h \<and>
      \<not> CredentialRecord.revoked (heap R ! i)"
    using ok by (auto simp: credentials_ok_def)
  have unused: "hashToken token \<notin> fst ` set (records R)"
  proof
    assume "hashToken token \<in> fst ` set (records R)"
    then obtain i where "(hashToken token, i) \<in> set (records R)" by auto
    from recs [OF this] len have "minted R ! i \<in> set (minted R)" "hashToken token = credentialHash (minted R ! i)"
      by auto
    with fresh show False by blast
  qed
  then have "AList.update (hashToken token) i (records R) = records R @ [(hashToken token, i)]" for i
    by (rule update_new)
  with issue have R': "records R' = records R @ [(hashToken token, length (heap R))]"
    "minted R' = minted R @ [c]" "length (heap R') = Suc (length (heap R))"
    "c = \<lparr>credentialToken = token, credentialHash = hashToken token, credentialRef = length (heap R)\<rparr>"
    "\<And>i. i < length (heap R) \<Longrightarrow> heap R' ! i = heap R ! i"
    "\<not> CredentialRecord.revoked (heap R' ! length (heap R))"
    by (auto simp: issue_def Let_def nth_append)
  show ?thesis
    using ok fresh unused unfolding credentials_ok_def R'(1-3)
    by (auto simp: nth_append less_Suc_eq len R'(4-6) dest: recs)
qed

lemma step_ok:
  assumes "credential_step hashToken R R'" "credentials_ok hashToken R"
  shows "credentials_ok hashToken R'"
  using assms(1)
proof cases
  case (issued token now scope c)
  with assms(2) show ?thesis
    by (blast intro: issue_ok)
next
  case (bound c session now r)
  with assms(2) show ?thesis
    by (auto simp: bindNativeSession_def Let_def throw_def ret_def intro: credentials_ok_put split: if_splits)
next
  case (touched c now)
  with assms(2) show ?thesis
    by (auto simp: touch_def intro: credentials_ok_put)
next
  case (revoked c)
  with assms(2) credentials_ok_minted [OF assms(2) revoked(2)] show ?thesis
    by (simp add: revoke_def credentials_ok_drop)
next
  case (resolved token generation now now' x)
  from assms(2) resolved show ?thesis
  proof (cases rule: resolve_cases)
    case (2 i)
    with assms(2) credentials_okD [OF assms(2) 2(1)] show ?thesis
      by (simp add: credentials_ok_drop)
  qed (use assms(2) in \<open>auto intro: credentials_ok_put\<close>)
next
  case all_revoked
  have "CredentialRecord.revoked (heap R' ! i)" if "i < length (heap R)" for i
    using live_recorded(2) [OF assms(2) that] that by (auto simp: all_revoked revokeAll_def revoke_all_heap)
  with assms(2) show ?thesis
    by (simp add: credentials_ok_def all_revoked revokeAll_def revoke_all_heap)
qed

lemma step_ages:
  assumes "credential_step hashToken R R'" "credentials_ok hashToken R"
  shows "credentials_age R R'"
  using assms(1)
proof cases
  case (issued token now scope c)
  then show ?thesis
    by (auto simp: issue_def Let_def credentials_age_def nth_append)
next
  case (bound c session now r)
  then show ?thesis
    by (auto simp: bindNativeSession_def Let_def throw_def ret_def credentials_age_refl
        intro: credentials_age_put split: if_splits)
next
  case (resolved token generation now now' x)
  from assms(2) resolved show ?thesis
    by (cases rule: resolve_cases) (auto simp: credentials_age_refl intro: credentials_age_put)
next
  case all_revoked
  then show ?thesis
    by (auto simp: credentials_age_def revokeAll_def revoke_all_heap)
qed (auto simp: touch_def revoke_def credentials_age_refl intro: credentials_age_put)

lemma steps_age:
  "(credential_step hashToken)\<^sup>*\<^sup>* R R' \<Longrightarrow> credentials_ok hashToken R \<Longrightarrow>
     credentials_ok hashToken R' \<and> credentials_age R R'"
  by (induction rule: rtranclp_induct)
    (auto intro: credentials_age_refl step_ok credentials_age_trans dest: step_ages)

subsection \<open>Dead credentials\<close>

definition dead :: "CredentialRegistry \<Rightarrow> FederationCredential \<Rightarrow> bool" where
  "dead R c = CredentialRecord.revoked (heap R ! credentialRef c)"

lemma minted_stays: "credentials_age R R' \<Longrightarrow> c \<in> set (minted R) \<Longrightarrow> c \<in> set (minted R')"
  using set_mono_prefix by (auto simp: credentials_age_def)

lemma dead_stays:
  assumes "credentials_ok hashToken R" "c \<in> set (minted R)" "dead R c" "credentials_age R R'"
  shows "dead R' c"
  using assms credentials_ok_minted(1) [OF assms(1,2)] by (simp add: dead_def credentials_age_def)

lemma same_hash_same_credential:
  assumes "credentials_ok hashToken R" "c \<in> set (minted R)" "i < length (heap R)"
    "credentialHash (minted R ! i) = credentialHash c"
  shows "i = credentialRef c"
proof -
  have "distinct (map credentialHash (minted R))" "length (minted R) = length (heap R)"
    using assms(1) by (simp_all add: credentials_ok_def)
  with assms(3,4) credentials_ok_minted [OF assms(1,2)] show ?thesis
    by (metis length_map nth_eq_iff_index_eq nth_map)
qed

lemma dead_refused:
  assumes "credentials_ok hashToken R" "c \<in> set (minted R)" "dead R c"
  shows "resolve hashToken (credentialToken c) generation now now' R = (Inl invalidCredential, R)"
proof -
  have "map_of (records R) (hashToken (credentialToken c)) = None"
  proof (rule ccontr)
    assume "map_of (records R) (hashToken (credentialToken c)) \<noteq> None"
    then obtain i where i: "map_of (records R) (hashToken (credentialToken c)) = Some i" by blast
    with credentials_okD [OF assms(1) i] same_hash_same_credential [OF assms(1,2), of i]
      credentials_ok_minted(3) [OF assms(1,2)] assms(3) show False
      by (simp add: dead_def)
  qed
  moreover obtain x R' where "resolve hashToken (credentialToken c) generation now now' R = (x, R')"
    by (rule prod.exhaust)
  ultimately show ?thesis
    using resolve_cases [OF assms(1), of "credentialToken c" generation now now' x R'] by fastforce
qed

lemma dead_refuses:
  assumes "dead R c"
  shows "bindNativeSession c session now R = (Inl (js ''Federation credential is revoked.''), R)"
    "touch c now R = R"
  using assms by (simp_all add: dead_def bindNativeSession_def throw_def touch_def)

text \<open>What kills a credential.\<close>

lemma revoke_kills: "credentials_ok hashToken R \<Longrightarrow> c \<in> set (minted R) \<Longrightarrow> dead (revoke c R) c"
  using credentials_ok_minted(1) by (simp add: dead_def revoke_def)

lemma revokeAll_kills:
  assumes "credentials_ok hashToken R" "c \<in> set (minted R)"
  shows "dead (revokeAll R) c"
proof -
  have "dead R c \<or> credentialRef c \<in> snd ` set (records R)"
    using live_recorded(2) [OF assms(1) credentials_ok_minted(1) [OF assms]] by (auto simp: dead_def)
  then show ?thesis
    using credentials_ok_minted(1) [OF assms] by (auto simp: dead_def revokeAll_def revoke_all_heap)
qed

lemma refusal_kills:
  assumes "credentials_ok hashToken R" "c \<in> set (minted R)" "hashToken (credentialToken c) \<noteq> []"
    "resolve hashToken (credentialToken c) generation now now' R = (Inl invalidCredential, R')"
  shows "dead R' c"
  using assms(1,4)
proof (cases rule: resolve_cases)
  case 1
  have "\<not> dead R c \<Longrightarrow> credentialHash c \<in> fst ` set (records R)"
    using live_recorded(1) [OF assms(1) credentials_ok_minted(1) [OF assms(1,2)]]
      credentials_ok_minted(2) [OF assms(1,2)] by (force simp: dead_def)
  moreover have "credentialHash c \<notin> fst ` set (records R)"
    using 1 assms(3) credentials_ok_minted(3) [OF assms(1,2)]
    by (auto simp: truthy_def map_of_eq_None_iff split: if_splits)
  ultimately show ?thesis
    using 1 by (auto simp: dead_def)
next
  case (2 i)
  with credentials_okD [OF assms(1) 2(1)] same_hash_same_credential [OF assms(1,2), of i]
    credentials_ok_minted(3) [OF assms(1,2)] show ?thesis
    by (simp add: dead_def)
qed (simp_all add: invalidCredential_def)

subsection \<open>What a live credential grants\<close>

lemma resolve_grants:
  assumes ok: "credentials_ok hashToken R" and c: "c \<in> set (minted R)"
    and resolve: "resolve hashToken (credentialToken c) generation now now' R = (Inr scope, R')"
  shows "\<not> dead R c" "scope = credentialScope (heap R ! credentialRef c)" "scopeGeneration scope = generation"
    "now - lastSeenAt (heap R ! credentialRef c) \<le> maxIdleMs" "truthy (scopeNativeSessionId scope) \<noteq> None"
proof -
  obtain i where i: "map_of (records R) (hashToken (credentialToken c)) = Some i"
    and r: "scope = credentialScope (heap R ! i)" "\<not> CredentialRecord.revoked (heap R ! i)"
      "scopeGeneration (credentialScope (heap R ! i)) = generation" "now - lastSeenAt (heap R ! i) \<le> maxIdleMs"
      "truthy (scopeNativeSessionId (credentialScope (heap R ! i))) \<noteq> None"
    by (rule resolve_cases [OF ok resolve]) (simp, simp, simp, blast intro: that)
  have "i = credentialRef c"
    using credentials_okD [OF ok i] same_hash_same_credential [OF ok c, of i] credentials_ok_minted(3) [OF ok c] by simp
  with r show "\<not> dead R c" "scope = credentialScope (heap R ! credentialRef c)" "scopeGeneration scope = generation"
    "now - lastSeenAt (heap R ! credentialRef c) \<le> maxIdleMs" "truthy (scopeNativeSessionId scope) \<noteq> None"
    by (simp_all add: dead_def)
qed

end
