(* ===== verification/CodexChildren.thy ===== *)
theory CodexChildren
  imports ContractSession "HOL-Library.AList"
begin

text \<open>
  The children that a Codex session owns (codex-child-registry.ts), and the notifications of a child
  thread (\<^verbatim>\<open>mapChildThreadNotification\<close> of codex-event-mapper.ts).

  \<^item> The registry is the \<^verbatim>\<open>Map\<close> from native threads to bindings, in insertion order.  A binding
    returned by a method is the one in the map; the mapper only reads it, at once.
  \<^item> An announcement is the event and the arguments with which the mapper calls \<^verbatim>\<open>envelope\<close>.
\<close>

subsection \<open>The registry\<close>

record CodexChildBinding =
  codexThreadId :: jsstring
  codexExecutionId :: jsstring
  codexParentExecutionId :: jsstring
  codexParentThreadId :: jsstring
  codexOwnerTurnId :: jsstring
  codexOwnerNativeTurnId :: jsstring
  codexActiveTurn :: "jsstring option"
  codexTerminalTurn :: "jsstring option"
  codexOutcome :: "ProviderTurnOutcome option"
  codexTerminalTurns :: "jsstring list"

type_synonym ChildRegistry = "(jsstring \<times> CodexChildBinding) list"

definition restored :: "NativeChildBinding \<Rightarrow> CodexChildBinding" where
  "restored b =
     \<lparr>codexThreadId = childThreadId b, codexExecutionId = childBindExecutionId b,
      codexParentExecutionId = childParentExecutionId b, codexParentThreadId = childParentThreadId b,
      codexOwnerTurnId = ownerTurnId b, codexOwnerNativeTurnId = ownerNativeTurnId b,
      codexActiveTurn = activeNativeTurnId b, codexTerminalTurn = None,
      codexOutcome = childBindOutcome b, codexTerminalTurns = remdups (or_else (terminalNativeTurnIds b) [])\<rparr>"

definition restore :: "NativeChildBinding list \<Rightarrow> ChildRegistry \<Rightarrow> ChildRegistry" where
  "restore bindings R = fold (\<lambda>b. AList.update (childThreadId b) (restored b)) bindings R"

text \<open>The input of \<^verbatim>\<open>bindSpawn\<close> has neither turn nor outcome.\<close>

definition bindSpawn :: "CodexChildBinding \<Rightarrow> ChildRegistry \<Rightarrow> CodexChildBinding \<times> ChildRegistry" where
  "bindSpawn binding R =
     (case map_of R (codexThreadId binding) of
        Some existing \<Rightarrow> (existing, R)
      | None \<Rightarrow>
          let new = binding\<lparr>codexActiveTurn := None, codexTerminalTurn := None, codexOutcome := None,
            codexTerminalTurns := []\<rparr>
          in (new, AList.update (codexThreadId binding) new R))"

definition activeAttempts :: "ChildRegistry \<Rightarrow> (jsstring \<times> jsstring) list" where
  "activeAttempts R =
     concat (map (\<lambda>(_, b). case truthy (codexActiveTurn b) of None \<Rightarrow> [] | Some turn \<Rightarrow> [(codexThreadId b, turn)]) R)"

definition settleCachedOutcome ::
  "jsstring \<Rightarrow> ProviderTurnOutcome \<Rightarrow> ChildRegistry \<Rightarrow> bool \<times> ChildRegistry" where
  "settleCachedOutcome thread outcome R =
     (case map_of R thread of
        None \<Rightarrow> (False, R)
      | Some b \<Rightarrow>
          if truthy (codexActiveTurn b) \<noteq> None \<or> codexOutcome b \<noteq> None then (False, R)
          else (True, AList.update thread (b\<lparr>codexOutcome := Some outcome\<rparr>) R))"

definition beginAttempt ::
  "jsstring \<Rightarrow> jsstring \<Rightarrow> ChildRegistry \<Rightarrow> CodexChildBinding option \<times> ChildRegistry" where
  "beginAttempt thread turn R =
     (case map_of R thread of
        None \<Rightarrow> (None, R)
      | Some b \<Rightarrow>
          if turn \<in> set (codexTerminalTurns b) then (None, R)
          else
            let b' = b\<lparr>codexActiveTurn := Some turn, codexTerminalTurn := None, codexOutcome := None\<rparr>
            in (Some b', AList.update thread b' R))"

definition completeAttempt ::
  "jsstring \<Rightarrow> jsstring \<Rightarrow> ProviderTurnOutcome \<Rightarrow> ChildRegistry \<Rightarrow> CodexChildBinding option \<times> ChildRegistry" where
  "completeAttempt thread turn outcome R =
     (case map_of R thread of
        None \<Rightarrow> (None, R)
      | Some b \<Rightarrow>
          if turn \<in> set (codexTerminalTurns b) then (None, R)
          else if (case truthy (codexActiveTurn b) of None \<Rightarrow> False | Some active \<Rightarrow> active \<noteq> turn) then (None, R)
          else
            let b' = b\<lparr>codexActiveTurn := None, codexTerminalTurn := Some turn, codexOutcome := Some outcome,
              codexTerminalTurns := codexTerminalTurns b @ [turn]\<rparr>
            in (Some b', AList.update thread b' R))"

subsection \<open>Notifications of a child thread\<close>

datatype ChildMapperEvent =
    ChildStarted ChildExecutionDisplay
  | ChildCompleted jsstring ProviderTurnOutcome

record ChildAnnouncement =
  announced :: ChildMapperEvent
  announcedKind :: jsstring
  announcedOwnerTurn :: jsstring
  announcedItem :: jsstring
  announcedDiscriminator :: jsstring
  announcedSequence :: nat

record ChildMapper =
  mapperExecutionId :: jsstring
  mapperInstanceId :: jsstring
  liveSequence :: nat
  childRegistry :: ChildRegistry

text \<open>\<^verbatim>\<open>record(value)\<close> and \<^verbatim>\<open>string(value)\<close> of the mapper.\<close>

definition codexRecord :: "jsval \<Rightarrow> jsrecord option" where
  "codexRecord v = (case v of JObject r \<Rightarrow> Some r | JInstance r \<Rightarrow> Some r | _ \<Rightarrow> None)"

definition codexString :: "jsval \<Rightarrow> jsstring option" where
  "codexString v = (case v of JString s \<Rightarrow> if s = [] then None else Some s | _ \<Rightarrow> None)"

definition codexTurnOutcome :: "jsval \<Rightarrow> ProviderTurnOutcome" where
  "codexTurnOutcome v =
     (if v = JString (js ''completed'') then TurnCompleted
      else if v = JString (js ''interrupted'') then TurnInterrupted
      else TurnFailed)"

definition turnField :: "jsrecord \<Rightarrow> string \<Rightarrow> jsval" where
  "turnField params k = (case codexRecord (fld params ''turn'') of None \<Rightarrow> JUndefined | Some turn \<Rightarrow> fld turn k)"

definition mapChildThreadNotification ::
  "jsstring \<Rightarrow> jsrecord \<Rightarrow> jsstring \<Rightarrow> ChildMapper \<Rightarrow> ChildAnnouncement list \<times> ChildMapper" where
  "mapChildThreadNotification method params thread M =
     (case map_of (childRegistry M) thread of
        None \<Rightarrow> ([], M)
      | Some binding \<Rightarrow>
          if codexParentExecutionId binding \<noteq> mapperExecutionId M then ([], M)
          else if method = js ''turn/completed'' then
            (case codexString (turnField params ''id'') of
               None \<Rightarrow> ([], M)
             | Some turn \<Rightarrow>
                 let outcome = codexTurnOutcome (turnField params ''status'');
                   (completed, registry) = completeAttempt thread turn outcome (childRegistry M);
                   M' = M\<lparr>childRegistry := registry\<rparr>
                 in
                 if \<not> (\<exists>b. completed = Some b \<and> codexTerminalTurn b = Some turn \<and> codexOutcome b = Some outcome)
                 then ([], M')
                 else ([\<lparr>announced = ChildCompleted (codexExecutionId binding) outcome,
                   announcedKind = js ''child/completed'', announcedOwnerTurn = codexOwnerNativeTurnId binding,
                   announcedItem = codexExecutionId binding, announcedDiscriminator = js ''child-turn-'' @ turn,
                   announcedSequence = Suc (liveSequence M)\<rparr>],
                   M'\<lparr>liveSequence := Suc (liveSequence M)\<rparr>))
          else if method = js ''turn/started'' then
            (case codexString (turnField params ''id'') of
               None \<Rightarrow> ([], M)
             | Some turn \<Rightarrow>
                 (case beginAttempt thread turn (childRegistry M) of
                    (None, registry) \<Rightarrow> ([], M\<lparr>childRegistry := registry\<rparr>)
                  | (Some _, registry) \<Rightarrow>
                      ([\<lparr>announced = ChildStarted
                          \<lparr>childExecutionId = codexExecutionId binding, childOwnership = NativeOwned,
                           childProvider = Codex, childProviderInstanceId = Some (mapperInstanceId M),
                           childModel = None, childTitle = None, childNativeSessionId = Some thread,
                           childTranscriptAvailable = Some True\<rparr>,
                        announcedKind = js ''child/started'', announcedOwnerTurn = codexOwnerNativeTurnId binding,
                        announcedItem = codexExecutionId binding, announcedDiscriminator = js ''turn-started-'' @ turn,
                        announcedSequence = Suc (liveSequence M)\<rparr>],
                       M\<lparr>childRegistry := registry, liveSequence := Suc (liveSequence M)\<rparr>)))
          else ([], M))"

subsection \<open>A child turn ends once\<close>

text \<open>Everything that happens to the registry after it was restored.\<close>

inductive child_step :: "ChildMapper \<Rightarrow> ChildMapper \<Rightarrow> bool" where
  spawned: "bindSpawn binding (childRegistry M) = (b, R) \<Longrightarrow> child_step M (M\<lparr>childRegistry := R\<rparr>)"
| settled: "settleCachedOutcome thread outcome (childRegistry M) = (x, R) \<Longrightarrow> child_step M (M\<lparr>childRegistry := R\<rparr>)"
| began: "beginAttempt thread turn (childRegistry M) = (b, R) \<Longrightarrow> child_step M (M\<lparr>childRegistry := R\<rparr>)"
| completed: "completeAttempt thread turn outcome (childRegistry M) = (b, R) \<Longrightarrow>
    child_step M (M\<lparr>childRegistry := R\<rparr>)"
| notified: "mapChildThreadNotification method params thread M = (as, M') \<Longrightarrow> child_step M M'"

definition child_binding_ok :: "CodexChildBinding \<Rightarrow> bool" where
  "child_binding_ok b =
     (distinct (codexTerminalTurns b) \<and>
      (\<forall>t. codexActiveTurn b = Some t \<longrightarrow> t \<notin> set (codexTerminalTurns b) \<and> codexTerminalTurn b = None) \<and>
      (\<forall>t. codexTerminalTurn b = Some t \<longrightarrow> t \<in> set (codexTerminalTurns b) \<and> codexOutcome b \<noteq> None))"

definition children_ok :: "ChildRegistry \<Rightarrow> bool" where
  "children_ok R =
     (distinct (map fst R) \<and> (\<forall>(thread, b) \<in> set R. codexThreadId b = thread \<and> child_binding_ok b))"

text \<open>What is kept of a binding: who it is, and the turns that have ended.\<close>

definition child_kept :: "CodexChildBinding \<Rightarrow> CodexChildBinding \<Rightarrow> bool" where
  "child_kept b b' =
     (codexThreadId b' = codexThreadId b \<and> codexExecutionId b' = codexExecutionId b \<and>
      codexParentExecutionId b' = codexParentExecutionId b \<and> codexParentThreadId b' = codexParentThreadId b \<and>
      codexOwnerTurnId b' = codexOwnerTurnId b \<and> codexOwnerNativeTurnId b' = codexOwnerNativeTurnId b \<and>
      prefix (codexTerminalTurns b) (codexTerminalTurns b'))"

definition children_kept :: "ChildRegistry \<Rightarrow> ChildRegistry \<Rightarrow> bool" where
  "children_kept R R' = (\<forall>thread b. map_of R thread = Some b \<longrightarrow> (\<exists>b'. map_of R' thread = Some b' \<and> child_kept b b'))"

lemma child_kept_refl [simp]: "child_kept b b"
  by (simp add: child_kept_def)

lemma child_kept_trans: "child_kept b c \<Longrightarrow> child_kept c d \<Longrightarrow> child_kept b d"
  by (simp add: child_kept_def) (meson prefix_order.trans)

lemma children_kept_refl: "children_kept R R"
  by (auto simp: children_kept_def)

lemma children_kept_trans: "children_kept R S \<Longrightarrow> children_kept S T \<Longrightarrow> children_kept R T"
  unfolding children_kept_def by (meson child_kept_trans)

text \<open>An operation writes at most one binding, which keeps what it was.\<close>

inductive replaces :: "ChildRegistry \<Rightarrow> ChildRegistry \<Rightarrow> bool" for R where
  same: "replaces R R"
| first: "map_of R (codexThreadId b) = None \<Longrightarrow> child_binding_ok b \<Longrightarrow>
    replaces R (AList.update (codexThreadId b) b R)"
| again: "map_of R thread = Some old \<Longrightarrow> child_kept old b \<Longrightarrow> child_binding_ok b \<Longrightarrow>
    replaces R (AList.update thread b R)"

lemma children_okD: "children_ok R \<Longrightarrow> map_of R thread = Some b \<Longrightarrow> codexThreadId b = thread \<and> child_binding_ok b"
  by (auto simp: children_ok_def dest: map_of_SomeD)

lemma set_AList_update:
  "distinct (map fst R) \<Longrightarrow> x \<in> set (AList.update k v R) \<Longrightarrow> x = (k, v) \<or> x \<in> set R \<and> fst x \<noteq> k"
  by (induction R) (auto split: if_splits)

lemma children_ok_update:
  "children_ok R \<Longrightarrow> codexThreadId b = thread \<Longrightarrow> child_binding_ok b \<Longrightarrow> children_ok (AList.update thread b R)"
  unfolding children_ok_def by (auto simp: distinct_update dest!: set_AList_update)

lemma replaced_ok:
  assumes "replaces R R'" "children_ok R"
  shows "children_ok R' \<and> children_kept R R'"
  using assms(1)
proof cases
  case (first b)
  with assms(2) show ?thesis
    by (auto simp: children_ok_update children_kept_def update_conv')
next
  case (again thread old b)
  with children_okD [OF assms(2) again(2)] have "codexThreadId b = thread"
    by (simp add: child_kept_def)
  with again assms(2) show ?thesis
    by (auto simp: children_ok_update children_kept_def update_conv')
qed (use assms(2) in \<open>simp add: children_kept_refl\<close>)

lemma bindSpawn_replaces: "bindSpawn binding R = (b, R') \<Longrightarrow> replaces R R'"
proof -
  let ?new = "binding\<lparr>codexActiveTurn := None, codexTerminalTurn := None, codexOutcome := None,
    codexTerminalTurns := []\<rparr>"
  have "map_of R (codexThreadId ?new) = None \<Longrightarrow> replaces R (AList.update (codexThreadId ?new) ?new R)"
    by (rule replaces.first) (simp_all add: child_binding_ok_def)
  then show "bindSpawn binding R = (b, R') \<Longrightarrow> replaces R R'"
    by (auto simp: bindSpawn_def Let_def intro: replaces.same split: option.splits)
qed

lemma method_replaces:
  assumes ok: "children_ok R"
  shows "settleCachedOutcome thread outcome R = (x, R') \<Longrightarrow> replaces R R'"
    and "beginAttempt thread turn R = (ob, R') \<Longrightarrow> replaces R R'"
    and "completeAttempt thread turn outcome R = (ob, R') \<Longrightarrow> replaces R R'"
  using children_okD [OF ok, of thread]
  unfolding settleCachedOutcome_def beginAttempt_def completeAttempt_def Let_def
  by (fastforce simp: child_kept_def child_binding_ok_def intro: replaces.intros split: option.splits if_splits)+

lemma notification_cases:
  assumes "mapChildThreadNotification method params thread M = (as, M')"
  obtains "as = []" "M' = M"
  | turn outcome ob R where "codexString (turnField params ''id'') = Some turn" "method = js ''turn/completed''"
      "completeAttempt thread turn outcome (childRegistry M) = (ob, R)" "childRegistry M' = R"
      "mapperExecutionId M' = mapperExecutionId M" "as \<noteq> [] \<Longrightarrow> ob \<noteq> None" "length as \<le> 1"
      "as \<noteq> [] \<Longrightarrow> \<exists>x. announced (hd as) = ChildCompleted x outcome"
  | turn ob R where "codexString (turnField params ''id'') = Some turn" "method = js ''turn/started''"
      "beginAttempt thread turn (childRegistry M) = (ob, R)" "childRegistry M' = R"
      "mapperExecutionId M' = mapperExecutionId M" "as \<noteq> [] \<Longrightarrow> ob \<noteq> None" "length as \<le> 1"
      "as \<noteq> [] \<Longrightarrow> \<exists>d. announced (hd as) = ChildStarted d"
  using assms unfolding mapChildThreadNotification_def Let_def
  by (fastforce split: option.splits if_splits prod.splits)

lemma child_step_ok:
  assumes "child_step M M'" "children_ok (childRegistry M)"
  shows "children_ok (childRegistry M') \<and> children_kept (childRegistry M) (childRegistry M')"
proof -
  have "replaces (childRegistry M) (childRegistry M')"
    using assms(1)
  proof cases
    case (notified name params thread as)
    then show ?thesis
      by (cases rule: notification_cases) (auto intro: replaces.same dest: method_replaces(2,3) [OF assms(2)])
  qed (auto dest: bindSpawn_replaces method_replaces [OF assms(2)])
  then show ?thesis
    using replaced_ok assms(2) by blast
qed

lemma child_steps_ok:
  "child_step\<^sup>*\<^sup>* M M' \<Longrightarrow> children_ok (childRegistry M) \<Longrightarrow>
     children_ok (childRegistry M') \<and> children_kept (childRegistry M) (childRegistry M')"
  by (induction rule: rtranclp_induct) (auto intro: children_kept_refl dest: child_step_ok elim: children_kept_trans)

text \<open>A turn among those that ended moves nothing any more.\<close>

lemma ended_attempt:
  assumes "map_of R thread = Some b" "turn \<in> set (codexTerminalTurns b)"
  shows "beginAttempt thread turn R = (None, R)" "completeAttempt thread turn outcome R = (None, R)"
  using assms by (simp_all add: beginAttempt_def completeAttempt_def)

lemma ended_notification:
  assumes "map_of (childRegistry M) thread = Some b" "turn \<in> set (codexTerminalTurns b)"
    "codexString (turnField params ''id'') = Some turn"
  shows "mapChildThreadNotification method params thread M = ([], M)"
  using assms by (simp add: mapChildThreadNotification_def ended_attempt [OF assms(1,2)])

lemma completed_ends:
  assumes "completeAttempt thread turn outcome R = (Some b, R')"
  shows "map_of R' thread = Some b \<and> turn \<in> set (codexTerminalTurns b) \<and> codexOutcome b = Some outcome \<and>
    codexActiveTurn b = None"
  using assms by (auto simp: completeAttempt_def Let_def update_conv' split: option.splits if_splits)

subsection \<open>Restoring what the contract accepts\<close>

lemma restore_bindings:
  "list_all (child_ok self) bs \<Longrightarrow> children_ok R \<Longrightarrow> children_ok (restore bs R)"
proof (induction bs arbitrary: R)
  case (Cons b bs)
  have "child_binding_ok (restored b)" "codexThreadId (restored b) = childThreadId b"
    using Cons.prems(1) by (auto simp: child_binding_ok_def restored_def child_ok_def)
  with Cons.prems(2) have "children_ok (AList.update (childThreadId b) (restored b) R)"
    by (intro children_ok_update)
  with Cons show ?case
    by (simp add: restore_def)
qed (simp add: restore_def)

lemma restore_finds:
  "distinct (map childThreadId bs) \<Longrightarrow> b \<in> set bs \<Longrightarrow> map_of (restore bs R) (childThreadId b) = Some (restored b)"
proof (induction bs rule: rev_induct)
  case (snoc x xs)
  then show ?case
    by (auto simp: restore_def update_conv') (metis image_eqI)
qed simp

end
