(* ===== verification/SessionSamples.thy ===== *)
theory SessionSamples
  imports SessionOwnership FederationCredentials CodexChildren ContractSamples
begin

text \<open>
  The runs at which the properties of sessions, credentials and children are instantiated: two
  executions that ask for one session, a credential that is issued and bound, and a child of a Codex
  session with a turn that is interrupted.
\<close>

definition sampleControl :: "string \<Rightarrow> NativeSessionOwnership" where
  "sampleControl execution =
     \<lparr>ownershipProvider = Codex, ownershipInstanceId = js ''p'', ownershipSessionId = js ''s'',
      ownershipExecutionId = js execution, acquiredAt = 0\<rparr>"

definition sampleGrant :: FederationCredentialScope where
  "sampleGrant =
     \<lparr>scopeGeneration = js ''g'', scopeConversationId = js ''c'', scopeExecutionId = js ''x'',
      scopeProvider = Codex, scopeProviderInstanceId = js ''p'', scopeAccess = ReadOnly, scopeDepth = 0,
      scopeTools = [ListAgents, SpawnAgent],
      scopeTargetCatalog = [\<lparr>targetInstanceId = js ''q'', targetProvider = ClaudeCode, targetLabel = js ''q'',
        targetModels = [\<lparr>fedModelId = js ''m'', fedModelName = js ''m'', fedSupportedEffort = [js ''high''],
          fedIsDefault = True\<rparr>]\<rparr>],
      scopeNativeSessionId = None\<rparr>"

definition sampleToken :: "jsstring \<Rightarrow> jsstring" where
  "sampleToken token = js ''h'' @ token"

definition issuedCredential :: FederationCredential where
  "issuedCredential = fst (issue sampleToken (js ''t'') 1 sampleGrant noCredentials)"

definition issuedRegistry :: CredentialRegistry where
  "issuedRegistry = snd (issue sampleToken (js ''t'') 1 sampleGrant noCredentials)"

lemma sample_issued:
  "issue sampleToken (js ''t'') 1 sampleGrant noCredentials = (issuedCredential, issuedRegistry)"
  "issuedCredential \<in> set (minted issuedRegistry)" "credentialToken issuedCredential = js ''t''"
  "credentialRef issuedCredential = 0" "credentialHash ` set (minted noCredentials) = {}"
  by (simp_all add: issuedCredential_def issuedRegistry_def issue_def Let_def noCredentials_def)

lemma sample_issuance: "(credential_step sampleToken)\<^sup>*\<^sup>* noCredentials issuedRegistry"
  by (rule r_into_rtranclp, rule credential_step.issued [OF _ sample_issued(1)]) (simp add: sample_issued(5))

definition boundRegistry :: CredentialRegistry where
  "boundRegistry = snd (bindNativeSession issuedCredential sampleSession 2 issuedRegistry)"

lemma sample_bound:
  "(credential_step sampleToken)\<^sup>*\<^sup>* issuedRegistry boundRegistry"
  "\<exists>U. resolve sampleToken (js ''t'') (js ''g'') 3 3 boundRegistry =
     (Inr (sampleGrant\<lparr>scopeNativeSessionId := Some (js ''s'')\<rparr>), U)"
proof -
  obtain r where "bindNativeSession issuedCredential sampleSession 2 issuedRegistry = (r, boundRegistry)"
    by (cases "bindNativeSession issuedCredential sampleSession 2 issuedRegistry") (simp add: boundRegistry_def)
  then show "(credential_step sampleToken)\<^sup>*\<^sup>* issuedRegistry boundRegistry"
    by (intro r_into_rtranclp credential_step.bound [OF sample_issued(2)])
  have bound: "boundRegistry = \<lparr>records = [(js ''ht'', 0)],
      heap = [\<lparr>credentialScope = sampleGrant\<lparr>scopeNativeSessionId := Some (js ''s'')\<rparr>, revoked = False, lastSeenAt = 2\<rparr>],
      minted = [issuedCredential]\<rparr>"
    by (simp add: boundRegistry_def bindNativeSession_def issuedRegistry_def issuedCredential_def issue_def Let_def
        noCredentials_def sampleToken_def put_record_def ret_def sampleGrant_def sampleSession_def js_simps)
  show "\<exists>U. resolve sampleToken (js ''t'') (js ''g'') 3 3 boundRegistry =
     (Inr (sampleGrant\<lparr>scopeNativeSessionId := Some (js ''s'')\<rparr>), U)"
    unfolding bound by (simp add: resolve_def sampleToken_def js_simps truthy_def ret_def sampleGrant_def maxIdleMs_def)
qed

definition sampleChild :: CodexChildBinding where
  "sampleChild =
     \<lparr>codexThreadId = js ''k'', codexExecutionId = js ''y'', codexParentExecutionId = js ''x'',
      codexParentThreadId = js ''s'', codexOwnerTurnId = js ''t'', codexOwnerNativeTurnId = js ''n'',
      codexActiveTurn = Some (js ''u''), codexTerminalTurn = None, codexOutcome = None, codexTerminalTurns = []\<rparr>"

definition sampleMapper :: ChildMapper where
  "sampleMapper =
     \<lparr>mapperExecutionId = js ''x'', mapperInstanceId = js ''p'', liveSequence = 0,
      childRegistry = [(js ''k'', sampleChild)]\<rparr>"

definition sampleParams :: "string \<Rightarrow> jsrecord" where
  "sampleParams status = members
     [(''turn'', Some (objectOf [(''id'', Some (JString (js ''u''))), (''status'', Some (JString (js status)))]))]"

lemma sample_turn: "codexString (turnField (sampleParams status) ''id'') = Some (js ''u'')"
  "turnField (sampleParams status) ''status'' = JString (js status)"
  by (simp_all add: turnField_def sampleParams_def codexRecord_def codexString_def objectOf_def)

definition sampleChildBinding :: NativeChildBinding where
  "sampleChildBinding =
     \<lparr>childThreadId = js ''k'', childBindExecutionId = js ''y'', childParentExecutionId = js ''x'',
      childParentThreadId = js ''s'', ownerTurnId = js ''t'', ownerNativeTurnId = js ''n'',
      activeNativeTurnId = None, childTurnBindings = None, terminalNativeTurnIds = Some [js ''u''],
      childCanonicalBlock = None, childBindOutcome = Some TurnCompleted\<rparr>"

end
