(* ===== verification/Doubles.thy ===== *)
theory Doubles
  imports JsonText
begin

text \<open>
  Arithmetic on JavaScript numbers: a sum is the double nearest to the exact one.  \<open>double\<close> extends the
  rounding of \<open>JsonText\<close> to all signs; the facts shown are that it is monotone, and exact on the
  integers up to \<open>2 ^ 53\<close>.  Infinities and the sign of zero are not modelled: pixel sizes are far
  from them.
\<close>

subsection \<open>The parts of rounding\<close>

lemma pow_int_powi: "pow_int b e = power_int b e"
  by (simp add: pow_int_def power_int_def divide_inverse power_inverse)

lemma round_half_even_of_int [simp]: "round_half_even (of_int i) = i"
  by (simp add: round_half_even_def Let_def)

lemma round_half_even_bounds: "\<lfloor>m\<rfloor> \<le> round_half_even m" "round_half_even m \<le> \<lfloor>m\<rfloor> + 1"
  by (simp_all add: round_half_even_def Let_def)

lemma round_half_even_mono:
  assumes "m \<le> n"
  shows "round_half_even m \<le> round_half_even n"
proof (cases "\<lfloor>m\<rfloor> = \<lfloor>n\<rfloor>")
  case True
  with assms show ?thesis
    by (auto simp: round_half_even_def Let_def)
next
  case False
  with floor_mono [OF assms] have "\<lfloor>m\<rfloor> + 1 \<le> \<lfloor>n\<rfloor>" by simp
  then show ?thesis
    using round_half_even_bounds(2) [of m] round_half_even_bounds(1) [of n] by linarith
qed

lemma ilog_sign: "1 \<le> q \<Longrightarrow> 0 \<le> ilog f 2 q" "q < 2 \<Longrightarrow> ilog f 2 q \<le> 0"
proof (induction f arbitrary: q)
  case (Suc f)
  { case 1 then show ?case using Suc.IH(1) [of "q / 2"] by simp }
  { case 2 then show ?case using Suc.IH(2) [of "q * 2"] by (cases "q < 1") simp_all }
qed simp_all

lemma ilog_range: "\<bar>ilog f b q\<bar> \<le> int f"
proof (induction f arbitrary: q)
  case (Suc f)
  show ?case using Suc [of "q / b"] Suc [of "q * b"] by auto
qed simp

lemma ilog_mono: "0 \<le> p \<Longrightarrow> p \<le> q \<Longrightarrow> ilog f 2 p \<le> ilog f 2 q"
proof (induction f arbitrary: p q)
  case (Suc f)
  consider "2 \<le> p" | "p < 2" "2 \<le> q" | "q < 1" | "p < 1" "1 \<le> q" "q < 2" | "1 \<le> p" "q < 2"
    by linarith
  then show ?case
  proof cases
    case 1
    with Suc.IH [of "p / 2" "q / 2"] Suc.prems show ?thesis by simp
  next
    case 2
    then show ?thesis
      using ilog_sign(2) [of p "Suc f"] ilog_sign(1) [of q "Suc f"] by linarith
  next
    case 3
    with Suc.IH [of "p * 2" "q * 2"] Suc.prems show ?thesis by simp
  next
    case 4
    then show ?thesis
      using ilog_sign(2) [of p "Suc f"] ilog_sign(1) [of q "Suc f"] by linarith
  next
    case 5
    with Suc.prems show ?thesis by simp
  qed
qed simp

lemma powi_next: "(2 :: rat) powi (e + 1) = 2 * 2 powi e" "(2 :: rat) powi (e - 1) = 2 powi e / 2"
  by (simp_all add: power_int_add_1 power_int_diff)

lemma ilog_bounds:
  assumes "0 < q"
  shows "(- int f < ilog f 2 q \<longrightarrow> 2 powi (ilog f 2 q) \<le> q) \<and> (ilog f 2 q < int f \<longrightarrow> q < 2 powi (ilog f 2 q + 1))"
  using assms
proof (induction f arbitrary: q)
  case (Suc f)
  consider "2 \<le> q" | "q < 1" | "1 \<le> q" "q < 2" by linarith
  then show ?case
  proof cases
    case 1
    then have "2 powi (ilog f 2 (q / 2)) \<le> q / 2"
      using Suc.IH [of "q / 2"] ilog_sign(1) [of "q / 2" f] by (cases f) simp_all
    with 1 Suc.IH [of "q / 2"] Suc.prems show ?thesis
      by (auto simp: powi_next power_int_add)
  next
    case 2
    then have "q * 2 < 2 powi (ilog f 2 (q * 2) + 1)"
      using Suc.IH [of "q * 2"] Suc.prems ilog_sign(2) [of "q * 2" f] by (cases f) simp_all
    with 2 Suc.IH [of "q * 2"] Suc.prems show ?thesis
      by (auto simp: powi_next)
  qed simp
qed simp

lemmas ilog_lower = ilog_bounds [THEN conjunct1, rule_format]
  and ilog_upper = ilog_bounds [THEN conjunct2, rule_format]

lemma powi_less_iff: "(2 :: rat) powi m < 2 powi n \<longleftrightarrow> m < n"
  using power_int_strict_increasing [of m n "2 :: rat"] power_int_increasing [of n m "2 :: rat"] by (cases "m < n") auto

subsection \<open>Rounding is monotone\<close>

definition ulp_exponent :: "rat \<Rightarrow> int" where
  "ulp_exponent q = max (ilog 1100 2 q - 52) (- 1074)"

lemma to_double_ulp:
  "to_double q = of_int (round_half_even (q / 2 powi (ulp_exponent q))) * 2 powi (ulp_exponent q)"
  by (simp add: to_double_def pow_int_powi ulp_exponent_def Let_def)

lemma to_double_zero [simp]: "to_double 0 = 0"
  using round_half_even_of_int [of 0] by (simp add: to_double_def Let_def)

lemma to_double_nonneg: "0 \<le> q \<Longrightarrow> 0 \<le> to_double q"
  using round_half_even_mono [of 0 "q / 2 powi (ulp_exponent q)"] round_half_even_of_int [of 0]
  by (simp add: to_double_ulp)

lemma to_double_mono:
  assumes "0 \<le> p" "p \<le> q"
  shows "to_double p \<le> to_double q"
proof (cases "p = 0")
  case False
  with assms have pos: "0 < p" "0 < q" by simp_all
  let ?e = "ulp_exponent p" and ?f = "ulp_exponent q"
  have le: "?e \<le> ?f"
    using ilog_mono [OF assms, of 1100] by (simp add: ulp_exponent_def)
  show ?thesis
  proof (cases "?e = ?f")
    case True
    have "p / 2 powi ?f \<le> q / 2 powi ?f"
      using assms(2) by (intro divide_right_mono) simp_all
    from round_half_even_mono [OF this] show ?thesis
      unfolding to_double_ulp True by (intro mult_right_mono) simp_all
  next
    case False
    with le have f: "?f = ilog 1100 2 q - 52" "- 1022 < ilog 1100 2 q" and less: "?e + 1 \<le> ?f"
      by (auto simp: ulp_exponent_def)
    have low: "2 powi (?f + 52) \<le> q"
      using ilog_lower [OF pos(2), of 1100] f by simp
    have "ilog 1100 2 p \<le> ?e + 52"
      by (simp add: ulp_exponent_def)
    with less f ilog_range [of 1100 2 q] have "p < 2 powi (ilog 1100 2 p + 1)"
      by (intro ilog_upper [OF pos(1)]) simp
    also have "\<dots> \<le> 2 powi (?e + 53)"
      using \<open>ilog 1100 2 p \<le> ?e + 52\<close> by (intro power_int_increasing) simp_all
    finally have "p / 2 powi ?e \<le> of_int (2 ^ 53)"
      by (simp add: field_simps power_int_add)
    from round_half_even_mono [OF this] have "round_half_even (p / 2 powi ?e) \<le> 2 ^ 53"
      by (simp only: round_half_even_of_int)
    then have "to_double p \<le> of_int (2 ^ 53) * 2 powi ?e"
      unfolding to_double_ulp by (intro mult_right_mono) (simp_all only: of_int_le_iff zero_le_power_int)
    also have "\<dots> = 2 powi (?e + 1 + 52)"
      by (simp add: power_int_add)
    also have "\<dots> \<le> 2 powi (?f + 52)"
      using less by (intro power_int_increasing) simp_all
    also have "\<dots> = of_int (2 ^ 52) * 2 powi ?f"
      by (simp add: power_int_add)
    also have "\<dots> \<le> to_double q"
    proof -
      have "of_int (2 ^ 52) \<le> q / 2 powi ?f"
        using low by (simp add: field_simps power_int_add)
      from round_half_even_mono [OF this] have "2 ^ 52 \<le> round_half_even (q / 2 powi ?f)"
        by (simp only: round_half_even_of_int)
      then show ?thesis
        unfolding to_double_ulp by (intro mult_right_mono) (simp_all only: of_int_le_iff zero_le_power_int)
    qed
    finally show ?thesis .
  qed
qed (use assms to_double_nonneg in simp)

text \<open>A number on the grid of its own last place, or of a coarser one, is a double.\<close>

lemma to_double_grid:
  assumes "v = of_int n * 2 powi e" "ulp_exponent v \<le> e"
  shows "to_double v = v"
proof -
  obtain k where k: "e = ulp_exponent v + int k"
    using assms(2) by (metis zle_iff_zadd)
  have "2 powi e = (2 :: rat) ^ k * 2 powi (ulp_exponent v)"
    by (subst k) (simp add: power_int_add)
  with assms(1) have v: "v = of_int (n * 2 ^ k) * 2 powi (ulp_exponent v)"
    by simp
  have "v / 2 powi (ulp_exponent v) = of_int (n * 2 ^ k)"
    by (subst nonzero_divide_eq_eq) (simp, rule v)
  then show ?thesis
    unfolding to_double_ulp by (simp only: round_half_even_of_int v [symmetric])
qed

lemma ulp_exponent_below:
  assumes "0 < v" "v < 2 powi (e + 53)" "- 1074 \<le> e"
  shows "ulp_exponent v \<le> e"
proof (cases "- 1100 < ilog 1100 2 v")
  case True
  then have "2 powi (ilog 1100 2 v) < (2 :: rat) powi (e + 53)"
    using ilog_lower [OF assms(1), of 1100] assms(2) by simp
  then have "ilog 1100 2 v < e + 53"
    by (simp only: powi_less_iff)
  with assms(3) show ?thesis
    by (simp add: ulp_exponent_def)
next
  case False
  with assms(3) show ?thesis
    by (simp add: ulp_exponent_def)
qed

lemma to_double_idem:
  assumes "0 \<le> q"
  shows "to_double (to_double q) = to_double q"
proof (cases "to_double q = 0")
  case False
  let ?e = "ulp_exponent q" and ?n = "round_half_even (q / 2 powi (ulp_exponent q))" and ?v = "to_double q"
  have v: "?v = of_int ?n * 2 powi ?e" and e: "- 1074 \<le> ?e"
    by (simp_all add: to_double_ulp) (simp add: ulp_exponent_def)
  have pos: "0 < ?v" "0 < q"
    using False to_double_nonneg [OF assms] assms by (auto simp: less_le)
  consider "ulp_exponent ?v \<le> ?e" | "?n = 2 ^ 53" "ilog 1100 2 q < 1100"
  proof (cases "ilog 1100 2 q < 1100")
    case True
    have "q < 2 powi (ilog 1100 2 q + 1)"
      using True by (intro ilog_upper [OF pos(2)]) simp
    also have "\<dots> \<le> 2 powi (?e + 53)"
      by (intro power_int_increasing) (simp_all add: ulp_exponent_def)
    finally have "q / 2 powi ?e \<le> of_int (2 ^ 53)"
      by (simp add: field_simps power_int_add)
    from round_half_even_mono [OF this] have n: "?n \<le> 2 ^ 53"
      by (simp only: round_half_even_of_int)
    show ?thesis
    proof (cases "?n = 2 ^ 53")
      case False
      with n have "(of_int ?n :: rat) < of_int (2 ^ 53)"
        by (simp only: of_int_less_iff)
      then have "?v < of_int (2 ^ 53) * 2 powi ?e"
        unfolding v by (intro mult_strict_right_mono) simp_all
      also have "\<dots> = 2 powi (?e + 53)"
        by (simp add: power_int_add)
      finally have "ulp_exponent ?v \<le> ?e"
        using ulp_exponent_below [OF pos(1) _ e] by blast
      with that(1) show ?thesis .
    qed (use True that(2) in blast)
  next
    case False
    then have "ilog 1100 2 q = 1100"
      using ilog_range [of 1100 2 q] by simp
    then have "ulp_exponent ?v \<le> ?e"
      using ilog_range [of 1100 2 ?v] by (simp add: ulp_exponent_def)
    with that(1) show ?thesis .
  qed
  then show ?thesis
  proof cases
    case 1
    with v show ?thesis by (rule to_double_grid)
  next
    case 2
    have "?v = of_int (2 ^ 52) * 2 powi (?e + 1)"
      by (subst v, subst 2(1)) (simp add: power_int_add)
    moreover from this have "?v < 2 powi (?e + 1 + 53)"
      by (simp add: power_int_add)
    ultimately show ?thesis
      using ulp_exponent_below [OF pos(1), of "?e + 1"] e by (intro to_double_grid) simp_all
  qed
qed simp

lemma to_double_of_nat:
  assumes "n < 2 ^ 53"
  shows "to_double (of_nat n) = of_nat n"
proof (cases "n = 0")
  case False
  let ?q = "of_nat n :: rat"
  have "2 powi (ilog 1100 2 ?q) \<le> ?q"
    using False ilog_sign(1) [of ?q 1100] by (intro ilog_lower) simp_all
  also have "?q < 2 powi 53"
    using assms of_nat_less_iff [of n "2 ^ 53", where ?'a = rat] by simp
  finally have "ilog 1100 2 ?q < 53"
    by (simp only: powi_less_iff)
  then obtain k where k: "ulp_exponent ?q = - int k"
    by (auto simp: ulp_exponent_def intro: that [of "nat (- max (ilog 1100 2 ?q - 52) (- 1074))"])
  have "?q = of_int (int n * 2 ^ k) * 2 powi (ulp_exponent ?q)"
    by (simp add: k power_int_minus)
  then show ?thesis
    by (rule to_double_grid) simp
qed simp

subsection \<open>Sums of numbers\<close>

definition double :: "rat \<Rightarrow> rat" where
  "double q = (if q < 0 then - to_double (- q) else to_double q)"

definition minus_num :: "rat \<Rightarrow> rat \<Rightarrow> rat" where
  "minus_num a b = double (a - b)"

definition plus_num :: "rat \<Rightarrow> rat \<Rightarrow> rat" where
  "plus_num a b = double (a + b)"

lemma double_mono: "p \<le> q \<Longrightarrow> double p \<le> double q"
  using to_double_mono [of p q] to_double_mono [of "- q" "- p"] to_double_nonneg [of q] to_double_nonneg [of "- p"]
  by (auto simp: double_def not_less)

lemma double_zero [simp]: "double 0 = 0"
  by (simp add: double_def)

lemma double_of_int: "\<bar>i\<bar> < 2 ^ 53 \<Longrightarrow> double (of_int i) = of_int i"
  using to_double_of_nat [of "nat \<bar>i\<bar>"] by (auto simp: double_def abs_if nat_less_iff split: if_splits)

lemma double_idem [simp]: "double (double q) = double q"
  using to_double_idem [of q] to_double_idem [of "- q"] to_double_nonneg [of q] to_double_nonneg [of "- q"]
  by (auto simp: double_def)

lemma double_plus_num [simp]: "double (plus_num a b) = plus_num a b"
  by (simp add: plus_num_def)

lemma plus_num_mono: "a \<le> c \<Longrightarrow> b \<le> d \<Longrightarrow> plus_num a b \<le> plus_num c d"
  by (simp add: plus_num_def double_mono)

lemma plus_num_nonneg: "0 \<le> a \<Longrightarrow> 0 \<le> b \<Longrightarrow> 0 \<le> plus_num a b"
  using double_mono [of 0 "a + b"] by (simp add: plus_num_def)

text \<open>A number that is a double grows, when something non-negative is added.\<close>

lemma plus_num_increases: "double a = a \<Longrightarrow> 0 \<le> b \<Longrightarrow> a \<le> plus_num a b"
  using double_mono [of a "a + b"] by (simp add: plus_num_def)

end
