(* ===== verification/TranscriptFrames.thy ===== *)
theory TranscriptFrames
  imports Doubles "HOL-Library.AList"
begin

text \<open>
  The turns of a transcript as the viewer shows them (shared/transcript.ts), the content of a user message
  (transcript/model/userMessageContent.ts), and the height of a turn whose work is closed
  (transcript/layout/measureCollapsed.ts, constants.ts).

  \<^item> A segment has the members that this code reads; of the reference to cut-off content, whether there
    is one.  Pixel sizes are numbers, added by \<open>plus_num\<close>.
  \<^item> How high a markdown document or a text is in its font depends on the browser's text layout: it is a
    parameter, \<open>TextMeasure\<close>.
  \<^item> A \<^verbatim>\<open>Record<string, true>\<close> is the list of its keys, a \<^verbatim>\<open>Record\<close> of turns the list of its entries.
\<close>

subsection \<open>Frames and measured rows\<close>

datatype NoticeOrigin = NativeFollowup | FederationNotification | CompactionOrigin

datatype WorkState = WorkRunning | WorkRecovering | WorkCompleted | WorkFailed | WorkInterrupted

datatype MentionKind = DirectoryMention | FileMention

datatype AgentUserMessagePart =
    MessageText jsstring
  | MentionPart MentionKind jsstring jsstring
  | ImagePart jsstring jsstring jsstring rat

datatype AgentTurnSegment =
    NoticeSegment (segmentId: jsstring) (noticeOrigin: "NoticeOrigin option")
  | UserMessageSegment (segmentId: jsstring) (clientMessageId: "jsstring option") (segmentRevision: jsstring)
      (segmentText: jsstring) (messageParts: "AgentUserMessagePart list option") (hasContent: bool)
  | WorkSegment (segmentId: jsstring) (workState: WorkState)
  | AssistantMessageSegment (segmentId: jsstring) (segmentText: jsstring) (hasContent: bool)
  | CompactionSegment (segmentId: jsstring)

datatype AgentTurnStatus = FrameQueued | FrameInProgress | FrameCompleted | FrameFailed | FrameInterrupted

record AgentTurnRenderFrame =
  frameId :: jsstring
  frameStatus :: AgentTurnStatus
  renderRevision :: jsstring
  frameSegments :: "AgentTurnSegment list"

record TranscriptUserMessageDisclosure =
  udCollapsible :: bool
  udExpanded :: bool
  udMaxLines :: nat

datatype FooterRow = TerminalErrorRow jsstring jsstring | ProjectionRetryRow jsstring jsstring

record TranscriptTurnDisplayFooter =
  footerRevision :: jsstring
  footerRows :: "FooterRow list"

record TranscriptMeasuredRow =
  mrHeight :: rat
  mrId :: jsstring
  mrSegment :: AgentTurnSegment
  mrSegmentId :: jsstring
  mrShowAssistantActions :: bool
  mrShowUserActions :: bool
  mrTurn :: AgentTurnRenderFrame
  mrTurnId :: jsstring
  mrDisclosure :: "TranscriptUserMessageDisclosure option"

fun is_user_message :: "AgentTurnSegment \<Rightarrow> bool" where
  "is_user_message (UserMessageSegment i c r t ps h) = True"
| "is_user_message _ = False"

fun is_assistant_message :: "AgentTurnSegment \<Rightarrow> bool" where
  "is_assistant_message (AssistantMessageSegment i t h) = True"
| "is_assistant_message _ = False"

fun is_work :: "AgentTurnSegment \<Rightarrow> bool" where
  "is_work (WorkSegment i s) = True"
| "is_work _ = False"

subsection \<open>The content of a user message\<close>

text \<open>The white space of \<^verbatim>\<open>String.prototype.trim\<close>.\<close>

definition whitespace :: "nat \<Rightarrow> bool" where
  "whitespace c =
     (c \<in> {9, 10, 11, 12, 13, 32, 160, 5760, 8232, 8233, 8239, 8287, 12288, 65279} \<or> 8192 \<le> c \<and> c \<le> 8202)"

definition trim :: "jsstring \<Rightarrow> jsstring" where
  "trim t = rev (dropWhile whitespace (rev (dropWhile whitespace t)))"

definition has_text :: "jsstring \<Rightarrow> bool" where
  "has_text t = (trim t \<noteq> [])"

datatype UserMessageRailItem =
    ImageItem jsstring jsstring jsstring jsstring rat jsstring
  | ReferenceItem jsstring jsstring jsstring jsstring

datatype UserMessagePlacement = TopLevel | InWork

record UserMessageLayout =
  bodyMarkdown :: "jsstring option"
  umPlacement :: UserMessagePlacement
  railItems :: "UserMessageRailItem list"
  umRevision :: jsstring

definition partsOf :: "AgentTurnSegment \<Rightarrow> AgentUserMessagePart list" where
  "partsOf message = or_else (messageParts message) [MessageText (segmentText message)]"

fun partRevision :: "AgentUserMessagePart \<Rightarrow> jsstring" where
  "partRevision (MessageText t) = js ''text:'' @ t"
| "partRevision (MentionPart kind n path) =
     js ''mention:'' @ (case kind of DirectoryMention \<Rightarrow> js ''directory'' | FileMention \<Rightarrow> js ''file'') @ js '':'' @ path"
| "partRevision (ImagePart hash mime n bytes) = js ''image:'' @ hash"

text \<open>The loop over the parts, with the index of the part.\<close>

fun collectParts ::
  "nat \<Rightarrow> AgentUserMessagePart list \<Rightarrow> jsstring list \<times> UserMessageRailItem list \<Rightarrow>
   jsstring list \<times> UserMessageRailItem list" where
  "collectParts index [] collected = collected"
| "collectParts index (part # parts) (markdown, rail) =
     collectParts (Suc index) parts
       (case part of
          MessageText t \<Rightarrow> (if has_text t then markdown @ [t] else markdown, rail)
        | MentionPart kind n path \<Rightarrow>
            (markdown, rail @ [ReferenceItem (js ''mention:'' @ decimal index @ js '':'' @ path) n path
               (if kind = DirectoryMention then js ''Folder'' else js ''Reference'')])
        | ImagePart hash mime n bytes \<Rightarrow>
            (markdown, rail @ [ImageItem hash (js ''image:'' @ decimal index @ js '':'' @ hash) mime n bytes (js ''Image'')]))"

definition buildUserMessageLayout :: "AgentTurnSegment \<Rightarrow> UserMessagePlacement \<Rightarrow> UserMessageLayout" where
  "buildUserMessageLayout message placement =
     (let (collected, rail) = collectParts 0 (partsOf message) ([], []);
        markdown = (if collected = [] \<and> has_text (segmentText message) then [segmentText message] else collected)
      in \<lparr>bodyMarkdown = (if markdown = [] then None else Some (concat markdown)), umPlacement = placement,
          railItems = rail,
          umRevision = segmentId message @ js '':'' @ segmentRevision message @ js '':'' @
            join_with (js ''|'') (map partRevision (partsOf message))\<rparr>)"

definition plainTextFromUserMessage :: "AgentTurnSegment \<Rightarrow> jsstring" where
  "plainTextFromUserMessage message =
     (let plain = trim (concat (map (\<lambda>part. case part of
            MessageText t \<Rightarrow> t | MentionPart kind n path \<Rightarrow> js ''@'' @ path | ImagePart hash mime n bytes \<Rightarrow> js ''[image]'')
          (partsOf message)))
      in if plain = [] then trim (segmentText message) else plain)"

lemma has_text_iff: "has_text t \<longleftrightarrow> (\<exists>c \<in> set t. \<not> whitespace c)"
proof -
  have "(\<forall>c \<in> set (dropWhile whitespace t). whitespace c) \<longleftrightarrow> dropWhile whitespace t = []"
    by (metis dropWhile_eq_Nil_conv dropWhile_idem)
  then show ?thesis
    by (simp add: has_text_def trim_def dropWhile_eq_Nil_conv)
qed

lemma collectParts_markdown:
  "\<forall>t \<in> set (fst collected). has_text t \<Longrightarrow> \<forall>t \<in> set (fst (collectParts index parts collected)). has_text t"
proof (induction index parts collected rule: collectParts.induct)
  case (2 index part parts markdown rail)
  show ?case
    unfolding collectParts.simps by (rule "2.IH") (use "2.prems" in \<open>auto split: AgentUserMessagePart.split\<close>)
qed simp

lemma body_not_empty: "bodyMarkdown (buildUserMessageLayout message placement) \<noteq> Some []"
  using collectParts_markdown [of "([], [])" 0 "partsOf message"]
  by (fastforce simp: buildUserMessageLayout_def has_text_iff Let_def neq_Nil_conv split: prod.splits if_splits)

subsection \<open>Measuring text\<close>

definition times_num :: "rat \<Rightarrow> rat \<Rightarrow> rat" where
  "times_num a b = double (a * b)"

datatype MarkdownDensity = DefaultDensity | UserDensity

record MarkdownRenderOptions =
  streamingScope :: "jsstring option"
  richFileLinks :: bool

record TextMeasure =
  markdownDocumentHeight :: "jsstring \<Rightarrow> MarkdownDensity \<Rightarrow> rat \<Rightarrow> MarkdownRenderOptions option \<Rightarrow> rat"
  markdownDocumentCappedHeight :: "jsstring \<Rightarrow> MarkdownDensity \<Rightarrow> rat \<Rightarrow> nat \<Rightarrow> rat"
  plainTextHeight :: "nat \<Rightarrow> nat \<Rightarrow> jsstring \<Rightarrow> rat \<Rightarrow> rat"

definition collapsedBodyLines :: nat where
  "collapsedBodyLines = 8"

definition userBubbleContentWidth :: "rat \<Rightarrow> UserMessagePlacement \<Rightarrow> rat" where
  "userBubbleContentWidth contentWidth placement =
     (let bubbleWidth = max 1 (if placement = InWork then times_num contentWidth (double (86 / 100)) else contentWidth)
      in max 1 (minus_num (minus_num (minus_num bubbleWidth (14 * 2)) (0 * 2)) 8))"

definition userMessageDisclosureForSegment ::
  "TextMeasure \<Rightarrow> rat \<Rightarrow> bool \<Rightarrow> AgentTurnSegment \<Rightarrow> TranscriptUserMessageDisclosure option" where
  "userMessageDisclosureForSegment M contentWidth expanded segment =
     (case truthy (bodyMarkdown (buildUserMessageLayout segment TopLevel)) of
        None \<Rightarrow> None
      | Some body \<Rightarrow>
          let width = userBubbleContentWidth contentWidth TopLevel;
            fullHeight = markdownDocumentHeight M body UserDensity width None;
            cappedHeight = markdownDocumentCappedHeight M body UserDensity width collapsedBodyLines
          in if fullHeight \<le> plus_num cappedHeight (1 / 2) then None
             else Some \<lparr>udCollapsible = True, udExpanded = expanded, udMaxLines = collapsedBodyLines\<rparr>)"

definition measureUserMessageBodyHeight ::
  "TextMeasure \<Rightarrow> rat \<Rightarrow> jsstring \<Rightarrow> UserMessagePlacement \<Rightarrow> TranscriptUserMessageDisclosure option \<Rightarrow> rat" where
  "measureUserMessageBodyHeight M contentWidth markdown placement disclosure =
     (let width = userBubbleContentWidth contentWidth placement;
        full = markdownDocumentHeight M markdown UserDensity width None
      in case disclosure of
           None \<Rightarrow> full
         | Some d \<Rightarrow>
             if udCollapsible d \<and> \<not> udExpanded d
             then markdownDocumentCappedHeight M markdown UserDensity width (udMaxLines d) else full)"

definition sum_num :: "rat list \<Rightarrow> rat" where
  "sum_num heights = foldl plus_num 0 heights"

definition measureUserMessageBubble ::
  "TextMeasure \<Rightarrow> UserMessageLayout \<Rightarrow> rat \<Rightarrow> UserMessagePlacement \<Rightarrow> TranscriptUserMessageDisclosure option \<Rightarrow> rat"
  where
  "measureUserMessageBubble M layout contentWidth placement disclosure =
     (let hasRail = (railItems layout \<noteq> []);
        body = truthy (bodyMarkdown layout);
        hasDisclosure = (case disclosure of None \<Rightarrow> False | Some d \<Rightarrow> udCollapsible d)
      in
      if \<not> hasRail \<and> body = None then 0
      else
        let childHeights =
          (if hasRail then [62] else []) @
          (case body of
             None \<Rightarrow> []
           | Some markdown \<Rightarrow> [measureUserMessageBodyHeight M contentWidth markdown placement disclosure]) @
          (if hasDisclosure then [22] else [])
        in plus_num (plus_num (plus_num (sum_num childHeights) (of_nat (length childHeights - 1) * 8)) (12 * 2)) (0 * 2))"

definition exactContentHeight :: rat where
  "exactContentHeight = 28"

definition measureUserMessage ::
  "TextMeasure \<Rightarrow> rat \<Rightarrow> AgentTurnSegment \<Rightarrow> TranscriptUserMessageDisclosure option \<Rightarrow> rat" where
  "measureUserMessage M contentWidth segment disclosure =
     plus_num (measureUserMessageBubble M (buildUserMessageLayout segment TopLevel) contentWidth TopLevel disclosure)
       (if hasContent segment then 8 + exactContentHeight else 0)"

definition measureAssistantMessage :: "TextMeasure \<Rightarrow> rat \<Rightarrow> AgentTurnSegment \<Rightarrow> bool \<Rightarrow> rat" where
  "measureAssistantMessage M contentWidth segment streaming =
     (if \<not> has_text (segmentText segment) then 0
      else plus_num
        (markdownDocumentHeight M (segmentText segment) DefaultDensity contentWidth
          (Some \<lparr>streamingScope = (if streaming then Some (segmentId segment) else None), richFileLinks = \<not> streaming\<rparr>))
        (if hasContent segment then exactContentHeight else 0))"

definition measureTurnDisplayFooter :: "TextMeasure \<Rightarrow> TranscriptTurnDisplayFooter \<Rightarrow> rat \<Rightarrow> rat" where
  "measureTurnDisplayFooter M footer contentWidth =
     (if footerRows footer = [] then 0
      else
        let rowsHeight = foldl (\<lambda>height row. case row of
              ProjectionRetryRow i message \<Rightarrow> plus_num height 30
            | TerminalErrorRow i message \<Rightarrow>
                let textWidth = max 1 (minus_num (minus_num contentWidth (12 * 2)) (1 * 2)) in
                plus_num (plus_num (plus_num height
                  (plainTextHeight M 13 20 (if has_text message then message else []) textWidth)) (10 * 2)) (1 * 2))
            0 (footerRows footer)
        in plus_num (plus_num rowsHeight (8 * of_nat (length (footerRows footer) - 1))) 22)"

subsection \<open>Measuring a turn\<close>

definition disclosureKey :: "jsstring \<Rightarrow> jsstring \<Rightarrow> jsstring" where
  "disclosureKey turn segment = turn @ js '':'' @ segment"

definition assistantMessageCanShowActions :: "AgentTurnRenderFrame \<Rightarrow> AgentTurnSegment \<Rightarrow> bool" where
  "assistantMessageCanShowActions turn segment =
     (frameStatus turn \<noteq> FrameInProgress \<and> is_assistant_message segment \<and> has_text (segmentText segment))"

definition measureCollapsedSegment ::
  "TextMeasure \<Rightarrow> bool \<Rightarrow> rat \<Rightarrow> AgentTurnSegment \<Rightarrow> bool \<Rightarrow> bool \<Rightarrow> TranscriptUserMessageDisclosure option \<Rightarrow> rat"
  where
  "measureCollapsedSegment M streaming contentWidth segment assistantActions userActions disclosure =
     (case segment of
        UserMessageSegment _ _ _ _ _ _ \<Rightarrow>
          plus_num (plus_num (measureUserMessage M contentWidth segment disclosure) (if userActions then 6 + 40 else 0)) 22
      | AssistantMessageSegment _ _ _ \<Rightarrow>
          plus_num (plus_num (measureAssistantMessage M contentWidth segment streaming)
            (if assistantActions then 6 + 40 else 0)) 22
      | WorkSegment _ _ \<Rightarrow> 28 + 4 + 1 + 14
      | NoticeSegment _ _ \<Rightarrow> 32 + 22
      | CompactionSegment _ \<Rightarrow> 32 + 22)"

definition measureRow ::
  "TextMeasure \<Rightarrow> rat \<Rightarrow> jsstring list \<Rightarrow> AgentTurnRenderFrame \<Rightarrow> jsstring option \<Rightarrow> AgentTurnSegment \<Rightarrow>
   TranscriptMeasuredRow" where
  "measureRow M contentWidth expanded turn userActionRowId segment =
     (let rowId = frameId turn @ js '':'' @ segmentId segment;
        streaming = (is_assistant_message segment \<and> frameStatus turn = FrameInProgress);
        assistantActions = assistantMessageCanShowActions turn segment;
        userActions = (Some rowId = userActionRowId);
        disclosure = (if is_user_message segment
          then userMessageDisclosureForSegment M contentWidth (disclosureKey (frameId turn) (segmentId segment) \<in> set expanded)
            segment
          else None)
      in \<lparr>mrHeight = measureCollapsedSegment M streaming contentWidth segment assistantActions userActions disclosure,
          mrId = rowId, mrSegment = segment, mrSegmentId = segmentId segment,
          mrShowAssistantActions = assistantActions, mrShowUserActions = userActions, mrTurn = turn,
          mrTurnId = frameId turn, mrDisclosure = disclosure\<rparr>)"

definition measureCollapsedTurn ::
  "TextMeasure \<Rightarrow> rat \<Rightarrow> jsstring list \<Rightarrow> AgentTurnRenderFrame \<Rightarrow> TranscriptTurnDisplayFooter \<Rightarrow> jsstring option \<Rightarrow>
   rat \<times> TranscriptMeasuredRow list" where
  "measureCollapsedTurn M contentWidth expanded turn footer userActionRowId =
     (let rows = map (measureRow M contentWidth expanded turn userActionRowId) (frameSegments turn) in
      (plus_num (sum_num (map mrHeight rows)) (measureTurnDisplayFooter M footer contentWidth),
       rows))"

definition latestUserMessageActionRowId :: "AgentTurnRenderFrame list \<Rightarrow> jsstring option" where
  "latestUserMessageActionRowId turns =
     (if turns = [] then None
      else map_option (\<lambda>segment. frameId (last turns) @ js '':'' @ segmentId segment)
        (find is_user_message (rev (frameSegments (last turns)))))"

definition actionRowIdForTurn :: "jsstring option \<Rightarrow> jsstring \<Rightarrow> jsstring option" where
  "actionRowIdForTurn rowId turnId =
     (case rowId of None \<Rightarrow> None | Some r \<Rightarrow> if starts_with (turnId @ js '':'') r then Some r else None)"

definition userMessageDisclosureRevisionForTurn :: "AgentTurnRenderFrame \<Rightarrow> jsstring list \<Rightarrow> jsstring" where
  "userMessageDisclosureRevisionForTurn turn expanded =
     join_with [30] (map segmentId (filter (\<lambda>segment. is_user_message segment \<and>
       disclosureKey (frameId turn) (segmentId segment) \<in> set expanded) (frameSegments turn)))"

definition emptyDisplayFooter :: TranscriptTurnDisplayFooter where
  "emptyDisplayFooter = \<lparr>footerRevision = js ''[]'', footerRows = []\<rparr>"

subsection \<open>What a measurement depends on\<close>

lemma join_with_first:
  assumes "c \<notin> set x"
  shows "takeWhile (\<lambda>z. z \<noteq> c) (join_with [c] (x # xs)) = x"
    "dropWhile (\<lambda>z. z \<noteq> c) (join_with [c] (x # xs)) = (if xs = [] then [] else c # join_with [c] xs)"
  using assms by (cases xs; force simp: takeWhile_append dropWhile_append)+

lemma join_with_inject:
  assumes "\<forall>x \<in> set xs. x \<noteq> [] \<and> c \<notin> set x" "\<forall>y \<in> set ys. y \<noteq> [] \<and> c \<notin> set y"
    "join_with [c] xs = join_with [c] ys"
  shows "xs = ys"
  using assms
proof (induction xs arbitrary: ys)
  case Nil
  then show ?case
    by (cases ys; cases "tl ys") auto
next
  case (Cons x xs)
  then obtain y ys' where ys: "ys = y # ys'"
    by (cases ys; cases xs) auto
  have "x = y" "(if xs = [] then [] else c # join_with [c] xs) = (if ys' = [] then [] else c # join_with [c] ys')"
    using Cons.prems join_with_first [of c x xs] join_with_first [of c y ys'] unfolding ys by auto
  with Cons.IH [of ys'] Cons.prems show ?case
    unfolding ys by (auto split: if_splits)
qed

text \<open>
  What a frame keeps to: its segments have different ids, and no id holds the separator of the ids that
  are open.  Then the disclosure revision says which of its messages are open.
\<close>

definition segment_ids_ok :: "AgentTurnRenderFrame \<Rightarrow> bool" where
  "segment_ids_ok turn =
     (distinct (map segmentId (frameSegments turn)) \<and>
      (\<forall>segment \<in> set (frameSegments turn). segmentId segment \<noteq> [] \<and> 30 \<notin> set (segmentId segment)))"

lemma disclosure_revision_flags:
  assumes "segment_ids_ok turn" "segment \<in> set (frameSegments turn)" "is_user_message segment"
    "userMessageDisclosureRevisionForTurn turn e = userMessageDisclosureRevisionForTurn turn e'"
  shows "disclosureKey (frameId turn) (segmentId segment) \<in> set e \<longleftrightarrow>
    disclosureKey (frameId turn) (segmentId segment) \<in> set e'"
proof -
  let ?open = "\<lambda>e segment. is_user_message segment \<and> disclosureKey (frameId turn) (segmentId segment) \<in> set e"
  have "map segmentId (filter (?open e) (frameSegments turn)) = map segmentId (filter (?open e') (frameSegments turn))"
    using assms(1,4) unfolding userMessageDisclosureRevisionForTurn_def
    by (intro join_with_inject [of _ 30]) (auto simp: segment_ids_ok_def)
  then have "segmentId ` {s \<in> set (frameSegments turn). ?open e s} = segmentId ` {s \<in> set (frameSegments turn). ?open e' s}"
    by (metis (no_types) list.set_map set_filter)
  moreover have "inj_on segmentId (set (frameSegments turn))"
    using assms(1) by (simp add: segment_ids_ok_def distinct_map)
  ultimately have "{s \<in> set (frameSegments turn). ?open e s} = {s \<in> set (frameSegments turn). ?open e' s}"
    by (subst (asm) inj_on_image_eq_iff) auto
  with assms(2,3) show ?thesis by auto
qed

lemma measureRow_flags:
  "(is_user_message segment \<longrightarrow> (disclosureKey (frameId turn) (segmentId segment) \<in> set e \<longleftrightarrow>
      disclosureKey (frameId turn) (segmentId segment) \<in> set e')) \<Longrightarrow>
   measureRow M w e turn a segment = measureRow M w e' turn a segment"
  by (auto simp: measureRow_def)

lemma measureCollapsedTurn_disclosure:
  assumes "segment_ids_ok turn"
    "userMessageDisclosureRevisionForTurn turn e = userMessageDisclosureRevisionForTurn turn e'"
  shows "measureCollapsedTurn M w e turn footer a = measureCollapsedTurn M w e' turn footer a"
proof -
  have "map (measureRow M w e turn a) (frameSegments turn) = map (measureRow M w e' turn a) (frameSegments turn)"
    using disclosure_revision_flags [OF assms(1) _ _ assms(2)] by (intro map_cong measureRow_flags) simp_all
  then show ?thesis by (simp only: measureCollapsedTurn_def Let_def)
qed

end
