(* ===== verification/TranscriptCache.thy ===== *)
theory TranscriptCache
  imports TranscriptFrames
begin

text \<open>
  The cache of measured turns (transcript/layout/measureCache.ts) and measuring through it
  (\<^verbatim>\<open>measureCollapsedTurnWithCache\<close> of transcript/layout/measureCollapsed.ts).

  \<^item> The two maps are lists of entries in insertion order; an entry stands under its own key, which is
    therefore not stored in it again.
  \<^item> Shown: a cached measurement is what measuring gives, and the cache keeps within its two bounds.
\<close>

subsection \<open>The cache\<close>

record TranscriptMeasureCacheLookup =
  luContentWidth :: rat
  luConversationId :: jsstring
  luTurnId :: jsstring
  luTurnRevision :: jsstring
  luDisplayFooterRevision :: jsstring
  luUserActionRowId :: "jsstring option"
  luDisclosureRevision :: jsstring

record TranscriptMeasureCacheRow =
  crHeight :: rat
  crSegmentId :: jsstring
  crShowAssistantActions :: bool
  crShowUserActions :: bool
  crDisclosure :: "TranscriptUserMessageDisclosure option"

record TranscriptMeasureCacheValue =
  cvCollapsedHeight :: rat
  cvRows :: "TranscriptMeasureCacheRow list"

record TranscriptMeasureCacheEntry =
  ceValue :: TranscriptMeasureCacheValue
  ceLastUsedAt :: nat
  ceConversationId :: jsstring

record TranscriptMeasureCache =
  cacheEntries :: "(jsstring \<times> TranscriptMeasureCacheEntry) list"
  maxEntries :: nat
  maxConversations :: nat
  conversationLastUsedAt :: "(jsstring \<times> nat) list"
  cacheClock :: nat
  cacheHits :: nat
  cacheMisses :: nat

definition newMeasureCache :: "nat \<Rightarrow> nat \<Rightarrow> TranscriptMeasureCache" where
  "newMeasureCache entries conversations =
     \<lparr>cacheEntries = [], maxEntries = entries, maxConversations = conversations, conversationLastUsedAt = [],
      cacheClock = 0, cacheHits = 0, cacheMisses = 0\<rparr>"

definition clearCache :: "TranscriptMeasureCache \<Rightarrow> TranscriptMeasureCache" where
  "clearCache c = c\<lparr>cacheEntries := [], conversationLastUsedAt := [], cacheClock := 0, cacheHits := 0, cacheMisses := 0\<rparr>"

text \<open>\<^verbatim>\<open>Math.max(1, Number(width.toFixed(2)))\<close>, of a width that is not negative.\<close>

definition normalizedWidth :: "rat \<Rightarrow> rat" where
  "normalizedWidth width = max 1 (double (of_int \<lfloor>width * 100 + 1 / 2\<rfloor> / 100))"

definition cacheKey :: "TranscriptMeasureCacheLookup \<Rightarrow> jsstring" where
  "cacheKey l =
     join_with [31] [decimal 12, luConversationId l, luTurnId l, luTurnRevision l, luDisplayFooterRevision l,
       number_text (normalizedWidth (luContentWidth l)), or_else (luUserActionRowId l) [], luDisclosureRevision l]"

definition touchEntry :: "jsstring \<Rightarrow> TranscriptMeasureCacheEntry \<Rightarrow> TranscriptMeasureCache \<Rightarrow> TranscriptMeasureCache" where
  "touchEntry key entry c =
     (let now = cacheClock c + 1 in
      c\<lparr>cacheClock := now,
        cacheEntries := AList.update key (entry\<lparr>ceLastUsedAt := now\<rparr>) (cacheEntries c),
        conversationLastUsedAt := AList.update (ceConversationId entry) now (conversationLastUsedAt c)\<rparr>)"

definition readCache ::
  "TranscriptMeasureCacheLookup \<Rightarrow> TranscriptMeasureCache \<Rightarrow> TranscriptMeasureCacheValue option \<times> TranscriptMeasureCache"
  where
  "readCache l c =
     (case map_of (cacheEntries c) (cacheKey l) of
        None \<Rightarrow> (None, c\<lparr>cacheMisses := cacheMisses c + 1\<rparr>)
      | Some entry \<Rightarrow> (Some (ceValue entry), touchEntry (cacheKey l) entry (c\<lparr>cacheHits := cacheHits c + 1\<rparr>)))"

text \<open>The entry used least recently, the first of several.\<close>

fun oldestOf :: "('v \<Rightarrow> nat) \<Rightarrow> ('k \<times> 'v) option \<Rightarrow> ('k \<times> 'v) list \<Rightarrow> ('k \<times> 'v) option" where
  "oldestOf used oldest [] = oldest"
| "oldestOf used oldest (entry # rest) =
     oldestOf used
       (case oldest of
          None \<Rightarrow> Some entry
        | Some o' \<Rightarrow> if used (snd entry) < used (snd o') then Some entry else oldest) rest"

definition rebuildConversationUsage :: "jsstring \<Rightarrow> TranscriptMeasureCache \<Rightarrow> TranscriptMeasureCache" where
  "rebuildConversationUsage conversationId c =
     (let lastUsedAt = fold max (map (\<lambda>(k, e). ceLastUsedAt e)
          (filter (\<lambda>(k, e). ceConversationId e = conversationId) (cacheEntries c))) 0
      in c\<lparr>conversationLastUsedAt :=
           (if lastUsedAt = 0 then AList.delete conversationId (conversationLastUsedAt c)
            else AList.update conversationId lastUsedAt (conversationLastUsedAt c))\<rparr>)"

lemma oldestOf_member: "oldestOf used oldest xs = Some x \<Longrightarrow> x \<in> set xs \<or> oldest = Some x"
  by (induction used oldest xs rule: oldestOf.induct) (auto split: option.splits if_splits)

lemma oldestOf_None [simp]: "oldestOf used oldest xs = None \<longleftrightarrow> oldest = None \<and> xs = []"
  by (induction used oldest xs rule: oldestOf.induct) (auto split: option.splits if_splits)

lemma length_delete_less: "(k, v) \<in> set xs \<Longrightarrow> length (AList.delete k xs) < length xs"
  unfolding AList.delete_eq by (rule length_filter_less) auto

function pruneEntries :: "TranscriptMeasureCache \<Rightarrow> TranscriptMeasureCache" where
  "pruneEntries c =
     (if maxEntries c < length (cacheEntries c) then
        (case oldestOf ceLastUsedAt None (cacheEntries c) of
           None \<Rightarrow> c
         | Some (key, entry) \<Rightarrow>
             pruneEntries (rebuildConversationUsage (ceConversationId entry)
               (c\<lparr>cacheEntries := AList.delete key (cacheEntries c)\<rparr>)))
      else c)"
  by auto
termination
  by (relation "measure (\<lambda>c. length (cacheEntries c))")
     (auto simp: rebuildConversationUsage_def Let_def intro!: length_delete_less dest: oldestOf_member)

function pruneConversations :: "TranscriptMeasureCache \<Rightarrow> TranscriptMeasureCache" where
  "pruneConversations c =
     (if maxConversations c < length (conversationLastUsedAt c) then
        (case oldestOf id None (conversationLastUsedAt c) of
           None \<Rightarrow> c
         | Some (conversationId, used) \<Rightarrow>
             if conversationId = [] then c
             else pruneConversations
               (c\<lparr>cacheEntries := filter (\<lambda>(k, e). ceConversationId e \<noteq> conversationId) (cacheEntries c),
                  conversationLastUsedAt := AList.delete conversationId (conversationLastUsedAt c)\<rparr>))
      else c)"
  by auto
termination
  by (relation "measure (\<lambda>c. length (conversationLastUsedAt c))")
     (auto intro!: length_delete_less dest: oldestOf_member)

declare pruneEntries.simps [simp del] pruneConversations.simps [simp del]

definition writeCache ::
  "TranscriptMeasureCacheLookup \<Rightarrow> TranscriptMeasureCacheValue \<Rightarrow> TranscriptMeasureCache \<Rightarrow> TranscriptMeasureCache" where
  "writeCache l v c =
     (let key = cacheKey l;
        entry = \<lparr>ceValue = v, ceLastUsedAt = 0, ceConversationId = luConversationId l\<rparr>
      in pruneEntries (pruneConversations
           (touchEntry key entry (c\<lparr>cacheEntries := AList.update key entry (cacheEntries c)\<rparr>))))"

subsection \<open>Measuring through the cache\<close>

definition rowFromCache ::
  "AgentTurnRenderFrame \<Rightarrow> AgentTurnSegment \<Rightarrow> TranscriptMeasureCacheRow \<Rightarrow> TranscriptMeasuredRow" where
  "rowFromCache turn segment row =
     \<lparr>mrHeight = crHeight row, mrId = frameId turn @ js '':'' @ crSegmentId row, mrSegment = segment,
      mrSegmentId = crSegmentId row, mrShowAssistantActions = crShowAssistantActions row,
      mrShowUserActions = crShowUserActions row, mrTurn = turn, mrTurnId = frameId turn, mrDisclosure = crDisclosure row\<rparr>"

text \<open>\<^verbatim>\<open>new Map\<close> keeps the last segment of an id.\<close>

fun cachedRows ::
  "AgentTurnRenderFrame \<Rightarrow> TranscriptMeasureCacheRow list \<Rightarrow> TranscriptMeasuredRow list option" where
  "cachedRows turn [] = Some []"
| "cachedRows turn (row # rows) =
     (case find (\<lambda>segment. segmentId segment = crSegmentId row) (rev (frameSegments turn)) of
        None \<Rightarrow> None
      | Some segment \<Rightarrow> map_option ((#) (rowFromCache turn segment row)) (cachedRows turn rows))"

definition rowsFromCache ::
  "AgentTurnRenderFrame \<Rightarrow> TranscriptMeasureCacheValue option \<Rightarrow> (rat \<times> TranscriptMeasuredRow list) option" where
  "rowsFromCache turn cached =
     (case cached of
        None \<Rightarrow> None
      | Some v \<Rightarrow>
          (case cachedRows turn (cvRows v) of
             None \<Rightarrow> None
           | Some rows \<Rightarrow>
               if length rows \<noteq> length (frameSegments turn) then None else Some (cvCollapsedHeight v, rows)))"

definition cacheValueFromMeasuredTurn :: "rat \<times> TranscriptMeasuredRow list \<Rightarrow> TranscriptMeasureCacheValue" where
  "cacheValueFromMeasuredTurn measured =
     \<lparr>cvCollapsedHeight = fst measured,
      cvRows = map (\<lambda>row. \<lparr>crHeight = mrHeight row, crSegmentId = mrSegmentId row,
          crShowAssistantActions = mrShowAssistantActions row, crShowUserActions = mrShowUserActions row,
          crDisclosure = mrDisclosure row\<rparr>) (snd measured)\<rparr>"

definition measureLookup ::
  "rat \<Rightarrow> jsstring list \<Rightarrow> jsstring \<Rightarrow> AgentTurnRenderFrame \<Rightarrow> TranscriptTurnDisplayFooter \<Rightarrow> jsstring option \<Rightarrow>
   TranscriptMeasureCacheLookup" where
  "measureLookup contentWidth expanded conversationId turn footer userActionRowId =
     \<lparr>luContentWidth = contentWidth, luConversationId = conversationId, luTurnId = frameId turn,
      luTurnRevision = renderRevision turn, luDisplayFooterRevision = footerRevision footer,
      luUserActionRowId = userActionRowId,
      luDisclosureRevision = userMessageDisclosureRevisionForTurn turn expanded\<rparr>"

definition measureCollapsedTurnWithCache ::
  "TextMeasure \<Rightarrow> rat \<Rightarrow> jsstring list \<Rightarrow> jsstring option \<Rightarrow> AgentTurnRenderFrame \<Rightarrow> TranscriptTurnDisplayFooter \<Rightarrow>
   jsstring option \<Rightarrow> TranscriptMeasureCache option \<Rightarrow>
   (rat \<times> TranscriptMeasuredRow list) \<times> TranscriptMeasureCache option" where
  "measureCollapsedTurnWithCache M contentWidth expanded conversationId turn footer userActionRowId cache =
     (let measured = measureCollapsedTurn M contentWidth expanded turn footer userActionRowId in
      case (truthy conversationId, cache) of
        (Some conversation, Some c) \<Rightarrow>
          let lookup = measureLookup contentWidth expanded conversation turn footer userActionRowId;
            (cached, c') = readCache lookup c
          in (case rowsFromCache turn cached of
                Some rows \<Rightarrow> (rows, Some c')
              | None \<Rightarrow> (measured, Some (writeCache lookup (cacheValueFromMeasuredTurn measured) c')))
      | _ \<Rightarrow> (measured, cache))"

subsection \<open>The bounds of the cache\<close>

definition cache_tracks :: "TranscriptMeasureCache \<Rightarrow> bool" where
  "cache_tracks c =
     (distinct (map fst (cacheEntries c)) \<and> distinct (map fst (conversationLastUsedAt c)) \<and>
      (\<forall>(k, e) \<in> set (cacheEntries c). 0 < ceLastUsedAt e \<and> ceConversationId e \<in> fst ` set (conversationLastUsedAt c)) \<and>
      [] \<notin> fst ` set (conversationLastUsedAt c))"

lemma update_members: "distinct (map fst xs) \<Longrightarrow> set (AList.update k v xs) \<subseteq> insert (k, v) (set xs - {x. fst x = k})"
  by (induction xs) (auto simp: image_iff)

lemma delete_members: "set (AList.delete k xs) = {x \<in> set xs. fst x \<noteq> k}"
  by (auto simp: AList.delete_eq)

lemma update_key_set: "fst ` set (AList.update k v xs) = insert k (fst ` set xs)"
  by (simp add: dom_update)

lemma delete_keys: "fst ` set (AList.delete k xs) = fst ` set xs - {k}"
  by (force simp: delete_members)

lemma length_update_present: "k \<in> fst ` set xs \<Longrightarrow> length (AList.update k v xs) = length xs"
  by (induction xs) auto

lemma touchEntry_tracks:
  assumes "cache_tracks c" "ceConversationId entry \<noteq> []"
  shows "cache_tracks (touchEntry key entry c)"
  using assms update_members [of "cacheEntries c" key "entry\<lparr>ceLastUsedAt := cacheClock c + 1\<rparr>"]
  unfolding cache_tracks_def touchEntry_def Let_def
  by (auto simp: distinct_update update_key_set dest!: subsetD)

lemma fold_max_pos: "(0 :: nat) < fold max xs n \<longleftrightarrow> 0 < n \<or> (\<exists>x \<in> set xs. 0 < x)"
  by (induction xs arbitrary: n) (auto simp: max_def)

lemma rebuild_tracks:
  assumes "cache_tracks c"
  shows "cache_tracks (rebuildConversationUsage i (c\<lparr>cacheEntries := AList.delete key (cacheEntries c)\<rparr>))"
proof -
  let ?left = "AList.delete key (cacheEntries c)"
  let ?used = "fold max (map (\<lambda>(k, e). ceLastUsedAt e) (filter (\<lambda>(k, e). ceConversationId e = i) ?left)) 0"
  have left: "\<forall>(k, e) \<in> set ?left. 0 < ceLastUsedAt e \<and> ceConversationId e \<in> fst ` set (conversationLastUsedAt c)"
    and keys: "distinct (map fst ?left)" "distinct (map fst (conversationLastUsedAt c))"
      "[] \<notin> fst ` set (conversationLastUsedAt c)"
    using assms by (auto simp: cache_tracks_def delete_members distinct_delete)
  have used: "0 < ?used \<longleftrightarrow> (\<exists>(k, e) \<in> set ?left. ceConversationId e = i)"
    using left by (fastforce simp: fold_max_pos)
  show ?thesis
  proof (cases "?used = 0")
    case True
    with used have "\<forall>(k, e) \<in> set ?left. ceConversationId e \<noteq> i" by auto
    with True left keys show ?thesis
      by (auto simp: cache_tracks_def rebuildConversationUsage_def delete_keys distinct_delete)
  next
    case False
    with used have "i \<in> fst ` set (conversationLastUsedAt c)" using left by auto
    with False left keys show ?thesis
      by (auto simp: cache_tracks_def rebuildConversationUsage_def update_key_set distinct_update)
  qed
qed

lemma rebuild_conversations:
  assumes "cache_tracks c" "(key, entry) \<in> set (cacheEntries c)"
    "conversationLastUsedAt c' = conversationLastUsedAt c"
  shows "length (conversationLastUsedAt (rebuildConversationUsage (ceConversationId entry) c')) \<le>
    length (conversationLastUsedAt c)"
proof -
  have "ceConversationId entry \<in> fst ` set (conversationLastUsedAt c)"
    using assms(1,2) by (auto simp: cache_tracks_def)
  then show ?thesis
    using assms(3) length_delete_le [of "ceConversationId entry" "conversationLastUsedAt c"]
    by (simp add: rebuildConversationUsage_def Let_def length_update_present)
qed

lemma pruneEntries_bounds:
  "cache_tracks c \<Longrightarrow> cache_tracks (pruneEntries c) \<and> length (cacheEntries (pruneEntries c)) \<le> maxEntries c \<and>
     length (conversationLastUsedAt (pruneEntries c)) \<le> length (conversationLastUsedAt c) \<and>
     maxEntries (pruneEntries c) = maxEntries c \<and> maxConversations (pruneEntries c) = maxConversations c"
proof (induction c rule: pruneEntries.induct)
  case (1 c)
  show ?case
  proof (cases "maxEntries c < length (cacheEntries c)")
    case True
    then obtain key entry where oldest: "oldestOf ceLastUsedAt None (cacheEntries c) = Some (key, entry)"
      by (cases "oldestOf ceLastUsedAt None (cacheEntries c)") auto
    then have member: "(key, entry) \<in> set (cacheEntries c)"
      by (auto dest: oldestOf_member)
    let ?c = "rebuildConversationUsage (ceConversationId entry) (c\<lparr>cacheEntries := AList.delete key (cacheEntries c)\<rparr>)"
    have step: "pruneEntries c = pruneEntries ?c"
      using True oldest by (simp add: pruneEntries.simps [of c])
    have "cache_tracks ?c"
      by (rule rebuild_tracks [OF "1.prems"])
    moreover have "length (conversationLastUsedAt ?c) \<le> length (conversationLastUsedAt c)"
      by (rule rebuild_conversations [OF "1.prems" member]) simp
    moreover have "maxEntries ?c = maxEntries c" "maxConversations ?c = maxConversations c"
      by (simp_all add: rebuildConversationUsage_def Let_def)
    ultimately show ?thesis
      using "1.IH" [OF True oldest refl] unfolding step by simp
  qed (use "1.prems" in \<open>simp add: pruneEntries.simps [of c]\<close>)
qed

lemma forget_conversation_tracks:
  "cache_tracks c \<Longrightarrow> cache_tracks (c\<lparr>cacheEntries := filter (\<lambda>(k, e). ceConversationId e \<noteq> i) (cacheEntries c),
     conversationLastUsedAt := AList.delete i (conversationLastUsedAt c)\<rparr>)"
  by (auto simp: cache_tracks_def delete_keys distinct_delete distinct_map_filter)

lemma pruneConversations_bounds:
  "cache_tracks c \<Longrightarrow> cache_tracks (pruneConversations c) \<and>
     length (conversationLastUsedAt (pruneConversations c)) \<le> maxConversations c \<and>
     maxEntries (pruneConversations c) = maxEntries c \<and> maxConversations (pruneConversations c) = maxConversations c"
proof (induction c rule: pruneConversations.induct)
  case (1 c)
  show ?case
  proof (cases "maxConversations c < length (conversationLastUsedAt c)")
    case True
    then obtain i used where oldest: "oldestOf id None (conversationLastUsedAt c) = Some (i, used)"
      by (cases "oldestOf id None (conversationLastUsedAt c)") auto
    then have "i \<noteq> []"
      using "1.prems" by (force simp: cache_tracks_def dest: oldestOf_member)
    then show ?thesis
      using "1.IH" [OF True oldest refl] forget_conversation_tracks [OF "1.prems", of i] True oldest
      by (simp add: pruneConversations.simps [of c])
  qed (use "1.prems" in \<open>simp add: pruneConversations.simps [of c]\<close>)
qed

lemma readCache_tracks: "cache_tracks c \<Longrightarrow> cache_tracks (snd (readCache l c))"
proof (cases "map_of (cacheEntries c) (cacheKey l)")
  case (Some entry)
  assume tracks: "cache_tracks c"
  have "ceConversationId entry \<noteq> []"
    using tracks map_of_SomeD [OF Some] by (force simp: cache_tracks_def)
  moreover have "cache_tracks (c\<lparr>cacheHits := cacheHits c + 1\<rparr>)"
    using tracks by (simp add: cache_tracks_def)
  ultimately show ?thesis
    using Some by (simp add: readCache_def touchEntry_tracks)
qed (simp add: readCache_def cache_tracks_def)

lemma writeCache_bounds:
  assumes "cache_tracks c" "luConversationId l \<noteq> []"
  shows "cache_tracks (writeCache l v c) \<and> length (cacheEntries (writeCache l v c)) \<le> maxEntries c \<and>
    length (conversationLastUsedAt (writeCache l v c)) \<le> maxConversations c"
proof -
  let ?entry = "\<lparr>ceValue = v, ceLastUsedAt = 0, ceConversationId = luConversationId l\<rparr>"
  have twice: "touchEntry (cacheKey l) ?entry (c\<lparr>cacheEntries := AList.update (cacheKey l) ?entry (cacheEntries c)\<rparr>) =
      touchEntry (cacheKey l) ?entry c"
    by (simp add: touchEntry_def Let_def)
  have "cache_tracks (touchEntry (cacheKey l) ?entry c)"
    using assms by (intro touchEntry_tracks) simp_all
  from pruneConversations_bounds [OF this]
    pruneEntries_bounds [OF conjunct1 [OF pruneConversations_bounds [OF this]]]
  show ?thesis
    unfolding writeCache_def Let_def twice by (simp add: touchEntry_def Let_def)
qed

subsection \<open>A cached measurement is a measurement\<close>

definition cached_values :: "TranscriptMeasureCache \<Rightarrow> (jsstring \<times> TranscriptMeasureCacheValue) set" where
  "cached_values c = (\<lambda>(k, e). (k, ceValue e)) ` set (cacheEntries c)"

lemma update_subset: "set (AList.update k v xs) \<subseteq> insert (k, v) (set xs)"
  by (induction xs) auto

lemma touchEntry_values: "cached_values (touchEntry key entry c) \<subseteq> insert (key, ceValue entry) (cached_values c)"
  using update_subset [of key "entry\<lparr>ceLastUsedAt := cacheClock c + 1\<rparr>" "cacheEntries c"]
  by (fastforce simp: cached_values_def touchEntry_def Let_def)

lemma readCache_values:
  "cached_values (snd (readCache l c)) \<subseteq> cached_values c"
  "fst (readCache l c) = Some v \<Longrightarrow> (cacheKey l, v) \<in> cached_values c"
proof -
  have "(cacheKey l, ceValue e) \<in> cached_values c" if "map_of (cacheEntries c) (cacheKey l) = Some e" for e
    using map_of_SomeD [OF that] by (force simp: cached_values_def)
  then show "cached_values (snd (readCache l c)) \<subseteq> cached_values c"
      "fst (readCache l c) = Some v \<Longrightarrow> (cacheKey l, v) \<in> cached_values c"
    using touchEntry_values [of "cacheKey l" _ "c\<lparr>cacheHits := cacheHits c + 1\<rparr>"]
    by (fastforce simp: readCache_def cached_values_def split: option.splits)+
qed

lemma pruneEntries_values: "cached_values (pruneEntries c) \<subseteq> cached_values c"
proof (induction c rule: pruneEntries.induct)
  case (1 c)
  have "cached_values (rebuildConversationUsage i (c\<lparr>cacheEntries := AList.delete k (cacheEntries c)\<rparr>)) \<subseteq> cached_values c"
    for i k
    by (auto simp: cached_values_def rebuildConversationUsage_def Let_def delete_members)
  note smaller = order_trans [OF "1.IH" this]
  show ?case
    by (subst pruneEntries.simps) (auto split: option.split dest: subsetD [OF smaller])
qed

lemma pruneConversations_values: "cached_values (pruneConversations c) \<subseteq> cached_values c"
proof (induction c rule: pruneConversations.induct)
  case (1 c)
  have "cached_values (c\<lparr>cacheEntries := filter P (cacheEntries c), conversationLastUsedAt := u\<rparr>) \<subseteq> cached_values c" for P u
    by (auto simp: cached_values_def)
  note smaller = order_trans [OF "1.IH" this]
  show ?case
    by (subst pruneConversations.simps) (auto split: option.split dest: subsetD [OF smaller])
qed

lemma writeCache_values: "cached_values (writeCache l v c) \<subseteq> insert (cacheKey l, v) (cached_values c)"
proof -
  let ?entry = "\<lparr>ceValue = v, ceLastUsedAt = 0, ceConversationId = luConversationId l\<rparr>"
  have "cached_values (c\<lparr>cacheEntries := AList.update (cacheKey l) ?entry (cacheEntries c)\<rparr>) \<subseteq>
      insert (cacheKey l, v) (cached_values c)"
    using update_subset [of "cacheKey l" ?entry "cacheEntries c"] by (fastforce simp: cached_values_def)
  then show ?thesis
    unfolding writeCache_def Let_def
    using pruneEntries_values pruneConversations_values touchEntry_values [of "cacheKey l" ?entry] by fastforce
qed

text \<open>Fields without the separator can be read back from a key; the width is that of the viewer.\<close>

definition lookup_clean :: "TranscriptMeasureCacheLookup \<Rightarrow> bool" where
  "lookup_clean l =
     (31 \<notin> set (luConversationId l) \<and> 31 \<notin> set (luTurnId l) \<and> 31 \<notin> set (luTurnRevision l) \<and>
      31 \<notin> set (luDisplayFooterRevision l) \<and> 31 \<notin> set (or_else (luUserActionRowId l) []) \<and>
      luUserActionRowId l \<noteq> Some [])"

lemma peel_field: "c \<notin> set x \<Longrightarrow> c \<notin> set y \<Longrightarrow> x @ c # s = y @ c # t \<longleftrightarrow> x = y \<and> s = t"
proof (induction x arbitrary: y)
  case Nil
  then show ?case by (cases y) auto
next
  case (Cons a x)
  then show ?case by (cases y) auto
qed

lemma cacheKey_identifies:
  assumes "lookup_clean l" "lookup_clean l'" "luContentWidth l = luContentWidth l'" "cacheKey l = cacheKey l'"
  shows "l = l'"
proof -
  have "luConversationId l = luConversationId l'" "luTurnId l = luTurnId l'" "luTurnRevision l = luTurnRevision l'"
    "luDisplayFooterRevision l = luDisplayFooterRevision l'"
    "or_else (luUserActionRowId l) [] = or_else (luUserActionRowId l') []"
    "luDisclosureRevision l = luDisclosureRevision l'"
    using assms by (simp_all add: cacheKey_def lookup_clean_def peel_field)
  moreover from this(5) have "luUserActionRowId l = luUserActionRowId l'"
    using assms(1,2) by (auto simp: lookup_clean_def or_else_def split: option.splits)
  ultimately show ?thesis
    using assms(3) by simp
qed

text \<open>
  What was rendered: \<open>R\<close> gives the frame of a conversation, a turn and its render revision, \<open>F\<close> the footer
  of a revision.
\<close>

definition published ::
  "(jsstring \<Rightarrow> jsstring \<Rightarrow> jsstring \<Rightarrow> AgentTurnRenderFrame) \<Rightarrow> (jsstring \<Rightarrow> TranscriptTurnDisplayFooter) \<Rightarrow>
   jsstring \<Rightarrow> AgentTurnRenderFrame \<Rightarrow> TranscriptTurnDisplayFooter \<Rightarrow> bool" where
  "published R F conversation turn footer =
     (R conversation (frameId turn) (renderRevision turn) = turn \<and> F (footerRevision footer) = footer \<and>
      segment_ids_ok turn)"

definition honest_cache ::
  "TextMeasure \<Rightarrow> rat \<Rightarrow> (jsstring \<Rightarrow> jsstring \<Rightarrow> jsstring \<Rightarrow> AgentTurnRenderFrame) \<Rightarrow>
   (jsstring \<Rightarrow> TranscriptTurnDisplayFooter) \<Rightarrow> TranscriptMeasureCache \<Rightarrow> bool" where
  "honest_cache M w R F c =
     (\<forall>(k, v) \<in> cached_values c. \<exists>e conversation turn footer a.
        lookup_clean (measureLookup w e conversation turn footer a) \<and> published R F conversation turn footer \<and>
        k = cacheKey (measureLookup w e conversation turn footer a) \<and>
        v = cacheValueFromMeasuredTurn (measureCollapsedTurn M w e turn footer a))"

lemma honest_new [simp]: "honest_cache M w R F (newMeasureCache m n)"
  by (simp add: honest_cache_def newMeasureCache_def cached_values_def)

lemma honest_mono: "honest_cache M w R F c \<Longrightarrow> cached_values c' \<subseteq> cached_values c \<Longrightarrow> honest_cache M w R F c'"
  unfolding honest_cache_def by blast

lemma find_segment:
  assumes "segment_ids_ok turn" "segment \<in> set (frameSegments turn)"
  shows "find (\<lambda>s. segmentId s = segmentId segment) (rev (frameSegments turn)) = Some segment"
proof -
  obtain s where s: "find (\<lambda>s. segmentId s = segmentId segment) (rev (frameSegments turn)) = Some s"
    using assms(2) by (fastforce simp: find_None_iff)
  then have "s \<in> set (frameSegments turn)" "segmentId s = segmentId segment"
    by (auto simp: find_Some_iff) (metis length_rev nth_mem set_rev)
  then show ?thesis
    using s assms by (auto simp: segment_ids_ok_def distinct_map dest: inj_onD)
qed

lemma rows_of_cache_value:
  assumes "segment_ids_ok turn"
  shows "rowsFromCache turn (Some (cacheValueFromMeasuredTurn (measureCollapsedTurn M w e turn footer a))) =
    Some (measureCollapsedTurn M w e turn footer a)"
proof -
  let ?cached = "\<lambda>row. \<lparr>crHeight = mrHeight row, crSegmentId = mrSegmentId row,
    crShowAssistantActions = mrShowAssistantActions row, crShowUserActions = mrShowUserActions row,
    crDisclosure = mrDisclosure row\<rparr>"
  have "cachedRows turn (map ?cached (map (measureRow M w e turn a) segments)) = Some (map (measureRow M w e turn a) segments)"
    if "set segments \<subseteq> set (frameSegments turn)" for segments
    using that
  proof (induction segments)
    case (Cons segment segments)
    then have "find (\<lambda>s. segmentId s = segmentId segment) (rev (frameSegments turn)) = Some segment"
      using find_segment [OF assms] by simp
    with Cons show ?case
      by (simp add: measureRow_def Let_def rowFromCache_def)
  qed simp
  from this [OF order_refl] show ?thesis
    by (simp add: rowsFromCache_def cacheValueFromMeasuredTurn_def measureCollapsedTurn_def Let_def comp_def)
qed

lemma cached_measure:
  assumes "\<And>c. cache = Some c \<Longrightarrow> honest_cache M w R F c"
    "\<And>i. truthy conversation = Some i \<Longrightarrow> lookup_clean (measureLookup w e i turn footer a) \<and> published R F i turn footer"
  shows "fst (measureCollapsedTurnWithCache M w e conversation turn footer a cache) = measureCollapsedTurn M w e turn footer a \<and>
    (\<forall>c. snd (measureCollapsedTurnWithCache M w e conversation turn footer a cache) = Some c \<longrightarrow> honest_cache M w R F c)"
proof (cases "truthy conversation = None \<or> cache = None")
  case False
  then obtain i c where ic: "truthy conversation = Some i" "cache = Some c" by auto
  let ?l = "measureLookup w e i turn footer a" and ?m = "measureCollapsedTurn M w e turn footer a"
  note clean = assms(2) [OF ic(1), THEN conjunct1] and pub = assms(2) [OF ic(1), THEN conjunct2]
  have honest: "honest_cache M w R F (snd (readCache ?l c))"
    by (rule honest_mono [OF assms(1) [OF ic(2)] readCache_values(1)])
  have hit: "rowsFromCache turn (Some v) = Some ?m" if v: "fst (readCache ?l c) = Some v" for v
  proof -
    obtain e' i' turn' footer' a' where other: "lookup_clean (measureLookup w e' i' turn' footer' a')"
        "published R F i' turn' footer'" "cacheKey ?l = cacheKey (measureLookup w e' i' turn' footer' a')"
        "v = cacheValueFromMeasuredTurn (measureCollapsedTurn M w e' turn' footer' a')"
      using readCache_values(2) [OF v] assms(1) [OF ic(2)] unfolding honest_cache_def by fastforce
    have same: "?l = measureLookup w e' i' turn' footer' a'"
      using other(1,3) by (intro cacheKey_identifies [OF clean]) (simp_all add: measureLookup_def)
    then have fields: "i' = i" "frameId turn' = frameId turn" "renderRevision turn' = renderRevision turn"
        "footerRevision footer' = footerRevision footer" "a' = a"
      by (simp_all add: measureLookup_def)
    have ids: "segment_ids_ok turn" and turn: "turn' = turn" "footer' = footer"
      using pub other(2) fields unfolding published_def by metis+
    have "userMessageDisclosureRevisionForTurn turn e' = userMessageDisclosureRevisionForTurn turn e"
      using same turn by (simp add: measureLookup_def)
    then have "measureCollapsedTurn M w e' turn' footer' a' = ?m"
      unfolding turn fields(5) by (rule measureCollapsedTurn_disclosure [OF ids])
    with other(4) show ?thesis
      by (simp only: rows_of_cache_value [OF ids])
  qed
  have "honest_cache M w R F (writeCache ?l (cacheValueFromMeasuredTurn ?m) (snd (readCache ?l c)))"
    using honest clean pub writeCache_values [of ?l "cacheValueFromMeasuredTurn ?m" "snd (readCache ?l c)"]
    unfolding honest_cache_def by blast
  moreover obtain v c' where read: "readCache ?l c = (v, c')"
    by (cases "readCache ?l c")
  have result: "measureCollapsedTurnWithCache M w e conversation turn footer a cache =
      (case rowsFromCache turn v of
         Some rows \<Rightarrow> (rows, Some c')
       | None \<Rightarrow> (?m, Some (writeCache ?l (cacheValueFromMeasuredTurn ?m) c')))"
    by (simp add: measureCollapsedTurnWithCache_def Let_def ic read)
  ultimately show ?thesis
  proof (cases v)
    case None
    then have "rowsFromCache turn v = None" by (simp add: rowsFromCache_def)
    then show ?thesis
      using \<open>honest_cache M w R F (writeCache _ _ _)\<close> unfolding result read by simp
  next
    case (Some v')
    then have "rowsFromCache turn v = Some ?m" using hit read by simp
    then show ?thesis
      using honest unfolding result read by simp
  qed
qed (use assms(1) in \<open>auto simp: measureCollapsedTurnWithCache_def Let_def split: option.splits\<close>)

end
