(* ===== verification/TranscriptLayout.thy ===== *)
theory TranscriptLayout
  imports TranscriptCache
begin

text \<open>
  The measured transcript (transcript/layout/types.ts, measureCollapsed.ts, reconcileMeasured.ts):
  \<^verbatim>\<open>measureCollapsedTranscript\<close> measures every turn, \<^verbatim>\<open>reconcileMeasuredTranscript\<close> only those that
  changed.  Both read and write the cache of measurements, which is passed through the loop.

  Shown: reconciling gives what measuring everything from nothing gives.
\<close>

subsection \<open>Measured turns\<close>

record TranscriptMeasuredTurn =
  mtCollapsedHeight :: rat
  mtCollapsedTop :: rat
  mtRevision :: jsstring
  mtRows :: "TranscriptMeasuredRow list"
  mtDisplayFooter :: TranscriptTurnDisplayFooter
  mtTurn :: AgentTurnRenderFrame
  mtTurnId :: jsstring
  mtDisclosureRevision :: jsstring

record TranscriptMeasuredLayout =
  layoutContentWidth :: rat
  layoutTotalHeight :: rat
  layoutTurns :: "TranscriptMeasuredTurn list"
  layoutTurnsById :: "(jsstring \<times> TranscriptMeasuredTurn) list"
  layoutWidth :: rat

definition footerOf :: "(jsstring \<times> TranscriptTurnDisplayFooter) list \<Rightarrow> jsstring \<Rightarrow> TranscriptTurnDisplayFooter" where
  "footerOf footers turnId = or_else (map_of footers turnId) emptyDisplayFooter"

definition measuredTurnOf ::
  "jsstring list \<Rightarrow> (jsstring \<times> TranscriptTurnDisplayFooter) list \<Rightarrow> AgentTurnRenderFrame \<Rightarrow>
   rat \<times> TranscriptMeasuredRow list \<Rightarrow> TranscriptMeasuredTurn" where
  "measuredTurnOf expanded footers turn measured =
     \<lparr>mtCollapsedHeight = fst measured, mtCollapsedTop = 0, mtRevision = renderRevision turn, mtRows = snd measured,
      mtDisplayFooter = footerOf footers (frameId turn), mtTurn = turn, mtTurnId = frameId turn,
      mtDisclosureRevision = userMessageDisclosureRevisionForTurn turn expanded\<rparr>"

definition freshTurn ::
  "TextMeasure \<Rightarrow> rat \<Rightarrow> jsstring list \<Rightarrow> jsstring option \<Rightarrow> (jsstring \<times> TranscriptTurnDisplayFooter) list \<Rightarrow>
   jsstring option \<Rightarrow> AgentTurnRenderFrame \<Rightarrow> TranscriptMeasureCache option \<Rightarrow>
   TranscriptMeasuredTurn \<times> TranscriptMeasureCache option" where
  "freshTurn M contentWidth expanded conversation footers userActionRowId turn cache =
     (let (measured, cache') = measureCollapsedTurnWithCache M contentWidth expanded conversation turn
          (footerOf footers (frameId turn)) (actionRowIdForTurn userActionRowId (frameId turn)) cache
      in (measuredTurnOf expanded footers turn measured, cache'))"

text \<open>The loop over the turns, which places each below the one before.\<close>

fun placeTurns ::
  "(AgentTurnRenderFrame \<Rightarrow> 'c \<Rightarrow> TranscriptMeasuredTurn \<times> 'c) \<Rightarrow> rat \<Rightarrow> 'c \<Rightarrow> AgentTurnRenderFrame list \<Rightarrow>
   (TranscriptMeasuredTurn list \<times> rat) \<times> 'c" where
  "placeTurns measureTurn start cache [] = (([], start), cache)"
| "placeTurns measureTurn start cache (turn # turns) =
     (let (measured, cache') = measureTurn turn cache;
        ((placed, bottom), cache'') = placeTurns measureTurn (plus_num start (mtCollapsedHeight measured)) cache' turns
      in ((measured\<lparr>mtCollapsedTop := start\<rparr> # placed, bottom), cache''))"

definition layoutOf :: "rat \<Rightarrow> TranscriptMeasuredTurn list \<times> rat \<Rightarrow> TranscriptMeasuredLayout" where
  "layoutOf width placed =
     \<lparr>layoutContentWidth = max 1 width, layoutTotalHeight = snd placed, layoutTurns = fst placed,
      layoutTurnsById = fold (\<lambda>t. AList.update (mtTurnId t) t) (fst placed) [], layoutWidth = width\<rparr>"

definition measureCollapsedTranscript ::
  "TextMeasure \<Rightarrow> jsstring list \<Rightarrow> jsstring option \<Rightarrow> AgentTurnRenderFrame list \<Rightarrow>
   (jsstring \<times> TranscriptTurnDisplayFooter) list \<Rightarrow> rat \<Rightarrow> TranscriptMeasureCache option \<Rightarrow>
   TranscriptMeasuredLayout \<times> TranscriptMeasureCache option" where
  "measureCollapsedTranscript M expanded conversation turns footers width cache =
     (let (placed, cache') = placeTurns (freshTurn M (max 1 width) expanded conversation footers
          (latestUserMessageActionRowId turns)) 0 cache turns
      in (layoutOf width placed, cache'))"

subsection \<open>Reconciling\<close>

record ReconcileInput =
  conversationIdOf :: "jsstring option"
  dirtyTurnIds :: "jsstring list option"
  expandedUserMessages :: "jsstring list"
  forceFullMeasure :: bool
  previousTurnOrder :: "jsstring list"
  previousTurnsById :: "(jsstring \<times> TranscriptMeasuredTurn) list"
  reconciledTurns :: "AgentTurnRenderFrame list"
  displayFooters :: "(jsstring \<times> TranscriptTurnDisplayFooter) list"
  reconciledWidth :: rat

definition previousFrames :: "ReconcileInput \<Rightarrow> AgentTurnRenderFrame list" where
  "previousFrames q =
     concat (map (\<lambda>i. case map_of (previousTurnsById q) i of None \<Rightarrow> [] | Some p \<Rightarrow> [mtTurn p]) (previousTurnOrder q))"

definition canReusePreviousTurn ::
  "ReconcileInput \<Rightarrow> AgentTurnRenderFrame \<Rightarrow> TranscriptMeasuredTurn \<Rightarrow> bool" where
  "canReusePreviousTurn q turn p =
     (\<not> forceFullMeasure q \<and>
      (case dirtyTurnIds q of None \<Rightarrow> True | Some dirty \<Rightarrow> frameId turn \<notin> set dirty) \<and>
      mtRevision p = renderRevision turn \<and>
      footerRevision (mtDisplayFooter p) = footerRevision (footerOf (displayFooters q) (frameId turn)) \<and>
      mtDisclosureRevision p = userMessageDisclosureRevisionForTurn turn (expandedUserMessages q) \<and>
      actionRowIdForTurn (latestUserMessageActionRowId (previousFrames q)) (frameId turn) =
        actionRowIdForTurn (latestUserMessageActionRowId (reconciledTurns q)) (frameId turn) \<and>
      map mrSegmentId (mtRows p) = map segmentId (frameSegments turn))"

definition reusedTurn ::
  "ReconcileInput \<Rightarrow> AgentTurnRenderFrame \<Rightarrow> TranscriptMeasuredTurn \<Rightarrow> TranscriptMeasuredTurn" where
  "reusedTurn q turn previous =
     previous\<lparr>mtRows := map2 (\<lambda>row segment. row\<lparr>mrSegment := segment, mrTurn := turn\<rparr>) (mtRows previous)
         (frameSegments turn),
       mtTurn := turn, mtDisplayFooter := footerOf (displayFooters q) (frameId turn)\<rparr>"

definition reconciledTurn ::
  "TextMeasure \<Rightarrow> ReconcileInput \<Rightarrow> AgentTurnRenderFrame \<Rightarrow> TranscriptMeasureCache option \<Rightarrow>
   TranscriptMeasuredTurn \<times> TranscriptMeasureCache option" where
  "reconciledTurn M q turn cache =
     (let fresh = freshTurn M (max 1 (reconciledWidth q)) (expandedUserMessages q) (conversationIdOf q) (displayFooters q)
          (latestUserMessageActionRowId (reconciledTurns q)) turn cache
      in case map_of (previousTurnsById q) (frameId turn) of
           None \<Rightarrow> fresh
         | Some previous \<Rightarrow>
             if canReusePreviousTurn q turn previous then (reusedTurn q turn previous, cache) else fresh)"

definition reconcileMeasuredTranscript ::
  "TextMeasure \<Rightarrow> ReconcileInput \<Rightarrow> TranscriptMeasureCache option \<Rightarrow>
   TranscriptMeasuredLayout \<times> TranscriptMeasureCache option" where
  "reconcileMeasuredTranscript M q cache =
     (let (placed, cache') = placeTurns (reconciledTurn M q) 0 cache (reconciledTurns q)
      in (layoutOf (reconciledWidth q) placed, cache'))"

subsection \<open>Measuring without a cache\<close>

definition pureTurn ::
  "TextMeasure \<Rightarrow> rat \<Rightarrow> jsstring list \<Rightarrow> (jsstring \<times> TranscriptTurnDisplayFooter) list \<Rightarrow> jsstring option \<Rightarrow>
   AgentTurnRenderFrame \<Rightarrow> TranscriptMeasuredTurn" where
  "pureTurn M contentWidth expanded footers userActionRowId turn =
     measuredTurnOf expanded footers turn (measureCollapsedTurn M contentWidth expanded turn
       (footerOf footers (frameId turn)) (actionRowIdForTurn userActionRowId (frameId turn)))"

fun placed_turns :: "(AgentTurnRenderFrame \<Rightarrow> TranscriptMeasuredTurn) \<Rightarrow> rat \<Rightarrow> AgentTurnRenderFrame list \<Rightarrow>
   TranscriptMeasuredTurn list \<times> rat" where
  "placed_turns measureTurn start [] = ([], start)"
| "placed_turns measureTurn start (turn # turns) =
     (let (placed, bottom) = placed_turns measureTurn (plus_num start (mtCollapsedHeight (measureTurn turn))) turns
      in ((measureTurn turn)\<lparr>mtCollapsedTop := start\<rparr> # placed, bottom))"

text \<open>
  A loop whose measurements are those of \<open>f\<close>, whatever the cache holds as long as it keeps to \<open>I\<close>, places
  the turns as \<open>f\<close> does.
\<close>

lemma placeTurns_pure:
  assumes "I cache"
    "\<And>turn cache. turn \<in> set turns \<Longrightarrow> I cache \<Longrightarrow>
      (fst (measureTurn turn cache))\<lparr>mtCollapsedTop := 0\<rparr> = (f turn)\<lparr>mtCollapsedTop := 0\<rparr> \<and> I (snd (measureTurn turn cache))"
  shows "fst (placeTurns measureTurn start cache turns) = placed_turns f start turns \<and> I (snd (placeTurns measureTurn start cache turns))"
  using assms
proof (induction turns arbitrary: start cache)
  case (Cons turn turns)
  obtain m cache' where m: "measureTurn turn cache = (m, cache')"
    by fastforce
  have same: "m\<lparr>mtCollapsedTop := 0\<rparr> = (f turn)\<lparr>mtCollapsedTop := 0\<rparr>" and keeps: "I cache'"
    using Cons.prems(2) [of turn cache] Cons.prems(1) m by auto
  have at: "m\<lparr>mtCollapsedTop := t\<rparr> = (f turn)\<lparr>mtCollapsedTop := t\<rparr>" for t
    using arg_cong [OF same, of "mtCollapsedTop_update (\<lambda>_. t)"] by simp
  have height: "mtCollapsedHeight m = mtCollapsedHeight (f turn)"
    using arg_cong [OF same, of mtCollapsedHeight] by simp
  have "fst (placeTurns measureTurn (plus_num start (mtCollapsedHeight m)) cache' turns) =
      placed_turns f (plus_num start (mtCollapsedHeight m)) turns \<and>
      I (snd (placeTurns measureTurn (plus_num start (mtCollapsedHeight m)) cache' turns))"
    by (rule Cons.IH [OF keeps]) (use Cons.prems(2) in simp)
  then show ?case
    by (auto simp: Let_def m height at split: prod.splits)
qed simp

lemma pureTurn_top [simp]: "(pureTurn M w e f a turn)\<lparr>mtCollapsedTop := 0\<rparr> = pureTurn M w e f a turn"
  by (simp add: pureTurn_def measuredTurnOf_def)

text \<open>Without a cache, \<^verbatim>\<open>measureCollapsedTranscript\<close> is the pure measurement.\<close>

lemma measure_uncached:
  "fst (measureCollapsedTranscript M e conversation turns footers width None) =
     layoutOf width (placed_turns (pureTurn M (max 1 width) e footers (latestUserMessageActionRowId turns)) 0 turns)"
  using placeTurns_pure [of "\<lambda>c. c = None" None turns
      "freshTurn M (max 1 width) e conversation footers (latestUserMessageActionRowId turns)"
      "pureTurn M (max 1 width) e footers (latestUserMessageActionRowId turns)" 0]
  by (auto simp: measureCollapsedTranscript_def freshTurn_def pureTurn_def measuredTurnOf_def
      measureCollapsedTurnWithCache_def Let_def split: prod.splits option.splits)

subsection \<open>Where the turns stand\<close>

text \<open>Each turn begins where the one before ends; nothing of negative height moves a turn up.\<close>

lemma placed_turns_tops:
  assumes "double start = start" "\<forall>turn \<in> set turns. 0 \<le> mtCollapsedHeight (f turn)"
  shows "sorted (map mtCollapsedTop (fst (placed_turns f start turns))) \<and>
    (\<forall>m \<in> set (fst (placed_turns f start turns)). start \<le> mtCollapsedTop m) \<and>
    start \<le> snd (placed_turns f start turns)"
  using assms
proof (induction turns arbitrary: start)
  case (Cons turn turns)
  let ?next = "plus_num start (mtCollapsedHeight (f turn))"
  have "start \<le> ?next"
    using Cons.prems by (intro plus_num_increases) simp_all
  with Cons.IH [of ?next] Cons.prems(2) show ?case
    by (auto simp: Let_def split: prod.splits intro: order_trans)
qed simp

subsection \<open>Reusing a measurement is measuring\<close>

text \<open>
  What the keys of a measurement stand for: a render revision identifies a frame, a footer revision a
  footer, and what is kept was measured at this width.
\<close>

definition measured_before :: "TextMeasure \<Rightarrow> ReconcileInput \<Rightarrow> AgentTurnRenderFrame \<Rightarrow> TranscriptMeasuredTurn \<Rightarrow> bool"
  where
  "measured_before M q turn p =
     ((mtRevision p = renderRevision turn \<longrightarrow> mtTurn p = turn) \<and>
      (footerRevision (mtDisplayFooter p) = footerRevision (footerOf (displayFooters q) (frameId turn)) \<longrightarrow>
         mtDisplayFooter p = footerOf (displayFooters q) (frameId turn)) \<and>
      (\<exists>expanded footers. p\<lparr>mtCollapsedTop := 0\<rparr> = pureTurn M (max 1 (reconciledWidth q)) expanded footers
         (latestUserMessageActionRowId (previousFrames q)) (mtTurn p)))"

lemma relinked_rows:
  "map2 (\<lambda>row segment. row\<lparr>mrSegment := segment, mrTurn := turn\<rparr>) (map (measureRow M w e turn a) segments) segments =
     map (measureRow M w e turn a) segments"
  by (induction segments) (simp_all add: measureRow_def Let_def)

lemma reused_is_measured:
  assumes before: "measured_before M q turn p" and ids: "segment_ids_ok turn" and reuse: "canReusePreviousTurn q turn p"
  shows "(reusedTurn q turn p)\<lparr>mtCollapsedTop := 0\<rparr> =
    pureTurn M (max 1 (reconciledWidth q)) (expandedUserMessages q) (displayFooters q)
      (latestUserMessageActionRowId (reconciledTurns q)) turn"
proof -
  let ?w = "max 1 (reconciledWidth q)" and ?e = "expandedUserMessages q"
    and ?a = "actionRowIdForTurn (latestUserMessageActionRowId (reconciledTurns q)) (frameId turn)"
    and ?f = "footerOf (displayFooters q) (frameId turn)"
  have turn: "mtTurn p = turn" and footer: "mtDisplayFooter p = ?f"
    and revision: "mtDisclosureRevision p = userMessageDisclosureRevisionForTurn turn ?e"
    and action: "actionRowIdForTurn (latestUserMessageActionRowId (previousFrames q)) (frameId turn) = ?a"
    using before reuse unfolding measured_before_def canReusePreviousTurn_def by blast+
  obtain e footers where pure: "p\<lparr>mtCollapsedTop := 0\<rparr> = pureTurn M ?w e footers
      (latestUserMessageActionRowId (previousFrames q)) turn"
    using before turn unfolding measured_before_def by blast
  have keys: "footerOf footers (frameId turn) = ?f" "mtDisclosureRevision p = userMessageDisclosureRevisionForTurn turn e"
    using arg_cong [OF pure, of mtDisplayFooter] arg_cong [OF pure, of mtDisclosureRevision] footer
    by (simp_all add: pureTurn_def measuredTurnOf_def)
  with revision have "measureCollapsedTurn M ?w e turn (footerOf footers (frameId turn)) ?a =
      measureCollapsedTurn M ?w ?e turn ?f ?a"
    using measureCollapsedTurn_disclosure [OF ids, of e ?e M ?w ?f ?a] by simp
  with pure action revision keys
  have p: "p\<lparr>mtCollapsedTop := 0\<rparr> = pureTurn M ?w ?e (displayFooters q) (latestUserMessageActionRowId (reconciledTurns q)) turn"
    by (simp add: pureTurn_def measuredTurnOf_def)
  have rows: "mtRows p = map (measureRow M ?w ?e turn ?a) (frameSegments turn)"
    using arg_cong [OF p, of mtRows] by (simp add: pureTurn_def measuredTurnOf_def measureCollapsedTurn_def Let_def)
  have "reusedTurn q turn p = p"
    unfolding reusedTurn_def rows relinked_rows
    using rows turn footer by (metis TranscriptMeasuredTurn.surjective TranscriptMeasuredTurn.update_convs(4-6))
  with p show ?thesis by simp
qed

subsection \<open>Measuring through the cache\<close>

text \<open>
  No identifier or revision holds the separator of the fields of a cache key, and the frames and footers
  of the conversation are those published under their revisions.
\<close>

definition transcript_published ::
  "(jsstring \<Rightarrow> jsstring \<Rightarrow> jsstring \<Rightarrow> AgentTurnRenderFrame) \<Rightarrow> (jsstring \<Rightarrow> TranscriptTurnDisplayFooter) \<Rightarrow>
   jsstring \<Rightarrow> (jsstring \<times> TranscriptTurnDisplayFooter) list \<Rightarrow> AgentTurnRenderFrame list \<Rightarrow> bool" where
  "transcript_published R F conversation footers turns =
     (31 \<notin> set conversation \<and>
      (\<forall>turn \<in> set turns.
         published R F conversation turn (footerOf footers (frameId turn)) \<and>
         31 \<notin> set (frameId turn) \<and> 31 \<notin> set (renderRevision turn) \<and>
         31 \<notin> set (footerRevision (footerOf footers (frameId turn))) \<and>
         (\<forall>segment \<in> set (frameSegments turn). 31 \<notin> set (segmentId segment))))"

lemma action_row_clean:
  assumes "transcript_published R F conversation footers turns"
    "actionRowIdForTurn (latestUserMessageActionRowId turns) i = Some r"
  shows "r \<noteq> [] \<and> 31 \<notin> set r"
proof -
  obtain segment where r: "r = frameId (last turns) @ js '':'' @ segmentId segment" and nonempty: "turns \<noteq> []"
    and found: "find is_user_message (rev (frameSegments (last turns))) = Some segment"
    using assms(2) by (auto simp: actionRowIdForTurn_def latestUserMessageActionRowId_def split: option.splits if_splits)
  have "segment \<in> set (frameSegments (last turns))"
    using found by (auto simp: find_Some_iff) (metis length_rev nth_mem set_rev)
  with assms(1) nonempty show ?thesis
    unfolding r transcript_published_def by (auto simp: js_def dest: last_in_set)
qed

lemma lookups_clean:
  assumes "transcript_published R F conversation footers turns" "turn \<in> set turns"
  shows "lookup_clean (measureLookup w e conversation turn (footerOf footers (frameId turn))
      (actionRowIdForTurn (latestUserMessageActionRowId turns) (frameId turn))) \<and>
    published R F conversation turn (footerOf footers (frameId turn))"
proof -
  let ?a = "actionRowIdForTurn (latestUserMessageActionRowId turns) (frameId turn)"
  have "31 \<notin> set (or_else ?a []) \<and> ?a \<noteq> Some []"
    using action_row_clean [OF assms(1), of "frameId turn"] by (cases ?a) (auto simp: or_else_def)
  with assms show ?thesis
    by (auto simp: transcript_published_def lookup_clean_def measureLookup_def)
qed

definition honest :: "TextMeasure \<Rightarrow> rat \<Rightarrow> (jsstring \<Rightarrow> jsstring \<Rightarrow> jsstring \<Rightarrow> AgentTurnRenderFrame) \<Rightarrow>
   (jsstring \<Rightarrow> TranscriptTurnDisplayFooter) \<Rightarrow> TranscriptMeasureCache option \<Rightarrow> bool" where
  "honest M w R F cache = (case cache of None \<Rightarrow> True | Some c \<Rightarrow> honest_cache M w R F c)"

lemma honest_Some: "honest M w R F cache \<Longrightarrow> cache = Some c \<Longrightarrow> honest_cache M w R F c"
  by (simp add: honest_def)

lemma freshTurn_is_measured:
  assumes "honest M w R F cache" "turn \<in> set turns"
    "\<And>i. truthy conversation = Some i \<Longrightarrow> transcript_published R F i footers turns"
  shows "fst (freshTurn M w e conversation footers (latestUserMessageActionRowId turns) turn cache) =
      pureTurn M w e footers (latestUserMessageActionRowId turns) turn \<and>
    honest M w R F (snd (freshTurn M w e conversation footers (latestUserMessageActionRowId turns) turn cache))"
proof -
  let ?f = "footerOf footers (frameId turn)" and ?a = "actionRowIdForTurn (latestUserMessageActionRowId turns) (frameId turn)"
  have "fst (measureCollapsedTurnWithCache M w e conversation turn ?f ?a cache) = measureCollapsedTurn M w e turn ?f ?a \<and>
      (\<forall>c. snd (measureCollapsedTurnWithCache M w e conversation turn ?f ?a cache) = Some c \<longrightarrow> honest_cache M w R F c)"
    using honest_Some [OF assms(1)] lookups_clean [OF assms(3) assms(2)] by (intro cached_measure) simp_all
  then show ?thesis
    by (auto simp: freshTurn_def pureTurn_def honest_def Let_def split: prod.splits option.splits)
qed

lemma reconciled_transcript:
  assumes "honest M (max 1 (reconciledWidth q)) R F cache"
    "\<And>i. truthy (conversationIdOf q) = Some i \<Longrightarrow> transcript_published R F i (displayFooters q) (reconciledTurns q)"
    "\<And>turn p. turn \<in> set (reconciledTurns q) \<Longrightarrow> map_of (previousTurnsById q) (frameId turn) = Some p \<Longrightarrow>
      measured_before M q turn p"
    "\<And>turn. turn \<in> set (reconciledTurns q) \<Longrightarrow> segment_ids_ok turn"
  shows "fst (reconcileMeasuredTranscript M q cache) =
      layoutOf (reconciledWidth q) (placed_turns (pureTurn M (max 1 (reconciledWidth q)) (expandedUserMessages q)
        (displayFooters q) (latestUserMessageActionRowId (reconciledTurns q))) 0 (reconciledTurns q)) \<and>
    honest M (max 1 (reconciledWidth q)) R F (snd (reconcileMeasuredTranscript M q cache))"
proof -
  let ?w = "max 1 (reconciledWidth q)" and ?turns = "reconciledTurns q"
  let ?pure = "pureTurn M ?w (expandedUserMessages q) (displayFooters q) (latestUserMessageActionRowId ?turns)"
  have "(fst (reconciledTurn M q turn c))\<lparr>mtCollapsedTop := 0\<rparr> = (?pure turn)\<lparr>mtCollapsedTop := 0\<rparr> \<and>
      honest M ?w R F (snd (reconciledTurn M q turn c))" if "turn \<in> set ?turns" "honest M ?w R F c" for turn c
  proof -
    have fresh: "fst (freshTurn M ?w (expandedUserMessages q) (conversationIdOf q) (displayFooters q)
          (latestUserMessageActionRowId ?turns) turn c) = ?pure turn"
      "honest M ?w R F (snd (freshTurn M ?w (expandedUserMessages q) (conversationIdOf q) (displayFooters q)
          (latestUserMessageActionRowId ?turns) turn c))"
      using freshTurn_is_measured [OF that(2,1) assms(2)] by simp_all
    then show ?thesis
      using reused_is_measured [OF assms(3) [OF that(1)] assms(4) [OF that(1)]] that(2)
      by (auto simp: reconciledTurn_def Let_def split: option.splits)
  qed
  then have "fst (placeTurns (reconciledTurn M q) 0 cache ?turns) = placed_turns ?pure 0 ?turns \<and>
      honest M ?w R F (snd (placeTurns (reconciledTurn M q) 0 cache ?turns))"
    using assms(1) by (intro placeTurns_pure) simp_all
  then show ?thesis
    by (auto simp: reconcileMeasuredTranscript_def Let_def split: prod.splits)
qed

end
