(* ===== verification/TranscriptGeometry.thy ===== *)
theory TranscriptGeometry
  imports TranscriptLayout
begin

text \<open>
  The coordinates of a measured transcript (transcript/geometry/geometryIndex.ts) and the range of
  turns to render (transcript/virtualizerRange.ts).

  \<^item> The index is built once, by the constructor; its maps are lists of entries, and an array is read at
    an \<open>int\<close>, outside of which it has no element.
  \<^item> The two binary searches are loops over \<open>low\<close>, \<open>high\<close> and \<open>result\<close>; every step shortens the interval.
\<close>

subsection \<open>The index\<close>

record TranscriptExpandedRow =
  xrAdditionalHeight :: rat
  xrRowId :: jsstring
  xrTurnId :: jsstring

record TranscriptRowPosition =
  rpRowId :: jsstring
  rpScrollTop :: rat
  rpSegmentId :: jsstring
  rpTurnId :: jsstring

record TranscriptGeometry =
  geoTurns :: "TranscriptMeasuredTurn list"
  turnIndexById :: "(jsstring \<times> nat) list"
  heightByRowKey :: "(jsstring \<times> rat) list"
  heightByTurnId :: "(jsstring \<times> rat) list"
  heightBeforeTurn :: "rat list"
  totalAdditionalHeight :: rat
  totalHeight :: rat

definition expandedRowKey :: "jsstring \<Rightarrow> jsstring \<Rightarrow> jsstring" where
  "expandedRowKey turnId rowId = turnId @ [0] @ rowId"

definition add_height :: "jsstring \<Rightarrow> rat \<Rightarrow> (jsstring \<times> rat) list \<Rightarrow> (jsstring \<times> rat) list" where
  "add_height key height heights = AList.update key (plus_num (or_else (map_of heights key) 0) height) heights"

fun indexTurns :: "nat \<Rightarrow> TranscriptMeasuredTurn list \<Rightarrow> (jsstring \<times> nat) list \<Rightarrow> (jsstring \<times> nat) list" where
  "indexTurns i [] m = m"
| "indexTurns i (t # ts) m = indexTurns (Suc i) ts (AList.update (mtTurnId t) i m)"

fun addExpandedRows ::
  "(jsstring \<times> nat) list \<Rightarrow> TranscriptExpandedRow list \<Rightarrow> (jsstring \<times> rat) list \<times> (jsstring \<times> rat) list \<Rightarrow>
   (jsstring \<times> rat) list \<times> (jsstring \<times> rat) list" where
  "addExpandedRows known [] heights = heights"
| "addExpandedRows known (row # rows) (byTurn, byRow) =
     (if map_of known (xrTurnId row) = None then addExpandedRows known rows (byTurn, byRow)
      else
        let height = max 0 (xrAdditionalHeight row) in
        addExpandedRows known rows
          (add_height (xrTurnId row) height byTurn,
           add_height (expandedRowKey (xrTurnId row) (xrRowId row)) height byRow))"

fun heightsBefore :: "(jsstring \<times> rat) list \<Rightarrow> rat \<Rightarrow> TranscriptMeasuredTurn list \<Rightarrow> rat list" where
  "heightsBefore byTurn additional [] = [additional]"
| "heightsBefore byTurn additional (t # ts) =
     additional # heightsBefore byTurn (plus_num additional (or_else (map_of byTurn (mtTurnId t)) 0)) ts"

definition geometryIndex :: "TranscriptMeasuredTurn list \<Rightarrow> TranscriptExpandedRow list \<Rightarrow> TranscriptGeometry" where
  "geometryIndex turns expandedRows =
     (let known = indexTurns 0 turns [];
        (byTurn, byRow) = addExpandedRows known expandedRows ([], []);
        before = heightsBefore byTurn 0 turns;
        collapsed = (if turns = [] then 0 else plus_num (mtCollapsedTop (last turns)) (mtCollapsedHeight (last turns)))
      in \<lparr>geoTurns = turns, turnIndexById = known, heightByRowKey = byRow, heightByTurnId = byTurn,
          heightBeforeTurn = before, totalAdditionalHeight = last before, totalHeight = plus_num collapsed (last before)\<rparr>)"

definition element :: "'a list \<Rightarrow> int \<Rightarrow> 'a option" where
  "element xs i = (if 0 \<le> i \<and> i < int (length xs) then Some (xs ! nat i) else None)"

definition heightAfterRow :: "TranscriptGeometry \<Rightarrow> jsstring \<Rightarrow> jsstring \<Rightarrow> rat" where
  "heightAfterRow G turnId rowId = or_else (map_of (heightByRowKey G) (expandedRowKey turnId rowId)) 0"

definition heightBeforeTurnIndex :: "TranscriptGeometry \<Rightarrow> int \<Rightarrow> rat" where
  "heightBeforeTurnIndex G i =
     (if i \<le> 0 then 0
      else if int (length (geoTurns G)) \<le> i then totalAdditionalHeight G
      else or_else (element (heightBeforeTurn G) i) 0)"

definition heightInsideTurn :: "TranscriptGeometry \<Rightarrow> jsstring \<Rightarrow> rat" where
  "heightInsideTurn G turnId = or_else (map_of (heightByTurnId G) turnId) 0"

definition indexOfTurn :: "TranscriptGeometry \<Rightarrow> jsstring option \<Rightarrow> int" where
  "indexOfTurn G turnId =
     (case truthy turnId of
        None \<Rightarrow> - 1
      | Some i \<Rightarrow> (case map_of (turnIndexById G) i of None \<Rightarrow> - 1 | Some n \<Rightarrow> int n))"

definition turnTop :: "TranscriptGeometry \<Rightarrow> int \<Rightarrow> rat" where
  "turnTop G i =
     (case element (geoTurns G) i of
        None \<Rightarrow> 0
      | Some t \<Rightarrow> plus_num (mtCollapsedTop t) (heightBeforeTurnIndex G i))"

definition turnBottom :: "TranscriptGeometry \<Rightarrow> int \<Rightarrow> rat" where
  "turnBottom G i =
     (case element (geoTurns G) i of
        None \<Rightarrow> 0
      | Some t \<Rightarrow> plus_num (plus_num (turnTop G i) (mtCollapsedHeight t)) (heightInsideTurn G (mtTurnId t)))"

text \<open>
  One round of the binary searches, on \<open>low\<close>, \<open>high\<close> and \<open>result\<close>, and the loops \<^verbatim>\<open>while (low <= high)\<close>.
\<close>

definition searchFirstRound :: "(int \<Rightarrow> bool) \<Rightarrow> int \<times> int \<times> int \<Rightarrow> int \<times> int \<times> int" where
  "searchFirstRound P s =
     (case s of (low, high, result) \<Rightarrow>
        let middle = (low + high) div 2 in
        if P middle then (low, middle - 1, middle) else (middle + 1, high, result))"

definition searchLastRound :: "(int \<Rightarrow> bool) \<Rightarrow> int \<times> int \<times> int \<Rightarrow> int \<times> int \<times> int" where
  "searchLastRound P s =
     (case s of (low, high, result) \<Rightarrow>
        let middle = (low + high) div 2 in
        if P middle then (middle + 1, high, middle) else (low, middle - 1, result))"

function searchFirst :: "(int \<Rightarrow> bool) \<Rightarrow> int \<times> int \<times> int \<Rightarrow> int" where
  "searchFirst P s = (if fst s \<le> fst (snd s) then searchFirst P (searchFirstRound P s) else snd (snd s))"
  by auto
termination
  by (relation "measure (\<lambda>(P, low, high, result). nat (high - low + 1))") (auto simp: searchFirstRound_def Let_def)

function searchLast :: "(int \<Rightarrow> bool) \<Rightarrow> int \<times> int \<times> int \<Rightarrow> int" where
  "searchLast P s = (if fst s \<le> fst (snd s) then searchLast P (searchLastRound P s) else snd (snd s))"
  by auto
termination
  by (relation "measure (\<lambda>(P, low, high, result). nat (high - low + 1))") (auto simp: searchLastRound_def Let_def)

declare searchFirst.simps [simp del] searchLast.simps [simp del]

definition firstTurnWithBottomAfter :: "TranscriptGeometry \<Rightarrow> rat \<Rightarrow> int" where
  "firstTurnWithBottomAfter G target =
     (if geoTurns G = [] then - 1
      else
        let high = int (length (geoTurns G)) - 1 in
        searchFirst (\<lambda>i. target \<le> turnBottom G i) (0, high, high))"

definition lastTurnWithTopBefore :: "TranscriptGeometry \<Rightarrow> rat \<Rightarrow> int" where
  "lastTurnWithTopBefore G target =
     (if geoTurns G = [] then - 1
      else searchLast (\<lambda>i. turnTop G i \<le> target) (0, int (length (geoTurns G)) - 1, 0))"

fun positionsOfRows ::
  "TranscriptGeometry \<Rightarrow> rat \<Rightarrow> jsstring \<Rightarrow> rat \<Rightarrow> TranscriptMeasuredRow list \<Rightarrow> TranscriptRowPosition list" where
  "positionsOfRows G topPadding turnId rowTop [] = []"
| "positionsOfRows G topPadding turnId rowTop (row # rows) =
     \<lparr>rpRowId = mrId row, rpScrollTop = plus_num topPadding rowTop, rpSegmentId = mrSegmentId row, rpTurnId = turnId\<rparr> #
     positionsOfRows G topPadding turnId
       (plus_num rowTop (plus_num (mrHeight row) (heightAfterRow G turnId (mrId row)))) rows"

definition rowPositions :: "TranscriptGeometry \<Rightarrow> rat \<Rightarrow> TranscriptRowPosition list" where
  "rowPositions G topPadding =
     concat (map (\<lambda>(i, t). positionsOfRows G topPadding (mtTurnId t) (turnTop G (int i)) (mtRows t))
       (enumerate 0 (geoTurns G)))"

subsection \<open>The range to render\<close>

record TranscriptVirtualRange =
  activeTurnIds :: "jsstring list"
  bottomSpacerHeight :: rat
  firstActiveIndex :: int
  lastActiveIndex :: int
  topSpacerHeight :: rat

definition emptyRange :: TranscriptVirtualRange where
  "emptyRange = \<lparr>activeTurnIds = [], bottomSpacerHeight = 0, firstActiveIndex = - 1, lastActiveIndex = - 1,
     topSpacerHeight = 0\<rparr>"

definition rangeFromIndexes ::
  "TranscriptGeometry \<Rightarrow> int \<Rightarrow> int \<Rightarrow> TranscriptMeasuredTurn list \<Rightarrow> TranscriptVirtualRange" where
  "rangeFromIndexes G firstIndex lastIndex turns =
     (if element turns firstIndex = None \<or> element turns lastIndex = None then emptyRange
      else \<lparr>activeTurnIds = map mtTurnId (drop (nat firstIndex) (take (nat (lastIndex + 1)) turns)),
        bottomSpacerHeight =
          (if lastIndex = int (length turns) - 1 then 0 else max 0 (minus_num (totalHeight G) (turnBottom G lastIndex))),
        firstActiveIndex = firstIndex, lastActiveIndex = lastIndex,
        topSpacerHeight = (if firstIndex = 0 then 0 else turnTop G firstIndex)\<rparr>)"

text \<open>\<^verbatim>\<open>geometry ?? new TranscriptGeometryIndex(turns, expandedRows)\<close>.\<close>

definition indexFor ::
  "TranscriptGeometry option \<Rightarrow> TranscriptMeasuredTurn list \<Rightarrow> TranscriptExpandedRow list \<Rightarrow> TranscriptGeometry" where
  "indexFor geometry turns expandedRows = or_else geometry (geometryIndex turns expandedRows)"

definition computeTranscriptVirtualRange ::
  "TranscriptGeometry option \<Rightarrow> int \<Rightarrow> TranscriptExpandedRow list \<Rightarrow> rat \<Rightarrow> rat \<Rightarrow> TranscriptMeasuredTurn list \<Rightarrow> rat \<Rightarrow>
   TranscriptVirtualRange" where
  "computeTranscriptVirtualRange geometry overscanTurns expandedRows scrollTop topPadding turns viewportHeight =
     (if turns = [] then emptyRange
      else
        let contentTop = max 0 (minus_num scrollTop topPadding);
          contentBottom = max 0 (minus_num (plus_num scrollTop viewportHeight) topPadding);
          G = indexFor geometry turns expandedRows;
          firstVisible = firstTurnWithBottomAfter G contentTop;
          lastVisible = lastTurnWithTopBefore G contentBottom
        in rangeFromIndexes G (max 0 (firstVisible - overscanTurns))
             (min (int (length turns) - 1) (lastVisible + overscanTurns)) turns)"

definition computeTranscriptSpacerRange ::
  "jsstring list \<Rightarrow> TranscriptExpandedRow list \<Rightarrow> TranscriptGeometry option \<Rightarrow> TranscriptMeasuredTurn list \<Rightarrow>
   TranscriptVirtualRange" where
  "computeTranscriptSpacerRange activeIds expandedRows geometry turns =
     (if turns = [] \<or> activeIds = [] then emptyRange
      else
        let G = indexFor geometry turns expandedRows;
          firstIndex = indexOfTurn G (Some (hd activeIds));
          lastIndex = indexOfTurn G (Some (last activeIds))
        in if firstIndex = - 1 \<or> lastIndex = - 1 \<or> lastIndex < firstIndex then emptyRange
           else rangeFromIndexes G firstIndex lastIndex turns)"

definition transcriptOverscanTurns :: int where
  "transcriptOverscanTurns = 10"

definition transcriptInitialRenderTurns :: int where
  "transcriptInitialRenderTurns = transcriptOverscanTurns * 2"

definition initialTranscriptActiveTurnIds :: "TranscriptMeasuredTurn list \<Rightarrow> jsstring list" where
  "initialTranscriptActiveTurnIds turns =
     map mtTurnId (drop (nat (max 0 (int (length turns) - transcriptInitialRenderTurns))) turns)"

definition sameTurnIds :: "jsstring list \<Rightarrow> jsstring list \<Rightarrow> bool" where
  "sameTurnIds left right = (length left = length right \<and> list_all2 (=) left right)"

lemma sameTurnIds_iff [simp]: "sameTurnIds left right \<longleftrightarrow> left = right"
  by (auto simp: sameTurnIds_def list.rel_eq)

subsection \<open>The searches are linear searches\<close>

text \<open>On a predicate that, once true, stays true.\<close>

lemma searchFirst_spec:
  assumes "\<And>i j. low \<le> i \<Longrightarrow> i \<le> j \<Longrightarrow> j \<le> high \<Longrightarrow> P i \<Longrightarrow> P j"
  shows "searchFirst P (low, high, result) = (case find P [low..high] of None \<Rightarrow> result | Some i \<Rightarrow> i)"
  using assms
proof (induction P "(low, high, result)" arbitrary: low high result rule: searchFirst.induct)
  case (1 P low high result)
  show ?case
  proof (cases "low \<le> high")
    case True
    let ?m = "(low + high) div 2"
    have m: "low \<le> ?m" "?m \<le> high" using True by auto
    then have split: "[low..high] = [low..?m - 1] @ ?m # [?m + 1..high]"
      by (rule upto_split3)
    show ?thesis
    proof (cases "P ?m")
      case Pm: True
      have round: "searchFirstRound P (low, high, result) = (low, ?m - 1, ?m)"
        using Pm by (simp add: searchFirstRound_def Let_def)
      have "searchFirst P (low, ?m - 1, ?m) = (case find P [low..?m - 1] of None \<Rightarrow> ?m | Some i \<Rightarrow> i)"
        by (rule "1.hyps" [OF _ round]) (use True m in \<open>auto elim!: "1.prems" [rotated 3]\<close>)
      with True Pm round show ?thesis
        by (simp add: searchFirst.simps [of P "(low, high, result)"] split find_append split: option.split)
    next
      case Pm: False
      have round: "searchFirstRound P (low, high, result) = (?m + 1, high, result)"
        using Pm by (simp add: searchFirstRound_def Let_def)
      have "\<not> P i" if "low \<le> i" "i \<le> ?m - 1" for i
        using "1.prems" [of i ?m] m Pm that by auto
      then have "find P [low..?m - 1] = None"
        by (auto simp: find_None_iff)
      moreover have "searchFirst P (?m + 1, high, result) = (case find P [?m + 1..high] of None \<Rightarrow> result | Some i \<Rightarrow> i)"
        by (rule "1.hyps" [OF _ round]) (use True m in \<open>auto elim!: "1.prems" [rotated 3]\<close>)
      ultimately show ?thesis
        using True Pm round by (simp add: searchFirst.simps [of P "(low, high, result)"] split find_append)
    qed
  qed (simp add: searchFirst.simps)
qed

text \<open>Searching for the last is searching for the first in the mirrored interval; here directly.\<close>

lemma searchLast_spec:
  assumes "\<And>i j. low \<le> i \<Longrightarrow> i \<le> j \<Longrightarrow> j \<le> high \<Longrightarrow> P j \<Longrightarrow> P i"
  shows "searchLast P (low, high, result) = (case find P (rev [low..high]) of None \<Rightarrow> result | Some i \<Rightarrow> i)"
  using assms
proof (induction P "(low, high, result)" arbitrary: low high result rule: searchLast.induct)
  case (1 P low high result)
  show ?case
  proof (cases "low \<le> high")
    case True
    let ?m = "(low + high) div 2"
    have m: "low \<le> ?m" "?m \<le> high" using True by auto
    then have split: "[low..high] = [low..?m - 1] @ ?m # [?m + 1..high]"
      by (rule upto_split3)
    show ?thesis
    proof (cases "P ?m")
      case Pm: True
      have round: "searchLastRound P (low, high, result) = (?m + 1, high, ?m)"
        using Pm by (simp add: searchLastRound_def Let_def)
      have "searchLast P (?m + 1, high, ?m) = (case find P (rev [?m + 1..high]) of None \<Rightarrow> ?m | Some i \<Rightarrow> i)"
        by (rule "1.hyps" [OF _ round]) (use True m in \<open>auto elim!: "1.prems" [rotated 3]\<close>)
      with True Pm round show ?thesis
        by (simp add: searchLast.simps [of P "(low, high, result)"] split find_append split: option.split)
    next
      case Pm: False
      have round: "searchLastRound P (low, high, result) = (low, ?m - 1, result)"
        using Pm by (simp add: searchLastRound_def Let_def)
      have "\<not> P i" if "?m + 1 \<le> i" "i \<le> high" for i
        using "1.prems" [of ?m i] m Pm that by auto
      then have "find P (rev [?m + 1..high]) = None"
        by (auto simp: find_None_iff)
      moreover have "searchLast P (low, ?m - 1, result) = (case find P (rev [low..?m - 1]) of None \<Rightarrow> result | Some i \<Rightarrow> i)"
        by (rule "1.hyps" [OF _ round]) (use True m in \<open>auto elim!: "1.prems" [rotated 3]\<close>)
      ultimately show ?thesis
        using True Pm round by (simp add: searchLast.simps [of P "(low, high, result)"] split find_append)
    qed
  qed (simp add: searchLast.simps)
qed

subsection \<open>The number of rounds\<close>

text \<open>Every round halves the interval, so \<open>k\<close> rounds are enough for less than \<open>2 ^ k\<close> turns.\<close>

definition halves :: "(int \<times> int \<times> int \<Rightarrow> int \<times> int \<times> int) \<Rightarrow> bool" where
  "halves step = (\<forall>low high result low' high' result'.
     step (low, high, result) = (low', high', result') \<longrightarrow> low \<le> high \<longrightarrow> 2 * (high' - low' + 1) \<le> high - low + 1)"

lemma rounds_halve: "halves (searchFirstRound P)" "halves (searchLastRound P)"
  by (auto simp: halves_def searchFirstRound_def searchLastRound_def Let_def split: if_splits)

fun rounds :: "(int \<times> int \<times> int \<Rightarrow> int \<times> int \<times> int) \<Rightarrow> nat \<Rightarrow> int \<times> int \<times> int \<Rightarrow> int \<times> int \<times> int" where
  "rounds step 0 s = s"
| "rounds step (Suc k) s = rounds step k (if fst s \<le> fst (snd s) then step s else s)"

lemma rounds_end:
  assumes "halves step" "high - low + 1 < 2 ^ k"
  shows "\<exists>low' high' result'. rounds step k (low, high, result) = (low', high', result') \<and> high' < low'"
  using assms
proof (induction k arbitrary: low high result)
  case (Suc k)
  obtain low' high' result' where step: "step (low, high, result) = (low', high', result')"
    by (cases "step (low, high, result)")
  show ?case
  proof (cases "low \<le> high")
    case True
    with Suc.prems step have "2 * (high' - low' + 1) \<le> high - low + 1"
      unfolding halves_def by blast
    with Suc.prems(2) have "high' - low' + 1 < 2 ^ k" by simp
    from Suc.IH [OF Suc.prems(1) this] True step show ?thesis by simp
  next
    case False
    have "high - low + 1 \<le> 0" using False by simp
    also have "\<dots> < 2 ^ k" by simp
    finally have "high - low + 1 < 2 ^ k" .
    from Suc.IH [OF Suc.prems(1) this] False show ?thesis by simp
  qed
qed auto

lemma searchFirst_rounds:
  assumes "rounds (searchFirstRound P) k s = (low', high', result')" "high' < low'"
  shows "searchFirst P s = result'"
  using assms
proof (induction k arbitrary: s)
  case 0
  then show ?case by (simp add: searchFirst.simps [of P "(low', high', result')"])
next
  case (Suc k)
  have "searchFirst P s = searchFirst P (if fst s \<le> fst (snd s) then searchFirstRound P s else s)"
    by (simp add: searchFirst.simps [of P s])
  also have "\<dots> = result'"
    using Suc.IH Suc.prems by simp
  finally show ?case .
qed

lemma searchLast_rounds:
  assumes "rounds (searchLastRound P) k s = (low', high', result')" "high' < low'"
  shows "searchLast P s = result'"
  using assms
proof (induction k arbitrary: s)
  case 0
  then show ?case by (simp add: searchLast.simps [of P "(low', high', result')"])
next
  case (Suc k)
  have "searchLast P s = searchLast P (if fst s \<le> fst (snd s) then searchLastRound P s else s)"
    by (simp add: searchLast.simps [of P s])
  also have "\<dots> = result'"
    using Suc.IH Suc.prems by simp
  finally show ?case .
qed

subsection \<open>What is visible is rendered\<close>

abbreviation turn_indices :: "TranscriptMeasuredTurn list \<Rightarrow> int list" where
  "turn_indices turns \<equiv> [0..int (length turns) - 1]"

lemma find_upto_first:
  assumes "P i" "low \<le> i" "i \<le> high"
  obtains j where "find P [low..high] = Some j" "low \<le> j" "j \<le> i"
proof -
  obtain j where j: "find P [low..high] = Some j"
    using assms by (cases "find P [low..high]") (auto simp: find_None_iff)
  then obtain k where k: "k < length [low..high]" "[low..high] ! k = j" "\<forall>l<k. \<not> P ([low..high] ! l)"
    by (auto simp: find_Some_iff)
  have "\<not> i < j"
  proof
    assume "i < j"
    with k assms have "nat (i - low) < k" by (simp add: nth_upto)
    with k(3) assms show False by (auto simp: nth_upto)
  qed
  with j k show ?thesis by (intro that [of j]) (auto simp: nth_upto)
qed

lemma find_upto_last:
  assumes "P i" "low \<le> i" "i \<le> high"
  obtains j where "find P (rev [low..high]) = Some j" "i \<le> j" "j \<le> high"
proof -
  obtain j where j: "find P (rev [low..high]) = Some j"
    using assms by (cases "find P (rev [low..high])") (auto simp: find_None_iff)
  then obtain k where k: "k < length [low..high]" "rev [low..high] ! k = j" "\<forall>l<k. \<not> P (rev [low..high] ! l)"
    by (auto simp: find_Some_iff)
  have at: "rev [low..high] ! l = high - int l" if "l < length [low..high]" for l
    using that by (simp add: rev_nth nth_upto)
  have "\<not> j < i"
  proof
    assume "j < i"
    with k assms at have "nat (high - i) < k" by auto
    with k(1,3) assms at show False by auto
  qed
  with j k at show ?thesis by (intro that [of j]) auto
qed

lemma sorted_upto_mono:
  assumes "sorted (map f [low..high])" "low \<le> i" "i \<le> j" "j \<le> high"
  shows "f i \<le> f (j :: int)"
proof -
  have "map f [low..high] ! nat (i - low) \<le> map f [low..high] ! nat (j - low)"
    using assms by (intro sorted_nth_mono) auto
  with assms show ?thesis by (simp add: nth_upto)
qed

lemma visible_between:
  assumes "sorted (map (turnTop G) (turn_indices turns))" "sorted (map (turnBottom G) (turn_indices turns))"
    "geoTurns G = turns" "0 \<le> i" "i < int (length turns)"
  shows "contentTop \<le> turnBottom G i \<Longrightarrow> 0 \<le> firstTurnWithBottomAfter G contentTop \<and> firstTurnWithBottomAfter G contentTop \<le> i"
    and "turnTop G i \<le> contentBottom \<Longrightarrow>
      i \<le> lastTurnWithTopBefore G contentBottom \<and> lastTurnWithTopBefore G contentBottom < int (length turns)"
proof -
  have nonempty: "turns \<noteq> []" using assms(4,5) by auto
  { assume "contentTop \<le> turnBottom G i"
    moreover have "searchFirst (\<lambda>i. contentTop \<le> turnBottom G i) (0, int (length turns) - 1, int (length turns) - 1) =
        (case find (\<lambda>i. contentTop \<le> turnBottom G i) (turn_indices turns) of None \<Rightarrow> int (length turns) - 1 | Some i \<Rightarrow> i)"
      by (rule searchFirst_spec) (use sorted_upto_mono [OF assms(2)] in \<open>blast intro: order_trans\<close>)
    ultimately show "0 \<le> firstTurnWithBottomAfter G contentTop \<and> firstTurnWithBottomAfter G contentTop \<le> i"
      using assms(3-5) nonempty
      by (auto simp: firstTurnWithBottomAfter_def Let_def
          elim!: find_upto_first [of "\<lambda>i. contentTop \<le> turnBottom G i" i 0 "int (length turns) - 1"]) }
  { assume "turnTop G i \<le> contentBottom"
    moreover have "searchLast (\<lambda>i. turnTop G i \<le> contentBottom) (0, int (length turns) - 1, 0) =
        (case find (\<lambda>i. turnTop G i \<le> contentBottom) (rev (turn_indices turns)) of None \<Rightarrow> 0 | Some i \<Rightarrow> i)"
      by (rule searchLast_spec) (use sorted_upto_mono [OF assms(1)] in \<open>blast intro: order_trans\<close>)
    ultimately show "i \<le> lastTurnWithTopBefore G contentBottom \<and> lastTurnWithTopBefore G contentBottom < int (length turns)"
      using assms(3-5) nonempty
      by (auto simp: lastTurnWithTopBefore_def
          elim!: find_upto_last [of "\<lambda>i. turnTop G i \<le> contentBottom" i 0 "int (length turns) - 1"]) }
qed

lemma slice_member:
  assumes "0 \<le> f" "f \<le> int i" "int i \<le> l" "l < int (length xs)"
  shows "xs ! i \<in> set (drop (nat f) (take (nat (l + 1)) xs))"
proof -
  have i: "nat f \<le> i" "i < nat (l + 1)" "nat (l + 1) \<le> length xs" using assms by auto
  then have "drop (nat f) (take (nat (l + 1)) xs) ! (i - nat f) = xs ! i" by simp
  moreover have "i - nat f < length (drop (nat f) (take (nat (l + 1)) xs))" using i by auto
  ultimately show ?thesis by (metis nth_mem)
qed

lemma visible_rendered:
  assumes "sorted (map (turnTop G) (turn_indices turns))" "sorted (map (turnBottom G) (turn_indices turns))"
    "G = indexFor geometry turns rows" "geoTurns G = turns" "0 \<le> overscan" "i < length turns"
    "max 0 (minus_num scrollTop topPadding) \<le> turnBottom G (int i)"
    "turnTop G (int i) \<le> max 0 (minus_num (plus_num scrollTop viewportHeight) topPadding)"
  shows "mtTurnId (turns ! i) \<in>
    set (activeTurnIds (computeTranscriptVirtualRange geometry overscan rows scrollTop topPadding turns viewportHeight))"
proof -
  let ?top = "max 0 (minus_num scrollTop topPadding)"
    and ?bottom = "max 0 (minus_num (plus_num scrollTop viewportHeight) topPadding)"
  let ?first = "max 0 (firstTurnWithBottomAfter G ?top - overscan)"
    and ?last = "min (int (length turns) - 1) (lastTurnWithTopBefore G ?bottom + overscan)"
  have bounds: "0 \<le> ?first" "?first \<le> int i" "int i \<le> ?last" "?last < int (length turns)"
    using visible_between(1) [OF assms(1,2,4) _ _ assms(7)] visible_between(2) [OF assms(1,2,4) _ _ assms(8)] assms(5,6)
    by simp_all
  then have "activeTurnIds (computeTranscriptVirtualRange geometry overscan rows scrollTop topPadding turns viewportHeight) =
      map mtTurnId (drop (nat ?first) (take (nat (?last + 1)) turns))"
    using assms(6) unfolding computeTranscriptVirtualRange_def Let_def assms(3) [symmetric] rangeFromIndexes_def element_def
    by auto
  then show ?thesis
    using slice_member [OF bounds] by simp
qed

subsection \<open>The tops of an index\<close>

lemma lookup_nonneg: "\<forall>h \<in> snd ` set xs. 0 \<le> h \<Longrightarrow> (0 :: rat) \<le> or_else (map_of xs k) 0"
  by (cases "map_of xs k") (auto simp: or_else_def dest!: map_of_SomeD)

lemma add_height_nonneg:
  assumes "\<forall>h \<in> snd ` set heights. 0 \<le> h" "0 \<le> height"
  shows "\<forall>h \<in> snd ` set (add_height key height heights). 0 \<le> h"
proof -
  have "0 \<le> or_else (map_of heights key) 0"
    using assms(1) by (rule lookup_nonneg)
  then have "0 \<le> plus_num (or_else (map_of heights key) 0) height"
    using assms(2) by (intro plus_num_nonneg) simp_all
  with assms(1) update_subset [of key "plus_num (or_else (map_of heights key) 0) height" heights] show ?thesis
    by (auto simp: add_height_def)
qed

lemma addExpandedRows_nonneg:
  "\<forall>h \<in> snd ` set (fst heights). 0 \<le> h \<Longrightarrow> \<forall>h \<in> snd ` set (fst (addExpandedRows known rows heights)). 0 \<le> h"
proof (induction known rows heights rule: addExpandedRows.induct)
  case (2 known row rows byTurn byRow)
  show ?case
  proof (cases "map_of known (xrTurnId row) = None")
    case True
    with "2.IH"(1) "2.prems" show ?thesis by simp
  next
    case False
    have "\<forall>h \<in> snd ` set (add_height (xrTurnId row) (max 0 (xrAdditionalHeight row)) byTurn). 0 \<le> h"
      using "2.prems" by (intro add_height_nonneg) simp_all
    with False "2.IH"(2) [OF False refl] show ?thesis
      unfolding addExpandedRows.simps Let_def by (simp only: if_False fst_conv)
  qed
qed simp

lemma heightsBefore_sorted:
  assumes "\<forall>h \<in> snd ` set byTurn. 0 \<le> h" "double additional = additional"
  shows "sorted (heightsBefore byTurn additional ts) \<and> (\<forall>h \<in> set (heightsBefore byTurn additional ts). additional \<le> h)"
  using assms(2)
proof (induction ts arbitrary: additional)
  case (Cons t ts)
  have "0 \<le> or_else (map_of byTurn (mtTurnId t)) 0"
    using assms(1) by (rule lookup_nonneg)
  then have "additional \<le> plus_num additional (or_else (map_of byTurn (mtTurnId t)) 0)"
    using Cons.prems by (intro plus_num_increases)
  with Cons.IH [of "plus_num additional (or_else (map_of byTurn (mtTurnId t)) 0)"] show ?case
    by (auto intro: order_trans)
qed simp

lemma length_heightsBefore [simp]: "length (heightsBefore byTurn additional ts) = Suc (length ts)"
  by (induction ts arbitrary: additional) simp_all

lemma heightsBefore_0 [simp]: "heightsBefore byTurn additional ts ! 0 = additional"
  by (cases ts) simp_all

lemma geometry_turns [simp]: "geoTurns (geometryIndex turns rows) = turns"
  by (simp add: geometryIndex_def Let_def split: prod.splits)

lemma index_tops:
  assumes "i < length turns"
  shows "turnTop (geometryIndex turns rows) (int i) =
    plus_num (mtCollapsedTop (turns ! i)) (heightBeforeTurn (geometryIndex turns rows) ! i)"
proof (cases i)
  case 0
  have "heightBeforeTurn (geometryIndex turns rows) ! 0 = 0"
    by (simp add: geometryIndex_def Let_def split: prod.splits)
  with 0 assms show ?thesis
    by (simp add: turnTop_def element_def heightBeforeTurnIndex_def)
next
  case (Suc k)
  have "length (heightBeforeTurn (geometryIndex turns rows)) = Suc (length turns)"
    by (simp add: geometryIndex_def Let_def split: prod.splits)
  with Suc assms show ?thesis
    by (simp add: turnTop_def element_def heightBeforeTurnIndex_def or_else_def nat_add_distrib)
qed

lemma index_tops_sorted:
  assumes "sorted (map mtCollapsedTop turns)"
  shows "sorted (map (turnTop (geometryIndex turns rows)) (turn_indices turns))"
proof -
  have "sorted (heightBeforeTurn (geometryIndex turns rows))"
    using heightsBefore_sorted [of "fst (addExpandedRows (indexTurns 0 turns []) rows ([], []))" 0 turns]
      addExpandedRows_nonneg [of "([], [])" "indexTurns 0 turns []" rows]
    by (auto simp: geometryIndex_def Let_def split: prod.splits)
  moreover have "length (heightBeforeTurn (geometryIndex turns rows)) = Suc (length turns)"
    by (simp add: geometryIndex_def Let_def split: prod.splits)
  ultimately have "turnTop (geometryIndex turns rows) (int i) \<le> turnTop (geometryIndex turns rows) (int j)"
    if "i \<le> j" "j < length turns" for i j
    using that sorted_nth_mono [OF assms, of i j] sorted_nth_mono [of "heightBeforeTurn (geometryIndex turns rows)" i j]
    by (simp add: index_tops plus_num_mono)
  then show ?thesis
    by (simp add: sorted_iff_nth_mono nth_upto)
qed

end
