(* ===== verification/TranscriptViewport.thy ===== *)
theory TranscriptViewport
  imports TranscriptGeometry
begin

text \<open>
  Where the viewport of a transcript stands and goes (transcript/viewport/viewportTypes.ts,
  viewportReducer.ts, virtualizerScroll.ts): the intent of the viewport, who owns the scrolling, the
  anchors of the sections, navigation between them, and how a message is held at its place while the
  transcript below it grows.  The geometry is the index of the turns, given or built from them.
\<close>

subsection \<open>Intents and owners\<close>

datatype AnchorPhase = Anchored | CatchingUp

datatype AnchorReason = NavigationReason | RestoreReason | RouteFocusReason | SendReason

datatype TranscriptViewportIntent =
    BottomFollow
  | MessageAnchor jsstring AnchorPhase AnchorReason jsstring jsstring
  | FreeViewport

datatype TranscriptScrollOwner =
  IdleOwner | InitialPlacement | ProgrammaticNavigation | NativeTouch | NativeMomentum

datatype TranscriptNativeScrollEvent = ScrollSettle | TouchEnd | TouchStart

record TranscriptScrollAnchor =
  saContentBottom :: rat
  saContentTop :: rat
  saSegmentId :: jsstring
  saScrollTop :: rat
  saTurnId :: jsstring

record TranscriptViewportAnchor =
  vaOffset :: rat
  vaRowId :: jsstring
  vaSegmentId :: jsstring
  vaTurnId :: jsstring

datatype TranscriptDownNavigationDestination =
    ToMessage TranscriptScrollAnchor rat
  | ToBottom rat

record MessageAnchorScrollResolution =
  resPhase :: AnchorPhase
  resRunwayHeight :: rat
  resScrollTop :: rat

record TranscriptInitialScrollTarget =
  targetIntent :: TranscriptViewportIntent
  targetScrollTop :: rat

fun sameTranscriptViewportIntent :: "TranscriptViewportIntent \<Rightarrow> TranscriptViewportIntent \<Rightarrow> bool" where
  "sameTranscriptViewportIntent BottomFollow BottomFollow = True"
| "sameTranscriptViewportIntent FreeViewport FreeViewport = True"
| "sameTranscriptViewportIntent (MessageAnchor c p r s t) (MessageAnchor c' p' r' s' t') =
     (p = p' \<and> r = r' \<and> s = s' \<and> c = c' \<and> t = t')"
| "sameTranscriptViewportIntent _ _ = False"

definition nativeScrollOwnsViewport :: "TranscriptScrollOwner \<Rightarrow> bool" where
  "nativeScrollOwnsViewport owner = (owner = NativeTouch \<or> owner = NativeMomentum)"

definition transcriptScrollOwnerAfterNativeEvent ::
  "TranscriptScrollOwner \<Rightarrow> TranscriptNativeScrollEvent \<Rightarrow> TranscriptScrollOwner" where
  "transcriptScrollOwnerAfterNativeEvent owner event =
     (if event = TouchStart then NativeTouch
      else if event = TouchEnd then NativeMomentum
      else if owner = NativeTouch then owner else IdleOwner)"

definition viewportIntentAfterNativeScrollSettles ::
  "TranscriptViewportIntent option \<Rightarrow> bool \<Rightarrow> bool option \<Rightarrow> TranscriptViewportIntent" where
  "viewportIntentAfterNativeScrollSettles currentIntent nearBottom userInitiated =
     (if \<not> or_else userInitiated True then or_else currentIntent FreeViewport
      else if nearBottom then BottomFollow else FreeViewport)"

fun is_message_anchor :: "TranscriptViewportIntent \<Rightarrow> bool" where
  "is_message_anchor (MessageAnchor c p r s t) = True"
| "is_message_anchor _ = False"

definition viewportIntentForStreamingTurn ::
  "TranscriptViewportIntent \<Rightarrow> bool \<Rightarrow> jsstring option \<Rightarrow> TranscriptViewportIntent" where
  "viewportIntentForStreamingTurn currentIntent nearBottom streamingTurnId =
     (if truthy streamingTurnId = None \<or> is_message_anchor currentIntent then currentIntent
      else if currentIntent = BottomFollow \<or> nearBottom then BottomFollow else FreeViewport)"

subsection \<open>Section anchors\<close>

fun isContinuationSection :: "AgentTurnSegment \<Rightarrow> bool" where
  "isContinuationSection (NoticeSegment i origin) = (origin = Some NativeFollowup \<or> origin = Some FederationNotification)"
| "isContinuationSection _ = False"

definition isTranscriptSection :: "AgentTurnSegment \<Rightarrow> bool" where
  "isTranscriptSection segment = (is_user_message segment \<or> isContinuationSection segment)"

definition transcriptMessageAnchorTopOffset :: "rat \<Rightarrow> rat" where
  "transcriptMessageAnchorTopOffset topPadding = max 24 topPadding"

definition transcriptSectionAnchorScrollTop :: "rat \<Rightarrow> rat \<Rightarrow> rat" where
  "transcriptSectionAnchorScrollTop rowTop topPadding =
     max 0 (minus_num (plus_num topPadding rowTop) (transcriptMessageAnchorTopOffset topPadding))"

definition nextRowTop :: "TranscriptGeometry \<Rightarrow> TranscriptMeasuredTurn \<Rightarrow> TranscriptMeasuredRow \<Rightarrow> rat \<Rightarrow> rat" where
  "nextRowTop G turn row rowTop = plus_num rowTop (plus_num (mrHeight row) (heightAfterRow G (mtTurnId turn) (mrId row)))"

fun sectionAnchorsOf ::
  "TranscriptGeometry \<Rightarrow> rat \<Rightarrow> TranscriptMeasuredTurn \<Rightarrow> rat \<Rightarrow> TranscriptMeasuredRow list \<Rightarrow>
   TranscriptScrollAnchor list" where
  "sectionAnchorsOf G topPadding turn rowTop [] = []"
| "sectionAnchorsOf G topPadding turn rowTop (row # rows) =
     (if isTranscriptSection (mrSegment row)
      then [\<lparr>saContentBottom = plus_num (plus_num topPadding rowTop) (mrHeight row),
        saContentTop = plus_num topPadding rowTop, saSegmentId = mrSegmentId row,
        saScrollTop = transcriptSectionAnchorScrollTop rowTop topPadding, saTurnId = mtTurnId turn\<rparr>]
      else []) @ sectionAnchorsOf G topPadding turn (nextRowTop G turn row rowTop) rows"

definition transcriptSectionScrollAnchors ::
  "TranscriptGeometry \<Rightarrow> rat \<Rightarrow> TranscriptMeasuredTurn list \<Rightarrow> TranscriptScrollAnchor list" where
  "transcriptSectionScrollAnchors G topPadding turns =
     concat (map (\<lambda>(i, turn). sectionAnchorsOf G topPadding turn (turnTop G (int i)) (mtRows turn)) (enumerate 0 turns))"

text \<open>The two searches for one section differ in which row of the turn they stop at.\<close>

fun scrollTopOfRow ::
  "(TranscriptMeasuredRow \<Rightarrow> bool) \<Rightarrow> TranscriptGeometry \<Rightarrow> rat \<Rightarrow> TranscriptMeasuredTurn \<Rightarrow> rat \<Rightarrow>
   TranscriptMeasuredRow list \<Rightarrow> rat option" where
  "scrollTopOfRow wanted G topPadding turn rowTop [] = None"
| "scrollTopOfRow wanted G topPadding turn rowTop (row # rows) =
     (if wanted row then Some (transcriptSectionAnchorScrollTop rowTop topPadding)
      else scrollTopOfRow wanted G topPadding turn (nextRowTop G turn row rowTop) rows)"

definition anchorTurnSectionScrollTop ::
  "TranscriptGeometry \<Rightarrow> rat \<Rightarrow> jsstring \<Rightarrow> TranscriptMeasuredTurn list \<Rightarrow> rat option" where
  "anchorTurnSectionScrollTop G topPadding turnId turns =
     (let i = indexOfTurn G (Some turnId) in
      case element turns i of
        None \<Rightarrow> None
      | Some turn \<Rightarrow>
          scrollTopOfRow (\<lambda>row. isTranscriptSection (mrSegment row)) G topPadding turn (turnTop G i) (mtRows turn))"

definition userMessageRowMatchesId :: "jsstring \<Rightarrow> jsstring option \<Rightarrow> jsstring \<Rightarrow> bool" where
  "userMessageRowMatchesId segment clientMessage trackedId = (segment = trackedId \<or> clientMessage = Some trackedId)"

definition clientMessageOf :: "AgentTurnSegment \<Rightarrow> jsstring option" where
  "clientMessageOf segment = (if is_user_message segment then clientMessageId segment else None)"

definition anchorTranscriptSectionScrollTop ::
  "TranscriptGeometry \<Rightarrow> jsstring \<Rightarrow> rat \<Rightarrow> jsstring \<Rightarrow> TranscriptMeasuredTurn list \<Rightarrow> rat option" where
  "anchorTranscriptSectionScrollTop G segment topPadding turnId turns =
     (let i = indexOfTurn G (Some turnId) in
      case element turns i of
        None \<Rightarrow> None
      | Some turn \<Rightarrow>
          scrollTopOfRow (\<lambda>row. isTranscriptSection (mrSegment row) \<and>
              userMessageRowMatchesId (mrSegmentId row) (clientMessageOf (mrSegment row)) segment)
            G topPadding turn (turnTop G i) (mtRows turn))"

subsection \<open>Navigation\<close>

definition anchorIndex :: "TranscriptScrollAnchor list \<Rightarrow> jsstring option \<Rightarrow> nat option" where
  "anchorIndex anchors currentSegmentId =
     (case truthy currentSegmentId of
        None \<Rightarrow> None
      | Some s \<Rightarrow> find (\<lambda>i. saSegmentId (anchors ! i) = s) [0..<length anchors])"

definition previousTranscriptSectionScrollAnchor ::
  "TranscriptScrollAnchor list \<Rightarrow> jsstring option \<Rightarrow> rat \<Rightarrow> TranscriptScrollAnchor option" where
  "previousTranscriptSectionScrollAnchor anchors currentSegmentId scrollTop =
     (case anchorIndex anchors currentSegmentId of
        Some i \<Rightarrow> if 0 < i then Some (anchors ! (i - 1)) else None
      | None \<Rightarrow> find (\<lambda>anchor. saContentBottom anchor \<le> plus_num (max 0 scrollTop) 1) (rev anchors))"

definition nextTranscriptSectionScrollAnchor ::
  "TranscriptScrollAnchor list \<Rightarrow> bool \<Rightarrow> jsstring option \<Rightarrow> rat \<Rightarrow> rat \<Rightarrow> TranscriptScrollAnchor option" where
  "nextTranscriptSectionScrollAnchor anchors atBottom currentSegmentId scrollTop threshold =
     (case anchorIndex anchors currentSegmentId of
        Some i \<Rightarrow> if Suc i < length anchors then Some (anchors ! Suc i) else None
      | None \<Rightarrow>
          if atBottom then None
          else find (\<lambda>anchor. plus_num scrollTop (max 0 threshold) < saScrollTop anchor) anchors)"

text \<open>Whether the destination is the bottom, and where to scroll.\<close>

definition historicalMessageNavigationDestination :: "bool \<Rightarrow> rat \<Rightarrow> rat \<Rightarrow> bool \<times> rat" where
  "historicalMessageNavigationDestination bottomIfUnreachable desiredScrollTop naturalMaxScrollTop =
     (let desired = max 0 desiredScrollTop; naturalMax = max 0 naturalMaxScrollTop in
      if bottomIfUnreachable \<and> plus_num naturalMax 1 < desired then (True, naturalMax) else (False, desired))"

definition nextTranscriptNavigationDestination ::
  "TranscriptScrollAnchor list \<Rightarrow> bool \<Rightarrow> jsstring option \<Rightarrow> rat option \<Rightarrow> rat \<Rightarrow> rat \<Rightarrow> rat \<Rightarrow>
   TranscriptDownNavigationDestination option" where
  "nextTranscriptNavigationDestination anchors atBottom currentSegmentId naturalContentMaxScrollTop
     naturalMaxScrollTop scrollTop threshold =
     (let naturalMax = max 0 naturalMaxScrollTop;
        naturalContentMax = max 0 (or_else naturalContentMaxScrollTop naturalMax)
      in
      if minus_num naturalContentMax (max 0 threshold) \<le> scrollTop then None
      else
        case nextTranscriptSectionScrollAnchor anchors atBottom currentSegmentId scrollTop threshold of
          None \<Rightarrow> Some (ToBottom naturalMax)
        | Some anchor \<Rightarrow>
            (case historicalMessageNavigationDestination True (saScrollTop anchor) naturalMax of
               (toBottom, destination) \<Rightarrow>
                 if \<not> toBottom \<and> plus_num scrollTop (max 0 threshold) < destination
                 then Some (ToMessage anchor destination) else Some (ToBottom naturalMax)))"

definition transcriptViewportAnchorScrollTop ::
  "TranscriptViewportAnchor \<Rightarrow> TranscriptRowPosition list \<Rightarrow> rat option" where
  "transcriptViewportAnchorScrollTop anchor positions =
     (case find (\<lambda>p. rpRowId p = vaRowId anchor \<and> rpTurnId p = vaTurnId anchor) positions of
        Some p \<Rightarrow> Some (plus_num (rpScrollTop p) (vaOffset anchor))
      | None \<Rightarrow>
          (case find (\<lambda>p. rpSegmentId p = vaSegmentId anchor) positions of
             Some p \<Rightarrow> Some (plus_num (rpScrollTop p) (vaOffset anchor))
           | None \<Rightarrow>
               map_option (\<lambda>p. plus_num (rpScrollTop p) (max 0 (vaOffset anchor)))
                 (find (\<lambda>p. rpTurnId p = vaTurnId anchor) positions)))"

subsection \<open>Holding a message at its place\<close>

definition anchorPinTolerancePx :: rat where
  "anchorPinTolerancePx = 2"

definition resolveMessageAnchorScroll ::
  "bool option \<Rightarrow> rat \<Rightarrow> rat \<Rightarrow> rat \<Rightarrow> AnchorPhase \<Rightarrow> rat \<Rightarrow> bool \<Rightarrow> MessageAnchorScrollResolution" where
  "resolveMessageAnchorScroll anchorActivationAllowed currentScrollTop desiredScrollTop naturalMaxScrollTop phase
     runwayHeight wasPinned =
     (let desired = max 0 desiredScrollTop; naturalMax = max 0 naturalMaxScrollTop in
      if desired \<le> plus_num naturalMax 1 then
        if phase = CatchingUp \<and> \<not> or_else anchorActivationAllowed True
        then \<lparr>resPhase = CatchingUp, resRunwayHeight = 0, resScrollTop = min (max 0 currentScrollTop) naturalMax\<rparr>
        else \<lparr>resPhase = Anchored, resRunwayHeight = 0, resScrollTop = desired\<rparr>
      else if phase = Anchored \<and>
        (0 < runwayHeight \<or> wasPinned \<or> \<bar>minus_num currentScrollTop desired\<bar> \<le> anchorPinTolerancePx)
      then \<lparr>resPhase = Anchored, resRunwayHeight = minus_num desired naturalMax, resScrollTop = desired\<rparr>
      else \<lparr>resPhase = CatchingUp, resRunwayHeight = 0, resScrollTop = naturalMax\<rparr>)"

definition initialTranscriptScrollTarget ::
  "TranscriptScrollAnchor list \<Rightarrow> jsstring \<Rightarrow> jsstring option \<Rightarrow> TranscriptInitialScrollTarget option" where
  "initialTranscriptScrollTarget anchors conversationId streamingTurnId =
     (case (case truthy streamingTurnId of
              None \<Rightarrow> None
            | Some t \<Rightarrow> map_option (Pair t) (find (\<lambda>anchor. saTurnId anchor = t) (rev anchors))) of
        Some (t, anchor) \<Rightarrow>
          Some \<lparr>targetIntent = MessageAnchor conversationId CatchingUp RestoreReason (saSegmentId anchor) t,
            targetScrollTop = saScrollTop anchor\<rparr>
      | None \<Rightarrow>
          if anchors = [] then None
          else Some \<lparr>targetIntent = FreeViewport, targetScrollTop = saScrollTop (last anchors)\<rparr>)"

definition resolveInitialTranscriptScrollTarget ::
  "rat \<Rightarrow> TranscriptInitialScrollTarget option \<Rightarrow> TranscriptInitialScrollTarget" where
  "resolveInitialTranscriptScrollTarget maxScrollTop target =
     (let normalizedMax = max 0 maxScrollTop in
      case target of
        None \<Rightarrow> \<lparr>targetIntent = BottomFollow, targetScrollTop = normalizedMax\<rparr>
      | Some t \<Rightarrow>
          \<lparr>targetIntent = (if normalizedMax < targetScrollTop t \<and> \<not> is_message_anchor (targetIntent t)
             then BottomFollow else targetIntent t),
           targetScrollTop = max 0 (min (targetScrollTop t) normalizedMax)\<rparr>)"

subsection \<open>What they promise\<close>

lemma sameTranscriptViewportIntent_iff [simp]: "sameTranscriptViewportIntent l r \<longleftrightarrow> l = r"
  by (cases "(l, r)" rule: sameTranscriptViewportIntent.cases) auto

text \<open>A resolution fed back, with the same geometry, resolves to itself.\<close>

lemma resolution_stable:
  assumes "resolveMessageAnchorScroll allowed current desired naturalMax phase runway wasPinned = r"
  shows "resolveMessageAnchorScroll allowed (resScrollTop r) desired naturalMax (resPhase r) (resRunwayHeight r) pinned = r"
proof (cases "max 0 desired \<le> plus_num (max 0 naturalMax) 1")
  case True
  then show ?thesis
    unfolding assms [symmetric]
    by (cases "phase = CatchingUp \<and> \<not> or_else allowed True") (auto simp: resolveMessageAnchorScroll_def Let_def
        simp del: max.bounded_iff)
next
  case False
  then show ?thesis
    unfolding assms [symmetric]
    by (cases "phase = Anchored \<and> (0 < runway \<or> wasPinned \<or> \<bar>minus_num current (max 0 desired)\<bar> \<le> anchorPinTolerancePx)")
       (simp_all add: resolveMessageAnchorScroll_def Let_def anchorPinTolerancePx_def minus_num_def del: max.bounded_iff)
qed

lemma resolution_bounds:
  assumes "resolveMessageAnchorScroll allowed current desired naturalMax phase runway wasPinned = r"
    "double naturalMax = naturalMax"
  shows "0 \<le> resScrollTop r \<and> 0 \<le> resRunwayHeight r \<and>
    (resPhase r = Anchored \<longrightarrow> resScrollTop r = max 0 desired) \<and>
    (resPhase r = CatchingUp \<longrightarrow> resScrollTop r \<le> max 0 naturalMax \<and> resRunwayHeight r = 0)"
proof -
  have "double (max 0 naturalMax) = max 0 naturalMax"
    using assms(2) by (simp add: max_def)
  then have "max 0 naturalMax \<le> plus_num (max 0 naturalMax) 1"
    by (intro plus_num_increases) simp_all
  then have "0 \<le> minus_num (max 0 desired) (max 0 naturalMax)"
    if "plus_num (max 0 naturalMax) 1 < max 0 desired"
    using double_mono [of 0 "max 0 desired - max 0 naturalMax"] that by (simp add: minus_num_def)
  with assms(1) show ?thesis
    by (auto simp: resolveMessageAnchorScroll_def Let_def split: if_splits)
qed

text \<open>Navigating down moves down: by more than the threshold to a message, else to the bottom.\<close>

lemma minus_num_decreases: "double a = a \<Longrightarrow> 0 \<le> b \<Longrightarrow> minus_num a b \<le> a"
  using double_mono [of "a - b" a] by (simp add: minus_num_def)

lemma navigation_moves_down:
  assumes "nextTranscriptNavigationDestination anchors atBottom current contentMax naturalMax scrollTop threshold = Some target"
    "double scrollTop = scrollTop" "double naturalMax = naturalMax"
    "\<And>m. contentMax = Some m \<Longrightarrow> m \<le> naturalMax \<and> double m = m"
  shows "scrollTop < (case target of ToMessage anchor y \<Rightarrow> y | ToBottom y \<Rightarrow> y)"
proof -
  let ?content = "max 0 (or_else contentMax (max 0 naturalMax))" and ?step = "max 0 threshold"
  have "double (or_else contentMax (max 0 naturalMax)) = or_else contentMax (max 0 naturalMax) \<and>
      or_else contentMax (max 0 naturalMax) \<le> max 0 naturalMax"
    using assms(3) assms(4) [of "the contentMax"] by (cases contentMax) (simp_all add: or_else_def max_def)
  moreover have "double (max 0 x) = max 0 x" if "double x = x" for x
    using that by (simp add: max_def)
  ultimately have "double ?content = ?content" "?content \<le> max 0 naturalMax"
    by simp_all
  then have "minus_num ?content ?step \<le> max 0 naturalMax"
    by (intro order_trans [OF minus_num_decreases [of ?content ?step]]) (simp_all del: max.bounded_iff)
  moreover have "scrollTop < minus_num ?content ?step"
    using assms(1) by (simp add: nextTranscriptNavigationDestination_def Let_def split: if_splits)
  moreover have "scrollTop \<le> plus_num scrollTop ?step"
    using assms(2) by (intro plus_num_increases) simp_all
  ultimately show ?thesis
    using assms(1)
    by (auto simp: nextTranscriptNavigationDestination_def Let_def not_le simp del: max.bounded_iff
        split: if_splits option.splits prod.splits)
qed

end
