(* ===== verification/TranscriptViewportStore.thy ===== *)
theory TranscriptViewportStore
  imports TranscriptViewport
begin

text \<open>
  The state of the viewport that the viewer keeps (transcript/viewportStore.ts), one function per action,
  and the positions kept of conversations seen before (transcript/viewport/viewportCache.ts).

  \<^item> Setting what is there already changes nothing, so the guards that only spare the listeners do not
    appear.  Of the functions that scroll, the state holds whether a controller provides them.
\<close>

subsection \<open>The state\<close>

datatype TranscriptLifecycle = LifecycleActive | LifecycleBackground | LifecycleInactive

record TranscriptTurnScrollRequest =
  tsRequestId :: nat
  tsConversationId :: jsstring
  tsTurnId :: jsstring
  tsSegmentId :: "jsstring option"

record TranscriptViewportState =
  vsActiveTurnIds :: "jsstring list"
  vsIntent :: TranscriptViewportIntent
  vsCanScrollDown :: bool
  vsCanScrollUp :: bool
  vsLifecycle :: TranscriptLifecycle
  vsPendingMessages :: "jsstring list"
  vsRequestedTurn :: "TranscriptTurnScrollRequest option"
  vsTurnScrollError :: "(jsstring \<times> nat) option"
  vsController :: bool
  vsConversationId :: "jsstring option"
  vsNextRequestId :: nat

definition initialViewport :: TranscriptViewportState where
  "initialViewport =
     \<lparr>vsActiveTurnIds = [], vsIntent = FreeViewport, vsCanScrollDown = False, vsCanScrollUp = False,
      vsLifecycle = LifecycleActive, vsPendingMessages = [], vsRequestedTurn = None, vsTurnScrollError = None,
      vsController = False, vsConversationId = None, vsNextRequestId = 0\<rparr>"

subsection \<open>The actions\<close>

definition isRequested :: "nat \<Rightarrow> TranscriptViewportState \<Rightarrow> bool" where
  "isRequested requestId v = (map_option tsRequestId (vsRequestedTurn v) = Some requestId)"

definition clearTurnScroll :: "nat \<Rightarrow> TranscriptViewportState \<Rightarrow> TranscriptViewportState" where
  "clearTurnScroll requestId v =
     (if \<not> isRequested requestId v then v else v\<lparr>vsRequestedTurn := None, vsTurnScrollError := None\<rparr>)"

definition failTurnScroll :: "nat \<Rightarrow> jsstring \<Rightarrow> TranscriptViewportState \<Rightarrow> TranscriptViewportState" where
  "failTurnScroll requestId message v =
     (if \<not> isRequested requestId v then v else v\<lparr>vsTurnScrollError := Some (message, requestId)\<rparr>)"

definition resolveTurnScroll :: "nat \<Rightarrow> TranscriptViewportState \<Rightarrow> TranscriptViewportState" where
  "resolveTurnScroll requestId v =
     (if \<not> isRequested requestId v then v else v\<lparr>vsRequestedTurn := None, vsTurnScrollError := None\<rparr>)"

definition trimmed :: "jsstring option \<Rightarrow> jsstring option" where
  "trimmed t = truthy (map_option trim t)"

definition requestTurnScroll ::
  "jsstring \<Rightarrow> jsstring \<Rightarrow> jsstring option \<Rightarrow> TranscriptViewportState \<Rightarrow> TranscriptViewportState" where
  "requestTurnScroll conversation turnId segment v =
     (if trim conversation = [] \<or> trim turnId = [] then v
      else v\<lparr>vsNextRequestId := vsNextRequestId v + 1,
        vsRequestedTurn := Some \<lparr>tsRequestId = vsNextRequestId v + 1, tsConversationId = trim conversation,
          tsTurnId = trim turnId, tsSegmentId = trimmed segment\<rparr>,
        vsTurnScrollError := None\<rparr>)"

definition trackUserMessage ::
  "jsstring \<Rightarrow> jsstring \<Rightarrow> jsstring option \<Rightarrow> TranscriptViewportState \<Rightarrow> TranscriptViewportState" where
  "trackUserMessage conversation message turnId v =
     (if trim conversation = [] \<or> trim message = [] then v
      else
        let pending = filter (\<lambda>i. i \<noteq> trim message) (vsPendingMessages v) in
        case trimmed turnId of
          None \<Rightarrow>
            let all = pending @ [trim message] in
            v\<lparr>vsPendingMessages := drop (length all - 32) all,
              vsConversationId := Some (or_else (vsConversationId v) (trim conversation))\<rparr>
        | Some t \<Rightarrow>
            v\<lparr>vsIntent := MessageAnchor (trim conversation) CatchingUp SendReason (trim message) t,
              vsPendingMessages := pending\<rparr>)"

definition setActiveTurnIds :: "jsstring list \<Rightarrow> TranscriptViewportState \<Rightarrow> TranscriptViewportState" where
  "setActiveTurnIds ids v = (if sameTurnIds (vsActiveTurnIds v) ids then v else v\<lparr>vsActiveTurnIds := ids\<rparr>)"

definition setLifecycleState :: "TranscriptLifecycle \<Rightarrow> TranscriptViewportState \<Rightarrow> TranscriptViewportState" where
  "setLifecycleState l v = (if vsLifecycle v = l then v else v\<lparr>vsLifecycle := l\<rparr>)"

definition setViewportIntent :: "TranscriptViewportIntent \<Rightarrow> TranscriptViewportState \<Rightarrow> TranscriptViewportState" where
  "setViewportIntent intent v = (if sameTranscriptViewportIntent (vsIntent v) intent then v else v\<lparr>vsIntent := intent\<rparr>)"

definition setScrollAvailability :: "bool \<Rightarrow> bool \<Rightarrow> TranscriptViewportState \<Rightarrow> TranscriptViewportState" where
  "setScrollAvailability down up v = v\<lparr>vsCanScrollDown := down, vsCanScrollUp := up\<rparr>"

definition setScrollNavigationController :: "bool \<Rightarrow> TranscriptViewportState \<Rightarrow> TranscriptViewportState" where
  "setScrollNavigationController present v =
     v\<lparr>vsCanScrollDown := (if present then vsCanScrollDown v else False),
       vsCanScrollUp := (if present then vsCanScrollUp v else False), vsController := present\<rparr>"

fun anchorConversation :: "TranscriptViewportIntent \<Rightarrow> jsstring option" where
  "anchorConversation (MessageAnchor c p r s t) = Some c"
| "anchorConversation _ = None"

fun anchorSegment :: "TranscriptViewportIntent \<Rightarrow> jsstring option" where
  "anchorSegment (MessageAnchor c p r s t) = Some s"
| "anchorSegment _ = None"

definition resetTranscriptViewportForConversation ::
  "jsstring option \<Rightarrow> TranscriptViewportState \<Rightarrow> TranscriptViewportState" where
  "resetTranscriptViewportForConversation conversation v =
     (let c = trimmed conversation;
        same = (c \<noteq> None \<and> map_option tsConversationId (vsRequestedTurn v) = c)
      in v\<lparr>vsActiveTurnIds := [],
           vsIntent := (if c \<noteq> None \<and> anchorConversation (vsIntent v) = c then vsIntent v else FreeViewport),
           vsCanScrollDown := False, vsCanScrollUp := False, vsPendingMessages := [],
           vsRequestedTurn := (if same then vsRequestedTurn v else None),
           vsTurnScrollError := (if same then vsTurnScrollError v else None),
           vsConversationId := c\<rparr>)"

definition discardTranscriptUserMessage :: "jsstring \<Rightarrow> TranscriptViewportState \<Rightarrow> TranscriptViewportState" where
  "discardTranscriptUserMessage message v =
     (let m = trim message in
      if m = [] then v
      else v\<lparr>vsIntent := (if anchorSegment (vsIntent v) = Some m then FreeViewport else vsIntent v),
             vsPendingMessages := filter (\<lambda>i. i \<noteq> m) (vsPendingMessages v)\<rparr>)"

subsection \<open>When the layout has changed\<close>

text \<open>The messages waited for that the layout holds: the last row of each, with its turn.\<close>

definition resolvedMessages ::
  "jsstring list \<Rightarrow> TranscriptMeasuredTurn list \<Rightarrow> (jsstring \<times> (jsstring \<times> jsstring)) list" where
  "resolvedMessages pending turns =
     fold (\<lambda>(turnId, row) resolved.
         if \<not> is_user_message (mrSegment row) then resolved
         else case find (userMessageRowMatchesId (mrSegmentId row) (clientMessageOf (mrSegment row))) pending of
             None \<Rightarrow> resolved
           | Some i \<Rightarrow> AList.update i (mrSegmentId row, turnId) resolved)
       (concat (map (\<lambda>turn. map (Pair (mtTurnId turn)) (mtRows turn)) turns)) []"

definition reconcileTranscriptViewportForLayout ::
  "TranscriptMeasuredTurn list \<Rightarrow> (jsstring \<times> TranscriptMeasuredTurn) list \<Rightarrow> TranscriptViewportState \<Rightarrow>
   TranscriptViewportState" where
  "reconcileTranscriptViewportForLayout turns turnsById v =
     (let left = filter (\<lambda>i. map_of turnsById i \<noteq> None) (vsActiveTurnIds v);
        active = (if left \<noteq> [] then left else initialTranscriptActiveTurnIds turns);
        pending = vsPendingMessages v;
        resolved = resolvedMessages pending turns
      in case truthy (find (\<lambda>i. map_of resolved i \<noteq> None) (rev pending)) of
           None \<Rightarrow> v\<lparr>vsActiveTurnIds := active\<rparr>
         | Some latest \<Rightarrow>
             (case map_of resolved latest of
                None \<Rightarrow> v\<lparr>vsActiveTurnIds := active\<rparr>
              | Some (segment, turnId) \<Rightarrow>
                  v\<lparr>vsActiveTurnIds := active,
                    vsIntent := MessageAnchor (or_else (vsConversationId v) []) CatchingUp SendReason segment turnId,
                    vsPendingMessages := filter (\<lambda>i. map_of resolved i = None) pending\<rparr>))"

subsection \<open>Positions kept of other conversations\<close>

datatype TranscriptViewportCacheEntry =
  BottomPosition | SectionPosition jsstring jsstring | RowOffsetPosition TranscriptViewportAnchor

definition cachedTranscriptViewportAnchor ::
  "jsstring \<Rightarrow> (jsstring \<times> TranscriptViewportCacheEntry) list \<Rightarrow>
   TranscriptViewportCacheEntry option \<times> (jsstring \<times> TranscriptViewportCacheEntry) list" where
  "cachedTranscriptViewportAnchor conversation cache =
     (case map_of cache conversation of
        None \<Rightarrow> (None, cache)
      | Some anchor \<Rightarrow> (Some anchor, AList.delete conversation cache @ [(conversation, anchor)]))"

text \<open>\<^verbatim>\<open>while (size > max)\<close>: the oldest goes, unless its conversation is the empty string.\<close>

fun dropOldest :: "nat \<Rightarrow> (jsstring \<times> 'v) list \<Rightarrow> (jsstring \<times> 'v) list" where
  "dropOldest bound [] = []"
| "dropOldest bound ((i, v) # entries) =
     (if length entries < bound then (i, v) # entries
      else if i = [] then (i, v) # entries
      else dropOldest bound entries)"

definition cacheTranscriptViewportAnchor ::
  "jsstring \<Rightarrow> TranscriptViewportCacheEntry \<Rightarrow> (jsstring \<times> TranscriptViewportCacheEntry) list \<Rightarrow>
   (jsstring \<times> TranscriptViewportCacheEntry) list" where
  "cacheTranscriptViewportAnchor conversation anchor cache =
     dropOldest 5 (AList.delete conversation cache @ [(conversation, anchor)])"

lemma dropOldest_bound: "[] \<notin> fst ` set entries \<Longrightarrow> length (dropOldest bound entries) \<le> bound"
  by (induction bound entries rule: dropOldest.induct) auto

lemma dropOldest_subset: "set (dropOldest bound entries) \<subseteq> set entries"
  by (induction bound entries rule: dropOldest.induct) auto

lemma dropOldest_distinct: "distinct (map fst entries) \<Longrightarrow> distinct (map fst (dropOldest bound entries))"
  by (induction bound entries rule: dropOldest.induct) auto

end
