(* ===== verification/TranscriptDisclosure.thy ===== *)
theory TranscriptDisclosure
  imports TranscriptLayout
begin

text \<open>
  What is open in a transcript (transcript/disclosure/disclosureReducer.ts): the work that opens by
  itself while a turn runs, the work and the messages the user opened, and what is left of them when
  the transcript is measured again.

  \<^item> A \<^verbatim>\<open>Record<string, true>\<close> is the list of its keys and another \<^verbatim>\<open>Record\<close> the list of its entries, in
    insertion order: the keys hold a colon, so none is an array index, and none names a member of
    \<^verbatim>\<open>Object.prototype\<close>.
\<close>

subsection \<open>The state\<close>

datatype DisclosureSource = AutoSource | UserSource

record TranscriptOpenWorkDisclosure =
  owAdditionalHeight :: rat
  owKey :: jsstring
  owOpenedAfterAssistant :: "bool option"
  owOpenChild :: "(jsstring \<times> bool) list"
  owRowId :: jsstring
  owSegmentId :: jsstring
  owSource :: DisclosureSource
  owTurnId :: jsstring

record TranscriptDisclosureState =
  dsAutoKey :: "jsstring option"
  dsExpanded :: "jsstring list"
  dsManuallyClosed :: "jsstring list"
  dsOpenWork :: "(jsstring \<times> TranscriptOpenWorkDisclosure) list"

record TranscriptWorkDisclosureInput =
  inRowId :: jsstring
  inSegmentId :: jsstring
  inTurnId :: jsstring

definition emptyTranscriptDisclosureState :: TranscriptDisclosureState where
  "emptyTranscriptDisclosureState = \<lparr>dsAutoKey = None, dsExpanded = [], dsManuallyClosed = [], dsOpenWork = []\<rparr>"

definition add_key :: "jsstring \<Rightarrow> jsstring list \<Rightarrow> jsstring list" where
  "add_key k ks = (if k \<in> set ks then ks else ks @ [k])"

subsection \<open>Rows of work\<close>

definition turnHasAssistantMessage :: "TranscriptMeasuredTurn option \<Rightarrow> bool" where
  "turnHasAssistantMessage turn =
     (case turn of None \<Rightarrow> False | Some t \<Rightarrow> list_ex (\<lambda>row. is_assistant_message (mrSegment row)) (mtRows t))"

definition workRowForDisclosure ::
  "jsstring \<Rightarrow> jsstring \<Rightarrow> jsstring \<Rightarrow> (jsstring \<times> TranscriptMeasuredTurn) list \<Rightarrow> TranscriptMeasuredRow option" where
  "workRowForDisclosure turnId rowId segment turnsById =
     (case map_of turnsById turnId of
        None \<Rightarrow> None
      | Some turn \<Rightarrow>
          (case find (\<lambda>row. is_work (mrSegment row) \<and> mrId row = rowId \<and> mrSegmentId row = segment) (mtRows turn) of
             Some row \<Rightarrow> Some row
           | None \<Rightarrow> find (\<lambda>row. is_work (mrSegment row) \<and> mrSegmentId row = segment) (mtRows turn)))"

definition workDisclosureForRow ::
  "bool option \<Rightarrow> TranscriptOpenWorkDisclosure option \<Rightarrow> TranscriptMeasuredRow \<Rightarrow> DisclosureSource \<Rightarrow>
   TranscriptOpenWorkDisclosure" where
  "workDisclosureForRow openedAfterAssistantStarted previous row source =
     (let same = (case previous of
          None \<Rightarrow> None
        | Some p \<Rightarrow> if owRowId p = mrId row \<and> owSegmentId p = mrSegmentId row \<and> owTurnId p = mrTurnId row
            then Some p else None)
      in \<lparr>owAdditionalHeight = (case same of None \<Rightarrow> 0 | Some p \<Rightarrow> owAdditionalHeight p),
          owKey = disclosureKey (mrTurnId row) (mrSegmentId row),
          owOpenedAfterAssistant = Some (or_else openedAfterAssistantStarted
            (case same of None \<Rightarrow> False | Some p \<Rightarrow> owOpenedAfterAssistant p = Some True)),
          owOpenChild = (case same of None \<Rightarrow> [] | Some p \<Rightarrow> owOpenChild p),
          owRowId = mrId row, owSegmentId = mrSegmentId row, owSource = source, owTurnId = mrTurnId row\<rparr>)"

definition reconcileExistingOpenWork ::
  "TranscriptOpenWorkDisclosure \<Rightarrow> (jsstring \<times> TranscriptMeasuredTurn) list \<Rightarrow> TranscriptOpenWorkDisclosure option" where
  "reconcileExistingOpenWork openWork turnsById =
     map_option (\<lambda>row. workDisclosureForRow None (Some openWork) row (owSource openWork))
       (workRowForDisclosure (owTurnId openWork) (owRowId openWork) (owSegmentId openWork) turnsById)"

definition preferredAutoOpenWorkRow :: "TranscriptMeasuredTurn \<Rightarrow> TranscriptMeasuredRow option" where
  "preferredAutoOpenWorkRow turn =
     find (\<lambda>row. is_work (mrSegment row) \<and> workState (mrSegment row) = WorkRunning) (rev (mtRows turn))"

subsection \<open>What the user does\<close>

definition promoteOpenWorkDisclosure :: "TranscriptDisclosureState \<Rightarrow> jsstring \<Rightarrow> TranscriptDisclosureState" where
  "promoteOpenWorkDisclosure d workKey =
     (case map_of (dsOpenWork d) workKey of
        None \<Rightarrow> d
      | Some openWork \<Rightarrow>
          if owSource openWork \<noteq> AutoSource then d
          else d\<lparr>dsAutoKey := (if dsAutoKey d = Some workKey then None else dsAutoKey d),
            dsOpenWork := AList.update workKey (openWork\<lparr>owSource := UserSource\<rparr>) (dsOpenWork d)\<rparr>)"

definition setOnlyOpenWorkChildDisclosure ::
  "TranscriptDisclosureState \<Rightarrow> jsstring \<Rightarrow> jsstring list \<Rightarrow> jsstring option \<Rightarrow> TranscriptDisclosureState" where
  "setOnlyOpenWorkChildDisclosure d workKey keys openKey =
     (case map_of (dsOpenWork d) workKey of
        None \<Rightarrow> d
      | Some openWork \<Rightarrow>
          promoteOpenWorkDisclosure
            (d\<lparr>dsOpenWork := AList.update workKey
               (openWork\<lparr>owOpenChild := fold (\<lambda>key. AList.update key (Some key = openKey)) keys (owOpenChild openWork)\<rparr>)
               (dsOpenWork d)\<rparr>) workKey)"

definition setOpenWorkAdditionalHeight ::
  "TranscriptDisclosureState \<Rightarrow> jsstring \<Rightarrow> jsstring \<Rightarrow> rat \<Rightarrow> TranscriptDisclosureState" where
  "setOpenWorkAdditionalHeight d workKey rowId additionalHeight =
     (case map_of (dsOpenWork d) workKey of
        None \<Rightarrow> d
      | Some openWork \<Rightarrow>
          if owRowId openWork \<noteq> rowId \<or> owAdditionalHeight openWork = additionalHeight then d
          else d\<lparr>dsOpenWork :=
            AList.update workKey (openWork\<lparr>owAdditionalHeight := additionalHeight\<rparr>) (dsOpenWork d)\<rparr>)"

definition toggleUserMessageDisclosure ::
  "TranscriptDisclosureState \<Rightarrow> jsstring \<Rightarrow> jsstring \<Rightarrow> TranscriptDisclosureState" where
  "toggleUserMessageDisclosure d turnId segment =
     (let key = disclosureKey turnId segment in
      d\<lparr>dsExpanded := (if key \<in> set (dsExpanded d) then removeAll key (dsExpanded d) else dsExpanded d @ [key])\<rparr>)"

definition toggleWorkChildDisclosure ::
  "TranscriptDisclosureState \<Rightarrow> jsstring \<Rightarrow> jsstring \<Rightarrow> bool \<Rightarrow> TranscriptDisclosureState" where
  "toggleWorkChildDisclosure d workKey key defaultOpen =
     (case map_of (dsOpenWork d) workKey of
        None \<Rightarrow> d
      | Some openWork \<Rightarrow>
          promoteOpenWorkDisclosure
            (d\<lparr>dsOpenWork := AList.update workKey
               (openWork\<lparr>owOpenChild :=
                  AList.update key (\<not> or_else (map_of (owOpenChild openWork) key) defaultOpen) (owOpenChild openWork)\<rparr>)
               (dsOpenWork d)\<rparr>) workKey)"

definition is_open_at :: "TranscriptOpenWorkDisclosure option \<Rightarrow> TranscriptWorkDisclosureInput \<Rightarrow> bool" where
  "is_open_at openWork input =
     (case openWork of
        None \<Rightarrow> False
      | Some w \<Rightarrow> owRowId w = inRowId input \<and> owSegmentId w = inSegmentId input \<and> owTurnId w = inTurnId input)"

definition in_progress :: "TranscriptMeasuredTurn option \<Rightarrow> bool" where
  "in_progress turn = (case turn of None \<Rightarrow> False | Some t \<Rightarrow> frameStatus (mtTurn t) = FrameInProgress)"

definition toggleWorkDisclosure ::
  "jsstring option \<Rightarrow> TranscriptDisclosureState \<Rightarrow> TranscriptWorkDisclosureInput \<Rightarrow>
   (jsstring \<times> TranscriptMeasuredTurn) list \<Rightarrow> TranscriptDisclosureState" where
  "toggleWorkDisclosure activeTurnId d input turnsById =
     (let workKey = disclosureKey (inTurnId input) (inSegmentId input);
        openWork = map_of (dsOpenWork d) workKey;
        autoKey = (if dsAutoKey d = Some workKey then None else dsAutoKey d)
      in
      if is_open_at openWork input then
        let closingActiveTurn = (activeTurnId = Some (inTurnId input) \<and> in_progress (map_of turnsById (inTurnId input)));
          automatic = (case openWork of None \<Rightarrow> False | Some w \<Rightarrow> owSource w = AutoSource)
        in d\<lparr>dsAutoKey := autoKey,
             dsManuallyClosed := (if automatic \<or> closingActiveTurn
               then add_key (inTurnId input) (dsManuallyClosed d) else dsManuallyClosed d),
             dsOpenWork := AList.delete workKey (dsOpenWork d)\<rparr>
      else
        case workRowForDisclosure (inTurnId input) (inRowId input) (inSegmentId input) turnsById of
          None \<Rightarrow> d
        | Some row \<Rightarrow>
            d\<lparr>dsAutoKey := autoKey,
              dsManuallyClosed := removeAll (inTurnId input) (dsManuallyClosed d),
              dsOpenWork := AList.update workKey
                (workDisclosureForRow (Some (turnHasAssistantMessage (map_of turnsById (inTurnId input)))) openWork row
                  UserSource)
                (dsOpenWork d)\<rparr>)"

subsection \<open>When the transcript has changed\<close>

definition turnsByIdOf :: "TranscriptMeasuredTurn list \<Rightarrow> (jsstring \<times> TranscriptMeasuredTurn) list" where
  "turnsByIdOf turns = fold (\<lambda>t. AList.update (mtTurnId t) t) turns []"

definition filterManualClosedWorkTurns :: "jsstring list \<Rightarrow> TranscriptMeasuredTurn list \<Rightarrow> jsstring list" where
  "filterManualClosedWorkTurns shut turns =
     fold add_key (map mtTurnId (filter (\<lambda>t. in_progress (Some t) \<and> mtTurnId t \<in> set shut) turns)) []"

definition collapsibleMessageKeys :: "TranscriptMeasuredTurn list \<Rightarrow> jsstring list" where
  "collapsibleMessageKeys turns =
     map (\<lambda>row. disclosureKey (mrTurnId row) (mrSegmentId row))
       (filter (\<lambda>row. is_user_message (mrSegment row) \<and>
            (case mrDisclosure row of None \<Rightarrow> False | Some u \<Rightarrow> udCollapsible u))
         (concat (map mtRows turns)))"

definition filterExpandedUserMessages :: "jsstring list \<Rightarrow> TranscriptMeasuredTurn list \<Rightarrow> jsstring list" where
  "filterExpandedUserMessages expanded turns =
     fold add_key (filter (\<lambda>key. key \<in> set expanded) (collapsibleMessageKeys turns)) []"

text \<open>The loop over the open work: what the user opened is kept, and the work that opened itself noted.\<close>

fun reconcileOpenWork ::
  "jsstring option \<Rightarrow> (jsstring \<times> TranscriptMeasuredTurn) list \<Rightarrow> TranscriptOpenWorkDisclosure list \<Rightarrow>
   (jsstring \<times> TranscriptOpenWorkDisclosure) list \<times> TranscriptOpenWorkDisclosure option \<Rightarrow>
   (jsstring \<times> TranscriptOpenWorkDisclosure) list \<times> TranscriptOpenWorkDisclosure option" where
  "reconcileOpenWork autoKey turnsById [] state = state"
| "reconcileOpenWork autoKey turnsById (openWork # rest) (kept, previousAuto) =
     reconcileOpenWork autoKey turnsById rest
       (case reconcileExistingOpenWork openWork turnsById of
          None \<Rightarrow> (kept, previousAuto)
        | Some w \<Rightarrow>
            if owSource w = UserSource then
              if turnHasAssistantMessage (map_of turnsById (owTurnId w)) \<and> owOpenedAfterAssistant w \<noteq> Some True
              then (kept, previousAuto)
              else (AList.update (owKey w) w kept, previousAuto)
            else if autoKey = Some (owKey w) then (kept, Some w)
            else (kept, previousAuto))"

text \<open>The work that is open by itself afterwards, if any.\<close>

definition openAutomatically ::
  "TranscriptMeasuredTurn list \<Rightarrow> jsstring option \<Rightarrow> jsstring list \<Rightarrow> jsstring list \<Rightarrow>
   (jsstring \<times> TranscriptOpenWorkDisclosure) list \<Rightarrow> TranscriptOpenWorkDisclosure option \<Rightarrow> TranscriptDisclosureState" where
  "openAutomatically turns activeTurnId expanded shut kept previousAuto =
     (let none = \<lparr>dsAutoKey = None, dsExpanded = expanded, dsManuallyClosed = shut, dsOpenWork = kept\<rparr>;
        workingTurn = (case truthy activeTurnId of
            None \<Rightarrow> None
          | Some i \<Rightarrow> find (\<lambda>t. mtTurnId t = i \<and> in_progress (Some t)) turns)
      in case workingTurn of
           None \<Rightarrow> none
         | Some turn \<Rightarrow>
             if mtTurnId turn \<in> set shut then none
             else if turnHasAssistantMessage (Some turn) then none
             else
               (case preferredAutoOpenWorkRow turn of
                  None \<Rightarrow>
                    (case previousAuto of
                       None \<Rightarrow> none
                     | Some p \<Rightarrow>
                         if owTurnId p \<noteq> mtTurnId turn \<or> owTurnId p \<in> set shut then none
                         else none\<lparr>dsAutoKey := Some (owKey p), dsOpenWork := AList.update (owKey p) p kept\<rparr>)
                | Some row \<Rightarrow>
                    let key = disclosureKey (mrTurnId row) (mrSegmentId row) in
                    if map_of kept key \<noteq> None then none
                    else none\<lparr>dsAutoKey := Some key,
                      dsOpenWork := AList.update key
                        (workDisclosureForRow None
                          (case previousAuto of None \<Rightarrow> None | Some p \<Rightarrow> if owKey p = key then Some p else None)
                          row AutoSource) kept\<rparr>))"

definition reconcileTranscriptDisclosure ::
  "TranscriptDisclosureState \<Rightarrow> TranscriptMeasuredTurn list \<Rightarrow> jsstring option \<Rightarrow> TranscriptDisclosureState" where
  "reconcileTranscriptDisclosure d turns activeTurnId =
     (let (kept, previousAuto) = reconcileOpenWork (dsAutoKey d) (turnsByIdOf turns) (map snd (dsOpenWork d)) ([], None) in
      openAutomatically turns activeTurnId (filterExpandedUserMessages (dsExpanded d) turns)
        (filterManualClosedWorkTurns (dsManuallyClosed d) turns) kept previousAuto)"

subsection \<open>At most one work is open by itself\<close>

text \<open>
  Each open work stands under its own key, and the work the state names as open by itself is the one
  whose source says so.
\<close>

definition work_key :: "TranscriptOpenWorkDisclosure \<Rightarrow> jsstring" where
  "work_key w = disclosureKey (owTurnId w) (owSegmentId w)"

definition disclosure_ok :: "TranscriptDisclosureState \<Rightarrow> bool" where
  "disclosure_ok d =
     (distinct (map fst (dsOpenWork d)) \<and>
      (\<forall>(k, w) \<in> set (dsOpenWork d). owKey w = k \<and> work_key w = k \<and>
         (owSource w = AutoSource \<longleftrightarrow> dsAutoKey d = Some k)) \<and>
      (\<forall>k. dsAutoKey d = Some k \<longrightarrow> k \<in> fst ` set (dsOpenWork d)))"

definition turns_ok :: "(jsstring \<times> TranscriptMeasuredTurn) list \<Rightarrow> bool" where
  "turns_ok T = (\<forall>(i, t) \<in> set T. mtTurnId t = i \<and> (\<forall>row \<in> set (mtRows t). mrTurnId row = i))"

lemma empty_disclosure_ok [simp]: "disclosure_ok emptyTranscriptDisclosureState"
  by (simp add: disclosure_ok_def emptyTranscriptDisclosureState_def)

lemma work_disclosure_fields [simp]:
  "owKey (workDisclosureForRow a p row source) = disclosureKey (mrTurnId row) (mrSegmentId row)"
  "work_key (workDisclosureForRow a p row source) = disclosureKey (mrTurnId row) (mrSegmentId row)"
  "owSource (workDisclosureForRow a p row source) = source"
  "owTurnId (workDisclosureForRow a p row source) = mrTurnId row"
  "owSegmentId (workDisclosureForRow a p row source) = mrSegmentId row"
  "owRowId (workDisclosureForRow a p row source) = mrId row"
  by (simp_all add: workDisclosureForRow_def work_key_def Let_def)

lemma find_member: "find P xs = Some x \<Longrightarrow> x \<in> set xs \<and> P x"
  by (auto simp: find_Some_iff)

lemma work_row:
  assumes "workRowForDisclosure i r s T = Some row" "turns_ok T"
  shows "mrTurnId row = i" "mrSegmentId row = s" "is_work (mrSegment row)"
    "\<exists>t. map_of T i = Some t \<and> row \<in> set (mtRows t)"
proof -
  obtain t where t: "map_of T i = Some t"
    using assms(1) by (auto simp: workRowForDisclosure_def split: option.splits)
  then have row: "row \<in> set (mtRows t)" "mrSegmentId row = s" "is_work (mrSegment row)"
    using assms(1) by (auto simp: workRowForDisclosure_def dest!: find_member split: option.splits)
  then show "mrTurnId row = i" "mrSegmentId row = s" "is_work (mrSegment row)"
      "\<exists>t. map_of T i = Some t \<and> row \<in> set (mtRows t)"
    using assms(2) t map_of_SomeD [OF t] by (auto simp: turns_ok_def)
qed

text \<open>Storing a work under its key, when nothing else claims to be open by itself.\<close>

lemma store_ok:
  assumes "disclosure_ok d" "owKey w = k" "work_key w = k"
    "owSource w = AutoSource \<longleftrightarrow> auto = Some k"
    "auto = Some k \<or> auto = (if dsAutoKey d = Some k then None else dsAutoKey d)"
    "auto = Some k \<longrightarrow> dsAutoKey d = None \<or> dsAutoKey d = Some k"
  shows "disclosure_ok (d\<lparr>dsAutoKey := auto, dsManuallyClosed := m, dsOpenWork := AList.update k w (dsOpenWork d)\<rparr>)"
  using assms update_members [of "dsOpenWork d" k w]
  by (fastforce simp: disclosure_ok_def distinct_update update_key_set dest: subsetD split: if_splits)

lemma stored_work:
  assumes "disclosure_ok d" "map_of (dsOpenWork d) k = Some w"
  shows "owKey w = k" "work_key w = k" "owSource w = AutoSource \<longleftrightarrow> dsAutoKey d = Some k"
  using assms map_of_SomeD [OF assms(2)] unfolding disclosure_ok_def by auto

lemma replace_ok:
  assumes "disclosure_ok d" "map_of (dsOpenWork d) k = Some w" "owKey w' = owKey w" "work_key w' = work_key w"
    "owSource w' = owSource w"
  shows "disclosure_ok (d\<lparr>dsOpenWork := AList.update k w' (dsOpenWork d)\<rparr>)"
  using store_ok [OF assms(1), of w' k "dsAutoKey d" "dsManuallyClosed d"] stored_work [OF assms(1,2)] assms(3-5) by simp

lemma promote_ok: "disclosure_ok d \<Longrightarrow> disclosure_ok (promoteOpenWorkDisclosure d k)"
proof (cases "map_of (dsOpenWork d) k")
  case (Some w)
  assume ok: "disclosure_ok d"
  show ?thesis
  proof (cases "owSource w = AutoSource")
    case True
    note stored = stored_work [OF ok Some]
    have "disclosure_ok (d\<lparr>dsAutoKey := None, dsManuallyClosed := dsManuallyClosed d,
        dsOpenWork := AList.update k (w\<lparr>owSource := UserSource\<rparr>) (dsOpenWork d)\<rparr>)"
      using stored True by (intro store_ok [OF ok]) (simp_all add: work_key_def)
    with Some True stored show ?thesis
      by (simp add: promoteOpenWorkDisclosure_def)
  qed (use ok Some in \<open>simp add: promoteOpenWorkDisclosure_def\<close>)
qed (simp add: promoteOpenWorkDisclosure_def)

lemma child_operations_ok:
  assumes "disclosure_ok d"
  shows "disclosure_ok (setOnlyOpenWorkChildDisclosure d k keys openKey)"
    "disclosure_ok (toggleWorkChildDisclosure d k key defaultOpen)"
    "disclosure_ok (setOpenWorkAdditionalHeight d k r h)"
    "disclosure_ok (toggleUserMessageDisclosure d t segment)"
proof -
  note replace = replace_ok [OF assms]
  show "disclosure_ok (setOnlyOpenWorkChildDisclosure d k keys openKey)"
    "disclosure_ok (toggleWorkChildDisclosure d k key defaultOpen)"
    "disclosure_ok (setOpenWorkAdditionalHeight d k r h)"
    using assms
    by (auto simp: setOnlyOpenWorkChildDisclosure_def toggleWorkChildDisclosure_def setOpenWorkAdditionalHeight_def
        work_key_def intro!: promote_ok elim!: replace split: option.splits)
  show "disclosure_ok (toggleUserMessageDisclosure d t segment)"
    using assms by (simp add: toggleUserMessageDisclosure_def disclosure_ok_def Let_def)
qed

lemma forget_ok:
  assumes "disclosure_ok d"
  shows "disclosure_ok (d\<lparr>dsAutoKey := (if dsAutoKey d = Some k then None else dsAutoKey d), dsManuallyClosed := m,
    dsOpenWork := AList.delete k (dsOpenWork d)\<rparr>)"
  using assms by (auto simp: disclosure_ok_def distinct_delete delete_members delete_keys)

lemma toggleWork_ok:
  assumes "disclosure_ok d" "turns_ok T"
  shows "disclosure_ok (toggleWorkDisclosure a d input T)"
proof (cases "is_open_at (map_of (dsOpenWork d) (disclosureKey (inTurnId input) (inSegmentId input))) input")
  case True
  then show ?thesis
    by (simp add: toggleWorkDisclosure_def Let_def forget_ok [OF assms(1)])
next
  case False
  show ?thesis
  proof (cases "workRowForDisclosure (inTurnId input) (inRowId input) (inSegmentId input) T")
    case None
    with False assms(1) show ?thesis by (simp add: toggleWorkDisclosure_def Let_def)
  next
    case (Some row)
    let ?k = "disclosureKey (inTurnId input) (inSegmentId input)"
    let ?w = "workDisclosureForRow (Some (turnHasAssistantMessage (map_of T (inTurnId input))))
      (map_of (dsOpenWork d) ?k) row UserSource"
    have "disclosure_ok (d\<lparr>dsAutoKey := (if dsAutoKey d = Some ?k then None else dsAutoKey d),
        dsManuallyClosed := removeAll (inTurnId input) (dsManuallyClosed d), dsOpenWork := AList.update ?k ?w (dsOpenWork d)\<rparr>)"
      using work_row [OF Some assms(2)] by (intro store_ok [OF assms(1)]) simp_all
    with False Some show ?thesis
      by (simp add: toggleWorkDisclosure_def Let_def)
  qed
qed

lemma not_user: "source \<noteq> UserSource \<longleftrightarrow> source = AutoSource"
  by (cases source) simp_all

lemma reconcileOpenWork_ok:
  assumes "distinct (map fst (fst s))" "\<forall>(k, w) \<in> set (fst s). owKey w = k \<and> work_key w = k \<and> owSource w = UserSource"
    "\<forall>p. snd s = Some p \<longrightarrow> work_key p = owKey p \<and> owSource p = AutoSource"
  shows "distinct (map fst (fst (reconcileOpenWork auto T ws s))) \<and>
    (\<forall>(k, w) \<in> set (fst (reconcileOpenWork auto T ws s)). owKey w = k \<and> work_key w = k \<and> owSource w = UserSource) \<and>
    (\<forall>p. snd (reconcileOpenWork auto T ws s) = Some p \<longrightarrow> work_key p = owKey p \<and> owSource p = AutoSource)"
  using assms
proof (induction auto T ws s rule: reconcileOpenWork.induct)
  case (2 auto T w ws kept previous)
  let ?next = "case reconcileExistingOpenWork w T of
      None \<Rightarrow> (kept, previous)
    | Some w' \<Rightarrow>
        if owSource w' = UserSource then
          if turnHasAssistantMessage (map_of T (owTurnId w')) \<and> owOpenedAfterAssistant w' \<noteq> Some True
          then (kept, previous)
          else (AList.update (owKey w') w' kept, previous)
        else if auto = Some (owKey w') then (kept, Some w')
        else (kept, previous)"
  have fields: "work_key w' = owKey w'" if "reconcileExistingOpenWork w T = Some w'" for w'
    using that by (auto simp: reconcileExistingOpenWork_def)
  have "distinct (map fst (fst ?next))"
    "\<forall>(k, w) \<in> set (fst ?next). owKey w = k \<and> work_key w = k \<and> owSource w = UserSource"
    "\<forall>p. snd ?next = Some p \<longrightarrow> work_key p = owKey p \<and> owSource p = AutoSource"
    using "2.prems" fields
    by (auto simp: distinct_update not_user dest!: subsetD [OF update_subset] split: option.split)
  from "2.IH" [OF this] show ?case by simp
qed simp

lemma reconcile_ok: "disclosure_ok (reconcileTranscriptDisclosure d turns activeTurn)"
proof -
  let ?T = "turnsByIdOf turns" and ?shut = "filterManualClosedWorkTurns (dsManuallyClosed d) turns"
    and ?expanded = "filterExpandedUserMessages (dsExpanded d) turns"
  obtain kept previous where run: "reconcileOpenWork (dsAutoKey d) ?T (map snd (dsOpenWork d)) ([], None) = (kept, previous)"
    by fastforce
  have kept: "distinct (map fst kept)" "\<forall>(k, w) \<in> set kept. owKey w = k \<and> work_key w = k \<and> owSource w = UserSource"
    "\<And>p. previous = Some p \<Longrightarrow> work_key p = owKey p \<and> owSource p = AutoSource"
    using reconcileOpenWork_ok [of "([], None)" "dsAutoKey d" ?T "map snd (dsOpenWork d)"] run by auto
  let ?none = "\<lparr>dsAutoKey = None, dsExpanded = ?expanded, dsManuallyClosed = ?shut, dsOpenWork = kept\<rparr>"
  have none: "disclosure_ok ?none"
    using kept by (auto simp: disclosure_ok_def)
  have auto: "disclosure_ok (?none\<lparr>dsAutoKey := Some (owKey w), dsOpenWork := AList.update (owKey w) w kept\<rparr>)"
    if "work_key w = owKey w" "owSource w = AutoSource" for w
    using store_ok [OF none, of w "owKey w" "Some (owKey w)" ?shut] that by simp
  show ?thesis
    unfolding reconcileTranscriptDisclosure_def openAutomatically_def Let_def run
    using none auto kept(3) auto [of "workDisclosureForRow None p row AutoSource" for p row]
    by (auto split: option.split)
qed

subsection \<open>Reconciling twice changes nothing more\<close>

lemma set_add_keys [simp]: "set (fold add_key ks xs) = set ks \<union> set xs"
  by (induction ks arbitrary: xs) (auto simp: add_key_def)

lemma filterManual_again:
  "filterManualClosedWorkTurns (filterManualClosedWorkTurns shut turns) turns = filterManualClosedWorkTurns shut turns"
proof -
  have "filter (\<lambda>t. in_progress (Some t) \<and> mtTurnId t \<in> set (filterManualClosedWorkTurns shut turns)) turns =
      filter (\<lambda>t. in_progress (Some t) \<and> mtTurnId t \<in> set shut) turns"
    by (rule filter_cong) (auto simp: filterManualClosedWorkTurns_def)
  then show ?thesis
    by (simp add: filterManualClosedWorkTurns_def)
qed

lemma filterExpanded_again:
  "filterExpandedUserMessages (filterExpandedUserMessages expanded turns) turns = filterExpandedUserMessages expanded turns"
proof -
  have "filter (\<lambda>key. key \<in> set (filterExpandedUserMessages expanded turns)) (collapsibleMessageKeys turns) =
      filter (\<lambda>key. key \<in> set expanded) (collapsibleMessageKeys turns)"
    by (rule filter_cong) (auto simp: filterExpandedUserMessages_def)
  then show ?thesis
    by (simp add: filterExpandedUserMessages_def)
qed

lemma refresh_again:
  assumes "turns_ok T" "map_of T (mrTurnId row) = Some t" "row \<in> set (mtRows t)" "is_work (mrSegment row)"
  shows "reconcileExistingOpenWork (workDisclosureForRow a p row source) T = Some (workDisclosureForRow a p row source)"
proof -
  let ?w = "workDisclosureForRow a p row source"
  obtain r where r: "find (\<lambda>r. is_work (mrSegment r) \<and> mrId r = mrId row \<and> mrSegmentId r = mrSegmentId row) (mtRows t) = Some r"
    using assms(3,4) by (fastforce simp: find_None_iff)
  from find_member [OF r] have same: "mrId r = mrId row" "mrSegmentId r = mrSegmentId row" "mrTurnId r = mrTurnId row"
    using assms(1) map_of_SomeD [OF assms(2)] unfolding turns_ok_def by auto
  have "workDisclosureForRow None (Some ?w) r source = ?w"
    using same by (simp add: workDisclosureForRow_def Let_def or_else_def split: option.split)
  then show ?thesis
    using r assms(2) by (simp add: reconcileExistingOpenWork_def workRowForDisclosure_def)
qed

lemma refreshed:
  assumes "turns_ok T" "reconcileExistingOpenWork w T = Some w'"
  shows "reconcileExistingOpenWork w' T = Some w'" "owKey w' = work_key w" "work_key w' = work_key w" "owSource w' = owSource w"
proof -
  obtain row where row: "workRowForDisclosure (owTurnId w) (owRowId w) (owSegmentId w) T = Some row"
    and w': "w' = workDisclosureForRow None (Some w) row (owSource w)"
    using assms(2) by (auto simp: reconcileExistingOpenWork_def)
  note facts = work_row [OF row assms(1)]
  show "reconcileExistingOpenWork w' T = Some w'"
    using facts unfolding w' by (auto intro: refresh_again [OF assms(1)])
  show "owKey w' = work_key w" "work_key w' = work_key w" "owSource w' = owSource w"
    using facts unfolding w' by (simp_all add: work_key_def)
qed

definition survivor ::
  "(jsstring \<times> TranscriptMeasuredTurn) list \<Rightarrow> TranscriptOpenWorkDisclosure \<Rightarrow> TranscriptOpenWorkDisclosure option" where
  "survivor T w =
     (case reconcileExistingOpenWork w T of
        None \<Rightarrow> None
      | Some w' \<Rightarrow>
          if owSource w' = UserSource \<and>
            \<not> (turnHasAssistantMessage (map_of T (owTurnId w')) \<and> owOpenedAfterAssistant w' \<noteq> Some True)
          then Some w' else None)"

definition automatic ::
  "jsstring option \<Rightarrow> (jsstring \<times> TranscriptMeasuredTurn) list \<Rightarrow> TranscriptOpenWorkDisclosure \<Rightarrow>
   TranscriptOpenWorkDisclosure option" where
  "automatic auto T w =
     (case reconcileExistingOpenWork w T of
        None \<Rightarrow> None
      | Some w' \<Rightarrow> if owSource w' \<noteq> UserSource \<and> auto = Some (owKey w') then Some w' else None)"

definition later :: "'a option \<Rightarrow> 'a list \<Rightarrow> 'a option" where
  "later previous xs = (if xs = [] then previous else Some (last xs))"

lemma update_fresh: "k \<notin> fst ` set xs \<Longrightarrow> AList.update k v xs = xs @ [(k, v)]"
  by (induction xs) auto

lemma reconcileOpenWork_form:
  assumes "turns_ok T" "distinct (map work_key ws)" "\<forall>w \<in> set ws. work_key w \<notin> fst ` set kept"
  shows "reconcileOpenWork auto T ws (kept, previous) =
    (kept @ map (\<lambda>w. (owKey w, w)) (List.map_filter (survivor T) ws), later previous (List.map_filter (automatic auto T) ws))"
  using assms(2,3)
proof (induction ws arbitrary: kept previous)
  case (Cons w ws)
  show ?case
  proof (cases "reconcileExistingOpenWork w T")
    case None
    with Cons show ?thesis
      by (simp add: survivor_def automatic_def)
  next
    case (Some w')
    note facts = refreshed [OF assms(1) Some]
    have fresh: "AList.update (owKey w') w' kept = kept @ [(owKey w', w')]"
      using Cons.prems facts by (intro update_fresh) simp
    have now: "survivor T w = (if owSource w' = UserSource \<and>
          \<not> (turnHasAssistantMessage (map_of T (owTurnId w')) \<and> owOpenedAfterAssistant w' \<noteq> Some True)
        then Some w' else None)"
      "automatic auto T w = (if owSource w' \<noteq> UserSource \<and> auto = Some (owKey w') then Some w' else None)"
      by (simp_all add: survivor_def automatic_def Some)
    have other: "\<forall>v \<in> set ws. work_key v \<noteq> work_key w"
      using Cons.prems(1) by (metis distinct.simps(2) image_eqI list.set_map list.simps(9))
    have rest: "reconcileOpenWork auto T ws (xs, q) = (xs @ map (\<lambda>w. (owKey w, w)) (List.map_filter (survivor T) ws),
        later q (List.map_filter (automatic auto T) ws))" if "xs = kept \<or> xs = kept @ [(owKey w', w')]" for xs q
      using that
    proof
      assume "xs = kept @ [(owKey w', w')]"
      then show ?thesis
        by (intro Cons.IH) (use Cons.prems other facts in simp_all)
    qed (use Cons in simp)
    define b where "b = (auto = Some (owKey w'))"
    show ?thesis
      by (simp add: Some now fresh rest flip: b_def) (simp add: later_def)
  qed
qed (simp add: later_def)

lemma work_disclosure_again: "workDisclosureForRow None (Some (workDisclosureForRow a p row source)) row source =
    workDisclosureForRow a p row source"
  by (simp add: workDisclosureForRow_def Let_def or_else_def split: option.split)

text \<open>What is decided once is decided again from its outcome.\<close>

lemma openAutomatically_again:
  assumes "r = openAutomatically turns a expanded shut kept previous"
  obtains
    (none) "r = \<lparr>dsAutoKey = None, dsExpanded = expanded, dsManuallyClosed = shut, dsOpenWork = kept\<rparr>"
      "openAutomatically turns a expanded shut kept None = r"
  | (auto) p where "r = \<lparr>dsAutoKey = Some (owKey p), dsExpanded = expanded, dsManuallyClosed = shut,
        dsOpenWork = AList.update (owKey p) p kept\<rparr>"
      "openAutomatically turns a expanded shut kept (Some p) = r"
      "previous = Some p \<or> map_of kept (owKey p) = None \<and>
        (\<exists>turn \<in> set turns. \<exists>row \<in> set (mtRows turn). \<exists>q. is_work (mrSegment row) \<and> p = workDisclosureForRow None q row AutoSource)"
proof -
  let ?none = "\<lparr>dsAutoKey = None, dsExpanded = expanded, dsManuallyClosed = shut, dsOpenWork = kept\<rparr>"
  let ?working = "case truthy a of None \<Rightarrow> None | Some i \<Rightarrow> find (\<lambda>t. mtTurnId t = i \<and> in_progress (Some t)) turns"
  show ?thesis
  proof (cases "?working")
    case None
    with assms show ?thesis by (intro none) (simp_all add: openAutomatically_def Let_def)
  next
    case (Some turn)
    then have turn: "turn \<in> set turns"
      by (auto dest!: find_member split: option.splits)
    show ?thesis
    proof (cases "mtTurnId turn \<in> set shut \<or> turnHasAssistantMessage (Some turn)")
      case True
      with assms Some show ?thesis by (intro none) (auto simp: openAutomatically_def Let_def)
    next
      case False
      show ?thesis
      proof (cases "preferredAutoOpenWorkRow turn")
        case no_row: None
        show ?thesis
        proof (cases "\<exists>p. previous = Some p \<and> owTurnId p = mtTurnId turn")
          case True
          then obtain p where "previous = Some p" "owTurnId p = mtTurnId turn" by blast
          with assms Some False no_row show ?thesis
            by (intro auto [of p]) (simp_all add: openAutomatically_def Let_def)
        next
          case no: False
          with assms Some False no_row show ?thesis
            by (intro none) (auto simp: openAutomatically_def Let_def split: option.split)
        qed
      next
        case row: (Some row)
        let ?key = "disclosureKey (mrTurnId row) (mrSegmentId row)"
        let ?p = "workDisclosureForRow None (case previous of None \<Rightarrow> None | Some p \<Rightarrow> if owKey p = ?key then Some p else None)
          row AutoSource"
        have member: "row \<in> set (mtRows turn)" "is_work (mrSegment row)"
          using row by (auto simp: preferredAutoOpenWorkRow_def dest!: find_member)
        show ?thesis
        proof (cases "map_of kept ?key")
          case None
          show ?thesis
          proof (rule auto [of ?p])
            show "r = \<lparr>dsAutoKey = Some (owKey ?p), dsExpanded = expanded, dsManuallyClosed = shut,
                dsOpenWork = AList.update (owKey ?p) ?p kept\<rparr>"
              using assms Some False row None by (simp add: openAutomatically_def Let_def)
            then show "openAutomatically turns a expanded shut kept (Some ?p) = r"
              using Some False row None by (simp add: openAutomatically_def Let_def work_disclosure_again)
            show "previous = Some ?p \<or> map_of kept (owKey ?p) = None \<and>
                (\<exists>turn \<in> set turns. \<exists>row \<in> set (mtRows turn). \<exists>q. is_work (mrSegment row) \<and> ?p = workDisclosureForRow None q row AutoSource)"
              using None turn member by auto
          qed
        next
          case (Some w)
          with assms \<open>?working = Some turn\<close> False row show ?thesis
            by (intro none) (simp_all add: openAutomatically_def Let_def)
        qed
      qed
    qed
  qed
qed

text \<open>The measured turns of one transcript: no turn twice, and each row knows its turn.\<close>

definition transcript_ok :: "TranscriptMeasuredTurn list \<Rightarrow> bool" where
  "transcript_ok turns =
     (distinct (map mtTurnId turns) \<and> (\<forall>t \<in> set turns. \<forall>row \<in> set (mtRows t). mrTurnId row = mtTurnId t))"

lemma turnsByIdOf_entries:
  assumes "distinct (map mtTurnId turns)"
  shows "turnsByIdOf turns = map (\<lambda>t. (mtTurnId t, t)) turns"
proof -
  have "fold (\<lambda>t. AList.update (mtTurnId t) t) turns xs = xs @ map (\<lambda>t. (mtTurnId t, t)) turns"
    if "mtTurnId ` set turns \<inter> fst ` set xs = {}" for xs
    using that assms
  proof (induction turns arbitrary: xs)
    case (Cons t turns)
    then have "AList.update (mtTurnId t) t xs = xs @ [(mtTurnId t, t)]"
      by (intro update_fresh) auto
    with Cons show ?case by auto
  qed simp
  from this [of "[]"] show ?thesis by (simp add: turnsByIdOf_def)
qed

lemma transcript_turns:
  assumes "transcript_ok turns"
  shows "turns_ok (turnsByIdOf turns)" "t \<in> set turns \<Longrightarrow> map_of (turnsByIdOf turns) (mtTurnId t) = Some t"
proof -
  show "turns_ok (turnsByIdOf turns)"
    using assms by (auto simp: turnsByIdOf_entries transcript_ok_def turns_ok_def)
  show "map_of (turnsByIdOf turns) (mtTurnId t) = Some t" if "t \<in> set turns"
    using assms that by (auto simp: turnsByIdOf_entries transcript_ok_def comp_def intro!: map_of_is_SomeI)
qed

lemma ok_work_keys: "disclosure_ok d \<Longrightarrow> distinct (map work_key (map snd (dsOpenWork d)))"
proof -
  assume ok: "disclosure_ok d"
  then have same: "map work_key (map snd (dsOpenWork d)) = map fst (dsOpenWork d)"
    by (auto simp: disclosure_ok_def)
  show ?thesis
    unfolding same using ok by (simp add: disclosure_ok_def)
qed

lemma survivors_again:
  assumes "turns_ok T" "w \<in> set (List.map_filter (survivor T) ws)"
  shows "survivor T w = Some w" "automatic auto T w = None" "\<exists>v \<in> set ws. work_key v = owKey w \<and> survivor T v = Some w"
proof -
  obtain v where v: "v \<in> set ws" "survivor T v = Some w"
    using assms(2) by (auto simp: List.map_filter_def)
  then obtain fresh: "reconcileExistingOpenWork v T = Some w" and user: "owSource w = UserSource"
    and keep: "\<not> (turnHasAssistantMessage (map_of T (owTurnId w)) \<and> owOpenedAfterAssistant w \<noteq> Some True)"
    by (auto simp: survivor_def split: option.splits if_splits)
  note facts = refreshed [OF assms(1) fresh]
  show "survivor T w = Some w"
    using user keep by (simp add: survivor_def facts(1))
  show "automatic auto T w = None"
    using user by (simp add: automatic_def facts(1))
  show "\<exists>v \<in> set ws. work_key v = owKey w \<and> survivor T v = Some w"
    using v facts(2) by auto
qed

lemma map_filter_same: "\<forall>w \<in> set ws. f w = Some w \<Longrightarrow> List.map_filter f ws = ws"
  by (induction ws) simp_all

lemma map_filter_none: "\<forall>w \<in> set ws. f w = None \<Longrightarrow> List.map_filter f ws = []"
  by (induction ws) simp_all

lemma map_filter_append: "List.map_filter f (xs @ ys) = List.map_filter f xs @ List.map_filter f ys"
  by (simp add: List.map_filter_def)

lemma automatic_again:
  assumes "turns_ok T" "p \<in> set (List.map_filter (automatic auto T) ws)"
  shows "reconcileExistingOpenWork p T = Some p" "owSource p = AutoSource" "auto = Some (owKey p)"
    "\<exists>v \<in> set ws. work_key v = owKey p \<and> survivor T v = None"
proof -
  obtain v where v: "v \<in> set ws" "reconcileExistingOpenWork v T = Some p" "owSource p \<noteq> UserSource" "auto = Some (owKey p)"
    using assms(2) by (auto simp: List.map_filter_def automatic_def split: option.splits if_splits)
  note facts = refreshed [OF assms(1) v(2)]
  show "reconcileExistingOpenWork p T = Some p" "auto = Some (owKey p)" by (rule facts(1), rule v(4))
  show "owSource p = AutoSource" using v(3) by (simp add: not_user)
  show "\<exists>v \<in> set ws. work_key v = owKey p \<and> survivor T v = None"
    using v facts(2) by (auto simp: survivor_def)
qed

theorem reconcile_again:
  assumes "transcript_ok turns" "disclosure_ok d"
  shows "reconcileTranscriptDisclosure (reconcileTranscriptDisclosure d turns a) turns a = reconcileTranscriptDisclosure d turns a"
proof -
  let ?T = "turnsByIdOf turns" and ?ws = "map snd (dsOpenWork d)" and ?r = "reconcileTranscriptDisclosure d turns a"
  let ?keep = "List.map_filter (survivor ?T) ?ws" and ?auto = "List.map_filter (automatic (dsAutoKey d) ?T) ?ws"
  let ?kept = "map (\<lambda>w. (owKey w, w)) ?keep"
  let ?decide = "openAutomatically turns a (filterExpandedUserMessages (dsExpanded d) turns)
    (filterManualClosedWorkTurns (dsManuallyClosed d) turns) ?kept"
  note ok = transcript_turns [OF assms(1)]
  have keep: "List.map_filter (survivor ?T) ?keep = ?keep" "List.map_filter (automatic auto ?T) ?keep = []" for auto
    using survivors_again [OF ok(1)] by (blast intro: map_filter_same map_filter_none)+
  have works: "map snd ?kept = ?keep" by (simp add: comp_def)
  have run: "?r = ?decide (later None ?auto)"
    using reconcileOpenWork_form [OF ok(1) ok_work_keys [OF assms(2)],
        where kept = "[]" and auto = "dsAutoKey d" and previous = None]
    by (simp add: reconcileTranscriptDisclosure_def)
  have again: "reconcileTranscriptDisclosure ?r turns a = ?decide (later None (List.map_filter (automatic (dsAutoKey ?r) ?T) (map snd (dsOpenWork ?r))))"
    if "List.map_filter (survivor ?T) (map snd (dsOpenWork ?r)) = ?keep"
      "dsExpanded ?r = filterExpandedUserMessages (dsExpanded d) turns"
      "dsManuallyClosed ?r = filterManualClosedWorkTurns (dsManuallyClosed d) turns"
  proof -
    have "reconcileOpenWork (dsAutoKey ?r) ?T (map snd (dsOpenWork ?r)) ([], None) =
        (?kept, later None (List.map_filter (automatic (dsAutoKey ?r) ?T) (map snd (dsOpenWork ?r))))"
      using reconcileOpenWork_form [OF ok(1) ok_work_keys [OF reconcile_ok [of d turns a]],
          where kept = "[]" and auto = "dsAutoKey ?r" and previous = None] that(1)
      by simp
    then show ?thesis
      using that(2,3) by (simp add: reconcileTranscriptDisclosure_def [of ?r] filterExpanded_again filterManual_again)
  qed
  from run show ?thesis
  proof (cases rule: openAutomatically_again)
    case none
    have open_work: "map snd (dsOpenWork ?r) = ?keep"
      unfolding none(1) TranscriptDisclosureState.simps by (rule works)
    show ?thesis
      using again none(2) unfolding open_work keep by (simp add: none(1) later_def)
  next
    case (auto p)
    have p: "reconcileExistingOpenWork p ?T = Some p \<and> owSource p = AutoSource \<and> owKey p \<notin> fst ` set ?kept"
      using auto(3)
    proof
      assume "later None ?auto = Some p"
      then have member: "p \<in> set ?auto" by (auto simp: later_def split: if_splits)
      note facts = automatic_again [OF ok(1) member]
      have "inj_on work_key (set ?ws)"
        using ok_work_keys [OF assms(2)] unfolding distinct_map [of work_key ?ws] by blast
      then have "owKey p \<noteq> owKey w" if "w \<in> set ?keep" for w
        using survivors_again(3) [OF ok(1) that] facts(4) by (metis inj_onD option.distinct(1))
      moreover have "fst ` set ?kept = owKey ` set ?keep" by (simp add: image_image)
      ultimately show ?thesis using facts(1,2) by blast
    next
      assume "map_of ?kept (owKey p) = None \<and> (\<exists>turn \<in> set turns. \<exists>row \<in> set (mtRows turn). \<exists>q.
          is_work (mrSegment row) \<and> p = workDisclosureForRow None q row AutoSource)"
      then obtain turn row q where row: "turn \<in> set turns" "row \<in> set (mtRows turn)" "is_work (mrSegment row)"
        "p = workDisclosureForRow None q row AutoSource" and fresh: "owKey p \<notin> fst ` set ?kept"
        unfolding map_of_eq_None_iff by blast
      have "map_of ?T (mrTurnId row) = Some turn"
        using ok(2) [OF row(1)] row(1,2) assms(1) by (simp add: transcript_ok_def)
      with row fresh show ?thesis
        using refresh_again [OF ok(1) _ row(2,3)] by simp
    qed
    have open_work: "map snd (dsOpenWork ?r) = ?keep @ [p]"
      unfolding auto(1) using p by (simp add: update_fresh comp_def)
    have "survivor ?T p = None" "automatic (Some (owKey p)) ?T p = Some p"
      using p by (simp_all add: survivor_def automatic_def)
    then have "List.map_filter (survivor ?T) (map snd (dsOpenWork ?r)) = ?keep"
      "later None (List.map_filter (automatic (dsAutoKey ?r) ?T) (map snd (dsOpenWork ?r))) = Some p"
      unfolding open_work using keep by (simp_all add: auto(1) later_def map_filter_append)
    then show ?thesis
      using again auto(2) by (simp add: auto(1))
  qed
qed

end
