(* ===== verification/TranscriptLayoutStore.thy ===== *)
theory TranscriptLayoutStore
  imports TranscriptViewportStore TranscriptDisclosure
begin

text \<open>
  The state of the layout that the viewer keeps (transcript/layoutStore.ts): the width, the measured turns
  and what is open of the conversation shown, the cache of measurements, the layouts kept of
  conversations seen before, and the viewport reconciled with it.

  \<^item> The snapshot of the resource store is an argument of the actions that read it.
  \<^item> The revision of the diagram metrics, a counter of another module, is part of the state.
\<close>

subsection \<open>The state\<close>

datatype TranscriptStatus = TranscriptIdle | TranscriptLoading | TranscriptReady | TranscriptFailed

record TranscriptLayoutResourceSnapshot =
  rsConversationId :: "jsstring option"
  rsActiveTurnId :: "jsstring option"
  rsStatus :: TranscriptStatus
  rsTurnOrder :: "jsstring list"
  rsTurnsById :: "(jsstring \<times> (AgentTurnRenderFrame \<times> TranscriptTurnDisplayFooter)) list"

record CachedTranscriptLayout =
  clMetricsRevision :: nat
  clDisclosure :: TranscriptDisclosureState
  clTurnOrder :: "jsstring list"
  clTurnsById :: "(jsstring \<times> TranscriptMeasuredTurn) list"

record TranscriptLayoutState =
  lsMetricsRevision :: nat
  lsActiveTurnId :: "jsstring option"
  lsDisclosure :: TranscriptDisclosureState
  lsTurnOrder :: "jsstring list"
  lsTurnsById :: "(jsstring \<times> TranscriptMeasuredTurn) list"
  lsWidth :: "rat option"
  lsMeasureCache :: TranscriptMeasureCache
  lsLayoutCache :: "(jsstring \<times> CachedTranscriptLayout) list"
  lsConversationId :: "jsstring option"
  lsDiagramRevision :: nat
  lsViewport :: TranscriptViewportState

definition initialLayoutState :: TranscriptLayoutState where
  "initialLayoutState =
     \<lparr>lsMetricsRevision = 0, lsActiveTurnId = None, lsDisclosure = emptyTranscriptDisclosureState, lsTurnOrder = [],
      lsTurnsById = [], lsWidth = None, lsMeasureCache = newMeasureCache 2000 5, lsLayoutCache = [],
      lsConversationId = None, lsDiagramRevision = 0, lsViewport = initialViewport\<rparr>"

subsection \<open>Reconciling with the resources\<close>

definition snapshotTurns :: "TranscriptLayoutResourceSnapshot \<Rightarrow> AgentTurnRenderFrame list" where
  "snapshotTurns snapshot = map fst (List.map_filter (map_of (rsTurnsById snapshot)) (rsTurnOrder snapshot))"

definition snapshotFooters :: "TranscriptLayoutResourceSnapshot \<Rightarrow> (jsstring \<times> TranscriptTurnDisplayFooter) list" where
  "snapshotFooters snapshot =
     fold (\<lambda>i footers. case map_of (rsTurnsById snapshot) i of
         None \<Rightarrow> footers | Some (turn, footer) \<Rightarrow> AList.update i footer footers) (rsTurnOrder snapshot) []"

definition reconcileInputOf ::
  "TranscriptLayoutResourceSnapshot \<Rightarrow> jsstring list option \<Rightarrow> bool \<Rightarrow> TranscriptLayoutState \<Rightarrow> rat \<Rightarrow> ReconcileInput" where
  "reconcileInputOf snapshot dirty force s width =
     \<lparr>conversationIdOf = rsConversationId snapshot, dirtyTurnIds = dirty,
      expandedUserMessages = dsExpanded (lsDisclosure s), forceFullMeasure = force,
      previousTurnOrder = lsTurnOrder s, previousTurnsById = lsTurnsById s,
      reconciledTurns = snapshotTurns snapshot, displayFooters = snapshotFooters snapshot, reconciledWidth = width\<rparr>"

definition reconcileTranscriptLayoutFromResources ::
  "TextMeasure \<Rightarrow> TranscriptLayoutResourceSnapshot \<Rightarrow> jsstring list option \<Rightarrow> bool \<Rightarrow> TranscriptLayoutState \<Rightarrow>
   TranscriptLayoutState" where
  "reconcileTranscriptLayoutFromResources M snapshot dirty force s =
     (case (truthy (rsConversationId snapshot), lsWidth s) of
        (Some conversation, Some width) \<Rightarrow>
          let (layout, cache) = reconcileMeasuredTranscript M (reconcileInputOf snapshot dirty force s width)
              (Some (lsMeasureCache s))
          in s\<lparr>lsMeasureCache := or_else cache (lsMeasureCache s),
               lsViewport := reconcileTranscriptViewportForLayout (layoutTurns layout) (layoutTurnsById layout) (lsViewport s),
               lsMetricsRevision := lsDiagramRevision s,
               lsActiveTurnId := rsActiveTurnId snapshot,
               lsDisclosure := reconcileTranscriptDisclosure (lsDisclosure s) (layoutTurns layout) (rsActiveTurnId snapshot),
               lsTurnOrder := map mtTurnId (layoutTurns layout),
               lsTurnsById := layoutTurnsById layout,
               lsWidth := Some (layoutWidth layout)\<rparr>
      | _ \<Rightarrow> s)"

subsection \<open>The actions\<close>

definition is_ready :: "TranscriptLayoutResourceSnapshot option \<Rightarrow> bool" where
  "is_ready snapshot = (map_option rsStatus snapshot = Some TranscriptReady)"

text \<open>The width; the second component says whether the transcript is loaded next.\<close>

definition setWidth ::
  "TextMeasure \<Rightarrow> rat \<Rightarrow> TranscriptLayoutResourceSnapshot option \<Rightarrow> TranscriptLayoutState \<Rightarrow>
   TranscriptLayoutState \<times> bool" where
  "setWidth M width snapshot s =
     (if (case lsWidth s of None \<Rightarrow> False | Some w \<Rightarrow> \<bar>minus_num w width\<bar> \<le> 1 / 2) then (s, False)
      else
        let s' = s\<lparr>lsWidth := Some width\<rparr> in
        case snapshot of
          None \<Rightarrow> (s', False)
        | Some r \<Rightarrow>
            if truthy (rsConversationId r) = None then (s', False)
            else if rsStatus r = TranscriptReady then (reconcileTranscriptLayoutFromResources M r None True s', False)
            else (s', rsStatus r = TranscriptIdle \<or> rsStatus r = TranscriptLoading))"

definition reconcileIfReady ::
  "TextMeasure \<Rightarrow> TranscriptLayoutResourceSnapshot option \<Rightarrow> bool \<Rightarrow> TranscriptLayoutState \<Rightarrow> TranscriptLayoutState" where
  "reconcileIfReady M snapshot force s =
     (case snapshot of
        None \<Rightarrow> s
      | Some r \<Rightarrow> if rsStatus r = TranscriptReady then reconcileTranscriptLayoutFromResources M r None force s else s)"

definition toggleUserMessage ::
  "TextMeasure \<Rightarrow> jsstring \<Rightarrow> jsstring \<Rightarrow> TranscriptLayoutResourceSnapshot option \<Rightarrow> TranscriptLayoutState \<Rightarrow>
   TranscriptLayoutState" where
  "toggleUserMessage M turnId segment snapshot s =
     reconcileIfReady M snapshot False
       (s\<lparr>lsDisclosure := toggleUserMessageDisclosure (lsDisclosure s) turnId segment\<rparr>)"

definition toggleWork :: "TranscriptWorkDisclosureInput \<Rightarrow> TranscriptLayoutState \<Rightarrow> TranscriptLayoutState" where
  "toggleWork input s =
     s\<lparr>lsDisclosure := toggleWorkDisclosure (lsActiveTurnId s) (lsDisclosure s) input (lsTurnsById s)\<rparr>"

definition toggleWorkChild :: "jsstring \<Rightarrow> jsstring \<Rightarrow> bool \<Rightarrow> TranscriptLayoutState \<Rightarrow> TranscriptLayoutState" where
  "toggleWorkChild workKey key defaultOpen s =
     s\<lparr>lsDisclosure := toggleWorkChildDisclosure (lsDisclosure s) workKey key defaultOpen\<rparr>"

definition setOnlyOpenWorkChild ::
  "jsstring \<Rightarrow> jsstring list \<Rightarrow> jsstring option \<Rightarrow> TranscriptLayoutState \<Rightarrow> TranscriptLayoutState" where
  "setOnlyOpenWorkChild workKey keys openKey s =
     s\<lparr>lsDisclosure := setOnlyOpenWorkChildDisclosure (lsDisclosure s) workKey keys openKey\<rparr>"

definition setOpenWorkHeight ::
  "jsstring \<Rightarrow> jsstring \<Rightarrow> rat \<Rightarrow> TranscriptLayoutState \<Rightarrow> TranscriptLayoutState" where
  "setOpenWorkHeight workKey rowId additionalHeight s =
     s\<lparr>lsDisclosure := setOpenWorkAdditionalHeight (lsDisclosure s) workKey rowId additionalHeight\<rparr>"

text \<open>The listener to the metrics of diagrams, after their revision has gone up.\<close>

definition diagramMetricsChanged ::
  "TextMeasure \<Rightarrow> TranscriptLayoutResourceSnapshot option \<Rightarrow> TranscriptLayoutState \<Rightarrow> TranscriptLayoutState" where
  "diagramMetricsChanged M snapshot s =
     (let s' = s\<lparr>lsDiagramRevision := lsDiagramRevision s + 1, lsMeasureCache := clearCache (lsMeasureCache s)\<rparr> in
      if is_ready snapshot \<and> lsWidth s \<noteq> None then reconcileIfReady M snapshot True s'
      else s'\<lparr>lsMetricsRevision := lsDiagramRevision s'\<rparr>)"

subsection \<open>Another conversation\<close>

definition rememberLayout :: "TranscriptLayoutState \<Rightarrow> (jsstring \<times> CachedTranscriptLayout) list" where
  "rememberLayout s =
     (case truthy (lsConversationId s) of
        None \<Rightarrow> lsLayoutCache s
      | Some i \<Rightarrow> dropOldest 5 (AList.delete i (lsLayoutCache s) @
          [(i, \<lparr>clMetricsRevision = lsMetricsRevision s, clDisclosure = lsDisclosure s, clTurnOrder = lsTurnOrder s,
            clTurnsById = lsTurnsById s\<rparr>)]))"

definition resetTranscriptLayoutForConversation ::
  "jsstring option \<Rightarrow> bool option \<Rightarrow> TranscriptLayoutState \<Rightarrow> TranscriptLayoutState" where
  "resetTranscriptLayoutForConversation conversation restoreCached s =
     (let c = trimmed conversation;
        layouts = rememberLayout s;
        stored = (if restoreCached = Some False then None else case c of None \<Rightarrow> None | Some i \<Rightarrow> map_of layouts i);
        cached = (case stored of
            None \<Rightarrow> None
          | Some l \<Rightarrow> if clMetricsRevision l = lsDiagramRevision s then Some l else None);
        layouts' = (case (c, cached) of
            (Some i, Some l) \<Rightarrow> AList.delete i layouts @ [(i, l)]
          | _ \<Rightarrow> layouts);
        s' = s\<lparr>lsLayoutCache := layouts', lsConversationId := c, lsActiveTurnId := None,
          lsViewport := resetTranscriptViewportForConversation c (lsViewport s)\<rparr>
      in case cached of
           Some l \<Rightarrow> s'\<lparr>lsMetricsRevision := clMetricsRevision l, lsDisclosure := clDisclosure l,
             lsTurnOrder := clTurnOrder l, lsTurnsById := clTurnsById l\<rparr>
         | None \<Rightarrow> s'\<lparr>lsDisclosure := (case stored of None \<Rightarrow> emptyTranscriptDisclosureState | Some l \<Rightarrow> clDisclosure l),
             lsTurnOrder := [], lsTurnsById := []\<rparr>)"

subsection \<open>Reachable states\<close>

text \<open>Every action of the layout store and of the viewport, with whatever snapshot the resources give.\<close>

inductive viewer_step :: "TextMeasure \<Rightarrow> TranscriptLayoutState \<Rightarrow> TranscriptLayoutState \<Rightarrow> bool" for M where
  step_reconcile: "viewer_step M s (reconcileTranscriptLayoutFromResources M snapshot dirty force s)"
| step_width: "viewer_step M s (fst (setWidth M width r s))"
| step_message: "viewer_step M s (toggleUserMessage M turnId segment r s)"
| step_work: "viewer_step M s (toggleWork input s)"
| step_child: "viewer_step M s (toggleWorkChild workKey key defaultOpen s)"
| step_only_child: "viewer_step M s (setOnlyOpenWorkChild workKey keys openKey s)"
| step_height: "viewer_step M s (setOpenWorkHeight workKey rowId additionalHeight s)"
| step_metrics: "viewer_step M s (diagramMetricsChanged M r s)"
| step_reset: "viewer_step M s (resetTranscriptLayoutForConversation conversation restoreCached s)"
| step_viewport: "viewer_step M s (s\<lparr>lsViewport := v\<rparr>)"

definition viewer_reachable :: "TextMeasure \<Rightarrow> TranscriptLayoutState \<Rightarrow> bool" where
  "viewer_reachable M s = (viewer_step M)\<^sup>*\<^sup>* initialLayoutState s"

text \<open>What holds in all of them.\<close>

definition layouts_ok :: "(jsstring \<times> CachedTranscriptLayout) list \<Rightarrow> bool" where
  "layouts_ok layouts =
     (distinct (map fst layouts) \<and> length layouts \<le> 5 \<and> [] \<notin> fst ` set layouts \<and>
      (\<forall>(i, l) \<in> set layouts. disclosure_ok (clDisclosure l) \<and> turns_ok (clTurnsById l)))"

definition viewer_ok :: "TranscriptLayoutState \<Rightarrow> bool" where
  "viewer_ok s =
     (disclosure_ok (lsDisclosure s) \<and> turns_ok (lsTurnsById s) \<and> layouts_ok (lsLayoutCache s) \<and>
      lsConversationId s \<noteq> Some [] \<and>
      cache_tracks (lsMeasureCache s) \<and> maxEntries (lsMeasureCache s) = 2000 \<and> maxConversations (lsMeasureCache s) = 5 \<and>
      length (cacheEntries (lsMeasureCache s)) \<le> 2000 \<and> length (conversationLastUsedAt (lsMeasureCache s)) \<le> 5)"

lemma truthy_not_empty: "truthy t \<noteq> Some []"
  by (simp add: truthy_def)

lemma rememberLayout_ok:
  assumes "viewer_ok s"
  shows "layouts_ok (rememberLayout s)"
proof (cases "truthy (lsConversationId s)")
  case None
  with assms show ?thesis by (simp add: rememberLayout_def viewer_ok_def)
next
  case (Some i)
  let ?entry = "\<lparr>clMetricsRevision = lsMetricsRevision s, clDisclosure = lsDisclosure s, clTurnOrder = lsTurnOrder s,
    clTurnsById = lsTurnsById s\<rparr>"
  let ?all = "AList.delete i (lsLayoutCache s) @ [(i, ?entry)]"
  have i: "i \<noteq> []" using Some truthy_not_empty [of "lsConversationId s"] by auto
  have all: "distinct (map fst ?all)" "[] \<notin> fst ` set ?all"
    "\<forall>(i, l) \<in> set ?all. disclosure_ok (clDisclosure l) \<and> turns_ok (clTurnsById l)"
    using assms i by (auto simp: viewer_ok_def layouts_ok_def delete_members delete_keys distinct_delete)
  have "rememberLayout s = dropOldest 5 ?all"
    using Some by (simp add: rememberLayout_def)
  with all dropOldest_bound [OF all(2), of 5] dropOldest_distinct [OF all(1), of 5] dropOldest_subset [of 5 ?all]
  show ?thesis unfolding layouts_ok_def by (auto dest: subsetD)
qed

text \<open>The cache of measurements through one measurement, and through the loops.\<close>

definition cache_within :: "nat \<Rightarrow> nat \<Rightarrow> TranscriptMeasureCache \<Rightarrow> bool" where
  "cache_within m n c =
     (cache_tracks c \<and> maxEntries c = m \<and> maxConversations c = n \<and> length (cacheEntries c) \<le> m \<and>
      length (conversationLastUsedAt c) \<le> n)"

lemma readCache_within: "cache_within m n c \<Longrightarrow> cache_within m n (snd (readCache l c))"
proof -
  assume within: "cache_within m n c"
  then have tracks: "cache_tracks (snd (readCache l c))"
    by (simp add: cache_within_def readCache_tracks)
  show ?thesis
  proof (cases "map_of (cacheEntries c) (cacheKey l)")
    case (Some entry)
    then have member: "(cacheKey l, entry) \<in> set (cacheEntries c)" by (rule map_of_SomeD)
    then have "cacheKey l \<in> fst ` set (cacheEntries c)" by force
    moreover have "ceConversationId entry \<in> fst ` set (conversationLastUsedAt c)"
      using within member by (auto simp: cache_within_def cache_tracks_def)
    ultimately show ?thesis
      using within tracks Some by (simp add: cache_within_def readCache_def touchEntry_def Let_def length_update_present)
  qed (use within tracks in \<open>simp add: cache_within_def readCache_def\<close>)
qed

lemma writeCache_within:
  assumes "cache_within m n c" "luConversationId l \<noteq> []"
  shows "cache_within m n (writeCache l v c)"
proof -
  let ?entry = "\<lparr>ceValue = v, ceLastUsedAt = 0, ceConversationId = luConversationId l\<rparr>"
  have "cache_tracks c" "maxEntries c = m" "maxConversations c = n"
    using assms(1) by (simp_all add: cache_within_def)
  moreover from this(1) have tracks: "cache_tracks (touchEntry (cacheKey l) ?entry c)"
    using assms(2) by (intro touchEntry_tracks) simp_all
  have "maxEntries (writeCache l v c) = maxEntries c" "maxConversations (writeCache l v c) = maxConversations c"
    using pruneConversations_bounds [OF tracks] pruneEntries_bounds [OF conjunct1 [OF pruneConversations_bounds [OF tracks]]]
    by (simp_all add: writeCache_def touchEntry_def Let_def)
  ultimately show ?thesis
    using writeCache_bounds [OF _ assms(2), of c v] by (simp add: cache_within_def)
qed

lemma measured_within:
  assumes "case cache of None \<Rightarrow> True | Some c \<Rightarrow> cache_within m n c"
  shows "case snd (measureCollapsedTurnWithCache M w e conversation turn footer a cache) of
    None \<Rightarrow> True | Some c \<Rightarrow> cache_within m n c"
proof (cases "truthy conversation = None \<or> cache = None")
  case False
  then obtain i c where ic: "truthy conversation = Some i" "cache = Some c" by auto
  let ?l = "measureLookup w e i turn footer a"
  obtain v c' where read: "readCache ?l c = (v, c')" by fastforce
  have within: "cache_within m n c'"
    using readCache_within [of m n c ?l] assms ic read by simp
  have "luConversationId ?l \<noteq> []"
    using ic(1) truthy_not_empty [of conversation] by (auto simp: measureLookup_def)
  from writeCache_within [OF within this] within show ?thesis
    by (auto simp: measureCollapsedTurnWithCache_def Let_def ic read split: option.split)
qed (use assms in \<open>auto simp: measureCollapsedTurnWithCache_def Let_def split: option.split\<close>)

lemma placeTurns_keeps:
  assumes "I cache" "\<And>turn cache. turn \<in> set turns \<Longrightarrow> I cache \<Longrightarrow> I (snd (measureTurn turn cache)) \<and> Q turn (fst (measureTurn turn cache))"
    "\<And>turn m y. Q turn m \<Longrightarrow> Q turn (m\<lparr>mtCollapsedTop := y\<rparr>)"
  shows "I (snd (placeTurns measureTurn start cache turns)) \<and> list_all2 Q turns (fst (fst (placeTurns measureTurn start cache turns)))"
  using assms(1,2)
proof (induction turns arbitrary: start cache)
  case (Cons turn turns)
  obtain m c where m: "measureTurn turn cache = (m, c)" by fastforce
  have "I c" "Q turn m"
    using Cons.prems(2) [of turn cache] Cons.prems(1) m by auto
  moreover have "I (snd (placeTurns measureTurn (plus_num start (mtCollapsedHeight m)) c turns)) \<and>
      list_all2 Q turns (fst (fst (placeTurns measureTurn (plus_num start (mtCollapsedHeight m)) c turns)))"
    by (rule Cons.IH) (use Cons.prems(2) \<open>I c\<close> in simp_all)
  ultimately show ?case
    using assms(3) by (auto simp: m Let_def split: prod.splits)
qed simp

subsection \<open>Every step keeps it\<close>

definition of_turn :: "AgentTurnRenderFrame \<Rightarrow> TranscriptMeasuredTurn \<Rightarrow> bool" where
  "of_turn turn m = (mtTurnId m = frameId turn \<and> (\<forall>row \<in> set (mtRows m). mrTurnId row = frameId turn))"

lemma cachedRows_turn: "cachedRows turn rs = Some rows \<Longrightarrow> \<forall>row \<in> set rows. mrTurnId row = frameId turn"
  by (induction turn rs arbitrary: rows rule: cachedRows.induct) (auto simp: rowFromCache_def split: option.splits)

lemma measured_rows_turn:
  "\<forall>row \<in> set (snd (fst (measureCollapsedTurnWithCache M w e conversation turn footer a cache))). mrTurnId row = frameId turn"
proof -
  have "\<forall>row \<in> set (snd (measureCollapsedTurn M w e turn footer a)). mrTurnId row = frameId turn"
    by (auto simp: measureCollapsedTurn_def measureRow_def Let_def)
  moreover have "\<forall>row \<in> set (snd rows). mrTurnId row = frameId turn" if "rowsFromCache turn v = Some rows" for v rows
    using that cachedRows_turn [of turn] by (auto simp: rowsFromCache_def split: option.splits if_splits)
  ultimately show ?thesis
    by (auto simp: measureCollapsedTurnWithCache_def Let_def split: option.splits prod.splits)
qed

definition cache_option_within :: "TranscriptMeasureCache option \<Rightarrow> bool" where
  "cache_option_within cache = (case cache of None \<Rightarrow> True | Some c \<Rightarrow> cache_within 2000 5 c)"

lemma freshTurn_keeps:
  assumes "cache_option_within cache"
  shows "cache_option_within (snd (freshTurn M w e conversation footers a turn cache)) \<and>
    of_turn turn (fst (freshTurn M w e conversation footers a turn cache))"
  using measured_within [of 2000 5 cache M w e conversation turn "footerOf footers (frameId turn)"
      "actionRowIdForTurn a (frameId turn)"] assms
    measured_rows_turn [of M w e conversation turn "footerOf footers (frameId turn)" "actionRowIdForTurn a (frameId turn)" cache]
  by (auto simp: freshTurn_def cache_option_within_def of_turn_def measuredTurnOf_def split: prod.splits)

lemma reconciledTurn_keeps:
  assumes "cache_option_within cache" "turns_ok (previousTurnsById q)"
  shows "cache_option_within (snd (reconciledTurn M q turn cache)) \<and> of_turn turn (fst (reconciledTurn M q turn cache))"
proof -
  have "of_turn turn (reusedTurn q turn p)" if "map_of (previousTurnsById q) (frameId turn) = Some p" for p
    using assms(2) map_of_SomeD [OF that] by (auto simp: turns_ok_def of_turn_def reusedTurn_def set_zip)
  then show ?thesis
    using freshTurn_keeps [OF assms(1)] assms(1) by (auto simp: reconciledTurn_def Let_def split: option.split)
qed

lemma of_turns: "list_all2 of_turn turns ms \<Longrightarrow> \<forall>m \<in> set ms. \<forall>row \<in> set (mtRows m). mrTurnId row = mtTurnId m"
  by (induction rule: list_all2_induct) (auto simp: of_turn_def)

lemma turnsByIdOf_members: "(i, t) \<in> set (turnsByIdOf turns) \<Longrightarrow> t \<in> set turns \<and> mtTurnId t = i"
proof -
  have "set (fold (\<lambda>t. AList.update (mtTurnId t) t) turns xs) \<subseteq> set xs \<union> (\<lambda>t. (mtTurnId t, t)) ` set turns" for xs
  proof (induction turns arbitrary: xs)
    case (Cons t turns)
    show ?case
      using Cons [of "AList.update (mtTurnId t) t xs"] update_subset [of "mtTurnId t" t xs] by auto
  qed simp
  from this [of "[]"] show "(i, t) \<in> set (turnsByIdOf turns) \<Longrightarrow> ?thesis"
    by (auto simp: turnsByIdOf_def)
qed

lemma reconciled_layout:
  assumes "cache_option_within cache" "turns_ok (previousTurnsById q)"
  shows "cache_option_within (snd (reconcileMeasuredTranscript M q cache)) \<and>
    turns_ok (layoutTurnsById (fst (reconcileMeasuredTranscript M q cache)))"
proof -
  have keeps: "cache_option_within (snd (placeTurns (reconciledTurn M q) 0 cache (reconciledTurns q))) \<and>
      list_all2 of_turn (reconciledTurns q) (fst (fst (placeTurns (reconciledTurn M q) 0 cache (reconciledTurns q))))"
    by (rule placeTurns_keeps [where I = cache_option_within, OF assms(1)]) (use reconciledTurn_keeps [OF _ assms(2)] in \<open>simp_all add: of_turn_def\<close>)
  then have "\<forall>m \<in> set (fst (fst (placeTurns (reconciledTurn M q) 0 cache (reconciledTurns q)))).
      \<forall>row \<in> set (mtRows m). mrTurnId row = mtTurnId m"
    using of_turns by blast
  then have "turns_ok (turnsByIdOf (fst (fst (placeTurns (reconciledTurn M q) 0 cache (reconciledTurns q)))))"
    by (auto simp: turns_ok_def dest: turnsByIdOf_members)
  with keeps show ?thesis
    by (auto simp: reconcileMeasuredTranscript_def layoutOf_def turnsByIdOf_def split: prod.splits)
qed

lemma viewer_parts:
  "viewer_ok s \<longleftrightarrow> disclosure_ok (lsDisclosure s) \<and> turns_ok (lsTurnsById s) \<and> layouts_ok (lsLayoutCache s) \<and>
     lsConversationId s \<noteq> Some [] \<and> cache_within 2000 5 (lsMeasureCache s)"
  by (auto simp: viewer_ok_def cache_within_def)

lemma reconcile_keeps:
  assumes "viewer_ok s"
  shows "viewer_ok (reconcileTranscriptLayoutFromResources M snapshot dirty force s)"
proof (cases "truthy (rsConversationId snapshot) = None \<or> lsWidth s = None")
  case False
  then obtain i w where iw: "truthy (rsConversationId snapshot) = Some i" "lsWidth s = Some w" by auto
  let ?q = "reconcileInputOf snapshot dirty force s w"
  obtain layout cache where run: "reconcileMeasuredTranscript M ?q (Some (lsMeasureCache s)) = (layout, cache)"
    by fastforce
  have "cache_option_within cache \<and> turns_ok (layoutTurnsById layout)"
    using reconciled_layout [of "Some (lsMeasureCache s)" ?q M] run assms
    by (simp add: cache_option_within_def viewer_parts reconcileInputOf_def)
  then have "cache_within 2000 5 (or_else cache (lsMeasureCache s)) \<and> turns_ok (layoutTurnsById layout)"
    using assms by (simp add: cache_option_within_def viewer_parts or_else_def split: option.splits)
  with assms show ?thesis
    by (simp add: reconcileTranscriptLayoutFromResources_def iw run viewer_parts reconcile_ok)
qed (use assms in \<open>auto simp: reconcileTranscriptLayoutFromResources_def split: option.splits\<close>)

lemma reset_keeps:
  assumes "viewer_ok s"
  shows "viewer_ok (resetTranscriptLayoutForConversation conversation restoreCached s)"
proof -
  let ?c = "trimmed conversation"
  let ?stored = "if restoreCached = Some False then None else case ?c of None \<Rightarrow> None | Some i \<Rightarrow> map_of (rememberLayout s) i"
  have layouts: "layouts_ok (rememberLayout s)" and c: "?c \<noteq> Some []"
    using rememberLayout_ok [OF assms] by (simp_all add: trimmed_def truthy_not_empty)
  have stored: "disclosure_ok (clDisclosure l) \<and> turns_ok (clTurnsById l) \<and>
      (\<forall>i. ?c = Some i \<longrightarrow> layouts_ok (AList.delete i (rememberLayout s) @ [(i, l)]))"
    if l: "?stored = Some l" for l
  proof -
    obtain i where i: "?c = Some i" "map_of (rememberLayout s) i = Some l"
      using l by (auto split: if_splits option.splits)
    note member = map_of_SomeD [OF i(2)]
    have "length (AList.delete i (rememberLayout s)) < length (rememberLayout s)"
      by (rule length_delete_less [OF member])
    with layouts member i(1) c show ?thesis
      by (auto simp: layouts_ok_def delete_members delete_keys distinct_delete)
  qed
  show ?thesis
  proof (cases ?stored)
    case None
    with assms layouts c show ?thesis
      by (auto simp: resetTranscriptLayoutForConversation_def Let_def viewer_parts turns_ok_def split: option.split)
  next
    case (Some l)
    with assms layouts c stored [OF Some] show ?thesis
      by (auto simp: resetTranscriptLayoutForConversation_def Let_def viewer_parts turns_ok_def split: option.split)
  qed
qed

lemma initial_viewer_ok: "viewer_ok initialLayoutState"
  by (simp add: viewer_ok_def initialLayoutState_def turns_ok_def layouts_ok_def newMeasureCache_def cache_tracks_def)

lemma viewer_ok_congs:
  "viewer_ok s \<Longrightarrow> viewer_ok (s\<lparr>lsWidth := w\<rparr>)"
  "viewer_ok s \<Longrightarrow> viewer_ok (s\<lparr>lsViewport := v\<rparr>)"
  "viewer_ok s \<Longrightarrow> viewer_ok (s\<lparr>lsMetricsRevision := r\<rparr>)"
  "viewer_ok s \<Longrightarrow> disclosure_ok d \<Longrightarrow> viewer_ok (s\<lparr>lsDisclosure := d\<rparr>)"
  "viewer_ok s \<Longrightarrow> viewer_ok (s\<lparr>lsDiagramRevision := n, lsMeasureCache := clearCache (lsMeasureCache s)\<rparr>)"
  by (simp_all add: viewer_parts cache_within_def clearCache_def cache_tracks_def)

lemma viewer_disclosure: "viewer_ok s \<Longrightarrow> disclosure_ok (lsDisclosure s)" "viewer_ok s \<Longrightarrow> turns_ok (lsTurnsById s)"
  by (simp_all add: viewer_ok_def)

lemma step_keeps: "viewer_step M s s' \<Longrightarrow> viewer_ok s \<Longrightarrow> viewer_ok s'"
proof (induction rule: viewer_step.induct)
  case (step_width s width r)
  then show ?case
    by (auto simp: setWidth_def Let_def intro: viewer_ok_congs reconcile_keeps split: option.split)
next
  case (step_metrics s r)
  then show ?case
    by (auto simp: diagramMetricsChanged_def reconcileIfReady_def Let_def intro!: viewer_ok_congs reconcile_keeps
        split: option.split)
next
  case (step_message s turnId segment r)
  then show ?case
    by (auto simp: toggleUserMessage_def reconcileIfReady_def intro!: viewer_ok_congs reconcile_keeps child_operations_ok(4)
        dest: viewer_disclosure split: option.split)
qed (simp_all add: reconcile_keeps reset_keeps viewer_ok_congs toggleWork_def toggleWorkChild_def setOnlyOpenWorkChild_def
    setOpenWorkHeight_def child_operations_ok toggleWork_ok viewer_disclosure)

lemma reachable_ok: "viewer_reachable M s \<Longrightarrow> viewer_ok s"
  unfolding viewer_reachable_def by (induction rule: rtranclp_induct) (simp_all add: initial_viewer_ok step_keeps)

end
