(* ===== verification/TranscriptSamples.thy ===== *)
theory TranscriptSamples
  imports TranscriptLayoutStore
begin

text \<open>
  Concrete transcripts at which the properties of the viewer are applied: a turn laid out at width 400, the
  same turn after another conversation was shown and the viewer resized, a turn whose work opens by
  itself, and two turns of which one is in sight.
\<close>

lemma double_numeral [simp]:
  "numeral k < (2 :: nat) ^ 53 \<Longrightarrow> double (numeral k) = numeral k"
  "numeral k < (2 :: nat) ^ 53 \<Longrightarrow> double (- numeral k) = - numeral k"
  "double 1 = 1" "double (- 1) = - 1"
  using double_of_int [of "numeral k"] double_of_int [of "- numeral k"] double_of_int [of 1] double_of_int [of "- 1"] by simp_all

definition sample_measure :: TextMeasure where
  "sample_measure =
     \<lparr>markdownDocumentHeight = (\<lambda>text density width options. if width < 500 then 40 else 20),
      markdownDocumentCappedHeight = (\<lambda>text density width lines. 20), plainTextHeight = (\<lambda>size line text width. 20)\<rparr>"

definition sample_frame :: "AgentTurnRenderFrame" where
  "sample_frame = \<lparr>frameId = [97], frameStatus = FrameCompleted, renderRevision = [49],
     frameSegments = [AssistantMessageSegment [115] [104] False]\<rparr>"

definition sample_snapshot :: "TranscriptLayoutResourceSnapshot" where
  "sample_snapshot =
     \<lparr>rsConversationId = Some [65], rsActiveTurnId = None, rsStatus = TranscriptReady, rsTurnOrder = [[97]],
      rsTurnsById = [([97], (sample_frame, emptyDisplayFooter))]\<rparr>"

definition loading_snapshot :: "TranscriptLayoutResourceSnapshot" where
  "loading_snapshot =
     \<lparr>rsConversationId = Some [66], rsActiveTurnId = None, rsStatus = TranscriptLoading, rsTurnOrder = [], rsTurnsById = []\<rparr>"

definition shown :: "TranscriptLayoutState \<Rightarrow> TranscriptLayoutState" where
  "shown s =
     reconcileTranscriptLayoutFromResources sample_measure sample_snapshot None False
       (resetTranscriptLayoutForConversation (Some [65]) None s)"

definition sample_row :: TranscriptMeasuredRow where
  "sample_row = \<lparr>mrHeight = 108, mrId = [97, 58, 115], mrSegment = AssistantMessageSegment [115] [104] False, mrSegmentId = [115],
     mrShowAssistantActions = True, mrShowUserActions = False, mrTurn = sample_frame, mrTurnId = [97], mrDisclosure = None\<rparr>"

definition sample_measured_turn :: TranscriptMeasuredTurn where
  "sample_measured_turn = \<lparr>mtCollapsedHeight = 108, mtCollapsedTop = 0, mtRevision = [49], mtRows = [sample_row],
     mtDisplayFooter = emptyDisplayFooter, mtTurn = sample_frame, mtTurnId = [97], mtDisclosureRevision = []\<rparr>"

lemma whitespace_samples: "\<not> whitespace 104" "\<not> whitespace 65" "\<not> whitespace 66" by (simp_all add: whitespace_def)

lemma measured_sample:
  "measureCollapsedTurn sample_measure 400 [] sample_frame emptyDisplayFooter None = (108, [sample_row])"
  "measureCollapsedTurn sample_measure 800 [] sample_frame emptyDisplayFooter None = (88, [sample_row\<lparr>mrHeight := 88\<rparr>])"
  by (simp_all add: measureCollapsedTurn_def sample_frame_def sample_row_def measureRow_def Let_def emptyDisplayFooter_def
    measureCollapsedSegment_def measureAssistantMessage_def has_text_def trim_def whitespace_samples sample_measure_def
    plus_num_def sum_num_def measureTurnDisplayFooter_def assistantMessageCanShowActions_def js_def)

definition first_shown :: TranscriptLayoutState where
  "first_shown = shown (fst (setWidth sample_measure 400 None initialLayoutState))"

lemma trimmed_samples [simp]: "trimmed (Some [65]) = Some [65]" "trimmed (Some [66]) = Some [66]"
  by (simp_all add: trimmed_def trim_def truthy_def whitespace_samples)

lemma sample_snapshot_parts:
  "snapshotTurns sample_snapshot = [sample_frame]" "snapshotFooters sample_snapshot = [([97], emptyDisplayFooter)]"
  "rsConversationId sample_snapshot = Some [65]" "rsActiveTurnId sample_snapshot = None"
  by (simp_all add: snapshotTurns_def snapshotFooters_def sample_snapshot_def)

lemma no_action: "latestUserMessageActionRowId [sample_frame] = None"
  by (simp add: latestUserMessageActionRowId_def sample_frame_def)

lemma sample_disclosure: "userMessageDisclosureRevisionForTurn sample_frame [] = []"
  by (simp add: userMessageDisclosureRevisionForTurn_def sample_frame_def)

lemma pure_sample: "pureTurn sample_measure 400 [] [([97], emptyDisplayFooter)] None sample_frame = sample_measured_turn"
proof -
  have "frameId sample_frame = [97]" "renderRevision sample_frame = [49]" by (simp_all add: sample_frame_def)
  then show ?thesis
    by (simp add: pureTurn_def measuredTurnOf_def footerOf_def or_else_def actionRowIdForTurn_def measured_sample
      sample_measured_turn_def sample_disclosure)
qed

definition first_input :: ReconcileInput where
  "first_input = \<lparr>conversationIdOf = Some [65], dirtyTurnIds = None, expandedUserMessages = [], forceFullMeasure = False,
     previousTurnOrder = [], previousTurnsById = [], reconciledTurns = [sample_frame],
     displayFooters = [([97], emptyDisplayFooter)], reconciledWidth = 400\<rparr>"

lemma first_layout:
  "fst (reconcileMeasuredTranscript sample_measure first_input (Some (newMeasureCache 2000 5))) = layoutOf 400 ([sample_measured_turn], 108)"
proof -
  have "fst (reconcileMeasuredTranscript sample_measure first_input (Some (newMeasureCache 2000 5))) =
      layoutOf (reconciledWidth first_input) (placed_turns (pureTurn sample_measure (max 1 (reconciledWidth first_input))
        (expandedUserMessages first_input) (displayFooters first_input)
        (latestUserMessageActionRowId (reconciledTurns first_input))) 0 (reconciledTurns first_input))"
    by (rule reconciled_transcript [where R = "\<lambda>c t r. sample_frame" and F = "\<lambda>r. emptyDisplayFooter", THEN conjunct1])
      (auto simp: first_input_def honest_def transcript_published_def published_def footerOf_def or_else_def
        segment_ids_ok_def sample_frame_def emptyDisplayFooter_def truthy_def js_def)
  then show ?thesis
    by (simp add: first_input_def no_action pure_sample layoutOf_def) (simp add: sample_measured_turn_def plus_num_def)
qed

lemma first_shown_is:
  "lsTurnsById first_shown = [([97], sample_measured_turn)] \<and> lsTurnOrder first_shown = [[97]] \<and> lsWidth first_shown = Some 400 \<and>
   lsConversationId first_shown = Some [65] \<and> lsLayoutCache first_shown = [] \<and> lsMetricsRevision first_shown = 0 \<and>
   lsDiagramRevision first_shown = 0 \<and> dsExpanded (lsDisclosure first_shown) = []"
proof -
  let ?s = "resetTranscriptLayoutForConversation (Some [65]) None (fst (setWidth sample_measure 400 None initialLayoutState))"
  have s: "lsTurnsById ?s = []" "lsTurnOrder ?s = []" "lsDisclosure ?s = emptyTranscriptDisclosureState" "lsWidth ?s = Some 400"
    "lsMeasureCache ?s = newMeasureCache 2000 5" "lsConversationId ?s = Some [65]" "lsLayoutCache ?s = []"
    "lsMetricsRevision ?s = 0" "lsDiagramRevision ?s = 0"
    by (simp_all add: setWidth_def initialLayoutState_def resetTranscriptLayoutForConversation_def Let_def rememberLayout_def truthy_def)
  have input: "reconcileInputOf sample_snapshot None False ?s 400 = first_input"
    by (simp add: reconcileInputOf_def first_input_def sample_snapshot_parts s emptyTranscriptDisclosureState_def)
  obtain cache where run: "reconcileMeasuredTranscript sample_measure first_input (Some (newMeasureCache 2000 5)) =
      (layoutOf 400 ([sample_measured_turn], 108), cache)"
    using first_layout by (metis prod.collapse)
  have "mtTurnId sample_measured_turn = [97]" "mtRows sample_measured_turn = [sample_row]" by (simp_all add: sample_measured_turn_def)
  moreover have "is_user_message (mrSegment sample_row) = False" by (simp add: sample_row_def)
  ultimately show ?thesis
    by (simp add: first_shown_def shown_def reconcileTranscriptLayoutFromResources_def sample_snapshot_parts truthy_def s input run
      layoutOf_def reconcileTranscriptDisclosure_def emptyTranscriptDisclosureState_def openAutomatically_def Let_def
      filterExpandedUserMessages_def collapsibleMessageKeys_def)
qed

definition resized :: TranscriptLayoutState where
  "resized = fst (setWidth sample_measure 800 (Some loading_snapshot) (resetTranscriptLayoutForConversation (Some [66]) None first_shown))"

lemma resized_is:
  "lsWidth resized = Some 800 \<and> lsConversationId resized = Some [66] \<and> lsDiagramRevision resized = 0 \<and>
   lsLayoutCache resized = [([65], \<lparr>clMetricsRevision = 0, clDisclosure = lsDisclosure first_shown, clTurnOrder = [[97]],
     clTurnsById = [([97], sample_measured_turn)]\<rparr>)]"
  using first_shown_is
  by (simp add: resized_def setWidth_def resetTranscriptLayoutForConversation_def Let_def rememberLayout_def truthy_def
      loading_snapshot_def minus_num_def)

lemma reused_sample:
  "canReusePreviousTurn \<lparr>conversationIdOf = c, dirtyTurnIds = None, expandedUserMessages = [], forceFullMeasure = False,
     previousTurnOrder = [[97]], previousTurnsById = [([97], sample_measured_turn)], reconciledTurns = [sample_frame],
     displayFooters = [([97], emptyDisplayFooter)], reconciledWidth = w\<rparr> sample_frame sample_measured_turn"
  by (simp add: canReusePreviousTurn_def sample_measured_turn_def previousFrames_def no_action sample_disclosure footerOf_def or_else_def)
    (simp add: sample_frame_def sample_row_def)

lemma shown_again: "lsWidth (shown resized) = Some 800 \<and> map (mtCollapsedHeight \<circ> snd) (lsTurnsById (shown resized)) = [108]"
proof -
  let ?s = "resetTranscriptLayoutForConversation (Some [65]) None resized"
  have s: "lsTurnsById ?s = [([97], sample_measured_turn)]" "lsTurnOrder ?s = [[97]]" "dsExpanded (lsDisclosure ?s) = []"
    "lsWidth ?s = Some 800"
    using resized_is first_shown_is by (simp_all add: resetTranscriptLayoutForConversation_def Let_def rememberLayout_def truthy_def)
  have ids: "frameId sample_frame = [97]" "mtTurnId sample_measured_turn = [97]" "mtCollapsedHeight sample_measured_turn = 108"
    by (simp_all add: sample_frame_def sample_measured_turn_def)
  obtain c where "reconcileMeasuredTranscript sample_measure (reconcileInputOf sample_snapshot None False ?s 800) (Some (lsMeasureCache ?s)) =
      (layoutOf 800 ([(reusedTurn (reconcileInputOf sample_snapshot None False ?s 800) sample_frame sample_measured_turn)\<lparr>mtCollapsedTop := 0\<rparr>], 108), c)"
    by (simp add: reconcileMeasuredTranscript_def reconcileInputOf_def sample_snapshot_parts s reconciledTurn_def ids reused_sample Let_def)
      (simp add: reusedTurn_def ids plus_num_def)
  then show ?thesis
    by (simp add: shown_def reconcileTranscriptLayoutFromResources_def sample_snapshot_parts truthy_def s)
      (simp add: layoutOf_def reusedTurn_def ids)
qed

subsection \<open>Measured again\<close>

definition again_input :: ReconcileInput where
  "again_input = first_input\<lparr>previousTurnOrder := [[97]], previousTurnsById := [([97], sample_measured_turn)]\<rparr>"

lemma again_published:
  "transcript_published (\<lambda>c t r. sample_frame) (\<lambda>r. emptyDisplayFooter) [65] [([97], emptyDisplayFooter)] [sample_frame]"
  by (auto simp: transcript_published_def published_def footerOf_def or_else_def segment_ids_ok_def sample_frame_def
      emptyDisplayFooter_def js_def)

lemma again_measured:
  "reconciledTurns again_input = [sample_frame]" "displayFooters again_input = [([97], emptyDisplayFooter)]"
  "reconciledWidth again_input = 400" "truthy (conversationIdOf again_input) = Some [65]"
  "segment_ids_ok sample_frame"
  "\<forall>p. map_of (previousTurnsById again_input) (frameId sample_frame) = Some p \<longrightarrow>
     measured_before sample_measure again_input sample_frame p"
proof -
  show parts: "reconciledTurns again_input = [sample_frame]" "displayFooters again_input = [([97], emptyDisplayFooter)]"
    "reconciledWidth again_input = 400" "truthy (conversationIdOf again_input) = Some [65]"
    by (simp_all add: again_input_def first_input_def truthy_def)
  show "segment_ids_ok sample_frame" by (simp add: segment_ids_ok_def sample_frame_def)
  have previous: "previousFrames again_input = [sample_frame]" "frameId sample_frame = [97]"
    "sample_measured_turn\<lparr>mtCollapsedTop := 0\<rparr> = sample_measured_turn" "mtTurn sample_measured_turn = sample_frame"
    "mtDisplayFooter sample_measured_turn = emptyDisplayFooter"
    by (simp_all add: previousFrames_def again_input_def first_input_def sample_measured_turn_def sample_frame_def)
  have entry: "previousTurnsById again_input = [([97], sample_measured_turn)]"
    by (simp add: again_input_def)
  show "\<forall>p. map_of (previousTurnsById again_input) (frameId sample_frame) = Some p \<longrightarrow>
      measured_before sample_measure again_input sample_frame p"
    using pure_sample
    by (auto simp: measured_before_def parts previous entry no_action footerOf_def or_else_def intro!: exI [of _ "[]"]
      exI [of _ "[([97], emptyDisplayFooter)]"])
qed

lemma again_reuses: "canReusePreviousTurn again_input sample_frame sample_measured_turn"
  by (simp add: again_input_def first_input_def reused_sample)

subsection \<open>Work that opens by itself\<close>

definition working_frame :: AgentTurnRenderFrame where
  "working_frame = \<lparr>frameId = [97], frameStatus = FrameInProgress, renderRevision = [49],
     frameSegments = [WorkSegment [119] WorkRunning]\<rparr>"

definition working_row :: TranscriptMeasuredRow where
  "working_row = \<lparr>mrHeight = 47, mrId = [97, 58, 119], mrSegment = WorkSegment [119] WorkRunning, mrSegmentId = [119],
     mrShowAssistantActions = False, mrShowUserActions = False, mrTurn = working_frame, mrTurnId = [97], mrDisclosure = None\<rparr>"

definition working_turn :: TranscriptMeasuredTurn where
  "working_turn = \<lparr>mtCollapsedHeight = 47, mtCollapsedTop = 0, mtRevision = [49], mtRows = [working_row],
     mtDisplayFooter = emptyDisplayFooter, mtTurn = working_frame, mtTurnId = [97], mtDisclosureRevision = []\<rparr>"

lemma working_turn_ok: "transcript_ok [working_turn]"
  by (simp add: transcript_ok_def working_turn_def working_row_def)

lemma working_opens:
  "dsAutoKey (reconcileTranscriptDisclosure emptyTranscriptDisclosureState [working_turn] (Some [97])) = Some [97, 58, 119]"
  by (simp add: reconcileTranscriptDisclosure_def emptyTranscriptDisclosureState_def openAutomatically_def truthy_def
      working_turn_def in_progress_def working_frame_def filterManualClosedWorkTurns_def turnHasAssistantMessage_def
      working_row_def preferredAutoOpenWorkRow_def disclosureKey_def js_def Let_def)

lemma one_automatic:
  assumes "disclosure_ok d"
  shows "length (filter (\<lambda>(k, w). owSource w = AutoSource) (dsOpenWork d)) \<le> 1"
proof -
  let ?auto = "filter (\<lambda>(k, w). owSource w = AutoSource) (dsOpenWork d)"
  have "distinct (map fst ?auto)" "\<forall>k \<in> set (map fst ?auto). dsAutoKey d = Some k"
    using assms by (auto simp: disclosure_ok_def distinct_map_filter)
  then have "length (map fst ?auto) \<le> 1"
    by (cases "map fst ?auto" rule: remdups_adj.cases) auto
  then show ?thesis by simp
qed

lemma resized_reachable: "viewer_reachable sample_measure resized"
proof -
  note step = rtranclp.rtrancl_into_rtrancl [of "viewer_step sample_measure"]
  show ?thesis
    unfolding viewer_reachable_def resized_def first_shown_def shown_def
    by (rule step [OF step [OF step [OF step [OF step [OF rtranclp.rtrancl_refl step_width] step_reset] step_reconcile]
      step_reset] step_width])
qed

subsection \<open>Two turns\<close>

definition sample_turns :: "TranscriptMeasuredTurn list" where
  "sample_turns = [sample_measured_turn, sample_measured_turn\<lparr>mtCollapsedTop := 108, mtTurnId := [98]\<rparr>]"

definition sample_geometry :: TranscriptGeometry where
  "sample_geometry = geometryIndex sample_turns []"

lemma sample_geometry_values:
  "turnBottom (geometryIndex sample_turns []) 0 = 108" "turnBottom (geometryIndex sample_turns []) 1 = 216"
  "turnTop (geometryIndex sample_turns []) 0 = 0" "turnTop (geometryIndex sample_turns []) 1 = 108"
  "map mtCollapsedTop sample_turns = [0, 108]" "length sample_turns = 2" "mtTurnId (sample_turns ! 1) = [98]"
  "[0..1] = [0, 1 :: int]"
  "minus_num 100 0 = 100" "minus_num (plus_num 100 50) 0 = 150"
  by (simp_all add: sample_turns_def sample_measured_turn_def geometryIndex_def turnBottom_def turnTop_def element_def
      heightBeforeTurnIndex_def heightInsideTurn_def or_else_def plus_num_def minus_num_def upto.simps Let_def)

end
