(* ===== verification/StreamingRefresh.thy ===== *)
theory StreamingRefresh
  imports Doubles "HOL-Library.AList"
begin

text \<open>
  The scheduler of refreshes while a turn streams (transcript/streamingRefreshScheduler.ts) and the split of
  invalidations that feeds it (streamingRefreshPolicy.ts).

  \<^item> The constructor's \<^verbatim>\<open>cadenceMs\<close>, at least 0, and \<^verbatim>\<open>key\<close> are arguments; \<^verbatim>\<open>clock.now()\<close> is the argument
    \<open>now\<close>.  A run is asynchronous: starting one hands out its values, its end is an event of its own (one
    that follows at once, when \<^verbatim>\<open>run\<close> throws).  The start of the last run is \<open>None\<close> for minus infinity.
\<close>

subsection \<open>The scheduler\<close>

record 'v scheduler =
  inFlight :: bool
  lastRunStartedAt :: "rat option"
  pendingByKey :: "(jsstring \<times> 'v) list"
  refreshTimer :: "rat option"

definition newScheduler :: "'v scheduler" where
  "newScheduler = \<lparr>inFlight = False, lastRunStartedAt = None, pendingByKey = [], refreshTimer = None\<rparr>"

definition startPending :: "rat \<Rightarrow> 'v scheduler \<Rightarrow> 'v scheduler \<times> 'v list option" where
  "startPending now s =
     (if inFlight s \<or> pendingByKey s = [] then (s, None)
      else (s\<lparr>pendingByKey := [], inFlight := True, lastRunStartedAt := Some now\<rparr>, Some (map snd (pendingByKey s))))"

text \<open>A timer that is set holds its delay.\<close>

definition schedule :: "rat \<Rightarrow> rat \<Rightarrow> 'v scheduler \<Rightarrow> 'v scheduler \<times> 'v list option" where
  "schedule cadence now s =
     (if inFlight s \<or> refreshTimer s \<noteq> None \<or> pendingByKey s = [] then (s, None)
      else
        let delay = (case lastRunStartedAt s of
            None \<Rightarrow> 0 | Some t \<Rightarrow> max 0 (minus_num (plus_num t (max 0 cadence)) now))
        in if delay \<le> 0 then startPending now s else (s\<lparr>refreshTimer := Some delay\<rparr>, None))"

definition enqueue ::
  "('v \<Rightarrow> jsstring) \<Rightarrow> rat \<Rightarrow> rat \<Rightarrow> 'v list \<Rightarrow> 'v scheduler \<Rightarrow> 'v scheduler \<times> 'v list option" where
  "enqueue key cadence now vs s =
     schedule cadence now (s\<lparr>pendingByKey := fold (\<lambda>v. AList.update (key v) v) vs (pendingByKey s)\<rparr>)"

definition timerFires :: "rat \<Rightarrow> 'v scheduler \<Rightarrow> 'v scheduler \<times> 'v list option" where
  "timerFires now s = startPending now (s\<lparr>refreshTimer := None\<rparr>)"

definition finishRun :: "rat \<Rightarrow> rat \<Rightarrow> 'v scheduler \<Rightarrow> 'v scheduler \<times> 'v list option" where
  "finishRun cadence now s = schedule cadence now (s\<lparr>inFlight := False\<rparr>)"

definition cancelPending :: "bool option \<Rightarrow> 'v scheduler \<Rightarrow> 'v scheduler" where
  "cancelPending resetCadence s =
     s\<lparr>pendingByKey := [], refreshTimer := None,
       lastRunStartedAt := (if or_else resetCadence True then None else lastRunStartedAt s)\<rparr>"

subsection \<open>What feeds it\<close>

datatype InvalidationReason = SendAccepted | RuntimeEvent | TerminalReason

datatype AgentResourceInvalidation =
    ResourceInvalidation jsstring
  | TranscriptInvalidation jsstring InvalidationReason bool
  | ExecutionScopeInvalidation jsstring

fun is_streaming :: "AgentResourceInvalidation \<Rightarrow> bool" where
  "is_streaming (TranscriptInvalidation i reason affectsOrder) = (reason = RuntimeEvent \<and> \<not> affectsOrder)"
| "is_streaming _ = False"

fun is_immediate :: "AgentResourceInvalidation \<Rightarrow> bool" where
  "is_immediate (TranscriptInvalidation i reason affectsOrder) = (reason \<noteq> RuntimeEvent \<or> affectsOrder)"
| "is_immediate _ = True"

definition partitionStreamingTranscriptInvalidations ::
  "AgentResourceInvalidation list \<Rightarrow> AgentResourceInvalidation list \<times> AgentResourceInvalidation list" where
  "partitionStreamingTranscriptInvalidations invalidations =
     (filter is_immediate invalidations, filter is_streaming invalidations)"

lemma streaming_or_immediate: "is_streaming i \<longleftrightarrow> \<not> is_immediate i"
  by (cases i) auto

subsection \<open>Nothing that waits is forgotten\<close>

text \<open>The events, with the values that each hands to a run.\<close>

inductive refresh_step ::
  "('v \<Rightarrow> jsstring) \<Rightarrow> rat \<Rightarrow> 'v scheduler \<Rightarrow> 'v list option \<Rightarrow> 'v scheduler \<Rightarrow> bool" for key cadence where
  refresh_enqueue: "enqueue key cadence now vs s = (s', batch) \<Longrightarrow> refresh_step key cadence s batch s'"
| refresh_timer: "refreshTimer s \<noteq> None \<Longrightarrow> timerFires now s = (s', batch) \<Longrightarrow> refresh_step key cadence s batch s'"
| refresh_finish: "inFlight s \<Longrightarrow> finishRun cadence now s = (s', batch) \<Longrightarrow> refresh_step key cadence s batch s'"
| refresh_cancel: "refresh_step key cadence s None (cancelPending reset s)"

inductive refresh_reachable :: "('v \<Rightarrow> jsstring) \<Rightarrow> rat \<Rightarrow> 'v scheduler \<Rightarrow> bool" for key cadence where
  refresh_new: "refresh_reachable key cadence newScheduler"
| refresh_next: "refresh_reachable key cadence s \<Longrightarrow> refresh_step key cadence s batch s' \<Longrightarrow> refresh_reachable key cadence s'"

definition scheduler_ok :: "'v scheduler \<Rightarrow> bool" where
  "scheduler_ok s = (distinct (map fst (pendingByKey s)) \<and> (pendingByKey s \<noteq> [] \<longrightarrow> inFlight s \<or> refreshTimer s \<noteq> None))"

lemma schedule_ok: "distinct (map fst (pendingByKey s)) \<Longrightarrow> scheduler_ok (fst (schedule cadence now s))"
  by (auto simp: schedule_def startPending_def scheduler_ok_def Let_def)

lemma distinct_updates: "distinct (map fst xs) \<Longrightarrow> distinct (map fst (fold (\<lambda>v. AList.update (key v) v) vs xs))"
  by (induction vs arbitrary: xs) (simp_all add: distinct_update)

lemma refresh_step_ok: "refresh_step key cadence s batch s' \<Longrightarrow> scheduler_ok s \<Longrightarrow> scheduler_ok s'"
proof (induction rule: refresh_step.induct)
  case (refresh_enqueue now vs s s' batch)
  then show ?case
    using schedule_ok [of "s\<lparr>pendingByKey := fold (\<lambda>v. AList.update (key v) v) vs (pendingByKey s)\<rparr>" cadence now]
    by (simp add: enqueue_def scheduler_ok_def distinct_updates)
next
  case (refresh_timer s now s' batch)
  then show ?case
    by (auto simp: timerFires_def startPending_def scheduler_ok_def split: if_splits)
next
  case (refresh_finish s now s' batch)
  then show ?case
    using schedule_ok [of "s\<lparr>inFlight := False\<rparr>" cadence now] by (simp add: finishRun_def scheduler_ok_def)
qed (simp add: cancelPending_def scheduler_ok_def)

lemma refresh_reachable_ok: "refresh_reachable key cadence s \<Longrightarrow> scheduler_ok s"
  by (induction rule: refresh_reachable.induct) (auto simp: newScheduler_def scheduler_ok_def dest: refresh_step_ok)

text \<open>
  Of each key the value queued last waits; only a run or a cancellation takes it away, and a run takes
  everything that waits.
\<close>

lemma updates_last: "map_of (fold (\<lambda>v. AList.update (key v) v) (vs @ [v]) xs) (key v) = Some v"
  by (simp add: update_conv')

lemma batch_takes_all:
  assumes "refresh_step key cadence s (Some batch) s'"
  shows "pendingByKey s' = [] \<and> inFlight s' \<and> (\<forall>k v. map_of (pendingByKey s) k = Some v \<longrightarrow>
    v \<in> set batch \<or> (\<exists>w \<in> set batch. key w = k))"
  using assms
proof (cases rule: refresh_step.cases)
  case (refresh_enqueue now vs)
  let ?all = "fold (\<lambda>v. AList.update (key v) v) vs (pendingByKey s)"
  have batch: "batch = map snd ?all" "pendingByKey s' = []" "inFlight s'"
    using refresh_enqueue by (auto simp: enqueue_def schedule_def startPending_def Let_def split: if_splits)
  have "v \<in> snd ` set (fold (\<lambda>v. AList.update (key v) v) vs xs) \<or> (\<exists>w \<in> snd ` set (fold (\<lambda>v. AList.update (key v) v) vs xs). key w = k)"
    if "map_of xs k = Some v \<or> (\<exists>w. map_of xs k = Some w \<and> key w = k)" for xs k v
    using that
  proof (induction vs arbitrary: xs v)
    case Nil
    then show ?case by (force dest: map_of_SomeD)
  next
    case (Cons u vs)
    show ?case
    proof (cases "key u = k")
      case True
      then show ?thesis using Cons.IH [of "AList.update (key u) u xs" u] by (auto simp: update_conv')
    next
      case False
      then show ?thesis using Cons.IH [of "AList.update (key u) u xs" v] Cons.prems by (auto simp: update_conv')
    qed
  qed
  with batch show ?thesis by fastforce
next
  case (refresh_timer now)
  then show ?thesis
    by (force simp: timerFires_def startPending_def dest: map_of_SomeD split: if_splits)
next
  case (refresh_finish now)
  then show ?thesis
    by (force simp: finishRun_def schedule_def startPending_def Let_def dest: map_of_SomeD split: if_splits)
qed

subsection \<open>A sample\<close>

text \<open>A value queued while the cadence of the run before has not passed.\<close>

definition waiting_scheduler :: "jsstring scheduler" where
  "waiting_scheduler = fst (enqueue id 125 20 [[98]] (fst (finishRun 125 10 (fst (enqueue id 125 0 [[97]] newScheduler)))))"

lemma waiting_is: "pendingByKey waiting_scheduler = [([98], [98])]" "inFlight waiting_scheduler = False"
proof -
  have "double 105 = 105" "double 125 = 125"
    using double_of_int [of 105] double_of_int [of 125] by simp_all
  then show "pendingByKey waiting_scheduler = [([98], [98])]" "inFlight waiting_scheduler = False"
    by (simp_all add: waiting_scheduler_def enqueue_def finishRun_def schedule_def startPending_def newScheduler_def Let_def
        plus_num_def minus_num_def)
qed

lemma waiting_reachable: "refresh_reachable id 125 waiting_scheduler"
proof -
  let ?one = "fst (enqueue id 125 0 [[97]] newScheduler)" and ?two = "fst (finishRun 125 10 (fst (enqueue id 125 0 [[97]] newScheduler)))"
  have "refresh_reachable id 125 ?one"
    by (rule refresh_next [OF refresh_new refresh_enqueue]) (rule prod.collapse [symmetric])
  moreover have "inFlight ?one"
    by (simp add: enqueue_def schedule_def startPending_def newScheduler_def)
  ultimately have "refresh_reachable id 125 ?two"
    by (rule refresh_next [OF _ refresh_finish]) (rule prod.collapse [symmetric])
  then show ?thesis
    unfolding waiting_scheduler_def by (rule refresh_next [OF _ refresh_enqueue]) (rule prod.collapse [symmetric])
qed

end
