(* ===== verification/TranscriptWork.thy ===== *)
theory TranscriptWork
  imports TranscriptFrames
begin

text \<open>
  How the work of a turn is shown (transcript/components/work): its duration (workDuration.ts), the items
  of its trace (workTrace.ts), and whether the viewer still waits for content (workActivityState.ts).

  \<^item> A call and a block have the members that this code reads.
\<close>

subsection \<open>Durations\<close>

definition div_num :: "rat \<Rightarrow> rat \<Rightarrow> rat" where
  "div_num a b = double (a / b)"

definition formatWorkDurationSeconds :: "int \<Rightarrow> jsstring" where
  "formatWorkDurationSeconds totalSeconds =
     (let hours = totalSeconds div 3600; minutes = totalSeconds div 60; seconds = totalSeconds mod 60 in
      if 0 < hours
      then decimal (nat hours) @ js ''h '' @ decimal (nat ((totalSeconds mod 3600) div 60)) @ js ''m''
      else if minutes = 0 then decimal (nat seconds) @ js ''s''
      else decimal (nat minutes) @ js ''m '' @ decimal (nat seconds) @ js ''s'')"

definition formatWorkDuration :: "rat \<Rightarrow> jsstring" where
  "formatWorkDuration durationMs = formatWorkDurationSeconds (max 1 \<lfloor>div_num durationMs 1000 + 1 / 2\<rfloor>)"

definition runningSeconds :: "rat \<Rightarrow> int" where
  "runningSeconds elapsedMs = \<lfloor>div_num (max 0 elapsedMs) 1000\<rfloor>"

definition formatRunningWorkDuration :: "rat \<Rightarrow> jsstring" where
  "formatRunningWorkDuration elapsedMs = formatWorkDurationSeconds (runningSeconds elapsedMs)"

definition nextRunningWorkDurationUpdateMs :: "rat \<Rightarrow> int" where
  "nextRunningWorkDurationUpdateMs elapsedMs =
     (let normalized = max 0 elapsedMs; nextSecond = times_num (of_int (\<lfloor>div_num normalized 1000\<rfloor> + 1)) 1000
      in max 1 \<lceil>minus_num nextSecond normalized\<rceil>)"

subsection \<open>Calls and blocks\<close>

datatype CallStatus = CallRunning | CallRecovering | CallCompleted | CallFailed | CallInterrupted

record AgentToolCallSummary =
  callSummaryId :: jsstring
  callStatus :: CallStatus
  childScopeId :: "jsstring option"

datatype BlockState = StreamingBlock | BlockFinal | BlockPartial

datatype AgentInferenceBlock =
    TextBlock (blockId: jsstring) (blockState: BlockState) (blockText: jsstring)
  | ActionBlock (blockId: jsstring) (blockCall: AgentToolCallSummary)

datatype ActionTraceItem =
    TextItem AgentInferenceBlock
  | ActionsItem jsstring "AgentToolCallSummary list"
  | ScopeItem AgentToolCallSummary

text \<open>\<^verbatim>\<open>flush\<close>: what is pending becomes one item.\<close>

definition flushCalls :: "jsstring \<Rightarrow> AgentToolCallSummary list \<Rightarrow> ActionTraceItem list" where
  "flushCalls scopeId pending =
     (case pending of
        [] \<Rightarrow> []
      | call # _ \<Rightarrow> [ActionsItem (js ''action-run:'' @ scopeId @ js '':'' @ callSummaryId call) pending])"

fun traceBlocks ::
  "jsstring \<Rightarrow> AgentInferenceBlock list \<Rightarrow> ActionTraceItem list \<times> AgentToolCallSummary list \<Rightarrow>
   ActionTraceItem list \<times> AgentToolCallSummary list" where
  "traceBlocks scopeId [] state = state"
| "traceBlocks scopeId (TextBlock i st t # blocks) (items, pending) =
     traceBlocks scopeId blocks (items @ flushCalls scopeId pending @ [TextItem (TextBlock i st t)], [])"
| "traceBlocks scopeId (ActionBlock i call # blocks) (items, pending) =
     (if truthy (childScopeId call) \<noteq> None
      then traceBlocks scopeId blocks (items @ flushCalls scopeId pending @ [ScopeItem call], [])
      else traceBlocks scopeId blocks (items, pending @ [call]))"

text \<open>The inferences one after the other: a run of calls may reach across them.\<close>

definition scopeTraceItems :: "jsstring \<Rightarrow> AgentInferenceBlock list list \<Rightarrow> ActionTraceItem list" where
  "scopeTraceItems scopeId inferences =
     (case fold (traceBlocks scopeId) inferences ([], []) of (items, pending) \<Rightarrow> items @ flushCalls scopeId pending)"

subsection \<open>Waiting for content\<close>

text \<open>The loop back over the visible run of ordinary calls.\<close>

fun settledRun :: "AgentInferenceBlock list \<Rightarrow> bool" where
  "settledRun [] = True"
| "settledRun (TextBlock i st t # blocks) = True"
| "settledRun (ActionBlock i call # blocks) =
     (if truthy (childScopeId call) \<noteq> None then True
      else if callStatus call = CallRunning then False
      else settledRun blocks)"

definition executionScopeIsWaitingForContent :: "bool \<Rightarrow> AgentInferenceBlock list list \<Rightarrow> bool" where
  "executionScopeIsWaitingForContent running inferences =
     (if \<not> running then False
      else
        let blocks = (if inferences = [] then [] else last inferences) in
        if blocks = [] then True
        else case last blocks of
            TextBlock i st t \<Rightarrow> st \<noteq> StreamingBlock \<or> \<not> has_text t
          | ActionBlock i call \<Rightarrow>
              if truthy (childScopeId call) \<noteq> None then callStatus call \<noteq> CallRunning
              else settledRun (rev blocks))"

subsection \<open>The trace shows every block once, in order\<close>

datatype shown_part = ShownText AgentInferenceBlock | ShownCall AgentToolCallSummary

fun shown_block :: "AgentInferenceBlock \<Rightarrow> shown_part" where
  "shown_block (ActionBlock i call) = ShownCall call"
| "shown_block b = ShownText b"

fun shown_item :: "ActionTraceItem \<Rightarrow> shown_part list" where
  "shown_item (TextItem b) = [ShownText b]"
| "shown_item (ActionsItem key calls) = map ShownCall calls"
| "shown_item (ScopeItem call) = [ShownCall call]"

definition shown_state :: "ActionTraceItem list \<times> AgentToolCallSummary list \<Rightarrow> shown_part list" where
  "shown_state state = concat (map shown_item (fst state)) @ map ShownCall (snd state)"

lemma flush_shown [simp]: "concat (map shown_item (flushCalls scopeId pending)) = map ShownCall pending"
  by (simp add: flushCalls_def split: list.split)

lemma traceBlocks_shown: "shown_state (traceBlocks scopeId blocks state) = shown_state state @ map shown_block blocks"
  by (induction scopeId blocks state rule: traceBlocks.induct) (simp_all add: shown_state_def)

lemma scopeTrace_shown:
  "concat (map shown_item (scopeTraceItems scopeId inferences)) = map shown_block (concat inferences)"
proof -
  have "shown_state (fold (traceBlocks scopeId) inferences state) = shown_state state @ map shown_block (concat inferences)"
    for state
    by (induction inferences arbitrary: state) (simp_all add: traceBlocks_shown)
  from this [of "([], [])"] show ?thesis
    by (cases "fold (traceBlocks scopeId) inferences ([], [])") (simp add: scopeTraceItems_def shown_state_def)
qed

text \<open>No run of calls is empty, none holds a call with a scope of its own, and no two stand side by side.\<close>

fun is_run :: "ActionTraceItem \<Rightarrow> bool" where
  "is_run (ActionsItem key calls) = True"
| "is_run _ = False"

definition ordinary :: "AgentToolCallSummary \<Rightarrow> bool" where
  "ordinary call = (truthy (childScopeId call) = None)"

fun run_ok :: "ActionTraceItem \<Rightarrow> bool" where
  "run_ok (ActionsItem key calls) = (calls \<noteq> [] \<and> list_all ordinary calls)"
| "run_ok _ = True"

definition runs_ok :: "ActionTraceItem list \<Rightarrow> bool" where
  "runs_ok items = (list_all run_ok items \<and> successively (\<lambda>x y. \<not> (is_run x \<and> is_run y)) items)"

definition trace_ok :: "ActionTraceItem list \<times> AgentToolCallSummary list \<Rightarrow> bool" where
  "trace_ok state =
     (runs_ok (fst state) \<and> list_all ordinary (snd state) \<and> (fst state \<noteq> [] \<longrightarrow> \<not> is_run (last (fst state))))"

lemma flushed_ok:
  assumes "trace_ok (items, pending)"
  shows "runs_ok (items @ flushCalls scopeId pending)"
    "\<not> is_run item \<Longrightarrow> run_ok item \<Longrightarrow> trace_ok (items @ flushCalls scopeId pending @ [item], [])"
  using assms
  by (cases pending; auto simp: trace_ok_def runs_ok_def flushCalls_def successively_append_iff)+

lemma traceBlocks_ok: "trace_ok state \<Longrightarrow> trace_ok (traceBlocks scopeId blocks state)"
proof (induction scopeId blocks state rule: traceBlocks.induct)
  case (2 scopeId i st t blocks items pending)
  then show ?case using flushed_ok(2) [of items pending "TextItem (TextBlock i st t)" scopeId] by simp
next
  case (3 scopeId i call blocks items pending)
  then show ?case using flushed_ok(2) [of items pending "ScopeItem call" scopeId]
    by (simp add: trace_ok_def ordinary_def)
qed simp

lemma scopeTrace_runs: "runs_ok (scopeTraceItems scopeId inferences)"
proof -
  have "trace_ok (fold (traceBlocks scopeId) inferences state)" if "trace_ok state" for state
    using that by (induction inferences arbitrary: state) (simp_all add: traceBlocks_ok)
  from this [of "([], [])"] have "trace_ok (fold (traceBlocks scopeId) inferences ([], []))"
    by (simp add: trace_ok_def runs_ok_def)
  then show ?thesis
    by (cases "fold (traceBlocks scopeId) inferences ([], [])") (simp add: scopeTraceItems_def flushed_ok(1))
qed

subsection \<open>The clock of running work\<close>

text \<open>The wait for the next second is at least a millisecond, and the seconds never run backwards.\<close>

lemma next_update_positive: "1 \<le> nextRunningWorkDurationUpdateMs elapsedMs"
  by (simp add: nextRunningWorkDurationUpdateMs_def Let_def)

lemma runningSeconds_mono: "a \<le> b \<Longrightarrow> runningSeconds a \<le> runningSeconds b"
  unfolding runningSeconds_def div_num_def
  by (intro floor_mono double_mono divide_right_mono) auto

end
