(* ===== verification/Spec2Isabelle.thy ===== *)
theory Spec2Isabelle
  imports DeliverySamples CheckoutSamples SessionSamples TranscriptSamples StreamingRefresh TranscriptWork
begin

text \<open>
  The core of the Remux agent: of its server, the contract with the providers, the delivery of a command
  to a provider, the checkouts that child executions work in, and who controls a native session; of its
  viewer, the layout of a transcript, what is open in it, and where the viewport stands.

  \<^bold>\<open>The program.\<close>  A provider adapter (Codex, Claude Code, a fixture) sends the server events in
  envelopes and takes commands from it.  Everything that crosses this boundary is parsed by
  extensions/agent/shared/provider-runtime.ts.  A command with an external effect (a root turn, a
  steer, a Compact) becomes a delivery attempt, whose life
  extensions/agent/server/src/native-runtime/delivery-attempt-owner.ts keeps in two SQLite tables:
  it is prepared from the frozen input, crosses when bytes may have been sent, gathers what the
  provider reports in a stage, is accepted only on a proof, and otherwise is rejected, left unknown
  and, by the user, abandoned.  The turns that come of it are published as frames, which the viewer
  (extensions/agent/viewer/src/transcript) measures, keeps from one refresh to the next, and of which it
  renders those in sight.

  \<^bold>\<open>The provider contract\<close> (provider-runtime.ts).
  \<^item> \<open>Prelude\<close> holds JavaScript values, text and records; \<open>JsonText\<close> is \<^verbatim>\<open>JSON.stringify\<close>, with
    the shortest decimal text of a double, and the byte length of a value.
  \<^item> \<open>ContractPrimitives\<close> and \<open>ContractJson\<close> are the field readers, strict records, limits,
    versions and bounded JSON; \<open>ContractDisplays\<close>, \<open>ContractUsage\<close>, \<open>ContractBlocks\<close>,
    \<open>ContractEvents\<close> and \<open>ContractEnvelope\<close> the parsers of events, up to an envelope and a
    snapshot; \<open>ContractCommands\<close>, \<open>ContractCapabilities\<close> and \<open>ContractSession\<close> those of commands.
    A parser named \<^verbatim>\<open>parseX\<close> in the source is the definition \<open>parseX\<close>; a thrown
    \<^verbatim>\<open>ProviderContractError\<close> is the left value with its path and message.
  \<^item> The locales \<open>contract_codec\<close> and \<open>contract_command\<close> state what every parser promises: errors
    blame a path at or below its own, and what it accepts, written out again, it accepts as the same
    value.  Every parser is an interpretation, and the parsers above use the facts of those below.

  \<^bold>\<open>The delivery of a command\<close> (delivery-contract.ts, delivery-attempt-owner.ts, the tables of
  schema.ts, \<^verbatim>\<open>transaction\<close> of native-journal.ts).
  \<^item> \<open>DeliveryContract\<close>, \<open>DeliveryJson\<close> and \<open>DeliveryEvidence\<close> are the proofs of acceptance, their
    validation and compatibility, canonical JSON and bounded errors.
  \<^item> \<open>StoreOps\<close> is the monad of the owner's methods and \<open>DeliveryStore\<close> the database: rows, the
    \<^verbatim>\<open>CHECK\<close>s and keys, statements, the decoding of an attempt; an operation maps a store to a result or fault and the store it leaves, so what was
    written before a fault stays unless a transaction takes it back.
  \<^item> \<open>DeliveryOwner\<close>, \<open>DeliveryTransitions\<close>, \<open>DeliveryRecovery\<close> and \<open>DeliveryPass\<close> are the owner's
    methods, one definition each.  \<^verbatim>\<open>dispatch\<close> and \<^verbatim>\<open>reconcile\<close> are cut at their awaits, since
    other operations run there: \<open>dispatchBegin\<close>, \<open>markPossiblySent\<close>, \<open>dispatchThrown\<close>,
    \<open>dispatchSettle\<close>, \<open>dispatchPrepareFailed\<close>, \<open>admit_attempt\<close>; \<open>reconcileBegin\<close>,
    \<open>reconcilePresence\<close>, \<open>admit_attempt\<close>.
  \<^item> \<open>DeliveryRules\<close> has the locale \<open>store_relation\<close>: how a relation between the store before and
    after is carried through the statements of an operation.  It is interpreted three times: for the
    keys of the rows (\<open>DeliveryPass\<close>, the loop of \<open>recover\<close> ends), for the protocol
    (\<open>DeliveryProtocol\<close>, \<open>DeliverySafety\<close>, \<open>DeliveryInvariant\<close>), and for its weaker form, in which a
    constraint may refuse a write (\<open>DeliveryReach\<close>).
  \<^item> \<open>DeliveryProtocol\<close> states the life cycle, what one row may become, and when a store is valid;
    \<open>DeliveryReach\<close> the steps of the owner as a relation on stores, with the rest of the server's
    work and restarts, and the stores they reach.
  \<^item> \<open>DeliveryLaws\<close> and \<open>DeliveryRestart\<close> say what an operation returns with and when it refuses;
    \<open>DeliverySamples\<close> runs two deliveries in full, at which the properties are instantiated.

  \<^bold>\<open>Federated checkouts\<close> (native-journal.ts, federation-checkout-owner.ts, schema.ts).
  \<^item> \<open>JournalCommands\<close> is the journal's receipt of a command: \<^verbatim>\<open>claimCommand\<close>, \<^verbatim>\<open>inspectCommand\<close>,
    \<^verbatim>\<open>completeCommand\<close>, \<^verbatim>\<open>rejectCommand\<close>, \<^verbatim>\<open>failCommand\<close> and the coordinator's use of them.
  \<^item> \<open>CheckoutStore\<close> is the table of reservations and the statements on it, \<open>CheckoutOwner\<close> the
    admission of a child and the walks over its native descendants, \<open>CheckoutTerminal\<close> what a
    terminal event, a scope or an unknown outcome does to the reservations of the ancestors.
  \<^item> \<open>CheckoutSafety\<close> has the locale \<open>journal_preorder\<close>, how a preorder on journals is carried
    through every operation, interpreted for the receipts, for the capacity of a checkout and for
    what a restart keeps, and the steps of the owner; \<open>CheckoutLaws\<close> the walks against the relation
    \<open>descends\<close> they search; \<open>CheckoutAdmission\<close> the outcomes of an admission.  \<open>CheckoutSamples\<close>
    runs an admission, a refusal, a release and a restart in full.

  \<^bold>\<open>Sessions, credentials and children.\<close>
  \<^item> \<open>SessionOwnership\<close> is the registry of control leases (native-session-ownership.ts):
    \<^verbatim>\<open>acquire\<close>, the \<^verbatim>\<open>release\<close> of a lease, \<^verbatim>\<open>snapshot\<close>.
  \<^item> \<open>FederationCredentials\<close> are the bearer credentials of federated sessions
    (federation/credential-registry.ts) and the spawn targets their scope allows.  A record that the
    registry and a handed-out credential share lives in a heap.
  \<^item> \<open>CodexChildren\<close> is the registry of native children (providers/codex/codex-child-registry.ts) and
    \<^verbatim>\<open>mapChildThreadNotification\<close> of codex-event-mapper.ts, which announces their turns.
  \<^item> Each has a step relation, an invariant and what its steps keep; \<open>SessionSamples\<close> runs them.

  \<^bold>\<open>The transcript of the viewer\<close> (viewer/src/transcript, shared/transcript.ts).
  \<^item> \<open>Doubles\<close> is arithmetic on pixel sizes: the result of every operation is rounded to a double, so
    monotonicity is proved and associativity is not assumed.
  \<^item> \<open>TranscriptFrames\<close> are the frames of turns and the height of their rows and footers
    (userMessageContent.ts, measureCollapsed.ts); \<open>TranscriptCache\<close> the bounded cache of measurements
    (measureCache.ts) and measuring through it; \<open>TranscriptLayout\<close> the layout of a transcript, anew and
    from the one before (reconcileMeasured.ts).
  \<^item> \<open>TranscriptGeometry\<close> is the index of tops and bottoms and the range rendered (geometryIndex.ts,
    virtualizerRange.ts); \<open>TranscriptViewport\<close> intents, anchors and navigation (viewportReducer.ts,
    virtualizerScroll.ts); \<open>TranscriptDisclosure\<close> what is open (disclosureReducer.ts).
  \<^item> \<open>TranscriptViewportStore\<close> and \<open>TranscriptLayoutStore\<close> are the two stores, one definition per
    action (viewportStore.ts, viewportCache.ts, layoutStore.ts), with the relation \<open>viewer_step\<close>, the
    states it reaches and their invariant.
  \<^item> \<open>StreamingRefresh\<close> is the scheduler of refreshes (streamingRefreshScheduler.ts), cut at its timer
    and at the end of a run; \<open>TranscriptWork\<close> how work is shown (components/work).
    \<open>TranscriptSamples\<close> lays out a transcript, resizes and returns to it.

  \<^bold>\<open>What the properties show.\<close>  Those under "The delivery of a command" are about the owner:
  reachable stores are valid, an attempt crosses at most once, final states and recorded facts stay,
  and every operation does what its name says on every branch.  Those under "Federated checkouts":
  a checkout has at most its capacity of writers, a child is admitted with its reservation or leaves
  none, a reservation ends only when no descendant may still write, a receipt settles once.
  Those under "Sessions, credentials and children": a session has one controller, a dead credential
  stays dead and a live one grants what it was issued for, a child's turn ends once.  Those under "The
  transcript of the viewer": what is reused is what would be measured, and where it is not; at most
  one section opens by itself; caches stay within their bounds; searches end; what is in sight is
  rendered; no refresh is forgotten.  The others are about the contract and the functions the owner uses: what accepted input satisfies, what
  is read back unchanged, which inputs are refused, sizes.

  \<^bold>\<open>Bounds and recursion.\<close>  Nothing runs on fuel.  \<open>jsonValue\<close> descends at most 32 levels;
  \<open>walkParents\<close> ends because the visited executions are distinct bindings; \<open>recoverPages\<close> because
  every page moves the cursor past a row whose key nothing changes; \<open>reachRows\<close> and \<open>walkStack\<close>
  because they visit an execution once; the climb to the ancestors stops at 64 levels, as in the
  source; the pruning of the cache because an entry goes each time; the binary searches because their
  interval shrinks, and by how much is a property.  The bounds of the source (256 descendants, 64 levels, 64
  KiB and 64 MiB columns, 256 staged rows, 2000 measurements of 5 conversations, 2^53 - 1) are the numbers
  of the definitions.

  \<^bold>\<open>What is a parameter.\<close>  Of an \<open>Owner\<close>: SHA-256, the collation of \<^verbatim>\<open>localeCompare\<close>, and the
  journal's \<^verbatim>\<open>appendProviderEvents\<close>.  Of a \<open>Platform\<close>: SHA-256, the collation and the text of a
  constraint.  Of an operation: readings of the clock, fresh identities, the
  callbacks of \<^verbatim>\<open>admit\<close> and \<^verbatim>\<open>drainAccepted\<close>, the provider's results, the checkout that was resolved, a random token.  Of
  \<open>parseOpenProviderSessionInput\<close>: \<^verbatim>\<open>new URL\<close>.  Of the viewer: \<open>TextMeasure\<close>, the height of a markdown
  document and of a text, which the browser's fonts decide; the snapshot of the resource store; the clock.

  \<^bold>\<open>Not modelled.\<close>  The event log of the journal and the projector, whose meaning is that of some
  thirty SQL tables and their queries; the coordinator, the adapters beyond the parts above, the resource
  store of the viewer and the federation server, whose methods interleave at every await over processes,
  sockets and the host's transport; React components, the markdown renderer and the DOM side of the
  viewport; the former Codex viewer, the terminal, the editor, the app shell, the WebView bridges and the
  Rust services, which render or move bytes.
\<close>

section \<open>The delivery of a command\<close>

text \<open>C1: every store the owner's steps lead to from a valid one is valid: each row meets the
  checks of the database, identities are unique, and the observations of an attempt stand under
  dense ordinals within their bounds.  The steps are all operations in any order, with faults,
  the work of the server on its other tables, and restarts.\<close>

theorem reachable_stores_valid:
  assumes "valid ow s" "(delivery_step ow)\<^sup>*\<^sup>* s t"
  shows "valid ow t"
  using steps_grow [OF assms(2,1)] by simp

theorem reachable_stores_valid_witness: "valid sampleOwner admittedStore"
  by (rule reachable_stores_valid [OF empty_valid sample_runs(1)])

text \<open>
  C2: An attempt crosses at most once.  Once a dispatch has marked it as possibly sent, no later
  store of the owner lets it be marked or dispatched again, by this or by a restarted instance,
  whatever the operations in between: an input may be lost, but is never sent twice.
\<close>

theorem crosses_at_most_once:
  assumes "valid ow s" "markPossiblySent ow i c session g now s = (Inr b, t)"
    "(delivery_step ow)\<^sup>*\<^sup>* t u"
  shows "(\<exists>e. markPossiblySent (ow\<lparr>ownerId := x\<rparr>) i c' session' g' now' u = (Inl e, u)) \<and>
    (\<exists>e. dispatchBegin (ow\<lparr>ownerId := x\<rparr>) i u = (Inl e, u))"
proof -
  have valid: "valid ow t"
    using step_grows [OF delivery_step.crossed [OF assms(2)] assms(1)] by simp
  from returnsD [OF returns_markPossiblySent [OF assms(1)] assms(2)]
  obtain q where q: "attemptRow t i = Some q" "rowState q = Dispatching"
    by blast
  with steps_row [OF valid assms(3) q(1)] row_le_state obtain p where
    p: "attemptRow u i = Some p" "rowState p \<noteq> Preparing" by force
  moreover have "valid (ow\<lparr>ownerId := x\<rparr>) u"
    using steps_grow [OF assms(3) valid] by simp
  ultimately show ?thesis
    using markPossiblySent_refused dispatchBegin_refused unfolding refuses_def by blast
qed

theorem crosses_at_most_once_witness:
  "(\<exists>e. markPossiblySent (sampleOwner\<lparr>ownerId := js ''v''\<rparr>) (js ''a'') False (js ''s'') None 9 admittedStore =
      (Inl e, admittedStore)) \<and>
   (\<exists>e. dispatchBegin (sampleOwner\<lparr>ownerId := js ''v''\<rparr>) (js ''a'') admittedStore = (Inl e, admittedStore))"
  by (rule crosses_at_most_once [OF sample_valid(1) sample_cross sample_runs(2)])

text \<open>C3: an accepted, rejected or abandoned attempt keeps its state and its proof in every later
  store.\<close>

theorem final_states_are_final:
  assumes "valid ow s" "(delivery_step ow)\<^sup>*\<^sup>* s t" "attemptRow s i = Some r" "rowState r \<in> terminal"
  shows "\<exists>q. attemptRow t i = Some q \<and> rowState q = rowState r \<and> rowEvidence q = rowEvidence r"
  using steps_row [OF assms(1-3)] row_le_terminal [of r _ ow] assms(4) valid_row [OF assms(1,3)] by metis

theorem final_states_are_final_witness:
  "\<exists>q. attemptRow (admittedStore\<lparr>tables := sampleTables\<rparr>) (js ''a'') = Some q \<and> rowState q = Accepted \<and>
     rowEvidence q = Some (encodeEvidence sampleEvidence)"
proof -
  have row: "attemptRow admittedStore (js ''a'') = Some admittedRow" "rowState admittedRow = Accepted"
    "rowEvidence admittedRow = Some (encodeEvidence sampleEvidence)"
    by (simp_all add: attemptRow_def admittedStore_def admittedRow_def provedRow_def crossedRow_def
        sample_row_fields)
  then show ?thesis
    using final_states_are_final [OF sample_valid(5) sample_runs(3) row(1)] by (simp add: terminal_def)
qed

text \<open>C4: what an attempt has recorded stays: its identity and payload, its crossing, its proof, the
  native turn and operation, a gap of its transcript; its clock does not go back and its state moves
  along the life cycle only.\<close>

theorem attempt_history:
  assumes "valid ow s" "(delivery_step ow)\<^sup>*\<^sup>* s t" "attemptRow s i = Some r"
  shows "\<exists>q. attemptRow t i = Some q \<and> row_le r q"
  using steps_row [OF assms] by blast

theorem attempt_history_witness: "row_le crossedRow admittedRow"
  using attempt_history [OF sample_valid(2) sample_runs(2) crossed_row]
  by (simp add: attemptRow_def admittedStore_def split: if_splits)

text \<open>C5: an attempt is admitted only on a recorded proof.  Admission runs the given work on the
  journal's tables, marks the attempt accepted, keeps its proof, and takes the drained observations
  out of the stage; an attempt already accepted is left as it is.\<close>

theorem admission_needs_proof:
  assumes "valid ow s" "admit_attempt ow i f prepared ids now s = (Inr x, t)"
  shows "\<exists>r. attemptRow s i = Some r \<and>
    (if rowState r = Accepted then x = None \<and> t = s
     else rowEvidence r \<noteq> None \<and> rowState r \<in> {Dispatching, Unknown} \<and>
       (\<exists>a y q T. decodeVerified ow r = Inr a \<and> f a prepared (tables s) = Inr (y, T) \<and> x = Some y \<and>
          tables t = T \<and> attemptRow t i = Some q \<and> rowState q = Accepted \<and>
          rowEvidence q = rowEvidence r \<and> drained s i ids t))"
  using returnsD [OF returns_admit [OF assms(1)] assms(2)] .

theorem admission_needs_proof_witness:
  "rowEvidence provedRow \<noteq> None \<and> drained provedStore (js ''a'') [js ''e1''] admittedStore"
proof -
  have "attemptRow provedStore (js ''a'') = Some provedRow" "rowState provedRow = Dispatching"
    by (simp_all add: attemptRow_def provedStore_def provedRow_def crossedRow_def sample_row_fields)
  then show ?thesis
    using admission_needs_proof [OF sample_valid(4) sample_admit] by auto
qed

text \<open>C6: \<^verbatim>\<open>recover\<close> completes: when the open attempts can be decoded and no recorded rejection
  is left to apply, the pass ends without a fault, and then no attempt is dispatching.\<close>

theorem recovery_completes:
  assumes "valid ow s"
    and "\<forall>(i, recovery)\<in>set (legacyRejectionRows s). recovery \<noteq> JNull \<and> recordedRejection recovery = None"
    and "\<forall>r\<in>set (attempts s). rowState r \<in> {Preparing, Dispatching} \<longrightarrow> (\<exists>a. decodeVerified ow r = Inr a)"
  shows "\<exists>t. recover ow rejectNow now s = (Inr (), t) \<and> (\<forall>r\<in>set (attempts t). rowState r \<noteq> Dispatching)"
  using recover_returns [OF assms, of rejectNow now] recover_settles [OF assms(1)] by blast

theorem recovery_completes_witness:
  "\<exists>t. recover sampleOwner (\<lambda>k. 9) (\<lambda>k. 9) crossedStore = (Inr (), t) \<and>
     (\<forall>r\<in>set (attempts t). rowState r \<noteq> Dispatching)"
proof (rule recovery_completes [OF sample_valid(2)])
  have rows: "attempts crossedStore = [crossedRow]" "rowKind crossedRow = ManualCompact"
    by (simp_all add: crossedStore_def crossedRow_def sample_row_fields)
  then show "\<forall>(i, recovery)\<in>set (legacyRejectionRows crossedStore).
      recovery \<noteq> JNull \<and> recordedRejection recovery = None"
    by (simp add: legacyRejectionRows_def)
  have "decodeVerified sampleOwner crossedRow = Inr crossedAttempt"
    using sample_decode [where st = Dispatching and c = "Some 6" and u = 6]
    by (simp add: crossedRow_def crossedAttempt_def)
  then show "\<forall>r\<in>set (attempts crossedStore). rowState r \<in> {Preparing, Dispatching} \<longrightarrow>
      (\<exists>a. decodeVerified sampleOwner r = Inr a)"
    by (simp add: rows)
qed

text \<open>C7: only an unconfirmed input can be given up: an attempt that is not of unknown outcome, that
  has a proof, a gap or staged observations, or that is a Compact, cannot be abandoned, and the
  refusal leaves the store as it was.\<close>

theorem abandonment_refused:
  assumes "valid ow s" "attemptRow s i = Some r"
    and "rowState r \<noteq> Unknown \<or> rowEvidence r \<noteq> None \<or> rowTranscriptGap r \<or>
      rowKind r = ManualCompact \<or> stageRows s i \<noteq> []"
  shows "\<exists>e. abandon ow i command now s = (Inl e, s)"
  using returns_abandon [OF assms(1), of i command now] assms(2,3) abandon_keeps_store [of ow i command now s]
  by (cases "abandon ow i command now s"; cases "fst (abandon ow i command now s)") (auto simp: returns_def)

theorem abandonment_refused_witness:
  "\<exists>e. abandon sampleOwner (js ''a'') (js ''k'') 9 crossedStore = (Inl e, crossedStore)"
  by (rule abandonment_refused [OF sample_valid(2) crossed_row])
     (simp add: crossedRow_def sample_row_fields)

text \<open>An abandoned attempt was an unconfirmed root turn or steer without staged observations;
  it is then abandoned, and nothing else of the store changes but its row.\<close>

theorem abandonment:
  assumes "valid ow s" "abandon ow i command now s = (Inr a, t)"
  shows "\<exists>r q. attemptRow s i = Some r \<and> rowState r = Unknown \<and> rowEvidence r = None \<and>
    \<not> rowTranscriptGap r \<and> rowKind r \<noteq> ManualCompact \<and> stageRows s i = [] \<and>
    attemptRow t i = Some q \<and> rowState q = Abandoned \<and> staging t = staging s \<and> tables t = tables s"
  using returnsD [OF returns_abandon [OF assms(1)] assms(2)] .

theorem abandonment_witness:
  "\<exists>q. attemptRow (lostStore\<lparr>attempts := [abandonedRow]\<rparr>) (js ''b'') = Some q \<and> rowState q = Abandoned"
  using abandonment [OF lost_valid sample_abandon] by blast

text \<open>C8: a response of the provider declines an attempt only when it is the exact refusal Codex
  answers to a root turn while it compacts, for an attempt without proof, native turn or gap whose
  staged observations are all controls of the conversation's own compaction; these go to the
  journal.  Any other response leaves the store as it was.\<close>

theorem rejection_is_exact:
  assumes "valid ow s" "rejectProviderResponse ow i e err now s = (Inr b, t)"
  shows "if b then \<exists>r a q T. attemptRow s i = Some r \<and> decodeVerified ow r = Inr a \<and>
      rejectionApplies a e err \<and> appendEvents ow T (tables s) = Inr (tables t) \<and>
      length T = length (stageRows s i) \<and> list_all (ownCompactionControl (tables s) a) T \<and>
      stageRows t i = [] \<and> attemptRow t i = Some q \<and> rowState q = Rejected \<and>
      rowRejection q = Some (rejectionJson err e)
    else t = s"
  using returnsD [OF returns_rejectProviderResponse [OF assms(1)] assms(2)] .

theorem rejection_is_exact_witness:
  "\<exists>a. decodeVerified sampleOwner lostRow = Inr a \<and> rejectionApplies a sampleRejection sampleError"
  using rejection_is_exact [OF lost_valid sample_decline] by (auto simp: lost_store)



text \<open>Observing the same envelope again is recognised as a duplicate and changes nothing.\<close>

theorem observation_idempotent:
  assumes "valid ow s" "observe ow i e now s = (Inr Staged, t)"
    and "parseProviderEventEnvelope (encodeEnvelope e) = Inr e'"
  shows "observe ow i e now' t = (Inr DuplicateObservation, t)"
  using assms by (rule observe_again)

theorem observation_idempotent_witness:
  "observe sampleOwner (js ''a'') sampleEnvelope 9 observedStore = (Inr DuplicateObservation, observedStore)"
  by (rule observation_idempotent [OF sample_valid(2) sample_observe sampleEnvelope_accepted])

text \<open>C10: preparing a command again returns the attempt of the first time and changes nothing,
  under whatever fresh identity the second call draws.\<close>

theorem preparation_idempotent:
  assumes "prepare_attempt ow uuid p s = (Inr a, t)"
  shows "prepare_attempt ow uuid' p t = (Inr a, t)"
  using assms by (rule prepare_again)

theorem preparation_idempotent_witness:
  "prepare_attempt sampleOwner (js ''z'') samplePrepare preparedStore = (Inr sampleAttempt, preparedStore)"
  by (rule preparation_idempotent [OF sample_prepare])

text \<open>C11: a prepared attempt is the one of its command and has exactly the immutable input of the
  request, under the hash of its canonical payload; a new one is appended and changes nothing else.\<close>

theorem preparation_is_bound:
  assumes "prepare_attempt ow uuid p s = (Inr a, t)"
  shows "\<exists>json. prepOwnerInstanceId p = ownerId ow \<and>
    canonicalJson (localeLe ow) (prepRecoveryPayload p) = Inr json \<and> utf8_length json \<le> 67108864 \<and>
    validatePrepareIdentifiers p = Inr () \<and> sameImmutableInput a p (sha256Hex ow json) \<and>
    byCommand ow (prepCommandId p) t = (Inr (Some a), t) \<and>
    (t = s \<or> find (\<lambda>r. rowCommandId r = prepCommandId p) (attempts s) = None \<and>
       validateScope ow (tables s) p = Inr () \<and>
       t = s\<lparr>attempts := attempts s @ [preparedRow p uuid (sha256Hex ow json)]\<rparr>)"
  using returnsD [OF returns_prepare assms] .

theorem preparation_is_bound_witness:
  "sameImmutableInput sampleAttempt samplePrepare (replicate 64 48)"
  using preparation_is_bound [OF sample_prepare] by auto

text \<open>C12: a proof of acceptance is recorded once, for a dispatched or unknown attempt whose frozen
  scope it matches; later proofs must be compatible with it and change nothing.\<close>

theorem acceptance_recorded_once:
  assumes "valid ow s" "recordAcceptance ow i e turn operation now s = (Inr u, t)"
  shows "\<exists>r a. attemptRow s i = Some r \<and> decodeVerified ow r = Inr a \<and> evidence_proves a e \<and>
    (case acceptanceEvidence a of
       Some known \<Rightarrow> evidenceCompatible known e \<and> t = s
     | None \<Rightarrow> rowState r \<in> {Dispatching, Unknown} \<and>
         (\<exists>q. attemptRow t i = Some q \<and> rowEvidence q = Some (encodeEvidence e) \<and> rowState q = rowState r))"
  using returnsD [OF returns_recordAcceptance [OF assms(1)] assms(2)] .

theorem acceptance_recorded_once_witness:
  "\<exists>a. decodeVerified sampleOwner crossedRow = Inr a \<and> evidence_proves a sampleEvidence"
  using acceptance_recorded_once [OF sample_valid(3) sample_prove] by (auto simp: observed_row)



text \<open>C14: taking observations out of the stage always succeeds on a valid store: exactly the named
  ones go, the others keep their order under dense ordinals, and no other attempt's stage changes.\<close>

theorem stage_is_drained:
  assumes "valid ow s"
  shows "\<exists>t. deleteStagedPrefix i ids s = (Inr (), t) \<and> drained s i ids t \<and> valid ow t"
  by (rule deleteStagedPrefix_drains [OF assms])

theorem stage_is_drained_witness:
  "\<exists>t. deleteStagedPrefix (js ''a'') [js ''e1''] observedStore = (Inr (), t) \<and> stageRows t (js ''a'') = []"
proof -
  have "stageRows observedStore (js ''a'') = [sampleStage]"
    by (simp add: stageRows_def observedStore_def sampleStage_def)
  then show ?thesis
    using stage_is_drained [OF sample_valid(3), of "js ''a''" "[js ''e1'']"]
    by (auto simp: drained_def sampleStage_def)
qed

section \<open>Federated checkouts\<close>

text \<open>
  C15: a checkout has one writer at a time.  In every store a running server leads to from one within
  capacity, at most one reservation that may write is in force for a checkout, and at most four
  background readers; a terminal event, a failed dispatch or a retried command changes nothing of it.
\<close>

theorem checkout_capacity:
  assumes "reservations_ok s" "capacity_ok s" "(checkout_step P)\<^sup>*\<^sup>* s t"
  shows "reservations_ok t \<and>
    length (filter (\<lambda>r. active r \<and> isWriter (rvAccess r) \<and> rvCheckoutKey r = Some k) (jReservations t)) \<le> 1 \<and>
    length (filter (\<lambda>r. active r \<and> rvAccess r = ReadOnly \<and> rvScheduling r = Background \<and>
      rvCheckoutKey r = Some k) (jReservations t)) \<le> 4"
  using steps_sustain [OF assms(3)] assms(1,2)
  unfolding sustains_def sound_def capacity_ok_def writes_def [abs_def] readsInBackground_def [abs_def] by blast

theorem checkout_capacity_witness:
  "length (filter (\<lambda>r. active r \<and> isWriter (rvAccess r) \<and> rvCheckoutKey r = Some (js ''git''))
     (jReservations workingJournal)) \<le> 1"
  using checkout_capacity [OF startJournal_ok r_into_rtranclp, OF sample_claimed] by blast

text \<open>
  C16: an admitted command holds the checkout.  When \<^verbatim>\<open>claimAndReserve\<close> admits a command, also after a
  restart, its execution has a reservation in force for exactly this command, turn, checkout and
  access; and if it may write, no other execution may write to the checkout and none holds
  capacity of an unknown checkout.
\<close>

theorem admission_holds_checkout:
  assumes "reservations_ok s" "creates_only create"
    "claimAndReserve P kind request q create s = (Inr (Admitted v), t)"
  shows "granted q t"
  using admitted_granted [OF assms(3,1,2)] by simp

theorem admission_holds_checkout_witness: "granted sampleCheckout workingJournal"
  by (rule admission_holds_checkout [OF startJournal_ok(1) sampleCreate_only sample_admitted])

text \<open>
  C17: a refused command leaves nothing but its rejection.  When \<^verbatim>\<open>claimAndReserve\<close> throws, either the
  store is as it was, or it has one receipt more, rejected with the message of the error: whatever
  the caller had created before the reservation failed is taken back.
\<close>

theorem refusal_leaves_rejection:
  assumes "claimAndReserve P kind request q create s = (Inl e, t)"
  shows "t = s \<or> (\<exists>row. commandReceipt s (rqCommandId q) = None \<and> crCommandId row = rqCommandId q \<and>
    crState row = ReceiptRejected \<and> crErrorMessage row = Some (messageOf P e) \<and>
    t = s\<lparr>jReceipts := jReceipts s @ [row]\<rparr>)"
proof -
  from claimAndReserve_outcome [OF assms] consider "t = s"
    | row where "commandReceipt s (rqCommandId q) = None" "crCommandId row = rqCommandId q"
      "t = s\<lparr>jReceipts := jReceipts s @ [rejectedReceipt row (messageOf P e)]\<rparr>"
    by (elim disjE exE conjE) simp_all
  then show ?thesis
  proof cases
    case 2
    then show ?thesis
      by (intro disjI2 exI [of _ "rejectedReceipt row (messageOf P e)"]) (simp add: rejectedReceipt_def)
  qed simp
qed

theorem refusal_leaves_rejection_witness:
  "\<exists>t. jReservations t = jReservations workingJournal \<and> jExecutions t = jExecutions workingJournal \<and>
     claimAndReserve checkoutPlatform (js ''spawn'') (JObject []) secondCheckout (ret ()) workingJournal =
       (Inl (JournalRefused writerActive), t)"
proof -
  obtain t where t: "claimAndReserve checkoutPlatform (js ''spawn'') (JObject []) secondCheckout (ret ()) workingJournal =
      (Inl (JournalRefused writerActive), t)"
    using sample_refused by blast
  from refusal_leaves_rejection [OF t] have "jReservations t = jReservations workingJournal"
    "jExecutions t = jExecutions workingJournal" by auto
  with t show ?thesis by blast
qed

text \<open>
  C18: capacity is given back only when nothing can write any more.  A terminal event that ends a
  reservation, that of its own execution or of an ancestor, finds every native descendant of that
  execution done or without write access, at any depth, and stays with the reservation as evidence.
\<close>

theorem release_needs_quiet_descendants:
  assumes "terminal_event e source now s = (x, t)" "reservation s i = Some r" "active r"
  shows "\<exists>q. reservation t i = Some q \<and> (active q \<or>
    rvReleaseReason q = Some NativeTerminal \<and> rvTerminalEvidence q \<noteq> None \<and>
    (\<exists>origin. journalExecution s i = Some origin \<and>
      (\<forall>d b. descends (jExecutions s) i (exAccess origin) d b \<longrightarrow>
         (\<exists>a. b = Some a \<and> \<not> mayStillWrite d a))))"
proof -
  have "ends_clear s t"
    using terminal_ends_clear [of s e source now] assms(1) by simp
  with assms(2) obtain q where q: "reservation t i = Some q" "ended_by s i r q"
    unfolding ends_clear_def by blast
  show ?thesis
  proof (cases "active q")
    case False
    with q(2) assms(3) have clear: "nativeDescendantState s i = DescendantsClear"
      and "rvReleaseReason q = Some NativeTerminal" "rvTerminalEvidence q \<noteq> None"
      by (auto simp: ended_by_def)
    moreover from clear obtain origin where "journalExecution s i = Some origin"
      by (cases "journalExecution s i") (auto simp: nativeDescendantState_def)
    ultimately show ?thesis
      using q(1) descendants_clear [OF clear] by blast
  qed (use q in blast)
qed

theorem release_needs_quiet_descendants_witness:
  "\<exists>q. reservation (workingJournal\<lparr>jReservations := [endedReservation]\<rparr>) (js ''x'') = Some q \<and>
     (active q \<or> rvReleaseReason q = Some NativeTerminal)"
  using release_needs_quiet_descendants [OF sample_ended, of "js ''x''" "heldReservation sampleCheckout"]
  by (auto simp: reservation_def working_reservation ended_fields active_def sampleCheckout_def)

text \<open>
  C19: the walk over the native descendants, bounded in depth and width, decides the relation of
  descent: clear means that no descendant may still write, active that one may.
\<close>

theorem descendant_walk_refines:
  "(nativeDescendantState s x = DescendantsClear \<longrightarrow>
      (\<exists>origin. journalExecution s x = Some origin \<and>
        (\<forall>e b. descends (jExecutions s) x (exAccess origin) e b \<longrightarrow>
           exConversationId e = exConversationId origin \<and> (\<exists>a. b = Some a \<and> \<not> mayStillWrite e a)))) \<and>
   (nativeDescendantState s x = DescendantsActive \<longrightarrow>
      (\<exists>origin e a. journalExecution s x = Some origin \<and>
         descends (jExecutions s) x (exAccess origin) e (Some a) \<and> mayStillWrite e a))"
proof (intro conjI impI)
  assume clear: "nativeDescendantState s x = DescendantsClear"
  then obtain origin where "journalExecution s x = Some origin"
    by (cases "journalExecution s x") (auto simp: nativeDescendantState_def)
  with descendants_clear [OF clear this] show "\<exists>origin. journalExecution s x = Some origin \<and>
      (\<forall>e b. descends (jExecutions s) x (exAccess origin) e b \<longrightarrow>
         exConversationId e = exConversationId origin \<and> (\<exists>a. b = Some a \<and> \<not> mayStillWrite e a))"
    by blast
qed (rule descendants_active)

theorem descendant_walk_refines_witness:
  "\<exists>origin. journalExecution workingJournal (js ''x'') = Some origin \<and>
     (\<forall>e b. descends (jExecutions workingJournal) (js ''x'') (exAccess origin) e b \<longrightarrow>
        (\<exists>a. b = Some a \<and> \<not> mayStillWrite e a))"
  using descendant_walk_refines [of workingJournal "js ''x''"] working_descendants by blast

text \<open>
  C20: a restart takes back all capacity that may be in use: after \<^verbatim>\<open>captureStartupOwners\<close> every
  federated execution that held a reservation, was running or recovering, or may have a writing
  descendant, holds a reservation in force.
\<close>

theorem restart_takes_capacity:
  assumes "captureStartupOwners now s = (Inr cs, t)" "e \<in> set (jExecutions s)"
    "exOwnership e = FederatedExecution" "map_of (jConversations s) (exConversationId e) \<noteq> None"
    "(\<exists>r. reservation s (exId e) = Some r \<and> active r) \<or> exState e = ExecRunning \<or> exState e = ExecRecovering \<or>
     nativeDescendantState s (exId e) \<noteq> DescendantsClear"
  shows "\<exists>r. reservation t (exId e) = Some r \<and> active r"
proof -
  have "(e, or_else (map_of (jConversations s) (exConversationId e)) []) \<in> set (startupOwners s)"
    using assms(2-5) by (auto simp: startupOwners_def)
  from captureStartupOwners_occupied [OF assms(1) this] show ?thesis
    by (simp add: occupied_def)
qed

theorem restart_takes_capacity_witness:
  "\<exists>cs t r. captureStartupOwners 9 workingJournal = (Inr cs, t) \<and> reservation t (js ''x'') = Some r \<and> active r"
proof -
  obtain cs t where t: "captureStartupOwners 9 workingJournal = (Inr cs, t)"
    using sample_captured(1) by blast
  have "\<exists>r. reservation t (exId workingExecution) = Some r \<and> active r"
    by (rule restart_takes_capacity [OF t])
      (simp_all add: working_executions workingExecution_def, simp add: workingJournal_def startJournal_def)
  with t show ?thesis by auto
qed

text \<open>
  C21: a command takes effect once.  Once claimed, in every later store the same input finds its
  receipt, unchanged from the moment it is settled, and other input under the same identity is
  refused; restarts included.
\<close>

theorem receipts_settle_once:
  assumes "claimCommand P c kind request now s = (Inr (b, p), t)"
    "(\<lambda>s t. checkout_step P s t \<or> restart_step s t)\<^sup>*\<^sup>* t u"
  shows "(\<exists>q. settledOrUnresolved P c kind request u = (Inr (Some q), u) \<and>
      (settledReceipt (crState p) \<longrightarrow> q = p)) \<and>
    (hashJson P request' = Inr h \<and> (kind' \<noteq> kind \<or> hashJson P request' \<noteq> hashJson P request) \<longrightarrow>
      settledOrUnresolved P c kind' request' u = (Inl (ReceiptConflict c), u))"
proof -
  have "receipts_kept t u"
    using history_sound [OF assms(2)] by (simp add: sound_def)
  from receipt_replayed [OF assms(1) this] show ?thesis
    unfolding settledOrUnresolved_def by blast
qed

theorem receipts_settle_once_witness:
  "\<exists>q. settledOrUnresolved checkoutPlatform (js ''k'') (js ''spawn'') (JObject []) workingJournal =
     (Inr (Some q), workingJournal)"
proof -
  have "claimCommand checkoutPlatform (js ''k'') (js ''spawn'') (JObject []) 7 workingJournal =
      (Inr (False, receiptRow workingReceipt), workingJournal)"
    by (simp add: claimCommand_def obind_def lift_def checkout_hash reads_def ret_def workingJournal_def
        commandReceipt_def receiptRowOf_def workingReceipt_def startJournal_def)
  from receipts_settle_once [OF this rtranclp.rtrancl_refl] show ?thesis by blast
qed

section \<open>Sessions, credentials and children\<close>

text \<open>
  C22: a native session has one controller.  From \<open>acquire\<close> until the lease is released by its own
  holder, whatever others acquire and release, every \<open>acquire\<close> of the session is refused with the
  name of the execution that holds it; after the release it is granted, and releasing twice is
  releasing once.
\<close>

theorem session_has_one_controller:
  assumes "(ownership_step anyone)\<^sup>*\<^sup>* emptyRegistry R" "acquire input now R = (Inr lease, S)"
    "(ownership_step (Some (leaseToken lease)))\<^sup>*\<^sup>* S T" "ownershipKey other = ownershipKey input"
  shows "acquire other now' T = (Inl (controlledMessage other input), T) \<and>
    (\<exists>next U. acquire other now' (release lease T) = (Inr next, U)) \<and>
    release lease (release lease T) = release lease T"
proof -
  have S: "holds S lease"
    by (rule acquire_holds [OF steps_registry_ok [OF assms(1) empty_registry_ok] assms(2)])
  have lease: "leaseKey lease = ownershipKey other" "ownership lease = input\<lparr>acquiredAt := now\<rparr>"
    using assms(2,4) by (auto elim: acquire_cases)
  have T: "holds T lease"
    by (rule others_keep_holding [OF assms(3) S])
  show ?thesis
    using held_refuses [OF T, of other now'] release_frees [OF T, of other now'] lease
    by (simp add: released_twice controlledMessage_def)
qed

theorem session_has_one_controller_witness:
  "\<exists>lease S. acquire (sampleControl ''x'') 5 emptyRegistry = (Inr lease, S) \<and>
     acquire (sampleControl ''y'') 6 S = (Inl (controlledMessage (sampleControl ''y'') (sampleControl ''x'')), S)"
proof -
  obtain lease S where S: "acquire (sampleControl ''x'') 5 emptyRegistry = (Inr lease, S)"
    by (simp add: acquire_def emptyRegistry_def ret_def Let_def)
  have "ownershipKey (sampleControl ''y'') = ownershipKey (sampleControl ''x'')"
    by (simp add: sampleControl_def ownershipKey_def)
  from session_has_one_controller [OF rtranclp.rtrancl_refl S rtranclp.rtrancl_refl this] S show ?thesis
    by blast
qed

text \<open>
  C23: a credential that was revoked, was swept up by \<^verbatim>\<open>revokeAll\<close>, or was once refused as invalid or
  expired, never authorizes again and cannot be bound or refreshed, whatever happens later.  SHA-256
  gives no empty text, and fresh tokens have fresh hashes.
\<close>

theorem dead_credentials_stay_dead:
  assumes "(credential_step hashToken)\<^sup>*\<^sup>* noCredentials R" "c \<in> set (minted R)"
    "hashToken (credentialToken c) \<noteq> []"
    "S = revoke c R \<or> S = revokeAll R \<or>
     resolve hashToken (credentialToken c) generation now now' R = (Inl invalidCredential, S)"
    "(credential_step hashToken)\<^sup>*\<^sup>* S T"
  shows "resolve hashToken (credentialToken c) g t t' T = (Inl invalidCredential, T) \<and>
    bindNativeSession c session t T = (Inl (js ''Federation credential is revoked.''), T) \<and> touch c t T = T"
proof -
  have R: "credentials_ok hashToken R"
    using steps_age [OF assms(1) no_credentials_ok] by simp
  have S: "credential_step hashToken R S"
    using assms(2,4) by (auto intro: credential_step.intros)
  have "dead S c"
    using assms(4) revoke_kills [OF R assms(2)] revokeAll_kills [OF R assms(2)] refusal_kills [OF R assms(2,3)]
    by blast
  moreover have "credentials_ok hashToken S" "c \<in> set (minted S)"
    using step_ok [OF S R] minted_stays [OF step_ages [OF S R] assms(2)] by simp_all
  ultimately have "credentials_ok hashToken T" "c \<in> set (minted T)" "dead T c"
    using steps_age [OF assms(5)] minted_stays dead_stays by blast+
  then show ?thesis
    by (simp add: dead_refused dead_refuses)
qed

theorem dead_credentials_stay_dead_witness:
  "resolve sampleToken (js ''t'') (js ''g'') 2 2 (revoke issuedCredential issuedRegistry) =
     (Inl invalidCredential, revoke issuedCredential issuedRegistry)"
  using dead_credentials_stay_dead [OF sample_issuance sample_issued(2) _ _ rtranclp.rtrancl_refl,
      of "revoke issuedCredential issuedRegistry"]
  by (simp add: sample_issued(3) sampleToken_def)



text \<open>
  C25: a native turn of a child ends once.  Once a notification of the turn's completion has been
  announced, no later notification that names the turn announces anything or changes the children,
  whatever the mapper and the session do in between.
\<close>

theorem child_turn_ends_once:
  assumes "children_ok (childRegistry M)" "mapChildThreadNotification method params thread M = (as, N)"
    "ChildCompleted x outcome \<in> announced ` set as" "codexString (turnField params ''id'') = Some turn"
    "child_step\<^sup>*\<^sup>* N L" "codexString (turnField params' ''id'') = Some turn"
  shows "mapChildThreadNotification method' params' thread L = ([], L)"
proof -
  have announced: "as \<noteq> []"
    using assms(3) by auto
  obtain b where b: "map_of (childRegistry N) thread = Some b" "turn \<in> set (codexTerminalTurns b)"
    using assms(2)
  proof (cases rule: notification_cases)
    case (2 turn' outcome' ob R)
    with announced assms(4) have "turn' = turn" "ob \<noteq> None" by simp_all
    with 2 show ?thesis
      using that by (auto dest: completed_ends)
  next
    case (3 turn' ob R)
    with announced assms(3) show ?thesis
      by (cases as) auto
  qed (use assms(3) in simp)
  have "children_kept (childRegistry N) (childRegistry L)"
    using child_steps_ok [OF assms(5)] child_step_ok [OF child_step.notified [OF assms(2)] assms(1)] by blast
  with b obtain b' where "map_of (childRegistry L) thread = Some b'" "turn \<in> set (codexTerminalTurns b')"
    unfolding children_kept_def child_kept_def using set_mono_prefix by blast
  then show ?thesis
    using ended_notification assms(6) by blast
qed

theorem child_turn_ends_once_witness:
  "\<exists>as N. mapChildThreadNotification (js ''turn/completed'') (sampleParams ''interrupted'') (js ''k'') sampleMapper =
      (as, N) \<and> announced ` set as = {ChildCompleted (js ''y'') TurnInterrupted} \<and>
    mapChildThreadNotification (js ''turn/completed'') (sampleParams ''completed'') (js ''k'') N = ([], N)"
proof -
  obtain as N where run: "mapChildThreadNotification (js ''turn/completed'') (sampleParams ''interrupted'')
      (js ''k'') sampleMapper = (as, N)" and "announced ` set as = {ChildCompleted (js ''y'') TurnInterrupted}"
    by (simp add: mapChildThreadNotification_def sample_turn sampleMapper_def sampleChild_def Let_def
        completeAttempt_def truthy_def codexTurnOutcome_def)
  moreover have "children_ok (childRegistry sampleMapper)"
    by (simp add: children_ok_def sampleMapper_def sampleChild_def child_binding_ok_def)
  ultimately show ?thesis
    using child_turn_ends_once [OF _ run _ sample_turn(1) rtranclp.rtrancl_refl sample_turn(1), of "js ''y''"
      TurnInterrupted "js ''turn/completed''" "''completed''"] by blast
qed

text \<open>
  C26: what the contract accepts is restored in full and keeps its ends: after a restart with child
  bindings that pass \<open>checkChildren\<close>, every child is found as it was, and whatever happens then the
  registry stays well-formed and no notification of a turn that had ended announces anything.
\<close>

theorem restored_children_keep_ends:
  assumes "checkChildren self [] bindings = Inr ()" "distinct (map childThreadId bindings)" "b \<in> set bindings"
    "childRegistry M = restore bindings []" "child_step\<^sup>*\<^sup>* M L"
    "turn \<in> set (or_else (terminalNativeTurnIds b) [])" "codexString (turnField params ''id'') = Some turn"
  shows "map_of (childRegistry M) (childThreadId b) = Some (restored b) \<and> children_ok (childRegistry L) \<and>
    mapChildThreadNotification method params (childThreadId b) L = ([], L)"
proof -
  have M: "children_ok (childRegistry M)"
    using assms(1) unfolding assms(4)
    by (intro restore_bindings [of self]) (simp_all add: checkChildren_iff children_ok_def)
  have found: "map_of (childRegistry M) (childThreadId b) = Some (restored b)"
    unfolding assms(4) by (rule restore_finds [OF assms(2,3)])
  have L: "children_ok (childRegistry L)" "children_kept (childRegistry M) (childRegistry L)"
    using child_steps_ok [OF assms(5) M] by simp_all
  have "turn \<in> set (codexTerminalTurns (restored b))"
    using assms(6) by (simp add: restored_def)
  with found L(2) obtain b' where "map_of (childRegistry L) (childThreadId b) = Some b'" "turn \<in> set (codexTerminalTurns b')"
    unfolding children_kept_def child_kept_def using set_mono_prefix by blast
  then show ?thesis
    using ended_notification [OF _ _ assms(7)] found L(1) by blast
qed

theorem restored_children_keep_ends_witness:
  "mapChildThreadNotification (js ''turn/started'') (sampleParams ''inProgress'') (js ''k'')
     (sampleMapper\<lparr>childRegistry := restore [sampleChildBinding] []\<rparr>) =
   ([], sampleMapper\<lparr>childRegistry := restore [sampleChildBinding] []\<rparr>)"
proof -
  have "checkChildren (js ''x'') [] [sampleChildBinding] = Inr ()"
    by (simp add: sampleChildBinding_def childTurns_def)
  from restored_children_keep_ends [OF this, of sampleChildBinding, OF _ _ _ rtranclp.rtrancl_refl _ sample_turn(1)]
  show ?thesis by (simp add: sampleChildBinding_def)
qed

section \<open>The transcript of the viewer\<close>



text \<open>C28: reconciling the disclosure with a measured transcript a second time changes nothing: no
  section opens, closes or turns from automatic to manual because the same transcript is laid out again.\<close>

theorem disclosure_reconcile_idempotent:
  assumes "transcript_ok ts" "disclosure_ok d"
  shows "reconcileTranscriptDisclosure (reconcileTranscriptDisclosure d ts activeTurn) ts activeTurn =
    reconcileTranscriptDisclosure d ts activeTurn"
  by (rule reconcile_again [OF assms])

theorem disclosure_reconcile_idempotent_witness:
  "reconcileTranscriptDisclosure (reconcileTranscriptDisclosure emptyTranscriptDisclosureState [working_turn] (Some [97]))
     [working_turn] (Some [97]) =
   reconcileTranscriptDisclosure emptyTranscriptDisclosureState [working_turn] (Some [97]) \<and>
   dsAutoKey (reconcileTranscriptDisclosure emptyTranscriptDisclosureState [working_turn] (Some [97])) = Some [97, 58, 119]"
  using disclosure_reconcile_idempotent [of "[working_turn]" emptyTranscriptDisclosureState "Some [97]"] working_opens
  by (simp add: working_turn_ok)

text \<open>C29: in every state of the layout store that its actions lead to, open work is filed under its own
  key, at most one section is open by itself and the store knows which, five conversations at most keep a
  layout, and the measure cache has at most 2000 turns of five conversations.\<close>

theorem viewer_stays_within_bounds:
  assumes "viewer_reachable M s"
  shows "(\<forall>(k, w) \<in> set (dsOpenWork (lsDisclosure s)). owKey w = k \<and> (owSource w = AutoSource \<longleftrightarrow> dsAutoKey (lsDisclosure s) = Some k)) \<and>
    length (filter (\<lambda>(k, w). owSource w = AutoSource) (dsOpenWork (lsDisclosure s))) \<le> 1 \<and>
    length (lsLayoutCache s) \<le> 5 \<and> length (cacheEntries (lsMeasureCache s)) \<le> 2000 \<and>
    length (conversationLastUsedAt (lsMeasureCache s)) \<le> 5"
proof -
  have ok: "viewer_ok s" by (rule reachable_ok [OF assms])
  then show ?thesis
    using one_automatic viewer_disclosure(1) [OF ok] by (auto simp: viewer_ok_def layouts_ok_def disclosure_ok_def)
qed

theorem viewer_stays_within_bounds_witness:
  "length (lsLayoutCache resized) \<le> 5 \<and> lsLayoutCache resized \<noteq> []"
  using viewer_stays_within_bounds [OF resized_reachable] resized_is by simp

text \<open>C30: the binary searches of the virtualizer end: over fewer than 2^k turns, k rounds of either loop
  empty its interval and leave the answer, so a search takes as many rounds as the number of turns has bits.\<close>

theorem search_halves:
  assumes "ts = geoTurns G" "ts \<noteq> []" "int (length ts) < 2 ^ k"
  shows "\<exists>low high low' high'.
    rounds (searchFirstRound (\<lambda>i. target \<le> turnBottom G i)) k (0, int (length ts) - 1, int (length ts) - 1) =
      (low, high, firstTurnWithBottomAfter G target) \<and> high < low \<and>
    rounds (searchLastRound (\<lambda>i. turnTop G i \<le> target)) k (0, int (length ts) - 1, 0) =
      (low', high', lastTurnWithTopBefore G target) \<and> high' < low'"
proof -
  obtain l h r where f: "rounds (searchFirstRound (\<lambda>i. target \<le> turnBottom G i)) k
      (0, int (length ts) - 1, int (length ts) - 1) = (l, h, r)" "h < l"
    using rounds_end [OF rounds_halve(1), of "int (length ts) - 1" 0 k] assms(3) by fastforce
  obtain l' h' r' where g: "rounds (searchLastRound (\<lambda>i. turnTop G i \<le> target)) k (0, int (length ts) - 1, 0) = (l', h', r')"
      "h' < l'"
    using rounds_end [OF rounds_halve(2), of "int (length ts) - 1" 0 k] assms(3) by fastforce
  show ?thesis
    using f g assms(1,2) searchFirst_rounds [OF f] searchLast_rounds [OF g]
    by (simp add: firstTurnWithBottomAfter_def lastTurnWithTopBefore_def Let_def)
qed

theorem search_halves_witness:
  "\<exists>low high. rounds (searchFirstRound (\<lambda>i. 60 \<le> turnBottom sample_geometry i)) 2 (0, 1, 1) =
     (low, high, firstTurnWithBottomAfter sample_geometry 60) \<and> high < low"
  using search_halves [of sample_turns sample_geometry 2 60] by (auto simp: sample_geometry_def sample_turns_def)

text \<open>C31: no visible turn is left out: where tops and bottoms rise along the transcript, every turn that
  meets the window of the scroll position is among the turns rendered, whatever the overscan.\<close>

theorem visible_turns_rendered:
  assumes "sorted (map mtCollapsedTop ts)"
    "sorted (map (turnBottom (geometryIndex ts rows)) [0..int (length ts) - 1])"
    "0 \<le> overscan" "i < length ts"
    "max 0 (minus_num scrollTop topPadding) \<le> turnBottom (geometryIndex ts rows) (int i)"
    "turnTop (geometryIndex ts rows) (int i) \<le> max 0 (minus_num (plus_num scrollTop viewportHeight) topPadding)"
  shows "mtTurnId (ts ! i) \<in>
    set (activeTurnIds (computeTranscriptVirtualRange None overscan rows scrollTop topPadding ts viewportHeight))"
  by (rule visible_rendered [OF index_tops_sorted [OF assms(1), where rows = rows] assms(2)])
    (use assms in \<open>simp_all add: indexFor_def or_else_def\<close>)

theorem visible_turns_rendered_witness:
  "[98] \<in> set (activeTurnIds (computeTranscriptVirtualRange None 0 [] 100 0 sample_turns 50))"
  using visible_turns_rendered [of sample_turns "[]" 0 1 100 0 50] sample_geometry_values by simp

text \<open>C32: a waiting refresh is not forgotten: whenever keys wait, either a refresh is in flight, whose end
  runs all that wait or sets a timer for them, or a timer is set, and when it fires all that wait runs.\<close>

theorem waiting_refresh_runs:
  assumes "refresh_reachable key cadence s" "pendingByKey s \<noteq> []"
  shows "if inFlight s
    then snd (finishRun cadence now s) = Some (map snd (pendingByKey s)) \<or>
      (\<not> inFlight (fst (finishRun cadence now s)) \<and> refreshTimer (fst (finishRun cadence now s)) \<noteq> None \<and>
       pendingByKey (fst (finishRun cadence now s)) = pendingByKey s)
    else refreshTimer s \<noteq> None \<and> snd (timerFires now s) = Some (map snd (pendingByKey s))"
  using refresh_reachable_ok [OF assms(1)] assms(2)
  by (auto simp: scheduler_ok_def finishRun_def timerFires_def schedule_def startPending_def Let_def)

theorem waiting_refresh_runs_witness:
  "refreshTimer waiting_scheduler \<noteq> None \<and> snd (timerFires 125 waiting_scheduler) = Some [[98]]"
  using waiting_refresh_runs [OF waiting_reachable, where now = 125] waiting_is by simp


text \<open>A message that is scrolled to stays where it was put: resolving the resolved position again changes
  nothing, whether it was pinned or not.\<close>

theorem message_anchor_settles:
  "let r = resolveMessageAnchorScroll allowed current desired naturalMax phase runway wasPinned in
     resolveMessageAnchorScroll allowed (resScrollTop r) desired naturalMax (resPhase r) (resRunwayHeight r) pinned = r"
  unfolding Let_def by (rule resolution_stable) (rule refl)

text \<open>The trace of an execution shows each of its blocks, in order and once, and groups only runs of
  consecutive settled calls.\<close>

theorem trace_shows_every_block:
  "concat (map shown_item (scopeTraceItems scopeId inferences)) = map shown_block (concat inferences) \<and>
   runs_ok (scopeTraceItems scopeId inferences)"
  by (simp add: scopeTrace_shown scopeTrace_runs)

section \<open>The provider contract\<close>

text \<open>C33: an event envelope the parser accepts stands in the scope its event requires, names a
  native session outside account scope, and carries a block of the payload's own kind.\<close>

theorem accepted_envelope_ok:
  assumes "parseProviderEventEnvelope v = Inr e"
  shows "envelope_ok e"
  using assms by (rule parseProviderEventEnvelope_ok)

theorem accepted_envelope_ok_witness: "envelope_ok sampleEnvelope"
  by (rule accepted_envelope_ok [OF sampleEnvelope_accepted])



text \<open>Inside a snapshot an envelope is read as on its own, and an error keeps its message
  while its path is moved from the envelope's root to the path of the element.\<close>

theorem envelope_error_relocated:
  "parseProviderEventEnvelopeAt v path =
     (case parseProviderEventEnvelope v of
        Inr e \<Rightarrow> Inr e
      | Inl err \<Rightarrow> fail (path @ drop 1 (epath err)) (emessage err))"
  by (cases "parseProviderEventEnvelope v")
     (auto simp: parseProviderEventEnvelopeAt_Inr dest: parseProviderEventEnvelopeAt_error [of _ _ path]
       simp: js_simps)

text \<open>Every event type has exactly the scopes of this table.\<close>

theorem event_scope_table:
  "assertEventScope event scope = Inr () \<longleftrightarrow>
     event_fits_scope (eventTypeOf event) (scopeKind scope)"
  by (rule assertEventScope_iff)

text \<open>C35: the child checks of \<^verbatim>\<open>parseOpenProviderSessionInput\<close> accept exactly the binding lists
  whose executions are distinct and whose every binding hangs below the opened execution.\<close>

theorem child_bindings_form_a_tree:
  "checkChildren self [] bs = Inr () \<and> checkGraph self session ts bs bs = Inr () \<longleftrightarrow>
     list_all (child_ok self) bs \<and> distinct (map childBindExecutionId bs) \<and>
     list_all (edge_ok self session ts bs) bs"
  by (rule child_graph_iff)

text \<open>C36: an accepted snapshot has at most 20000 events, every one a well-formed envelope, and names
  each complete kind of block once.\<close>

theorem accepted_snapshot_ok:
  assumes "parseProviderSnapshot v = Inr s"
  shows "length (snapEvents s) \<le> 20000 \<and> list_all envelope_ok (snapEvents s) \<and>
    (\<forall>kinds. snapCoverage s = Some kinds \<longrightarrow> distinct kinds)"
  using parseProviderSnapshot_events [OF assms] by (simp add: snapshotEvents_def)

theorem accepted_snapshot_ok_witness: "list_all envelope_ok (snapEvents sampleSnapshot)"
  using accepted_snapshot_ok [OF sampleSnapshot_accepted] by simp

text \<open>C37: a session input is accepted only with consistent bindings: a session to be created has no
  history, a session to be resumed or attached has a native session of the same provider instance;
  turns are bound once on either side, inherited turns are others, the active turn is a bound one,
  and every child binding hangs below the opened execution.\<close>

theorem accepted_session_ok:
  assumes "parseOpenProviderSessionInput url v = Inr c"
  shows "open_session_ok c"
  using assms by (rule parseOpenProviderSessionInput_ok)

theorem accepted_session_ok_witness: "open_session_ok sampleOpen"
  using accepted_session_ok [OF sampleOpen_accepted [of "\<lambda>_. None"]] .

text \<open>C38: the capability parser refuses every capability record that states how input during a turn is
  delivered: the strict record of \<^verbatim>\<open>turns\<close> does not list \<^verbatim>\<open>activeInput\<close>, though the reader of the
  group reads it.\<close>

theorem active_input_refused:
  "\<exists>e. parseProviderCapabilities
     (encodeCapabilities (c\<lparr>capTurns := (capTurns c)\<lparr>capActiveInput := Some a\<rparr>\<rparr>)) = Inl e"
  using parseProviderCapabilities_activeInput
    [of "c\<lparr>capTurns := (capTurns c)\<lparr>capActiveInput := Some a\<rparr>\<rparr>" a]
  by (cases "parseProviderCapabilities
     (encodeCapabilities (c\<lparr>capTurns := (capTurns c)\<lparr>capActiveInput := Some a\<rparr>\<rparr>))") auto

section \<open>Delivery evidence\<close>

text \<open>A proof of acceptance passes validation exactly when it matches the frozen attempt.\<close>

theorem evidence_validation:
  "validateRootEvidence a (encodeEvidence e) = Inr e' \<longleftrightarrow> e' = e \<and> evidence_proves a e"
  by (rule validateRootEvidence_iff)

text \<open>An observation passes exactly when it belongs to the attempt.\<close>

theorem observation_validation:
  "validateEnvelopeScope a e child = Inr () \<longleftrightarrow> observation_belongs a e child"
  by (rule validateEnvelopeScope_iff)

text \<open>A delivery error fits its column whatever was thrown.\<close>

theorem delivery_error_bounded: "byte_length (boundedDeliveryError r) \<le> 65536"
  by (rule boundedDeliveryError_size)

text \<open>A preview is accepted exactly when its text has at most 32 KiB and it is a tree of JSON
  values of depth at most 32, and then it is returned as it is.\<close>

theorem preview_accepted_iff:
  "boundedJsonPreview v p = Inr w \<longleftrightarrow>
     w = v \<and> byte_length v \<le> 32768 \<and> json_fits v \<and> json_height v \<le> 32"
  by (rule boundedJsonPreview_eq_Inr)

text \<open>Compatibility of proofs is symmetric, and a proof is compatible with itself.\<close>

theorem compatibility_symmetric:
  "evidenceCompatible l r = evidenceCompatible r l \<and> evidenceCompatible l l"
  using evidenceCompatible_sym evidenceCompatible_refl by blast

text \<open>Compatible proofs name the same thread or session and never two different turns.\<close>

theorem compatible_proofs_agree:
  assumes "evidenceCompatible l r"
  shows "evidenceSession l = evidenceSession r \<and>
    (evidenceTurn l = None \<or> evidenceTurn r = None \<or> evidenceTurn l = evidenceTurn r)"
  using assms by (rule evidenceCompatible_agree)

theorem compatible_proofs_agree_witness:
  "evidenceSession (CodexTurnStartResponse (js ''s'') (js ''t'') (js ''n'')) =
     evidenceSession (CodexHistoryClientId (js ''s'') (js ''n'') (Some (js ''t'')))"
  using compatible_proofs_agree [of "CodexTurnStartResponse (js ''s'') (js ''t'') (js ''n'')"
    "CodexHistoryClientId (js ''s'') (js ''n'') (Some (js ''t''))"]
  by (simp add: sameCodexIdentity_def)



text \<open>Storing a payload and reading it back does not change its canonical text: members that are
  \<^verbatim>\<open>undefined\<close> are absent from both.\<close>

theorem canonical_text_of_stored: "canonicalJson le (definedCopy v) = canonicalJson le v"
  by (rule canonicalJson_definedCopy(1))

end
